(* ===== verification/Prelude.thy ===== *)
theory Prelude
  imports Main "HOL-Library.Word" "HOL-Library.Code_Target_Nat"
begin

text \<open>
  The shared vocabulary of the development: machine integers and time, Go errors as
  values, results, the state-and-error shape of a tool handler, and the generic lemmas
  that carry the component proofs.

  \<^item> \<open>u64\<close> and \<open>u32\<close> are Go's \<open>uint64\<close> and \<open>uint32\<close>: words, so \<open>+\<close> wraps around as in Go.
    \<open>*big.Int\<close> is \<open>int\<close>.
  \<^item> \<open>time\<close> is an instant in nanoseconds since the Unix epoch and \<open>duration\<close> a number of
    nanoseconds, both as \<open>int\<close> (no monotonic reading, no saturation at the ends of the range).
  \<^item> \<open>err\<close> is a Go error. \<open>Errorf\<close> keeps the format string and its arguments, \<open>Wrapf\<close> is an
    \<open>Errorf\<close> with a \<open>%w\<close> verb, \<open>Ext\<close> an error returned by code outside the repository.
  \<^item> \<open>'a res\<close> is the pair \<open>(value, error)\<close> of Go: \<open>Inl\<close> the error, \<open>Inr\<close> the value.
  \<^item> \<open>('s, 'a) handler\<close> runs on a state and returns a result and the state it leaves: an
    error does not undo what the handler has already done to the state, as in Go.
\<close>

type_synonym u8 = "8 word"
type_synonym u32 = "32 word"
type_synonym u64 = "64 word"
type_synonym bytes = "8 word list"
type_synonym time = int
type_synonym duration = int

abbreviation second :: duration where "second \<equiv> 1000000000"
abbreviation minute :: duration where "minute \<equiv> 60 * second"
abbreviation hour :: duration where "hour \<equiv> 60 * minute"

definition max_u64 :: u64 where
  "max_u64 = - 1"

lemma unat_max_u64: "unat max_u64 = 2 ^ 64 - 1"
  by (simp add: max_u64_def unsigned_minus_1_eq_mask mask_eq_exp_minus_1)

lemma u64_le_max [simp]: "(x :: u64) \<le> max_u64"
  by (simp add: max_u64_def)

lemma u64_less_2p64: "unat (x :: u64) < 2 ^ 64"
  using unsigned_less [of x] by simp

lemma u32_less_2p32: "unat (x :: u32) < 2 ^ 32"
  using unsigned_less [of x] by simp

lemma unat_ucast_u32 [simp]: "unat (ucast (x :: u32) :: u64) = unat x"
  using u32_less_2p32 [of x] by (simp add: unsigned_ucast_eq take_bit_nat_eq_self)

lemma unat_add_small: "unat (x :: u64) + unat y < 2 ^ 64 \<Longrightarrow> unat (x + y) = unat x + unat y"
  by (simp add: unat_word_ariths)

lemma unat_mult_small: "unat (x :: u64) * unat y < 2 ^ 64 \<Longrightarrow> unat (x * y) = unat x * unat y"
  by (simp add: unat_word_ariths)

section \<open>Errors and results\<close>

datatype arg = AStr string | AInt int

datatype err =
    Errorf string "arg list"
  | Wrapf string "arg list" err
  | Ext string
  | ErrCapExceeded string string string string string
  | ErrSymbolCapExceeded string string string string
  | ErrInsufficientFee string string
  | ErrNonceNotFound
  | ErrNonceExpired
  | ErrBearerNotFound
  | ErrBearerExpired
  | ErrNoTenant

text \<open>\<open>errors.Is\<close>: the error itself or one it wraps.\<close>

fun errIs :: "err \<Rightarrow> err \<Rightarrow> bool" where
  "errIs (Wrapf f as e) t \<longleftrightarrow> Wrapf f as e = t \<or> errIs e t"
| "errIs e t \<longleftrightarrow> e = t"

type_synonym 'a res = "err + 'a"

definition rbind :: "'a res \<Rightarrow> ('a \<Rightarrow> 'b res) \<Rightarrow> 'b res" where
  "rbind m f = (case m of Inl e \<Rightarrow> Inl e | Inr x \<Rightarrow> f x)"

text \<open>\<open>if err != nil { return fmt.Errorf("...: %w", err) }\<close>\<close>

definition rwrap :: "string \<Rightarrow> arg list \<Rightarrow> 'a res \<Rightarrow> 'a res" where
  "rwrap f as m = (case m of Inl e \<Rightarrow> Inl (Wrapf f as e) | Inr x \<Rightarrow> Inr x)"

text \<open>\<open>if !ok { return err }\<close>\<close>

definition require :: "bool \<Rightarrow> err \<Rightarrow> unit res" where
  "require b e = (if b then Inr () else Inl e)"

definition of_opt :: "err \<Rightarrow> 'a option \<Rightarrow> 'a res" where
  "of_opt e m = (case m of None \<Rightarrow> Inl e | Some x \<Rightarrow> Inr x)"

text \<open>A returned error, if any, of a check that returns only an error.\<close>

definition of_err :: "err option \<Rightarrow> unit res" where
  "of_err m = (case m of None \<Rightarrow> Inr () | Some e \<Rightarrow> Inl e)"

lemma rbind_simps [simp]:
  "rbind (Inl e) f = Inl e"
  "rbind (Inr x) f = f x"
  by (simp_all add: rbind_def)

lemma rbind_Inr_iff [simp]: "rbind m f = Inr y \<longleftrightarrow> (\<exists>x. m = Inr x \<and> f x = Inr y)"
  by (cases m) simp_all

lemma rbind_Inl_iff: "rbind m f = Inl e \<longleftrightarrow> m = Inl e \<or> (\<exists>x. m = Inr x \<and> f x = Inl e)"
  by (cases m) auto

lemma rbind_assoc: "rbind (rbind m f) g = rbind m (\<lambda>x. rbind (f x) g)"
  by (cases m) simp_all

lemma rwrap_simps [simp]:
  "rwrap f as (Inl e) = Inl (Wrapf f as e)"
  "rwrap f as (Inr x) = Inr x"
  by (simp_all add: rwrap_def)

lemma rwrap_Inr_iff [simp]: "rwrap f as m = Inr y \<longleftrightarrow> m = Inr y"
  by (cases m) simp_all

lemma require_simps [simp]:
  "require True e = Inr ()"
  "require False e = Inl e"
  "require b e = Inr u \<longleftrightarrow> b"
  "require b e = Inl e' \<longleftrightarrow> \<not> b \<and> e' = e"
  by (auto simp: require_def)

lemma of_opt_simps [simp]:
  "of_opt e None = Inl e"
  "of_opt e (Some x) = Inr x"
  "of_opt e m = Inr y \<longleftrightarrow> m = Some y"
  "of_opt e m = Inl e' \<longleftrightarrow> m = None \<and> e' = e"
  by (auto simp: of_opt_def split: option.splits)

lemma of_err_simps [simp]:
  "of_err None = Inr ()"
  "of_err (Some e) = Inl e"
  "of_err m = Inr u \<longleftrightarrow> m = None"
  "of_err m = Inl e \<longleftrightarrow> m = Some e"
  by (auto simp: of_err_def split: option.splits)

section \<open>Handlers: results with a state\<close>

type_synonym ('s, 'a) handler = "'s \<Rightarrow> 'a res \<times> 's"

definition hret :: "'a \<Rightarrow> ('s, 'a) handler" where
  "hret x s = (Inr x, s)"

definition hfail :: "err \<Rightarrow> ('s, 'a) handler" where
  "hfail e s = (Inl e, s)"

definition hlift :: "'a res \<Rightarrow> ('s, 'a) handler" where
  "hlift r s = (r, s)"

definition hbind :: "('s, 'a) handler \<Rightarrow> ('a \<Rightarrow> ('s, 'b) handler) \<Rightarrow> ('s, 'b) handler" where
  "hbind m f s = (case m s of (Inl e, s') \<Rightarrow> (Inl e, s') | (Inr x, s') \<Rightarrow> f x s')"

text \<open>A state transformer with a value that cannot fail.\<close>

definition hdo :: "('s \<Rightarrow> 'a \<times> 's) \<Rightarrow> ('s, 'a) handler" where
  "hdo f s = (let (x, s') = f s in (Inr x, s'))"

definition hmod :: "('s \<Rightarrow> 's) \<Rightarrow> ('s, unit) handler" where
  "hmod f s = (Inr (), f s)"

lemma hret_simps [simp]: "hret x s = (Inr x, s)"
  by (simp add: hret_def)

lemma hfail_simps [simp]: "hfail e s = (Inl e, s)"
  by (simp add: hfail_def)

lemma hlift_simps [simp]: "hlift r s = (r, s)"
  by (simp add: hlift_def)

lemma hmod_simps [simp]: "hmod f s = (Inr (), f s)"
  by (simp add: hmod_def)

lemma hdo_simps [simp]: "f s = (x, s') \<Longrightarrow> hdo f s = (Inr x, s')"
  by (simp add: hdo_def)

lemma hbind_Inr_iff:
  "hbind m f s = (Inr y, t) \<longleftrightarrow> (\<exists>x s'. m s = (Inr x, s') \<and> f x s' = (Inr y, t))"
  by (auto simp: hbind_def split: prod.splits sum.splits)

lemma hbind_Inl_iff:
  "hbind m f s = (Inl e, t) \<longleftrightarrow>
     m s = (Inl e, t) \<or> (\<exists>x s'. m s = (Inr x, s') \<and> f x s' = (Inl e, t))"
  by (auto simp: hbind_def split: prod.splits sum.splits)

lemma hbind_step [simp]:
  "m s = (Inr x, s') \<Longrightarrow> hbind m f s = f x s'"
  "m s = (Inl e, s') \<Longrightarrow> hbind m f s = (Inl e, s')"
  by (simp_all add: hbind_def)

lemma hbind_hlift: "hbind (hlift r) f s = (case r of Inl e \<Rightarrow> (Inl e, s) | Inr x \<Rightarrow> f x s)"
  by (simp add: hbind_def split: sum.splits)

text \<open>A handler keeps \<open>P\<close> of the state when every step of it does.\<close>

definition hpreserves :: "('s \<Rightarrow> bool) \<Rightarrow> ('s, 'a) handler \<Rightarrow> bool" where
  "hpreserves P m \<longleftrightarrow> (\<forall>s. P s \<longrightarrow> P (snd (m s)))"

named_theorems hpres

lemma hpreservesD: "hpreserves P m \<Longrightarrow> P s \<Longrightarrow> P (snd (m s))"
  by (simp add: hpreserves_def)

lemma hpreserves_pure [hpres]:
  "hpreserves P (hret x)" "hpreserves P (hfail e)" "hpreserves P (hlift r)"
  by (simp_all add: hpreserves_def)

lemma hpreserves_hbind [hpres]:
  assumes "hpreserves P m" and "\<And>x. hpreserves P (f x)"
  shows "hpreserves P (hbind m f)"
proof (unfold hpreserves_def, intro allI impI)
  fix s assume "P s"
  with assms(1) have "P (snd (m s))" by (rule hpreservesD)
  then show "P (snd (hbind m f s))"
    using assms(2) by (auto simp: hbind_def hpreserves_def split: prod.splits sum.splits)
qed

lemma hpreserves_hmod [hpres]: "(\<And>s. P s \<Longrightarrow> P (f s)) \<Longrightarrow> hpreserves P (hmod f)"
  by (simp add: hpreserves_def)

lemma hpreserves_hdo [hpres]: "(\<And>s. P s \<Longrightarrow> P (snd (f s))) \<Longrightarrow> hpreserves P (hdo f)"
  by (simp add: hpreserves_def hdo_def case_prod_beta)

lemma hpreserves_if [hpres]:
  "hpreserves P m \<Longrightarrow> hpreserves P n \<Longrightarrow> hpreserves P (if b then m else n)"
  by simp

lemma hpreserves_case_sum [hpres]:
  "(\<And>e. hpreserves P (f e)) \<Longrightarrow> (\<And>x. hpreserves P (g x)) \<Longrightarrow>
   hpreserves P (case r of Inl e \<Rightarrow> f e | Inr x \<Rightarrow> g x)"
  by (cases r) simp_all

lemma hpreserves_case_option [hpres]:
  "hpreserves P m \<Longrightarrow> (\<And>x. hpreserves P (g x)) \<Longrightarrow>
   hpreserves P (case r of None \<Rightarrow> m | Some x \<Rightarrow> g x)"
  by (cases r) simp_all

lemma hpreserves_case_prod [hpres]:
  "(\<And>a b. hpreserves P (f a b)) \<Longrightarrow> hpreserves P (case x of (a, b) \<Rightarrow> f a b)"
  by (cases x) simp

lemma hpreserves_read [hpres]: "hpreserves P (\<lambda>s. (f s, s))"
  by (simp add: hpreserves_def)

end
