(* ===== verification/Go_Text.thy ===== *)
theory Go_Text
  imports Prelude
begin

text \<open>
  The part of Go's standard library on text that the server uses, on byte strings
  (\<open>string\<close>): \<open>strings\<close> (trimming, case, cutting), \<open>strconv\<close> (decimal \<open>uint64\<close>)
  and the decimal forms of \<open>math/big.Int\<close>.

  \<open>TrimSpace\<close> follows \<open>unicode.IsSpace\<close> on the UTF-8 encodings of the white-space code
  points. \<open>ToLower\<close>, \<open>ToUpper\<close> and \<open>EqualFold\<close> map ASCII letters; letters outside ASCII
  are left alone, so the three agree with Go on ASCII strings (every identifier the server
  folds is a hex address, a ticker or an enum word).
\<close>

section \<open>Package strings\<close>

definition hasPrefix :: "string \<Rightarrow> string \<Rightarrow> bool" where
  "hasPrefix s p \<longleftrightarrow> take (length p) s = p"

definition hasSuffix :: "string \<Rightarrow> string \<Rightarrow> bool" where
  "hasSuffix s p \<longleftrightarrow> length p \<le> length s \<and> drop (length s - length p) s = p"

definition trimPrefix :: "string \<Rightarrow> string \<Rightarrow> string" where
  "trimPrefix s p = (if hasPrefix s p then drop (length p) s else s)"

definition utf8_spaces :: "string list" where
  "utf8_spaces =
     map (\<lambda>n. [char_of (n :: nat)]) [9, 10, 11, 12, 13, 32] @
     map (map (char_of :: nat \<Rightarrow> char))
       ([[194, 133], [194, 160], [225, 154, 128]] @
        map (\<lambda>n. [226, 128, 128 + n]) [0, 1, 2, 3, 4, 5, 6, 7, 8, 9, 10] @
        [[226, 128, 168], [226, 128, 169], [226, 128, 175], [226, 129, 159], [227, 128, 128]])"

lemma utf8_spaces_nonempty: "p \<in> set utf8_spaces \<Longrightarrow> p \<noteq> []"
  by (auto simp: utf8_spaces_def)

lemma hasPrefix_drop_shorter: "p \<noteq> [] \<Longrightarrow> hasPrefix s p \<Longrightarrow> length (drop (length p) s) < length s"
  by (cases s) (auto simp: hasPrefix_def)

function strip_prefixes :: "string list \<Rightarrow> string \<Rightarrow> string" where
  "strip_prefixes ps s =
     (case find (\<lambda>p. p \<noteq> [] \<and> hasPrefix s p) ps of
        None \<Rightarrow> s
      | Some p \<Rightarrow> strip_prefixes ps (drop (length p) s))"
  by pat_completeness auto
termination
proof (relation "measure (length \<circ> snd)", goal_cases)
  case (2 ps s p)
  then have "p \<noteq> [] \<and> hasPrefix s p" by (auto simp: find_Some_iff)
  then show ?case using hasPrefix_drop_shorter by simp
qed simp

declare strip_prefixes.simps [simp del]

definition trimSpace :: "string \<Rightarrow> string" where
  "trimSpace s =
     rev (strip_prefixes (map rev utf8_spaces) (rev (strip_prefixes utf8_spaces s)))"

definition lower_char :: "char \<Rightarrow> char" where
  "lower_char c =
     (let n = of_char c :: nat in if 65 \<le> n \<and> n \<le> 90 then char_of (n + 32) else c)"

definition upper_char :: "char \<Rightarrow> char" where
  "upper_char c =
     (let n = of_char c :: nat in if 97 \<le> n \<and> n \<le> 122 then char_of (n - 32) else c)"

definition toLower :: "string \<Rightarrow> string" where
  "toLower = map lower_char"

definition toUpper :: "string \<Rightarrow> string" where
  "toUpper = map upper_char"

definition equalFold :: "string \<Rightarrow> string \<Rightarrow> bool" where
  "equalFold s t \<longleftrightarrow> toLower s = toLower t"

text \<open>\<open>strings.IndexByte\<close> and the two halves around the first occurrence.\<close>

definition cut :: "char \<Rightarrow> string \<Rightarrow> (string \<times> string) option" where
  "cut c s = (if c \<in> set s
     then Some (takeWhile (\<lambda>x. x \<noteq> c) s, tl (dropWhile (\<lambda>x. x \<noteq> c) s)) else None)"

text \<open>\<open>strings.Split\<close> on a one-byte separator, and \<open>strings.SplitN\<close>.\<close>

fun split_on :: "char \<Rightarrow> string \<Rightarrow> string list" where
  "split_on c [] = [[]]"
| "split_on c (x # xs) =
     (if x = c then [] # split_on c xs
      else (case split_on c xs of [] \<Rightarrow> [[x]] | y # ys \<Rightarrow> (x # y) # ys))"

fun splitN :: "char \<Rightarrow> nat \<Rightarrow> string \<Rightarrow> string list" where
  "splitN c 0 s = []"
| "splitN c (Suc 0) s = [s]"
| "splitN c (Suc n) s =
     (case cut c s of None \<Rightarrow> [s] | Some (a, b) \<Rightarrow> a # splitN c n b)"

definition trimRight :: "char \<Rightarrow> string \<Rightarrow> string" where
  "trimRight c s = rev (dropWhile (\<lambda>x. x = c) (rev s))"

definition trimLeft :: "char \<Rightarrow> string \<Rightarrow> string" where
  "trimLeft c s = dropWhile (\<lambda>x. x = c) s"

section \<open>Decimal digits\<close>

definition digit_char :: "nat \<Rightarrow> char" where
  "digit_char d = char_of (48 + d)"

definition digit_val :: "char \<Rightarrow> nat" where
  "digit_val c = of_char c - 48"

definition is_digit :: "char \<Rightarrow> bool" where
  "is_digit c \<longleftrightarrow> 48 \<le> (of_char c :: nat) \<and> (of_char c :: nat) \<le> 57"

definition all_digits :: "string \<Rightarrow> bool" where
  "all_digits s \<longleftrightarrow> list_all is_digit s"

text \<open>The value of a digit string, most significant digit first.\<close>

definition digits_val :: "string \<Rightarrow> nat" where
  "digits_val s = foldl (\<lambda>n c. 10 * n + digit_val c) 0 s"

fun nat_dec :: "nat \<Rightarrow> string" where
  "nat_dec n = (if n < 10 then [digit_char n] else nat_dec (n div 10) @ [digit_char (n mod 10)])"

declare nat_dec.simps [simp del]

text \<open>\<open>strconv.FormatUint(x, 10)\<close> and \<open>fmt.Sprintf("%d", x)\<close>.\<close>

definition formatUint :: "u64 \<Rightarrow> string" where
  "formatUint x = nat_dec (unat x)"

text \<open>\<open>strconv.ParseUint(s, 10, 64)\<close>: no sign, no underscore; a syntax error before a range error.\<close>

definition parseUint :: "string \<Rightarrow> u64 res" where
  "parseUint s =
     (if s = [] \<or> \<not> all_digits s then Inl (Errorf ''strconv.ParseUint: invalid syntax'' [AStr s])
      else if digits_val s \<ge> 2 ^ 64 then Inl (Errorf ''strconv.ParseUint: value out of range'' [AStr s])
      else Inr (of_nat (digits_val s)))"

text \<open>\<open>(*big.Int).String\<close> and \<open>(*big.Int).SetString(s, 10)\<close>.\<close>

definition bigString :: "int \<Rightarrow> string" where
  "bigString i = (if i < 0 then CHR ''-'' # nat_dec (nat (- i)) else nat_dec (nat i))"

definition bigSetString :: "string \<Rightarrow> int option" where
  "bigSetString s =
     (let (neg, ds) = (case s of
          [] \<Rightarrow> (False, [])
        | c # cs \<Rightarrow> if c = CHR ''-'' then (True, cs)
                   else if c = CHR ''+'' then (False, cs) else (False, s)) in
      if ds = [] \<or> \<not> all_digits ds then None
      else Some (if neg then - int (digits_val ds) else int (digits_val ds)))"

text \<open>\<open>strconv.ParseInt(s, 10, 64)\<close>.\<close>

definition parseInt :: "string \<Rightarrow> int res" where
  "parseInt s =
     (case bigSetString s of
        None \<Rightarrow> Inl (Errorf ''strconv.ParseInt: invalid syntax'' [AStr s])
      | Some i \<Rightarrow> if i < - (2 ^ 63) \<or> i \<ge> 2 ^ 63
          then Inl (Errorf ''strconv.ParseInt: value out of range'' [AStr s]) else Inr i)"

text \<open>\<open>(*big.Int).IsUint64\<close> and \<open>(*big.Int).Uint64\<close>.\<close>

definition isUint64 :: "int \<Rightarrow> bool" where
  "isUint64 i \<longleftrightarrow> 0 \<le> i \<and> i < 2 ^ 64"

definition zpad :: "nat \<Rightarrow> string \<Rightarrow> string" where
  "zpad w s = replicate (w - length s) CHR ''0'' @ s"

section \<open>Lemmas on digits\<close>

lemma of_char_digit_char: "d < 10 \<Longrightarrow> (of_char (digit_char d) :: nat) = 48 + d"
  by (simp add: digit_char_def)

lemma is_digit_digit_char [simp]: "d < 10 \<Longrightarrow> is_digit (digit_char d)"
  by (simp add: is_digit_def of_char_digit_char)

lemma digit_val_digit_char [simp]: "d < 10 \<Longrightarrow> digit_val (digit_char d) = d"
  by (simp add: digit_val_def of_char_digit_char)

lemma digit_char_digit_val [simp]: "is_digit c \<Longrightarrow> digit_char (digit_val c) = c"
  by (simp add: is_digit_def digit_char_def digit_val_def)

lemma digit_val_less: "is_digit c \<Longrightarrow> digit_val c < 10"
  by (auto simp: is_digit_def digit_val_def)

lemma digit_val_zero [simp]: "digit_val CHR ''0'' = 0"
  by (simp add: digit_val_def)

lemma is_digit_zero [simp]: "is_digit CHR ''0''"
  by (simp add: is_digit_def)

lemma not_is_digit [simp]:
  "\<not> is_digit CHR ''.''" "\<not> is_digit CHR ''-''" "\<not> is_digit CHR ''+''" "\<not> is_digit CHR '':''"
  by (simp_all add: is_digit_def)

lemma all_digits_simps [simp]:
  "all_digits []"
  "all_digits (c # s) \<longleftrightarrow> is_digit c \<and> all_digits s"
  "all_digits (s @ t) \<longleftrightarrow> all_digits s \<and> all_digits t"
  "all_digits (replicate n CHR ''0'')"
  by (auto simp: all_digits_def list_all_iff)

lemma all_digits_iff: "all_digits s \<longleftrightarrow> (\<forall>c \<in> set s. is_digit c)"
  by (simp add: all_digits_def list_all_iff)

lemma digits_val_Nil [simp]: "digits_val [] = 0"
  by (simp add: digits_val_def)

lemma digits_val_snoc [simp]: "digits_val (s @ [c]) = 10 * digits_val s + digit_val c"
  by (simp add: digits_val_def)

lemma digits_val_append: "digits_val (s @ t) = digits_val s * 10 ^ length t + digits_val t"
  by (induction t rule: rev_induct) (simp_all flip: append_assoc add: algebra_simps)

lemma digits_val_Cons: "digits_val (c # s) = digit_val c * 10 ^ length s + digits_val s"
  using digits_val_append [of "[c]" s] by (simp add: digits_val_def)

lemma digits_val_zeros [simp]: "digits_val (replicate n CHR ''0'') = 0"
  by (induction n) (simp_all add: digits_val_Cons)

lemma digits_val_less: "all_digits s \<Longrightarrow> digits_val s < 10 ^ length s"
proof (induction s rule: rev_induct)
  case (snoc c s)
  then have "digits_val s + 1 \<le> 10 ^ length s" and "digit_val c < 10"
    by (simp_all add: digit_val_less)
  then have "10 * (digits_val s + 1) \<le> 10 * 10 ^ length s" by (intro mult_le_mono2)
  then show ?case using \<open>digit_val c < 10\<close> by simp
qed simp

lemma all_digits_nat_dec [simp]: "all_digits (nat_dec n)"
  by (induction n rule: nat_dec.induct) (subst nat_dec.simps, simp)

lemma nat_dec_not_Nil [simp]: "nat_dec n \<noteq> []"
  by (subst nat_dec.simps) simp

lemma digits_val_nat_dec [simp]: "digits_val (nat_dec n) = n"
proof (induction n rule: nat_dec.induct)
  case (1 n)
  show ?case
  proof (cases "n < 10")
    case True
    then have "nat_dec n = [] @ [digit_char n]" by (simp add: nat_dec.simps)
    with True show ?thesis by (simp del: append_Nil)
  next
    case False
    then have "nat_dec n = nat_dec (n div 10) @ [digit_char (n mod 10)]"
      by (subst nat_dec.simps) simp
    with 1 False show ?thesis by simp
  qed
qed

lemma inj_nat_dec: "nat_dec m = nat_dec n \<longleftrightarrow> m = n"
  using digits_val_nat_dec by metis

lemma set_nat_dec: "c \<in> set (nat_dec n) \<Longrightarrow> is_digit c"
  using all_digits_nat_dec all_digits_iff by blast

lemma hd_nat_dec_digit: "is_digit (hd (nat_dec n))"
  by (rule set_nat_dec [where n = n]) simp

lemma length_nat_dec_le: "n < 10 ^ k \<Longrightarrow> 0 < k \<Longrightarrow> length (nat_dec n) \<le> k"
proof (induction n arbitrary: k rule: nat_dec.induct)
  case (1 n)
  show ?case
  proof (cases "n < 10")
    case True
    then show ?thesis using 1 by (simp add: nat_dec.simps)
  next
    case False
    then have "k \<noteq> 1" using 1 by auto
    then obtain j where j: "k = Suc j" "0 < j" using 1 by (cases k) auto
    then have "n div 10 < 10 ^ j" using 1 by (simp add: less_mult_imp_div_less mult.commute)
    with 1 False j have "length (nat_dec (n div 10)) \<le> j" by simp
    with False j show ?thesis by (subst nat_dec.simps) simp
  qed
qed

lemma all_digits_zpad [simp]: "all_digits (zpad w s) \<longleftrightarrow> all_digits s"
  by (simp add: zpad_def)

lemma digits_val_zpad [simp]: "digits_val (zpad w s) = digits_val s"
  by (simp add: zpad_def digits_val_append)

lemma length_zpad [simp]: "length (zpad w s) = max w (length s)"
  by (simp add: zpad_def)

lemma zpad_not_Nil: "s \<noteq> [] \<Longrightarrow> zpad w s \<noteq> []"
  by (simp add: zpad_def)

section \<open>Lemmas on trimming\<close>

text \<open>A printable ASCII character is no part of a white-space encoding.\<close>

definition printable :: "char \<Rightarrow> bool" where
  "printable c \<longleftrightarrow> 33 \<le> (of_char c :: nat) \<and> (of_char c :: nat) < 127"

lemma is_digit_printable: "is_digit c \<Longrightarrow> printable c"
  by (simp add: is_digit_def printable_def)

lemma utf8_spaces_ends:
  "list_all (\<lambda>p. p \<noteq> [] \<and> \<not> printable (hd p) \<and> \<not> printable (last p)) utf8_spaces"
  by code_simp

lemma strip_prefixes_id:
  assumes "\<forall>p \<in> set ps. \<not> hasPrefix s p"
  shows "strip_prefixes ps s = s"
  using assms by (subst strip_prefixes.simps) (auto simp: find_Some_iff split: option.splits)

lemma hasPrefix_hd: "hasPrefix s p \<Longrightarrow> p \<noteq> [] \<Longrightarrow> hd s = hd p"
  by (metis hasPrefix_def hd_append2 append_take_drop_id)

lemma trimSpace_id:
  assumes "s \<noteq> []" "printable (hd s)" "printable (last s)"
  shows "trimSpace s = s"
proof -
  have "strip_prefixes utf8_spaces s = s"
    using assms utf8_spaces_ends hasPrefix_hd [of s]
    by (intro strip_prefixes_id) (auto simp: list_all_iff)
  moreover have "strip_prefixes (map rev utf8_spaces) (rev s) = rev s"
    using assms utf8_spaces_ends hasPrefix_hd [of "rev s"]
    by (intro strip_prefixes_id) (fastforce simp: list_all_iff hd_rev)
  ultimately show ?thesis by (simp add: trimSpace_def)
qed

lemma trimSpace_Nil [simp]: "trimSpace [] = []"
  by code_simp

section \<open>Lemmas on numbers as text\<close>

lemma parseUint_formatUint [simp]: "parseUint (formatUint x) = Inr x"
  using u64_less_2p64 [of x] by (simp add: parseUint_def formatUint_def)

lemma inj_formatUint: "formatUint x = formatUint y \<longleftrightarrow> x = y"
  by (auto simp: formatUint_def inj_nat_dec word_unat_eq_iff)

lemma all_digits_formatUint [simp]: "all_digits (formatUint x)" "formatUint x \<noteq> []"
  by (simp_all add: formatUint_def)

lemma parseUint_Inr_iff:
  "parseUint s = Inr x \<longleftrightarrow> s \<noteq> [] \<and> all_digits s \<and> digits_val s = unat x"
proof
  assume "parseUint s = Inr x"
  then show "s \<noteq> [] \<and> all_digits s \<and> digits_val s = unat x"
    by (auto simp: parseUint_def take_bit_nat_eq_self unsigned_of_nat split: if_splits)
next
  assume "s \<noteq> [] \<and> all_digits s \<and> digits_val s = unat x"
  then show "parseUint s = Inr x"
    using u64_less_2p64 [of x] by (auto simp: parseUint_def)
qed

lemma nat_dec_sign [simp]: "nat_dec n = c # cs \<Longrightarrow> is_digit c"
  using hd_nat_dec_digit [of n] by simp

lemma bigSetString_digits:
  "ds \<noteq> [] \<Longrightarrow> all_digits ds \<Longrightarrow> bigSetString ds = Some (int (digits_val ds))"
  by (cases ds) (auto simp: bigSetString_def)

lemma bigSetString_bigString [simp]: "bigSetString (bigString i) = Some i"
proof (cases "i < 0")
  case True
  then show ?thesis by (simp add: bigString_def bigSetString_def)
next
  case False
  then show ?thesis by (simp add: bigString_def bigSetString_digits)
qed

lemma inj_bigString: "bigString i = bigString j \<longleftrightarrow> i = j"
  by (metis bigSetString_bigString option.inject)

lemma isUint64_of_nat: "isUint64 i \<Longrightarrow> unat (of_int i :: u64) = nat i"
  by (simp add: isUint64_def unsigned_of_int take_bit_int_eq_self)

lemma of_int_u64_eq_iff: "isUint64 i \<Longrightarrow> (of_int i :: u64) = q \<longleftrightarrow> int (unat q) = i"
  by (auto simp: isUint64_of_nat isUint64_def word_unat_eq_iff nat_eq_iff)

lemma isUint64_unat [simp]: "isUint64 (int (unat (x :: u64)))" "isUint64 (uint x)"
  using unsigned_less [of x, where ?'a = int] by (simp_all add: isUint64_def)

section \<open>Lemmas on cutting\<close>

lemma cut_append [simp]: "c \<notin> set s \<Longrightarrow> cut c (s @ c # t) = Some (s, t)"
  by (simp add: cut_def takeWhile_append dropWhile_append)

lemma cut_None [simp]: "c \<notin> set s \<Longrightarrow> cut c s = None"
  by (simp add: cut_def)

lemma cut_Some: "cut c s = Some (a, b) \<longleftrightarrow> s = a @ c # b \<and> c \<notin> set a"
proof
  assume "cut c s = Some (a, b)"
  then have "c \<in> set s" "a = takeWhile (\<lambda>x. x \<noteq> c) s" "b = tl (dropWhile (\<lambda>x. x \<noteq> c) s)"
    by (auto simp: cut_def split: if_splits)
  moreover from \<open>c \<in> set s\<close> have "dropWhile (\<lambda>x. x \<noteq> c) s \<noteq> []"
    by (simp add: dropWhile_eq_Nil_conv)
  then have "hd (dropWhile (\<lambda>x. x \<noteq> c) s) = c" using hd_dropWhile by blast
  ultimately show "s = a @ c # b \<and> c \<notin> set a"
    using takeWhile_dropWhile_id [of "\<lambda>x. x \<noteq> c" s] \<open>dropWhile _ s \<noteq> []\<close>
    by (metis list.collapse set_takeWhileD)
qed auto

lemma hasPrefix_append [simp]: "hasPrefix (p @ s) p"
  by (simp add: hasPrefix_def)

lemma hasPrefix_iff: "hasPrefix s p \<longleftrightarrow> (\<exists>r. s = p @ r)"
  by (metis append_eq_conv_conj append_take_drop_id hasPrefix_def)

lemma trimPrefix_append [simp]: "trimPrefix (p @ s) p = s"
  by (simp add: trimPrefix_def)

lemma toLower_simps [simp]:
  "toLower [] = []" "toLower (c # s) = lower_char c # toLower s"
  "toLower (s @ t) = toLower s @ toLower t"
  by (simp_all add: toLower_def)

lemma lower_char_idem [simp]: "lower_char (lower_char c) = lower_char c"
  by (simp add: lower_char_def Let_def)

lemma toLower_idem [simp]: "toLower (toLower s) = toLower s"
  by (simp add: toLower_def comp_def)

lemma equalFold_refl [simp]: "equalFold s s"
  by (simp add: equalFold_def)

lemma equalFold_toLower [simp]: "equalFold (toLower s) t = equalFold s t" "equalFold s (toLower t) = equalFold s t"
  by (simp_all add: equalFold_def)

end
