(* ===== verification/Go_Rat.thy ===== *)
theory Go_Rat
  imports Complex_Main Go_Text
begin

text \<open>
  \<open>math/big.Rat\<close> as HOL's \<open>rat\<close> (a fraction in lowest terms with a positive denominator,
  which is what \<open>(*Rat).norm\<close> keeps), and \<open>(*Rat).SetString\<close> with its whole grammar: the
  fraction form, the base prefixes, digit separators, the radix point and the exponent,
  and the limits on the size of the exponent. \<open>bigQuo\<close> is \<open>(*Int).Quo\<close>, which truncates.
\<close>

section \<open>The scanner of math/big\<close>

text \<open>What the scanner remembers of the previous character.\<close>

datatype prevch = PSep | PDigit | POther

text \<open>The value of a character as a digit in a base up to 36; 63 when it is none.\<close>

definition digit36 :: "char \<Rightarrow> nat" where
  "digit36 c = (let n = of_char c :: nat in
     if 48 \<le> n \<and> n \<le> 57 then n - 48
     else if 97 \<le> n \<and> n \<le> 122 then n - 97 + 10
     else if 65 \<le> n \<and> n \<le> 90 then n - 65 + 10
     else 63)"

text \<open>
  The digit loop of \<open>nat.scan\<close> for base argument 0: the arguments are the actual base, whether
  a radix point may still come, the previous character, whether a separator was misplaced, the
  number of digits, the position of the radix point and the value so far.
\<close>

fun scan_loop :: "nat \<Rightarrow> bool \<Rightarrow> prevch \<Rightarrow> bool \<Rightarrow> nat \<Rightarrow> nat option \<Rightarrow> nat \<Rightarrow> string
    \<Rightarrow> prevch \<times> bool \<times> nat \<times> nat option \<times> nat \<times> string" where
  "scan_loop b fracOk prev inval count dp v [] = (prev, inval, count, dp, v, [])"
| "scan_loop b fracOk prev inval count dp v (c # s) =
     (if c = CHR ''.'' \<and> fracOk
      then scan_loop b False POther (inval \<or> prev = PSep) count (Some count) v s
      else if c = CHR ''_''
      then scan_loop b fracOk PSep (inval \<or> prev \<noteq> PDigit) count dp v s
      else if digit36 c \<ge> b then (prev, inval, count, dp, v, c # s)
      else scan_loop b fracOk PDigit inval (Suc count) dp (v * b + digit36 c) s)"

text \<open>
  \<open>nat.scan(r, 0, fracOk)\<close>: the value, the base, the digit count (at most 0, the number of
  fraction digits negated, once there was a radix point), and the unread rest; None is an error.
\<close>

definition nat_scan :: "bool \<Rightarrow> string \<Rightarrow> (nat \<times> nat \<times> int \<times> string) option" where
  "nat_scan fracOk s =
     (let (b, octal0, prev, count0, rest) =
        (case s of
           c # cs \<Rightarrow>
             if c = CHR ''0'' then
               (case cs of
                  [] \<Rightarrow> (10, False, PDigit, 1, [])
                | d # ds \<Rightarrow>
                    if d \<in> {CHR ''b'', CHR ''B''} then (2, False, PDigit, 0, ds)
                    else if d \<in> {CHR ''o'', CHR ''O''} then (8, False, PDigit, 0, ds)
                    else if d \<in> {CHR ''x'', CHR ''X''} then (16, False, PDigit, 0, ds)
                    else if \<not> fracOk then (8, True, PDigit, 0, cs)
                    else (10, False, PDigit, 1, cs))
             else (10, False, POther, 0, s)
         | [] \<Rightarrow> (10, False, POther, 0, []));
       (prev', inval, count, dp, v, rest') = scan_loop b fracOk prev False count0 None 0 rest in
      if inval \<or> prev' = PSep then None
      else if count = 0 then (if octal0 then Some (0, 10, 1, rest') else None)
      else Some (v, b, (case dp of None \<Rightarrow> int count | Some p \<Rightarrow> int p - int count), rest'))"

text \<open>\<open>scanSign\<close>: fails at the end of the input.\<close>

definition scanSign :: "string \<Rightarrow> (bool \<times> string) option" where
  "scanSign s = (case s of
      [] \<Rightarrow> None
    | c # cs \<Rightarrow> if c = CHR ''-'' then Some (True, cs)
               else if c = CHR ''+'' then Some (False, cs) else Some (False, s))"

fun exp_loop :: "prevch \<Rightarrow> bool \<Rightarrow> string \<Rightarrow> string \<Rightarrow> prevch \<times> bool \<times> string \<times> string" where
  "exp_loop prev inval ds [] = (prev, inval, ds, [])"
| "exp_loop prev inval ds (c # s) =
     (if is_digit c then exp_loop PDigit inval (ds @ [c]) s
      else if c = CHR ''_'' then exp_loop PSep (inval \<or> prev \<noteq> PDigit) ds s
      else (prev, inval, ds, c # s))"

text \<open>\<open>scanExponent(r, true, true)\<close>: the exponent, its base, and the unread rest.\<close>

definition scanExponent :: "string \<Rightarrow> (int \<times> nat \<times> string) option" where
  "scanExponent s = (case s of
      [] \<Rightarrow> Some (0, 10, [])
    | c # cs \<Rightarrow>
        if c \<notin> {CHR ''e'', CHR ''E'', CHR ''p'', CHR ''P''} then Some (0, 10, s)
        else
          (let base = (if c \<in> {CHR ''e'', CHR ''E''} then 10 else 2);
               (neg, rest) = (case cs of
                  [] \<Rightarrow> (False, [])
                | d # ds \<Rightarrow> if d = CHR ''-'' then (True, ds)
                           else if d = CHR ''+'' then (False, ds) else (False, cs));
               (prev, inval, digits, rest') = exp_loop POther False [] rest in
           if digits = [] then None
           else (case parseInt ((if neg then ''-'' else []) @ digits) of
                   Inl _ \<Rightarrow> None
                 | Inr e \<Rightarrow> if inval \<or> prev = PSep then None else Some (e, base, rest'))))"

text \<open>The number \<open>m * 5^e5 * 2^e2\<close>, when the exponents are within the limits of \<open>SetString\<close>.\<close>

definition rat_scale :: "nat \<Rightarrow> int \<Rightarrow> int \<Rightarrow> rat option" where
  "rat_scale m e5 e2 =
     (if \<bar>e5\<bar> > 1000000 \<or> e2 < - 10000000 \<or> e2 > 10000000 then None
      else Some (Fract (int m * 5 ^ nat e5 * 2 ^ nat e2) (5 ^ nat (- e5) * 2 ^ nat (- e2))))"

definition ratSetString :: "string \<Rightarrow> rat option" where
  "ratSetString s =
     (if s = [] then None
      else (case cut CHR ''/'' s of
        Some (a, b) \<Rightarrow>
          (case scanSign a of
             None \<Rightarrow> None
           | Some (neg, a') \<Rightarrow>
               (case (nat_scan False a', nat_scan False b) of
                  (Some (n, _, _, []), Some (d, _, _, [])) \<Rightarrow>
                    if d = 0 then None else Some (Fract (if neg then - int n else int n) (int d))
                | _ \<Rightarrow> None))
      | None \<Rightarrow>
          (case scanSign s of
             None \<Rightarrow> None
           | Some (neg, s') \<Rightarrow>
               (case nat_scan True s' of
                  None \<Rightarrow> None
                | Some (m, base, fcount, r) \<Rightarrow>
                    (case scanExponent r of
                       Some (e, ebase, []) \<Rightarrow>
                         if m = 0 then Some 0
                         else
                           (let d = (if fcount < 0 then fcount else 0);
                                f5 = (if base = 10 then d else 0);
                                f2 = (if base = 8 then 3 * d else if base = 16 then 4 * d else d);
                                e5 = f5 + (if ebase = 10 then e else 0);
                                e2 = f2 + e in
                            map_option (\<lambda>r. if neg then - r else r) (rat_scale m e5 e2))
                     | _ \<Rightarrow> None)))))"

section \<open>Arithmetic\<close>

definition ratNum :: "rat \<Rightarrow> int" where
  "ratNum r = fst (quotient_of r)"

definition ratDenom :: "rat \<Rightarrow> int" where
  "ratDenom r = snd (quotient_of r)"

text \<open>\<open>(*big.Int).Quo\<close>: division truncated towards zero.\<close>

definition bigQuo :: "int \<Rightarrow> int \<Rightarrow> int" where
  "bigQuo a b = sgn a * sgn b * (\<bar>a\<bar> div \<bar>b\<bar>)"

lemma ratDenom_pos [simp]: "0 < ratDenom r"
  by (simp add: ratDenom_def quotient_of_denom_pos')

lemma rat_num_denom [simp]: "of_int (ratNum r) / of_int (ratDenom r) = r"
  by (metis quotient_of_div prod.collapse ratDenom_def ratNum_def)

lemma ratNum_nonneg: "0 \<le> r \<longleftrightarrow> 0 \<le> ratNum r"
proof -
  have "0 \<le> r \<longleftrightarrow> 0 \<le> (of_int (ratNum r) / of_int (ratDenom r) :: rat)"
    by simp
  also have "\<dots> \<longleftrightarrow> 0 \<le> ratNum r"
    using ratDenom_pos [of r] by (simp add: pos_le_divide_eq del: rat_num_denom)
  finally show ?thesis .
qed

lemma bigQuo_nonneg: "0 \<le> a \<Longrightarrow> 0 < b \<Longrightarrow> bigQuo a b = a div b"
  by (auto simp: bigQuo_def sgn_if)

section \<open>Decimal literals\<close>

lemma digit36_is_digit: "is_digit c \<Longrightarrow> digit36 c = digit_val c"
  by (simp add: digit36_def is_digit_def digit_val_def)

lemma is_digit_neq:
  assumes "is_digit c"
  shows "c \<noteq> CHR ''.''" "c \<noteq> CHR ''_''" "c \<noteq> CHR ''/''" "c \<noteq> CHR ''-''" "c \<noteq> CHR ''+''"
    "c \<notin> {CHR ''b'', CHR ''B''}" "c \<notin> {CHR ''o'', CHR ''O''}" "c \<notin> {CHR ''x'', CHR ''X''}"
  using assms by (auto simp: is_digit_def)

lemma scan_loop_digits:
  assumes "all_digits ds"
  shows "scan_loop 10 f p i n dp v (ds @ s) =
    scan_loop 10 f (if ds = [] then p else PDigit) i (n + length ds) dp
      (v * 10 ^ length ds + digits_val ds) s"
  using assms
proof (induction ds arbitrary: p n v)
  case (Cons c ds)
  then have "is_digit c" by simp
  with is_digit_neq [OF this] Cons digit_val_less [OF this] show ?case
    by (simp add: digit36_is_digit digits_val_Cons algebra_simps)
qed simp

lemma nat_scan_decimal:
  assumes "all_digits a" "a \<noteq> []" "all_digits b"
  shows "nat_scan True (a @ CHR ''.'' # b) = Some (digits_val (a @ b), 10, - int (length b), [])"
proof -
  obtain c a' where a: "a = c # a'" and c: "is_digit c" and a': "all_digits a'"
    using assms by (cases a) auto
  have loop: "scan_loop 10 True p False n None v (a' @ CHR ''.'' # b) =
      (if b = [] then POther else PDigit, False, n + length a' + length b, Some (n + length a'),
       v * 10 ^ length (a' @ b) + digits_val (a' @ b), [])" if "p \<noteq> PSep" for p n v
    using that scan_loop_digits [OF assms(3), where s = "[]"]
    by (simp add: scan_loop_digits [OF a'] digits_val_append power_add algebra_simps)
  have head: "(case a' @ CHR ''.'' # b of [] \<Rightarrow> (10, False, PDigit, 1, [])
      | d # ds \<Rightarrow> if d \<in> {CHR ''b'', CHR ''B''} then (2, False, PDigit, 0, ds)
        else if d \<in> {CHR ''o'', CHR ''O''} then (8, False, PDigit, 0, ds)
        else if d \<in> {CHR ''x'', CHR ''X''} then (16, False, PDigit, 0, ds)
        else if \<not> True then (8, True, PDigit, 0, a' @ CHR ''.'' # b)
        else (10, False, PDigit, 1, a' @ CHR ''.'' # b)) =
      (10 :: nat, False, PDigit, 1 :: nat, a' @ CHR ''.'' # b)"
    using a' is_digit_neq(6,7,8) by (cases a') auto
  show ?thesis
  proof (cases "c = CHR ''0''")
    case True
    then show ?thesis
      unfolding nat_scan_def a using loop [of PDigit 1 0]
      by (simp add: head [simplified] digits_val_Cons)
  next
    case False
    then show ?thesis
      unfolding nat_scan_def a using loop [of PDigit 1 "digit_val c"] is_digit_neq [OF c] digit_val_less [OF c]
      by (simp add: digits_val_Cons digit36_is_digit [OF c])
  qed
qed

lemma rat_scale_decimal:
  assumes "k \<le> 1000000"
  shows "rat_scale m (- int k) (- int k) = Some (of_nat m / 10 ^ k)"
proof -
  have "(5 :: int) ^ k * 2 ^ k = 10 ^ k" by (simp flip: power_mult_distrib)
  then show ?thesis using assms by (simp add: rat_scale_def Fract_of_int_quotient)
qed

text \<open>A decimal literal is read exactly.\<close>

lemma ratSetString_decimal:
  assumes "all_digits a" "a \<noteq> []" "all_digits b" "length b \<le> 1000000"
  shows "ratSetString (a @ CHR ''.'' # b) = Some (of_nat (digits_val (a @ b)) / 10 ^ length b)"
proof -
  have ns: "CHR ''/'' \<notin> set (a @ CHR ''.'' # b)"
    using assms is_digit_neq(3) by (auto simp: all_digits_iff)
  obtain c a' where a: "a = c # a'" and c: "is_digit c" using assms by (cases a) auto
  have sgn: "scanSign (a @ CHR ''.'' # b) = Some (False, a @ CHR ''.'' # b)"
    using is_digit_neq [OF c] by (simp add: scanSign_def a)
  show ?thesis
    using ns assms(4) rat_scale_decimal [OF assms(4)] rat_scale_decimal [of 0]
    by (simp add: ratSetString_def sgn nat_scan_decimal [OF assms(1-3)] scanExponent_def Let_def)
qed

end
