(* ===== verification/Go_Time.thy ===== *)
theory Go_Time
  imports Go_Text
begin

text \<open>
  The part of Go's package \<open>time\<close> the server uses: the day of an instant in UTC and its rendering
  by \<open>t.UTC().Format("2006-01-02")\<close>, with the calendar computation of the standard library (400,
  100, 4 and 1 year cycles from 1 January of year 1). The main lemma is that two instants have the
  same day string exactly when they lie in the same UTC day, which is what the daily limits rely on.
\<close>

definition unixSeconds :: "time \<Rightarrow> int" where
  "unixSeconds t = t div second"

text \<open>Days since the Unix epoch.\<close>

definition dayNumber :: "time \<Rightarrow> int" where
  "dayNumber t = t div (24 * hour)"

text \<open>The year and the day in the year (from 0) of a number of days since 1 January of year 1.\<close>

definition yearYday :: "int \<Rightarrow> int \<times> int" where
  "yearYday d =
     (let n400 = d div 146097; d = d - 146097 * n400;
          n100 = d div 36524; n100 = n100 - n100 div 4; d = d - 36524 * n100;
          n4 = d div 1461; d = d - 1461 * n4;
          n1 = d div 365; n1 = n1 - n1 div 4; d = d - 365 * n1 in
      (400 * n400 + 100 * n100 + 4 * n4 + n1 + 1, d))"

definition isLeap :: "int \<Rightarrow> bool" where
  "isLeap y \<longleftrightarrow> 4 dvd y \<and> (\<not> 100 dvd y \<or> 400 dvd y)"

definition daysBefore :: "int list" where
  "daysBefore = [0, 31, 59, 90, 120, 151, 181, 212, 243, 273, 304, 334, 365]"

text \<open>Month (1 to 12) and day of the month (1 to 31) of a day in a leap or a common year.\<close>

definition monthDay :: "bool \<Rightarrow> int \<Rightarrow> nat \<times> nat" where
  "monthDay leap yday =
     (if leap \<and> yday = 59 then (2, 29)
      else
        (let day = (if leap \<and> yday > 59 then yday - 1 else yday);
             month = nat (day div 31);
             end = daysBefore ! (month + 1) in
         if day \<ge> end then (month + 2, nat (day - end + 1))
         else (month + 1, nat (day - daysBefore ! month + 1))))"

definition formatYear :: "int \<Rightarrow> string" where
  "formatYear y = (if y < 0 then CHR ''-'' # zpad 4 (nat_dec (nat (- y))) else zpad 4 (nat_dec (nat y)))"

definition utcDay :: "time \<Rightarrow> string" where
  "utcDay t =
     (let (y, yday) = yearYday (dayNumber t + 719162);
          (m, d) = monthDay (isLeap y) yday in
      formatYear y @ ''-'' @ zpad 2 (nat_dec m) @ ''-'' @ zpad 2 (nat_dec d))"

section \<open>The day string identifies the day\<close>

lemma int_div_bounds:
  fixes x k :: int
  assumes "0 < k"
  shows "k * (x div k) \<le> x \<and> x < k * (x div k) + k"
  using assms mult_div_mod_eq [of k x] pos_mod_bound [of k x] pos_mod_sign [of k x] by linarith

text \<open>\<open>n - n div 4\<close> cuts a quotient of 4 back to 3.\<close>

lemma cut_four:
  fixes n :: int
  assumes "0 \<le> n" "n \<le> 4"
  shows "0 \<le> n - n div 4 \<and> n - n div 4 \<le> 3 \<and> (n - n div 4 = n \<or> n = 4 \<and> n - n div 4 = 3)"
proof -
  have "n = 0 \<or> n = 1 \<or> n = 2 \<or> n = 3 \<or> n = 4" using assms by linarith
  then show ?thesis by (elim disjE) simp_all
qed

lemma yearYday_days:
  assumes "yearYday d = (y, yd)"
  shows "d = 365 * (y - 1) + (y - 1) div 4 - (y - 1) div 100 + (y - 1) div 400 + yd"
    and "0 \<le> yd \<and> yd \<le> 365"
proof -
  define a where "a = d div 146097"
  define d1 where "d1 = d - 146097 * a"
  have d1: "0 \<le> d1" "d1 < 146097"
    using int_div_bounds [of 146097 d, folded a_def] unfolding d1_def by simp_all
  define n where "n = d1 div 36524"
  define b where "b = n - n div 4"
  note n = int_div_bounds [of 36524 d1, folded n_def, simplified]
  have q: "0 \<le> n" "n \<le> 4" using d1 n by linarith+
  note b = cut_four [OF q, folded b_def]
  define d2 where "d2 = d1 - 36524 * b"
  have d2: "0 \<le> d2" "d2 \<le> 36524" using b d1 n unfolding d2_def by linarith+
  define c where "c = d2 div 1461"
  note c' = int_div_bounds [of 1461 d2, folded c_def, simplified]
  have c: "0 \<le> c" "c \<le> 24" using d2 c' by linarith+
  define d3 where "d3 = d2 - 1461 * c"
  have d3: "0 \<le> d3" "d3 < 1461" using c' unfolding d3_def by linarith+
  define m where "m = d3 div 365"
  define e where "e = m - m div 4"
  note m = int_div_bounds [of 365 d3, folded m_def, simplified]
  have r: "0 \<le> m" "m \<le> 4" using d3 m by linarith+
  note e = cut_four [OF r, folded e_def]
  have yd': "0 \<le> d3 - 365 * e" "d3 - 365 * e \<le> 365" using e d3 m by linarith+
  have eqs: "y - 1 = 400 * a + 100 * b + 4 * c + e" "yd = d3 - 365 * e"
    using assms
    unfolding yearYday_def Let_def a_def [symmetric] d1_def [symmetric] n_def [symmetric] b_def [symmetric]
      d2_def [symmetric] c_def [symmetric] d3_def [symmetric] m_def [symmetric] e_def [symmetric]
    by simp_all
  have quot: "x div k = z" if "0 < k" "k * z \<le> x" "x < k * z + k" for x k z :: int
    using that by (intro int_div_pos_eq [of x k z "x - k * z"]) auto
  have q4: "(y - 1) div 4 = 100 * a + 25 * b + c"
    using e by (intro quot) (simp_all add: eqs)
  have q100: "(y - 1) div 100 = 4 * a + b"
    using e c by (intro quot) (simp_all add: eqs)
  have q400: "(y - 1) div 400 = a"
    using e c b by (intro quot) (simp_all add: eqs)
  show "d = 365 * (y - 1) + (y - 1) div 4 - (y - 1) div 100 + (y - 1) div 400 + yd"
    unfolding q4 q100 q400 eqs(2) d3_def d2_def d1_def by (simp add: eqs(1))
  show "0 \<le> yd \<and> yd \<le> 365" using yd' eqs by simp
qed

lemma inj_yearYday: "yearYday d = yearYday d' \<Longrightarrow> d = d'"
  using yearYday_days(1) by (metis prod.exhaust_sel)

text \<open>The day in the year back from the month and the day of the month.\<close>

definition ydayOf :: "bool \<Rightarrow> nat \<times> nat \<Rightarrow> int" where
  "ydayOf leap md = daysBefore ! (fst md - 1) + int (snd md) - 1 + (if leap \<and> fst md > 2 then 1 else 0)"

lemma monthDay_common:
  assumes "0 \<le> i" "i \<le> 365"
  shows "fst (monthDay False i) \<le> 13 \<and> snd (monthDay False i) \<le> 31 \<and> ydayOf False (monthDay False i) = i \<and>
    (2 < fst (monthDay False i) \<longleftrightarrow> 59 \<le> i)"
proof -
  have q: "31 * (i div 31) \<le> i" "i < 31 * (i div 31) + 31" using int_div_bounds [of 31 i] by simp_all
  then have "0 \<le> i div 31" "i div 31 \<le> 11" using assms by linarith+
  moreover have "m \<in> {0, 1, 2, 3, 4, 5, 6, 7, 8, 9, 10, 11}" if "0 \<le> m" "m \<le> 11" for m :: int
    using that by (simp only: insert_iff empty_iff simp_thms) presburger
  ultimately have "i div 31 \<in> {0, 1, 2, 3, 4, 5, 6, 7, 8, 9, 10, 11}" by blast
  then show ?thesis
    using q assms
    by (simp only: insert_iff empty_iff simp_thms, elim disjE)
      (simp_all add: monthDay_def ydayOf_def daysBefore_def Let_def nat_le_iff)
qed

lemma monthDay_leap:
  "monthDay True i = (if i = 59 then (2, 29) else if i > 59 then monthDay False (i - 1) else monthDay False i)"
  by (simp add: monthDay_def)

lemma monthDay_inverse:
  assumes "0 \<le> i \<and> i \<le> 365"
  shows "fst (monthDay leap i) \<le> 13 \<and> snd (monthDay leap i) \<le> 31 \<and> ydayOf leap (monthDay leap i) = i"
proof (cases leap)
  case False
  then show ?thesis using monthDay_common [of i] assms by simp
next
  case True
  have leap: "ydayOf True md = ydayOf False md + (if 2 < fst md then 1 else 0)" for md
    by (simp add: ydayOf_def)
  consider "i < 59" | "i = 59" | "i > 59" by linarith
  then show ?thesis
  proof cases
    case 1
    then show ?thesis using True assms monthDay_common [of i] by (simp add: monthDay_leap leap)
  next
    case 2
    then show ?thesis using True by (simp add: monthDay_leap ydayOf_def daysBefore_def)
  next
    case 3
    then show ?thesis using True assms monthDay_common [of "i - 1"] by (simp add: monthDay_leap leap)
  qed
qed

lemma inj_monthDay:
  assumes "0 \<le> i \<and> i \<le> 365" "0 \<le> j \<and> j \<le> 365" "monthDay leap i = monthDay leap j"
  shows "i = j"
  using monthDay_inverse [OF assms(1), of leap] monthDay_inverse [OF assms(2), of leap] assms(3)
  by metis

lemma zpad_nat_dec_eq: "zpad w (nat_dec m) = zpad w (nat_dec n) \<longleftrightarrow> m = n"
  by (metis digits_val_nat_dec digits_val_zpad)

lemma zpad_head_digit: "zpad w (nat_dec n) = c # cs \<Longrightarrow> is_digit c"
  by (metis all_digits_nat_dec all_digits_simps(2) all_digits_zpad)

lemma inj_formatYear: "formatYear y = formatYear y' \<longleftrightarrow> y = y'"
proof
  assume eq: "formatYear y = formatYear y'"
  show "y = y'"
  proof (cases "y < 0"; cases "y' < 0")
    assume "y < 0" "\<not> y' < 0"
    then have "zpad 4 (nat_dec (nat y')) = CHR ''-'' # zpad 4 (nat_dec (nat (- y)))"
      using eq by (simp add: formatYear_def)
    then show ?thesis using zpad_head_digit not_is_digit(2) by blast
  next
    assume "\<not> y < 0" "y' < 0"
    then have "zpad 4 (nat_dec (nat y)) = CHR ''-'' # zpad 4 (nat_dec (nat (- y')))"
      using eq by (simp add: formatYear_def)
    then show ?thesis using zpad_head_digit not_is_digit(2) by blast
  qed (use eq in \<open>auto simp: formatYear_def zpad_nat_dec_eq\<close>)
qed simp

lemma length_two_digits: "n \<le> 31 \<Longrightarrow> length (zpad 2 (nat_dec n)) = 2"
  using length_nat_dec_le [of n 2] by simp

text \<open>Two instants have the same day string exactly when they are in the same UTC day.\<close>

lemma utcDay_eq_iff: "utcDay t = utcDay t' \<longleftrightarrow> dayNumber t = dayNumber t'"
proof
  assume eq: "utcDay t = utcDay t'"
  obtain y yd where y: "yearYday (dayNumber t + 719162) = (y, yd)" by fastforce
  obtain y' yd' where y': "yearYday (dayNumber t' + 719162) = (y', yd')" by fastforce
  obtain m d where md: "monthDay (isLeap y) yd = (m, d)" by fastforce
  obtain m' d' where md': "monthDay (isLeap y') yd' = (m', d')" by fastforce
  note yd = yearYday_days(2) [OF y] and yd' = yearYday_days(2) [OF y']
  have b: "m \<le> 31" "d \<le> 31" "m' \<le> 31" "d' \<le> 31"
    using monthDay_inverse [OF yd, of "isLeap y"] monthDay_inverse [OF yd', of "isLeap y'"] md md' by auto
  have "formatYear y @ ''-'' @ zpad 2 (nat_dec m) @ ''-'' @ zpad 2 (nat_dec d) =
        formatYear y' @ ''-'' @ zpad 2 (nat_dec m') @ ''-'' @ zpad 2 (nat_dec d')"
    using eq by (simp add: utcDay_def y y' md md')
  then have "formatYear y = formatYear y'" "zpad 2 (nat_dec m) = zpad 2 (nat_dec m')"
      "zpad 2 (nat_dec d) = zpad 2 (nat_dec d')"
    using b by (simp_all add: append_eq_append_conv length_two_digits del: length_zpad)
  then have "y = y'" "m = m'" "d = d'" by (simp_all add: inj_formatYear zpad_nat_dec_eq)
  then have "yd = yd'" using inj_monthDay [OF yd yd', of "isLeap y"] md md' by simp
  then show "dayNumber t = dayNumber t'" 
    using inj_yearYday [of "dayNumber t + 719162" "dayNumber t' + 719162"] y y' \<open>y = y'\<close> by simp
qed (simp add: utcDay_def)

lemma utcDay_not_Nil [simp]: "utcDay t \<noteq> []" "[] \<noteq> utcDay t"
  by (simp_all add: utcDay_def case_prod_beta Let_def)

lemma utcDay_example: "utcDay (1750000000 * second) = ''2025-06-15'' \<and> utcDay 0 = ''1970-01-01''"
  by code_simp

section \<open>Days as intervals\<close>

text \<open>The last nanosecond of a day.\<close>

definition endOfDay :: "int \<Rightarrow> time" where
  "endOfDay d = (d + 1) * (24 * hour) - 1"

lemma dayNumber_endOfDay [simp]: "dayNumber (endOfDay d) = d"
proof -
  have "endOfDay d = d * (24 * hour) + (24 * hour - 1)" by (simp add: endOfDay_def algebra_simps)
  then show ?thesis by (simp add: dayNumber_def)
qed

lemma le_endOfDay: "dayNumber t \<le> d \<Longrightarrow> t \<le> endOfDay d"
  using int_div_bounds [of "24 * hour" t] by (simp add: dayNumber_def endOfDay_def)

lemma dayNumber_mono: "t \<le> t' \<Longrightarrow> dayNumber t \<le> dayNumber t'"
  by (simp add: dayNumber_def zdiv_mono1)

end
