(* ===== verification/Go_Encoding.thy ===== *)
theory Go_Encoding
  imports Go_Text
begin

text \<open>
  \<open>encoding/hex\<close> and \<open>encoding/base64\<close> (\<open>StdEncoding\<close>) of the Go standard library, with their round
  trips. The base64 decoder skips carriage returns and line feeds, wants full padding, and does not
  check the unused bits of a padded group, as Go's does.
\<close>

definition byteVal :: "u8 \<Rightarrow> nat" where
  "byteVal b = unat b"

definition byteOf :: "nat \<Rightarrow> u8" where
  "byteOf n = of_nat n"

lemma byteVal_less: "byteVal b < 256"
  using unsigned_less [of b] by (simp add: byteVal_def)

lemma byteOf_byteVal [simp]: "byteOf (byteVal b) = b"
  by (simp add: byteOf_def byteVal_def)

lemma byteVal_byteOf [simp]: "n < 256 \<Longrightarrow> byteVal (byteOf n) = n"
  by (simp add: byteOf_def byteVal_def unsigned_of_nat take_bit_nat_eq_self)

text \<open>The bytes of a Go string and back (\<open>[]byte(s)\<close>, \<open>string(b)\<close>).\<close>

definition bytesOf :: "string \<Rightarrow> bytes" where
  "bytesOf s = map (\<lambda>c. byteOf (of_char c)) s"

definition stringOf :: "bytes \<Rightarrow> string" where
  "stringOf bs = map (\<lambda>b. char_of (byteVal b)) bs"

lemma stringOf_bytesOf [simp]: "stringOf (bytesOf s) = s"
  by (induction s) (simp_all add: stringOf_def bytesOf_def)

section \<open>Hexadecimal\<close>

definition hexDigit :: "nat \<Rightarrow> char" where
  "hexDigit n = (if n < 10 then char_of (48 + n) else char_of (87 + n))"

definition hexVal :: "char \<Rightarrow> nat option" where
  "hexVal c = (let n = of_char c :: nat in
     if 48 \<le> n \<and> n \<le> 57 then Some (n - 48)
     else if 97 \<le> n \<and> n \<le> 102 then Some (n - 87)
     else if 65 \<le> n \<and> n \<le> 70 then Some (n - 55)
     else None)"

fun hexEncode :: "bytes \<Rightarrow> string" where
  "hexEncode [] = []"
| "hexEncode (b # bs) = hexDigit (byteVal b div 16) # hexDigit (byteVal b mod 16) # hexEncode bs"

fun hexDecode :: "string \<Rightarrow> bytes option" where
  "hexDecode [] = Some []"
| "hexDecode [c] = None"
| "hexDecode (c # d # s) =
     (case (hexVal c, hexVal d, hexDecode s) of
        (Some h, Some l, Some bs) \<Rightarrow> Some (byteOf (16 * h + l) # bs)
      | _ \<Rightarrow> None)"

lemma hexVal_hexDigit: "n < 16 \<Longrightarrow> hexVal (hexDigit n) = Some n"
  by (simp add: hexVal_def hexDigit_def Let_def)

lemma hexDecode_hexEncode [simp]: "hexDecode (hexEncode bs) = Some bs"
proof (induction bs)
  case (Cons b bs)
  have "byteVal b div 16 < 16" using byteVal_less [of b] by simp
  moreover have "16 * (byteVal b div 16) + byteVal b mod 16 = byteVal b" by simp
  ultimately show ?case using Cons by (simp add: hexVal_hexDigit del: mult_div_mod_eq)
qed simp

lemma inj_hexEncode: "hexEncode a = hexEncode b \<longleftrightarrow> a = b"
  by (metis hexDecode_hexEncode option.inject)

lemma length_hexEncode [simp]: "length (hexEncode bs) = 2 * length bs"
  by (induction bs) simp_all

definition is_hex_lower :: "char \<Rightarrow> bool" where
  "is_hex_lower c \<longleftrightarrow> is_digit c \<or> 97 \<le> (of_char c :: nat) \<and> (of_char c :: nat) \<le> 102"

lemma is_hex_lower_hexDigit: "n < 16 \<Longrightarrow> is_hex_lower (hexDigit n)"
  by (simp add: is_hex_lower_def hexDigit_def is_digit_def)

lemma set_hexEncode: "c \<in> set (hexEncode bs) \<Longrightarrow> is_hex_lower c"
proof (induction bs)
  case (Cons b bs)
  have "byteVal b div 16 < 16" using byteVal_less [of b] by simp
  then show ?case using Cons is_hex_lower_hexDigit by auto
qed simp

lemma not_hex_lower [simp]: "\<not> is_hex_lower CHR '':''" "\<not> is_hex_lower CHR ''|''"
  by (simp_all add: is_hex_lower_def is_digit_def)

section \<open>Base64\<close>

definition b64char :: "nat \<Rightarrow> char" where
  "b64char n = (if n < 26 then char_of (65 + n)
     else if n < 52 then char_of (71 + n)
     else if n < 62 then char_of (n - 4)
     else if n = 62 then CHR ''+'' else CHR ''/'')"

definition b64val :: "char \<Rightarrow> nat option" where
  "b64val c = (let n = of_char c :: nat in
     if 65 \<le> n \<and> n \<le> 90 then Some (n - 65)
     else if 97 \<le> n \<and> n \<le> 122 then Some (n - 71)
     else if 48 \<le> n \<and> n \<le> 57 then Some (n + 4)
     else if c = CHR ''+'' then Some 62
     else if c = CHR ''/'' then Some 63
     else None)"

fun b64Encode :: "bytes \<Rightarrow> string" where
  "b64Encode [] = []"
| "b64Encode [a] = [b64char (byteVal a div 4), b64char (byteVal a mod 4 * 16), CHR ''='', CHR ''='']"
| "b64Encode [a, b] =
     [b64char (byteVal a div 4), b64char (byteVal a mod 4 * 16 + byteVal b div 16),
      b64char (byteVal b mod 16 * 4), CHR ''='']"
| "b64Encode (a # b # c # bs) =
     b64char (byteVal a div 4) # b64char (byteVal a mod 4 * 16 + byteVal b div 16) #
     b64char (byteVal b mod 16 * 4 + byteVal c div 64) # b64char (byteVal c mod 64) # b64Encode bs"

fun b64Groups :: "string \<Rightarrow> bytes option" where
  "b64Groups [] = Some []"
| "b64Groups (p # q # r # s # rest) =
     (case (b64val p, b64val q) of
        (Some w, Some x) \<Rightarrow>
          if r = CHR ''='' then (if s = CHR ''='' \<and> rest = [] then Some [byteOf (w * 4 + x div 16)] else None)
          else
            (case b64val r of
               None \<Rightarrow> None
             | Some y \<Rightarrow>
                 if s = CHR ''=''
                 then (if rest = [] then Some [byteOf (w * 4 + x div 16), byteOf (x mod 16 * 16 + y div 4)] else None)
                 else
                   (case (b64val s, b64Groups rest) of
                      (Some z, Some bs) \<Rightarrow>
                        Some (byteOf (w * 4 + x div 16) # byteOf (x mod 16 * 16 + y div 4) # byteOf (y mod 4 * 64 + z) # bs)
                    | _ \<Rightarrow> None))
      | _ \<Rightarrow> None)"
| "b64Groups _ = None"

definition is_newline :: "char \<Rightarrow> bool" where
  "is_newline c \<longleftrightarrow> (of_char c :: nat) = 10 \<or> (of_char c :: nat) = 13"

definition b64Decode :: "string \<Rightarrow> bytes option" where
  "b64Decode s = b64Groups (filter (\<lambda>c. \<not> is_newline c) s)"

lemma b64val_b64char [simp]: "n < 64 \<Longrightarrow> b64val (b64char n) = Some n"
  by (auto simp: b64val_def b64char_def Let_def)

lemma b64char_not_pad [simp]: "n < 64 \<Longrightarrow> b64char n \<noteq> CHR ''=''"
  using b64val_b64char [of n] by (auto simp: b64val_def)

lemma b64char_not_newline [simp]: "n < 64 \<Longrightarrow> \<not> is_newline (b64char n)"
  by (auto simp: is_newline_def b64char_def)

lemma split_at:
  fixes m k d :: nat
  assumes "k < d"
  shows "(m * d + k) div d = m" "(m * d + k) mod d = k"
  using assms by simp_all

lemma b64_arith:
  fixes a b c :: nat
  assumes "a < 256" "b < 256" "c < 256"
  shows "a div 4 < 64" "a mod 4 * 16 + b div 16 < 64" "b mod 16 * 4 + c div 64 < 64"
    "a mod 4 * 16 < 64" "b mod 16 * 4 < 64"
    "a div 4 * 4 + (a mod 4 * 16 + b div 16) div 16 = a" "a div 4 * 4 + a mod 4 * 16 div 16 = a"
    "(a mod 4 * 16 + b div 16) mod 16 * 16 + (b mod 16 * 4 + c div 64) div 4 = b"
    "(a mod 4 * 16 + b div 16) mod 16 * 16 + b mod 16 * 4 div 4 = b"
    "(b mod 16 * 4 + c div 64) mod 4 * 64 + c mod 64 = c"
proof -
  have q: "b div 16 < 16" "c div 64 < 4" "a mod 4 < 4" "b mod 16 < 16" using assms by simp_all
  show "a div 4 < 64" using assms by simp
  show "a mod 4 * 16 + b div 16 < 64" "b mod 16 * 4 + c div 64 < 64" "a mod 4 * 16 < 64" "b mod 16 * 4 < 64"
    using q by linarith+
  show "a div 4 * 4 + (a mod 4 * 16 + b div 16) div 16 = a" "a div 4 * 4 + a mod 4 * 16 div 16 = a"
    "(a mod 4 * 16 + b div 16) mod 16 * 16 + (b mod 16 * 4 + c div 64) div 4 = b"
    "(a mod 4 * 16 + b div 16) mod 16 * 16 + b mod 16 * 4 div 4 = b"
    "(b mod 16 * 4 + c div 64) mod 4 * 64 + c mod 64 = c"
    unfolding split_at [OF q(1)] split_at [OF q(2)] by simp_all
qed

lemma b64_arith_bytes [simp]:
  "byteVal a div 4 < 64" "byteVal a mod 4 * 16 + byteVal b div 16 < 64" "byteVal b mod 16 * 4 + byteVal c div 64 < 64"
  "byteVal a mod 4 * 16 < 64" "byteVal b mod 16 * 4 < 64"
  using b64_arith [OF byteVal_less [of a] byteVal_less [of b] byteVal_less [of c]] by blast+

lemma b64Groups_b64Encode: "b64Groups (b64Encode bs) = Some bs"
proof (induction bs rule: b64Encode.induct)
  case (2 a)
  show ?case
    using b64_arith(7) [OF byteVal_less [of a] byteVal_less [of a] byteVal_less [of a]] by simp
next
  case (3 a b)
  show ?case
    using b64_arith(6,9) [OF byteVal_less [of a] byteVal_less [of b] byteVal_less [of b]] by simp
next
  case (4 a b c bs)
  then show ?case
    using b64_arith(6,8,10) [OF byteVal_less [of a] byteVal_less [of b] byteVal_less [of c]] by simp
qed simp

lemma b64Encode_no_newline: "c \<in> set (b64Encode bs) \<Longrightarrow> \<not> is_newline c"
  by (induction bs rule: b64Encode.induct) (auto simp: is_newline_def [of "CHR ''=''"])

lemma b64Decode_b64Encode [simp]: "b64Decode (b64Encode bs) = Some bs"
proof -
  have "filter (\<lambda>c. \<not> is_newline c) (b64Encode bs) = b64Encode bs"
    by (rule filter_True) (use b64Encode_no_newline in blast)
  then show ?thesis unfolding b64Decode_def using b64Groups_b64Encode by simp
qed

section \<open>Big-endian numbers (\<open>big.Int\<close>)\<close>

text \<open>\<open>new(big.Int).SetBytes(bs)\<close>, and the bytes of a number in a field of given width.\<close>

definition bigEndian :: "bytes \<Rightarrow> int" where
  "bigEndian bs = foldl (\<lambda>n b. n * 256 + uint b) 0 bs"

fun beBytes :: "nat \<Rightarrow> int \<Rightarrow> bytes" where
  "beBytes 0 n = []"
| "beBytes (Suc k) n = beBytes k (n div 256) @ [word_of_int n]"

lemma bigEndian_snoc: "bigEndian (bs @ [b]) = bigEndian bs * 256 + uint b"
  by (simp add: bigEndian_def)

lemma bigEndian_nonneg: "0 \<le> bigEndian bs"
proof -
  have "0 \<le> foldl (\<lambda>n b. n * 256 + uint b) m bs" if "0 \<le> m" for m
    using that by (induction bs arbitrary: m) auto
  then show ?thesis by (simp add: bigEndian_def)
qed

lemma length_beBytes [simp]: "length (beBytes k n) = k"
  by (induction k arbitrary: n) simp_all

lemma bigEndian_beBytes: "0 \<le> n \<Longrightarrow> n < 256 ^ k \<Longrightarrow> bigEndian (beBytes k n) = n"
proof (induction k arbitrary: n)
  case (Suc k)
  then have "n div 256 < 256 ^ k" by (simp add: int_div_less_self div_less_iff_less_mult mult.commute)
  with Suc show ?case by (simp add: bigEndian_snoc uint_word_of_int)
qed (simp add: bigEndian_def)

end
