(* ===== verification/Markets.thy ===== *)
theory Markets
  imports Go_Text "HOL-Library.AList"
begin

text \<open>
  Package \<open>lib/mcp/markets\<close>: the table from ticker to market constants that every order
  builder resolves through. \<open>Refresh\<close> joins the chain's clob pairs with its perpetuals and
  swaps the new table in; a failed refresh leaves the old one. A Go map is an association
  list with distinct keys (\<open>AList.update\<close>), so that \<open>Size\<close> counts its entries.
\<close>

record marketMeta =
  Ticker :: string
  ClobPairID :: u32
  AtomicResolution :: int
  QuantumConversionExponent :: int
  StepBaseQuantums :: u64
  SubticksPerTick :: u32

text \<open>What the cache reads of the chain's ClobPair and Perpetual messages.\<close>

record clobPair =
  cpId :: u32
  cpPerpetual :: "u32 option"
  cpQuantumConversionExponent :: int
  cpStepBaseQuantums :: u64
  cpSubticksPerTick :: u32

record perpetual =
  pId :: u32
  pTicker :: string
  pAtomicResolution :: int

record perpMeta =
  pmTicker :: string
  pmAtomicResolution :: int

record cache =
  refreshEvery :: duration
  byTicker :: "(string \<times> marketMeta) list"
  cacheLog :: "(string \<times> u32 list) list"

definition NewCache :: "duration \<Rightarrow> cache" where
  "NewCache refresh =
     \<lparr>refreshEvery = (if refresh = 0 then 60 * second else refresh), byTicker = [], cacheLog = []\<rparr>"

text \<open>The index of the perpetuals by id: a later perpetual with the same id replaces an earlier one.\<close>

fun perpIndex :: "perpetual list \<Rightarrow> (u32 \<times> perpMeta) list \<Rightarrow> (u32 \<times> perpMeta) list" where
  "perpIndex [] m = m"
| "perpIndex (p # ps) m =
     perpIndex ps (AList.update (pId p) \<lparr>pmTicker = pTicker p, pmAtomicResolution = pAtomicResolution p\<rparr> m)"

definition metaOf :: "clobPair \<Rightarrow> perpMeta \<Rightarrow> marketMeta" where
  "metaOf cp perp = \<lparr>
     Ticker = pmTicker perp,
     ClobPairID = cpId cp,
     AtomicResolution = pmAtomicResolution perp,
     QuantumConversionExponent = cpQuantumConversionExponent cp,
     StepBaseQuantums = cpStepBaseQuantums cp,
     SubticksPerTick = cpSubticksPerTick cp\<rparr>"

fun joinPairs :: "(u32 \<times> perpMeta) list \<Rightarrow> clobPair list \<Rightarrow> (string \<times> marketMeta) list \<Rightarrow> u32 list
    \<Rightarrow> (string \<times> marketMeta) list \<times> u32 list" where
  "joinPairs perpByID [] next dropped = (next, dropped)"
| "joinPairs perpByID (cp # cps) next dropped =
     (case cpPerpetual cp of
        None \<Rightarrow> joinPairs perpByID cps next (dropped @ [cpId cp])
      | Some pid \<Rightarrow>
          (case map_of perpByID pid of
             None \<Rightarrow> joinPairs perpByID cps next (dropped @ [cpId cp])
           | Some perp \<Rightarrow>
               joinPairs perpByID cps (AList.update (pmTicker perp) (metaOf cp perp) next) dropped))"

text \<open>\<open>Refresh\<close> on the answers of the two chain queries.\<close>

definition Refresh :: "clobPair list res \<Rightarrow> perpetual list res \<Rightarrow> cache \<Rightarrow> unit res \<times> cache" where
  "Refresh clobPairs perps c =
     (case clobPairs of
        Inl e \<Rightarrow> (Inl (Wrapf ''clob.Query/ClobPairAll: %w'' [] e), c)
      | Inr cps \<Rightarrow>
          (case perps of
             Inl e \<Rightarrow> (Inl (Wrapf ''perpetuals.Query/AllPerpetuals: %w'' [] e), c)
           | Inr ps \<Rightarrow>
               (let (next, dropped) = joinPairs (perpIndex ps []) cps [] [];
                    logged = (if dropped = [] then cacheLog c
                              else cacheLog c @ [(''markets cache: dropped clob pairs'', sort dropped)]) in
                (Inr (), c\<lparr>byTicker := next, cacheLog := logged\<rparr>))))"

text \<open>\<open>Run\<close>: one refresh on entry, then one per tick until the context is done; \<open>ticks\<close> are the
  query answers at the ticks that fire before that.\<close>

fun runTicks :: "(clobPair list res \<times> perpetual list res) list \<Rightarrow> cache \<Rightarrow> cache" where
  "runTicks [] c = c"
| "runTicks ((cps, ps) # ts) c =
     (case Refresh cps ps c of
        (Inl e, c') \<Rightarrow> runTicks ts (c'\<lparr>cacheLog := cacheLog c' @ [(''market cache refresh failed'', [])]\<rparr>)
      | (Inr _, c') \<Rightarrow> runTicks ts c')"

definition Run :: "clobPair list res \<Rightarrow> perpetual list res \<Rightarrow> (clobPair list res \<times> perpetual list res) list
    \<Rightarrow> cache \<Rightarrow> unit res \<times> cache" where
  "Run cps ps ticks c =
     (case Refresh cps ps c of
        (Inl e, c') \<Rightarrow> (Inl (Wrapf ''initial market cache refresh: %w'' [] e), c')
      | (Inr _, c') \<Rightarrow> (Inr (), runTicks ticks c'))"

definition ResolveTicker :: "cache \<Rightarrow> string \<Rightarrow> marketMeta option" where
  "ResolveTicker c ticker = map_of (byTicker c) ticker"

definition Size :: "cache \<Rightarrow> nat" where
  "Size c = length (byTicker c)"

section \<open>The table is the join\<close>

text \<open>The perpetual that an id stands for: the last one listed with it.\<close>

definition perpOf :: "perpetual list \<Rightarrow> u32 \<Rightarrow> perpetual option" where
  "perpOf ps i = find (\<lambda>p. pId p = i) (rev ps)"

text \<open>The market constants a clob pair contributes.\<close>

definition pairMeta :: "perpetual list \<Rightarrow> clobPair \<Rightarrow> marketMeta option" where
  "pairMeta ps cp =
     Option.bind (cpPerpetual cp) (\<lambda>i. map_option
       (\<lambda>p. metaOf cp \<lparr>pmTicker = pTicker p, pmAtomicResolution = pAtomicResolution p\<rparr>) (perpOf ps i))"

definition cache_wf :: "cache \<Rightarrow> bool" where
  "cache_wf c \<longleftrightarrow> distinct (map fst (byTicker c)) \<and> (\<forall>(t, m) \<in> set (byTicker c). Ticker m = t)"

lemma Ticker_metaOf [simp]: "Ticker (metaOf cp perp) = pmTicker perp"
  by (simp add: metaOf_def)

lemma find_append: "find P (xs @ ys) = (case find P xs of None \<Rightarrow> find P ys | Some x \<Rightarrow> Some x)"
  by (induction xs) auto

lemma map_of_perpIndex:
  "map_of (perpIndex ps m) i =
     (case perpOf ps i of None \<Rightarrow> map_of m i
      | Some p \<Rightarrow> Some \<lparr>pmTicker = pTicker p, pmAtomicResolution = pAtomicResolution p\<rparr>)"
  by (induction ps arbitrary: m)
    (auto simp: perpOf_def find_append update_conv' split: option.splits)

text \<open>\<open>joinPairs\<close> in one step per pair, over \<open>pairMeta\<close>.\<close>

lemma joinPairs_step:
  "joinPairs (perpIndex ps []) (cp # cps) next dropped =
     (case pairMeta ps cp of
        None \<Rightarrow> joinPairs (perpIndex ps []) cps next (dropped @ [cpId cp])
      | Some m \<Rightarrow> joinPairs (perpIndex ps []) cps (AList.update (Ticker m) m next) dropped)"
  by (auto simp: pairMeta_def map_of_perpIndex split: option.splits)

declare joinPairs.simps(2) [simp del]
declare joinPairs_step [simp]

lemma map_of_joinPairs:
  "map_of (fst (joinPairs (perpIndex ps []) cps next dropped)) t =
     (case find (\<lambda>m. Ticker m = t) (rev (List.map_filter (pairMeta ps) cps)) of
        None \<Rightarrow> map_of next t | Some m \<Rightarrow> Some m)"
  by (induction cps arbitrary: "next" dropped)
    (auto simp: map_filter_simps find_append update_conv' split: option.splits)

lemma snd_joinPairs:
  "snd (joinPairs (perpIndex ps []) cps next dropped) =
     dropped @ map cpId (filter (\<lambda>cp. pairMeta ps cp = None) cps)"
  by (induction cps arbitrary: "next" dropped) (auto split: option.splits)

lemma set_update_subset: "set (AList.update k v xs) \<subseteq> insert (k, v) (set xs)"
  by (induction xs) auto

lemma joinPairs_wf:
  assumes "distinct (map fst next)" and "\<forall>(t, m) \<in> set next. Ticker m = t"
  shows "distinct (map fst (fst (joinPairs (perpIndex ps []) cps next dropped))) \<and>
    (\<forall>(t, m) \<in> set (fst (joinPairs (perpIndex ps []) cps next dropped)). Ticker m = t)"
  using assms
proof (induction cps arbitrary: "next" dropped)
  case (Cons cp cps)
  have upd: "\<forall>(t, m) \<in> set (AList.update (Ticker m) m next). Ticker m = t" for m
    using Cons.prems(2) set_update_subset [of "Ticker m" m "next"] by fastforce
  show ?case
    using Cons.IH [OF Cons.prems] Cons.IH [OF distinct_update [OF Cons.prems(1)] upd]
    by (auto split: option.split)
qed simp

lemma Refresh_wf: "cache_wf c \<Longrightarrow> cache_wf (snd (Refresh cps ps c))"
  using joinPairs_wf [of "[]"]
  by (auto simp: Refresh_def cache_wf_def Let_def case_prod_beta split: sum.splits)

lemma runTicks_wf: "cache_wf c \<Longrightarrow> cache_wf (runTicks ts c)"
proof (induction ts arbitrary: c)
  case (Cons t ts)
  obtain cps ps where t: "t = (cps, ps)" by (cases t)
  obtain r c' where R: "Refresh cps ps c = (r, c')" by (cases "Refresh cps ps c")
  then have "cache_wf c'" using Cons.prems Refresh_wf by (metis snd_conv)
  moreover from this have "cache_wf (c'\<lparr>cacheLog := l\<rparr>)" for l by (simp add: cache_wf_def)
  ultimately show ?case using Cons.IH by (simp add: t R split: sum.split)
qed simp

text \<open>The constants a successful refresh resolves a ticker to are those of the last clob pair whose
  perpetual has that ticker, and every such ticker is resolved.\<close>

lemma Refresh_resolves:
  assumes "Refresh (Inr cps) (Inr ps) c = (r, c')"
  shows "ResolveTicker c' t = find (\<lambda>m. Ticker m = t) (rev (List.map_filter (pairMeta ps) cps))"
proof -
  have "byTicker c' = fst (joinPairs (perpIndex ps []) cps [] [])"
    using assms by (auto simp: Refresh_def Let_def split: prod.splits)
  then show ?thesis by (simp add: ResolveTicker_def map_of_joinPairs split: option.splits)
qed

lemma Refresh_error_keeps: "Refresh cps ps c = (Inl e, c') \<Longrightarrow> c' = c"
  by (auto simp: Refresh_def Let_def split: sum.splits prod.splits)

end
