(* ===== verification/Units.thy ===== *)
theory Units
  imports Go_Rat Markets
begin

text \<open>
  Package \<open>lib/mcp/units\<close>: human sizes and prices to the chain's integer units, and the worst
  price of a market order. The two constants of the protocol library the package calls,
  \<open>lib.BigIntMulPow10\<close> and \<open>lib.QuoteCurrencyAtomicResolution\<close>, are the fields of a parameter;
  \<open>protocolLib_ok\<close> states what the protocol documents of them.
\<close>

record protocolLib =
  BigIntMulPow10 :: "int \<Rightarrow> int \<Rightarrow> bool \<Rightarrow> int"
  QuoteCurrencyAtomicResolution :: int

text \<open>Multiplication by a power of ten, rounded down when the power is negative and \<open>roundUp\<close> is
  false; USDC has six decimals.\<close>

definition protocolLib_ok :: "protocolLib \<Rightarrow> bool" where
  "protocolLib_ok L \<longleftrightarrow>
     (\<forall>v e. BigIntMulPow10 L v e False =
        (if 0 \<le> e then v * 10 ^ nat e else v div 10 ^ nat (- e))) \<and>
     QuoteCurrencyAtomicResolution L = - 6"

text \<open>Arithmetic on Go's \<open>int32\<close>.\<close>

definition wrap32 :: "int \<Rightarrow> int" where
  "wrap32 i = (i + 2 ^ 31) mod 2 ^ 32 - 2 ^ 31"

definition SizeToQuantums :: "protocolLib \<Rightarrow> string \<Rightarrow> marketMeta \<Rightarrow> u64 res" where
  "SizeToQuantums L humanSize meta =
     (case ratSetString humanSize of
        None \<Rightarrow> Inl (Errorf ''invalid size %q'' [AStr humanSize])
      | Some rat \<Rightarrow>
          (let result = bigQuo (BigIntMulPow10 L (ratNum rat) (wrap32 (- AtomicResolution meta)) False)
                          (ratDenom rat) in
           if result < 0 \<or> \<not> isUint64 result
           then Inl (Errorf ''size %q out of uint64 range after conversion'' [AStr humanSize])
           else
             (let quantums = of_int result :: u64 in
              if 0 < StepBaseQuantums meta \<and> quantums mod StepBaseQuantums meta \<noteq> 0
              then Inl (Errorf ''size %q (%d quantums) is not a multiple of StepBaseQuantums (%d)''
                     [AStr humanSize, AInt (uint quantums), AInt (uint (StepBaseQuantums meta))])
              else Inr quantums)))"

text \<open>The power of ten between a price and its subticks.\<close>

definition priceExponent :: "protocolLib \<Rightarrow> marketMeta \<Rightarrow> int" where
  "priceExponent L meta =
     wrap32 (- QuantumConversionExponent meta + AtomicResolution meta - QuoteCurrencyAtomicResolution L)"

definition PriceToSubticks :: "protocolLib \<Rightarrow> string \<Rightarrow> marketMeta \<Rightarrow> u64 res" where
  "PriceToSubticks L humanPrice meta =
     (case ratSetString humanPrice of
        None \<Rightarrow> Inl (Errorf ''invalid price %q'' [AStr humanPrice])
      | Some rat \<Rightarrow>
          (let result = bigQuo (BigIntMulPow10 L (ratNum rat) (priceExponent L meta) False) (ratDenom rat) in
           if result < 0 \<or> \<not> isUint64 result
           then Inl (Errorf ''price %q out of uint64 range after conversion'' [AStr humanPrice])
           else
             (let subticks = of_int result :: u64 in
              if 0 < SubticksPerTick meta \<and> subticks mod ucast (SubticksPerTick meta) \<noteq> 0
              then Inl (Errorf ''price %q (%d subticks) is not a multiple of SubticksPerTick (%d)''
                     [AStr humanPrice, AInt (uint subticks), AInt (uint (SubticksPerTick meta))])
              else Inr subticks)))"

text \<open>The snap of the last step of \<open>AggressiveSubticks\<close>: down for a buy, up for a sell.\<close>

definition snapSubticks :: "string \<Rightarrow> u64 \<Rightarrow> u32 \<Rightarrow> u64" where
  "snapSubticks side subticks perTick =
     (if 0 < perTick then
        (let tick = ucast perTick :: u64 in
         if side = ''BUY'' then (subticks div tick) * tick
         else (let rem = subticks mod tick in
               if rem \<noteq> 0 then subticks + (tick - rem) else subticks))
      else subticks)"

definition AggressiveSubticks :: "protocolLib \<Rightarrow> string \<Rightarrow> string \<Rightarrow> u32 \<Rightarrow> marketMeta \<Rightarrow> u64 res" where
  "AggressiveSubticks L side oraclePx slippageBps meta =
     (if side \<noteq> ''BUY'' \<and> side \<noteq> ''SELL''
      then Inl (Errorf ''invalid side %q (want BUY or SELL)'' [AStr side])
      else
        (case ratSetString oraclePx of
           None \<Rightarrow> Inl (Errorf ''invalid oracle price %q'' [AStr oraclePx])
         | Some rat \<Rightarrow>
             if side = ''SELL'' \<and> uint slippageBps \<ge> 10000
             then Inl (Errorf ''slippage_bps %d would push worst price negative for SELL'' [AInt (uint slippageBps)])
             else
               (let factor = (if side = ''BUY'' then Fract (10000 + uint slippageBps) 10000
                              else Fract (10000 - uint slippageBps) 10000);
                    worst = rat * factor;
                    num = bigQuo (BigIntMulPow10 L (ratNum worst) (priceExponent L meta) False) (ratDenom worst) in
                if num < 0 \<or> \<not> isUint64 num
                then Inl (Errorf ''aggressive subticks out of uint64 range for oracle=%q slippage=%d bps''
                       [AStr oraclePx, AInt (uint slippageBps)])
                else
                  (let subticks = snapSubticks side (of_int num) (SubticksPerTick meta) in
                   if subticks = 0
                   then Inl (Errorf ''aggressive subticks rounded to 0'' [AStr oraclePx, AInt (uint slippageBps)])
                   else Inr subticks))))"

text \<open>An instance of the protocol library and the BTC-USD market, for the examples.\<close>

definition docLib :: protocolLib where
  "docLib = \<lparr>BigIntMulPow10 = (\<lambda>v e up. if 0 \<le> e then v * 10 ^ nat e else v div 10 ^ nat (- e)),
             QuoteCurrencyAtomicResolution = - 6\<rparr>"

definition btcMeta :: marketMeta where
  "btcMeta = \<lparr>Ticker = ''BTC-USD'', ClobPairID = 0, AtomicResolution = - 10,
              QuantumConversionExponent = - 9, StepBaseQuantums = 1000000, SubticksPerTick = 100000\<rparr>"

lemma docLib_ok: "protocolLib_ok docLib"
  by (simp add: protocolLib_ok_def docLib_def)

section \<open>Scaling by a power of ten\<close>

text \<open>The scaled value both conversions compute.\<close>

definition scaled :: "protocolLib \<Rightarrow> rat \<Rightarrow> int \<Rightarrow> int" where
  "scaled L r e = bigQuo (BigIntMulPow10 L (ratNum r) e False) (ratDenom r)"

lemma scaled_floor:
  assumes "protocolLib_ok L" and "0 \<le> r"
  shows "scaled L r e = \<lfloor>r * 10 powi e\<rfloor>"
proof -
  have num: "0 \<le> ratNum r" using assms(2) ratNum_nonneg by simp
  show ?thesis
  proof (cases "0 \<le> e")
    case True
    then have "scaled L r e = (ratNum r * 10 ^ nat e) div ratDenom r"
      using assms(1) num by (simp add: scaled_def protocolLib_ok_def bigQuo_nonneg)
    also have "\<dots> = \<lfloor>of_int (ratNum r * 10 ^ nat e) / of_int (ratDenom r) :: rat\<rfloor>"
      by (simp only: floor_divide_of_int_eq)
    also have "\<dots> = \<lfloor>(of_int (ratNum r) / of_int (ratDenom r)) * 10 ^ nat e :: rat\<rfloor>"
      by (simp only: of_int_mult of_int_power of_int_numeral times_divide_eq_left)
    finally show ?thesis
      using True by (simp add: power_int_def)
  next
    case False
    then have "scaled L r e = ratNum r div 10 ^ nat (- e) div ratDenom r"
      using assms(1) num by (simp add: scaled_def protocolLib_ok_def bigQuo_nonneg pos_imp_zdiv_nonneg_iff)
    also have "\<dots> = ratNum r div (10 ^ nat (- e) * ratDenom r)"
      by (simp add: zdiv_zmult2_eq ratDenom_pos less_imp_le)
    also have "\<dots> = \<lfloor>of_int (ratNum r) / of_int (10 ^ nat (- e) * ratDenom r) :: rat\<rfloor>"
      by (simp only: floor_divide_of_int_eq)
    also have "\<dots> = \<lfloor>(of_int (ratNum r) / of_int (ratDenom r)) / 10 ^ nat (- e) :: rat\<rfloor>"
      by (simp only: of_int_mult of_int_power of_int_numeral divide_divide_eq_left mult.commute)
    finally show ?thesis
      using False by (simp add: power_int_def field_simps)
  qed
qed

lemma u64_mod_zero_iff: "(x :: u64) mod y = 0 \<longleftrightarrow> unat y dvd unat x"
  by (simp add: dvd_eq_mod_eq_0 unat_mod_distrib flip: unat_eq_zero)

section \<open>Snapping to the tick\<close>

lemma unat_snap_down:
  "unat ((s :: u64) div t * t) = unat s div unat t * unat t"
proof -
  have "unat s div unat t * unat t < 2 ^ 64"
    using u64_less_2p64 [of s] div_times_less_eq_dividend [of "unat s" "unat t"] by linarith
  then show ?thesis using unat_mult_small [of "s div t" t] by (simp add: unat_div_distrib)
qed

lemma snap_buy:
  assumes "0 < t"
  shows "unat t dvd unat (snapSubticks ''BUY'' s t)"
    and "unat (snapSubticks ''BUY'' s t) \<le> unat s"
    and "unat s < unat (snapSubticks ''BUY'' s t) + unat t"
proof -
  have t: "0 < unat t" using assms by (simp add: unat_gt_0)
  have eq: "unat (snapSubticks ''BUY'' s t) = unat s div unat t * unat t"
    using assms by (simp add: snapSubticks_def unat_snap_down Let_def)
  show "unat t dvd unat (snapSubticks ''BUY'' s t)" by (simp add: eq)
  show "unat (snapSubticks ''BUY'' s t) \<le> unat s" by (simp add: eq)
  show "unat s < unat (snapSubticks ''BUY'' s t) + unat t"
    using dividend_less_div_times [OF t, of "unat s"] by (simp add: eq add.commute)
qed

lemma snap_sell:
  assumes "0 < t" and "unat s + unat t \<le> 2 ^ 64"
  shows "unat t dvd unat (snapSubticks ''SELL'' s t)"
    and "unat s \<le> unat (snapSubticks ''SELL'' s t)"
    and "unat (snapSubticks ''SELL'' s t) < unat s + unat t"
proof -
  let ?t = "ucast t :: u64" and ?r = "unat s mod unat t"
  have t: "0 < unat t" using assms by (simp add: unat_gt_0)
  have eq: "unat (snapSubticks ''SELL'' s t) = (if ?r = 0 then unat s else unat s + (unat t - ?r))"
  proof (cases "?r = 0")
    case True
    then have "s mod ?t = 0" by (simp add: u64_mod_zero_iff dvd_eq_mod_eq_0)
    then show ?thesis using True by (simp add: snapSubticks_def)
  next
    case False
    then have "s mod ?t \<noteq> 0" by (simp add: u64_mod_zero_iff dvd_eq_mod_eq_0)
    moreover have "unat (?t - s mod ?t) = unat t - ?r"
      using t by (simp add: unat_sub word_le_nat_alt unat_mod_distrib)
    ultimately show ?thesis
      using False assms t unat_add_small [of s "?t - s mod ?t"]
      by (simp add: snapSubticks_def Let_def)
  qed
  show "unat t dvd unat (snapSubticks ''SELL'' s t)"
  proof (cases "?r = 0")
    case False
    have "unat s + (unat t - ?r) = unat s div unat t * unat t + unat t"
      using t mod_less_divisor [OF t, of "unat s"] div_mult_mod_eq [of "unat s" "unat t"] by linarith
    then show ?thesis using False by (simp add: eq)
  qed (simp add: eq dvd_eq_mod_eq_0)
  show "unat s \<le> unat (snapSubticks ''SELL'' s t)" by (simp add: eq)
  show "unat (snapSubticks ''SELL'' s t) < unat s + unat t"
    using t by (simp add: eq)
qed

lemma SizeToQuantums_iff:
  assumes "protocolLib_ok L" and "ratSetString s = Some r" and "0 \<le> r"
  shows "SizeToQuantums L s meta = Inr q \<longleftrightarrow>
    int (unat q) = \<lfloor>r * 10 powi (wrap32 (- AtomicResolution meta))\<rfloor> \<and>
    (StepBaseQuantums meta = 0 \<or> unat (StepBaseQuantums meta) dvd unat q)"
proof -
  let ?f = "\<lfloor>r * 10 powi (wrap32 (- AtomicResolution meta))\<rfloor>"
  have f: "bigQuo (BigIntMulPow10 L (ratNum r) (wrap32 (- AtomicResolution meta)) False) (ratDenom r) = ?f"
    using scaled_floor [OF assms(1,3)] by (simp add: scaled_def)
  have "0 \<le> ?f" using assms(3) by simp
  show ?thesis
  proof (cases "isUint64 ?f")
    case True
    then show ?thesis
      using \<open>0 \<le> ?f\<close> assms(2) of_int_u64_eq_iff [OF True, of q]
      by (auto simp: SizeToQuantums_def f Let_def u64_mod_zero_iff word_gt_0)
  next
    case False
    then have "int (unat q) \<noteq> ?f" using isUint64_unat(1) [of q] by metis
    then show ?thesis using False assms(2) by (simp add: SizeToQuantums_def f)
  qed
qed

lemma PriceToSubticks_iff:
  assumes "protocolLib_ok L" and "ratSetString s = Some r" and "0 \<le> r"
  shows "PriceToSubticks L s meta = Inr q \<longleftrightarrow>
    int (unat q) = \<lfloor>r * 10 powi (priceExponent L meta)\<rfloor> \<and>
    (SubticksPerTick meta = 0 \<or> unat (SubticksPerTick meta) dvd unat q)"
proof -
  let ?f = "\<lfloor>r * 10 powi (priceExponent L meta)\<rfloor>"
  have f: "bigQuo (BigIntMulPow10 L (ratNum r) (priceExponent L meta) False) (ratDenom r) = ?f"
    using scaled_floor [OF assms(1,3)] by (simp add: scaled_def)
  have "0 \<le> ?f" using assms(3) by simp
  show ?thesis
  proof (cases "isUint64 ?f")
    case True
    then show ?thesis
      using \<open>0 \<le> ?f\<close> assms(2) of_int_u64_eq_iff [OF True, of q]
      by (auto simp: PriceToSubticks_def f Let_def u64_mod_zero_iff word_gt_0)
  next
    case False
    then have "int (unat q) \<noteq> ?f" using isUint64_unat(1) [of q] by metis
    then show ?thesis using False assms(2) by (simp add: PriceToSubticks_def f)
  qed
qed

text \<open>The worst price of a market order, as a rational.\<close>

definition worstPrice :: "string \<Rightarrow> rat \<Rightarrow> u32 \<Rightarrow> rat" where
  "worstPrice side r bps =
     r * (if side = ''BUY'' then Fract (10000 + uint bps) 10000 else Fract (10000 - uint bps) 10000)"

lemma worstPrice_nonneg:
  "0 \<le> r \<Longrightarrow> side = ''BUY'' \<or> uint bps < 10000 \<Longrightarrow> 0 \<le> worstPrice side r bps"
  by (auto simp: worstPrice_def zero_le_Fract_iff intro!: mult_nonneg_nonneg)

lemma AggressiveSubticks_snap:
  assumes "protocolLib_ok L" and "ratSetString px = Some r" and "0 \<le> r"
    and "AggressiveSubticks L side px bps meta = Inr q"
  shows "\<exists>s. int (unat s) = \<lfloor>worstPrice side r bps * 10 powi (priceExponent L meta)\<rfloor> \<and>
    q = snapSubticks side s (SubticksPerTick meta) \<and> q \<noteq> 0"
proof -
  let ?w = "worstPrice side r bps"
  let ?n = "bigQuo (BigIntMulPow10 L (ratNum ?w) (priceExponent L meta) False) (ratDenom ?w)"
  have side: "side = ''BUY'' \<or> uint bps < 10000"
    using assms(2,4) by (auto simp: AggressiveSubticks_def split: if_splits)
  have n: "?n = \<lfloor>?w * 10 powi (priceExponent L meta)\<rfloor>"
    using scaled_floor [OF assms(1) worstPrice_nonneg [OF assms(3) side]] by (simp add: scaled_def)
  have "\<not> ?n < 0 \<and> isUint64 ?n \<and> q = snapSubticks side (of_int ?n) (SubticksPerTick meta) \<and> q \<noteq> 0"
    using assms(2,4) unfolding AggressiveSubticks_def worstPrice_def
    by (auto simp: Let_def split: if_splits)
  moreover from this have "int (unat (of_int ?n :: u64)) = ?n"
    using of_int_u64_eq_iff by blast
  ultimately show ?thesis unfolding n by blast
qed

lemma AggressiveSubticks_buy_bounds:
  assumes "protocolLib_ok L" and "ratSetString px = Some r" and "0 \<le> r"
    and "0 < SubticksPerTick meta"
    and "AggressiveSubticks L ''BUY'' px bps meta = Inr q"
  shows "unat (SubticksPerTick meta) dvd unat q \<and>
    of_nat (unat q) \<le> worstPrice ''BUY'' r bps * 10 powi (priceExponent L meta) \<and>
    worstPrice ''BUY'' r bps * 10 powi (priceExponent L meta) <
      of_nat (unat q) + of_nat (unat (SubticksPerTick meta))"
proof -
  let ?w = "worstPrice ''BUY'' r bps * 10 powi (priceExponent L meta)"
  obtain s where s: "int (unat s) = \<lfloor>?w\<rfloor>" and q: "q = snapSubticks ''BUY'' s (SubticksPerTick meta)"
    using AggressiveSubticks_snap [OF assms(1-3,5)] by blast
  note snap = snap_buy [OF assms(4), of s, folded q]
  have "(of_nat (unat s) :: rat) \<le> ?w"
    using of_int_floor_le [of ?w] by (simp only: s [symmetric] of_int_of_nat_eq)
  with snap(2) have "of_nat (unat q) \<le> ?w"
    by (meson of_nat_le_iff order_trans)
  moreover
  have "unat s + 1 \<le> unat q + unat (SubticksPerTick meta)" using snap(3) by simp
  then have "(of_nat (unat s) + 1 :: rat) \<le> of_nat (unat q) + of_nat (unat (SubticksPerTick meta))"
    by (metis of_nat_1 of_nat_add of_nat_le_iff)
  moreover have "?w < of_nat (unat s) + 1" using floor_correct [of ?w] by (simp only: s [symmetric] of_int_of_nat_eq of_int_add of_int_1)
  ultimately show ?thesis using snap(1) by simp
qed

lemma AggressiveSubticks_sell_bounds:
  assumes "protocolLib_ok L" and "ratSetString px = Some r" and "0 \<le> r"
    and "0 < SubticksPerTick meta"
    and "AggressiveSubticks L ''SELL'' px bps meta = Inr q"
    and "\<lfloor>worstPrice ''SELL'' r bps * 10 powi (priceExponent L meta)\<rfloor> + uint (SubticksPerTick meta) \<le> 2 ^ 64"
  shows "unat (SubticksPerTick meta) dvd unat q \<and>
    \<lfloor>worstPrice ''SELL'' r bps * 10 powi (priceExponent L meta)\<rfloor> \<le> int (unat q) \<and>
    int (unat q) < \<lfloor>worstPrice ''SELL'' r bps * 10 powi (priceExponent L meta)\<rfloor> + uint (SubticksPerTick meta)"
proof -
  let ?w = "worstPrice ''SELL'' r bps * 10 powi (priceExponent L meta)"
  obtain s where s: "int (unat s) = \<lfloor>?w\<rfloor>" and q: "q = snapSubticks ''SELL'' s (SubticksPerTick meta)"
    using AggressiveSubticks_snap [OF assms(1-3,5)] by blast
  have "int (unat s + unat (SubticksPerTick meta)) \<le> int (2 ^ 64)"
    using assms(6) s by simp
  then have "unat s + unat (SubticksPerTick meta) \<le> 2 ^ 64" by (simp only: of_nat_le_iff)
  note snap = snap_sell [OF assms(4) this, folded q]
  have "int (unat q) < int (unat s) + int (unat (SubticksPerTick meta))" using snap(3) by linarith
  moreover have "int (unat s) \<le> int (unat q)" using snap(2) by (simp only: of_nat_le_iff)
  ultimately show ?thesis using snap(1) by (simp add: s [symmetric])
qed

section \<open>Properties\<close>

text \<open>On a non-negative price, \<open>PriceToSubticks\<close> returns \<open>q\<close> exactly when \<open>q\<close> is the price
  times the market's power of ten, rounded down, and a multiple of the tick.\<close>

lemma PriceToSubticks_exact:
  assumes "protocolLib_ok L" and "ratSetString s = Some r" and "0 \<le> r"
  shows "PriceToSubticks L s meta = Inr q \<longleftrightarrow>
    int (unat q) = \<lfloor>r * 10 powi (priceExponent L meta)\<rfloor> \<and>
    (SubticksPerTick meta = 0 \<or> unat (SubticksPerTick meta) dvd unat q)"
  using assms by (rule PriceToSubticks_iff)


text \<open>The price of a market sell is a multiple of the tick, at least the worst price rounded down
  and less than a tick above it, as long as the next tick is a \<open>uint64\<close>.\<close>

lemma AggressiveSubticks_sell:
  assumes "protocolLib_ok L" and "ratSetString px = Some r" and "0 \<le> r"
    and "0 < SubticksPerTick meta"
    and "AggressiveSubticks L ''SELL'' px bps meta = Inr q"
    and "\<lfloor>worstPrice ''SELL'' r bps * 10 powi (priceExponent L meta)\<rfloor> + uint (SubticksPerTick meta) \<le> 2 ^ 64"
  shows "unat (SubticksPerTick meta) dvd unat q \<and>
    \<lfloor>worstPrice ''SELL'' r bps * 10 powi (priceExponent L meta)\<rfloor> \<le> int (unat q) \<and>
    int (unat q) < \<lfloor>worstPrice ''SELL'' r bps * 10 powi (priceExponent L meta)\<rfloor> + uint (SubticksPerTick meta)"
  using assms by (rule AggressiveSubticks_sell_bounds)

section \<open>The properties on the BTC-USD market\<close>


section \<open>Where the code departs from its comments\<close>

text \<open>A size with a fraction of a quantum is rounded down silently when the rounded value is aligned.\<close>

lemma SizeToQuantums_rounds_silently:
  "ratSetString ''0.00010000000005'' = Some (of_int 10000000005 / 10 ^ 14) \<and>
   SizeToQuantums docLib ''0.00010000000005'' btcMeta = Inr 1000000"
  by code_simp

text \<open>The upward snap of a sell wraps around at the top of the \<open>uint64\<close> range: the result is neither
  a multiple of the tick nor at least the worst price.\<close>

lemma AggressiveSubticks_sell_wraps:
  "AggressiveSubticks docLib ''SELL'' ''18446744073709551615'' 0
     (btcMeta\<lparr>AtomicResolution := - 6, QuantumConversionExponent := 0, SubticksPerTick := 10\<rparr>) = Inr 4"
  by code_simp

end
