(* ===== verification/Withdraw_Limits.thy ===== *)
theory Withdraw_Limits
  imports Go_Time
begin

text \<open>
  Package \<open>lib/mcp/limits\<close>, files \<open>usdc.go\<close> and \<open>limits.go\<close>: USDC amounts as text and as quantums,
  the cap of a single operation, and the daily withdraw ledger. The Go interface
  \<open>WithdrawLedger\<close> is the locale \<open>withdraw_ledger\<close>; \<open>MemoryLedger\<close> is its interpretation.
\<close>

section \<open>USDC amounts (usdc.go)\<close>

definition quantumsPerUSDC :: u64 where
  "quantumsPerUSDC = 1000000"

definition HumanToQuantums :: "string \<Rightarrow> u64 res" where
  "HumanToQuantums human =
     (let s = trimSpace human in
      if s = [] then Inl (Errorf ''usdc amount is empty'' [])
      else if hasPrefix s ''-'' then Inl (Errorf ''usdc amount must be non-negative: %s'' [AStr human])
      else
        (let (intPart, fracPart, hasFrac) =
           (case cut CHR ''.'' s of None \<Rightarrow> (s, [], False) | Some (a, b) \<Rightarrow> (a, b, True)) in
         if intPart = [] \<and> \<not> hasFrac then Inl (Errorf ''invalid usdc amount: %s'' [AStr human])
         else
           (let intPart = (if intPart = [] then ''0'' else intPart) in
            if hasFrac \<and> length fracPart > 6
            then Inl (Errorf ''usdc amount has more than 6 decimal places: %s'' [AStr human])
            else
              (let combined = intPart @ fracPart @ replicate (6 - length fracPart) CHR ''0'' in
               case bigSetString combined of
                 None \<Rightarrow> Inl (Errorf ''invalid usdc amount: %s'' [AStr human])
               | Some n \<Rightarrow>
                   if \<not> isUint64 n then Inl (Errorf ''usdc amount overflows uint64: %s'' [AStr human])
                   else Inr (of_int n)))))"

definition QuantumsToHuman :: "u64 \<Rightarrow> string" where
  "QuantumsToHuman q =
     nat_dec (unat (q div quantumsPerUSDC)) @ ''.'' @ zpad 6 (nat_dec (unat (q mod quantumsPerUSDC)))"

section \<open>Caps (limits.go)\<close>

record limitsConfig =
  DepositMaxUSDC :: u64
  WithdrawMaxUSDC :: u64
  TransferMaxUSDC :: u64
  DailyWithdrawCapUSDC :: u64

abbreviation ToolDeposit :: string where "ToolDeposit \<equiv> ''deposit''"
abbreviation ToolWithdraw :: string where "ToolWithdraw \<equiv> ''withdraw''"
abbreviation ToolTransfer :: string where "ToolTransfer \<equiv> ''transfer''"

text \<open>A cap in whole USDC as quantums; None when it is zero or does not fit, which disables it.\<close>

definition capQuantumsOf :: "u64 \<Rightarrow> u64 option" where
  "capQuantumsOf capUSDC =
     (if capUSDC = 0 then None
      else if capUSDC > max_u64 div quantumsPerUSDC then None
      else Some (capUSDC * quantumsPerUSDC))"

definition perToolCapQuantums :: "limitsConfig \<Rightarrow> string \<Rightarrow> u64 option" where
  "perToolCapQuantums cfg tool =
     (if tool = ToolDeposit then capQuantumsOf (DepositMaxUSDC cfg)
      else if tool = ToolWithdraw then capQuantumsOf (WithdrawMaxUSDC cfg)
      else if tool = ToolTransfer then capQuantumsOf (TransferMaxUSDC cfg)
      else None)"

definition dailyCapQuantums :: "limitsConfig \<Rightarrow> u64 option" where
  "dailyCapQuantums cfg = capQuantumsOf (DailyWithdrawCapUSDC cfg)"

definition CheckPerTx :: "limitsConfig \<Rightarrow> string \<Rightarrow> u64 \<Rightarrow> err option" where
  "CheckPerTx cfg tool quantums =
     (case perToolCapQuantums cfg tool of
        None \<Rightarrow> None
      | Some capQ \<Rightarrow>
          if quantums > capQ
          then Some (ErrCapExceeded ''per_tx'' tool (QuantumsToHuman capQ) (QuantumsToHuman quantums) [])
          else None)"

text \<open>\<open>Enforce\<close> on any ledger, given by its \<open>Remaining\<close> method; a nil ledger is None. The state of the
  ledger is returned because \<open>Remaining\<close> may roll the day over.\<close>

definition Enforce :: "(string \<Rightarrow> 'l \<Rightarrow> u64 \<times> 'l) \<Rightarrow> limitsConfig \<Rightarrow> 'l option \<Rightarrow> string \<Rightarrow> string \<Rightarrow> u64
    \<Rightarrow> err option \<times> 'l option" where
  "Enforce Remaining cfg ledger tenantID tool quantums =
     (case CheckPerTx cfg tool quantums of
        Some e \<Rightarrow> (Some e, ledger)
      | None \<Rightarrow>
          (case ledger of
             None \<Rightarrow> (None, ledger)
           | Some l \<Rightarrow>
               if tool \<noteq> ToolWithdraw then (None, ledger)
               else
                 (case dailyCapQuantums cfg of
                    None \<Rightarrow> (None, ledger)
                  | Some dailyCapQ \<Rightarrow>
                      (let (remaining, l') = Remaining tenantID l in
                       if quantums > remaining
                       then (Some (ErrCapExceeded ''daily'' tool (QuantumsToHuman dailyCapQ)
                               (QuantumsToHuman quantums) (QuantumsToHuman (dailyCapQ - remaining))), Some l')
                       else (None, Some l')))))"

section \<open>The in-memory ledger (limits.go)\<close>

record memoryLedger =
  capQuantums :: u64
  mlDay :: string
  mlUsed :: "string \<rightharpoonup> u64"

definition NewMemoryLedger :: "u64 \<Rightarrow> memoryLedger" where
  "NewMemoryLedger dailyCapUSDC =
     \<lparr>capQuantums = (if 0 < dailyCapUSDC \<and> dailyCapUSDC \<le> max_u64 div quantumsPerUSDC
                      then dailyCapUSDC * quantumsPerUSDC else 0),
      mlDay = [], mlUsed = Map.empty\<rparr>"

definition mlUsedBy :: "memoryLedger \<Rightarrow> string \<Rightarrow> u64" where
  "mlUsedBy l tenantID = (case mlUsed l tenantID of None \<Rightarrow> 0 | Some u \<Rightarrow> u)"

definition mlRollover :: "time \<Rightarrow> memoryLedger \<Rightarrow> memoryLedger" where
  "mlRollover now l =
     (let today = utcDay now in
      if mlDay l = today then l else l\<lparr>mlDay := today, mlUsed := Map.empty\<rparr>)"

definition mlRemaining :: "time \<Rightarrow> string \<Rightarrow> memoryLedger \<Rightarrow> u64 \<times> memoryLedger" where
  "mlRemaining now tenantID l =
     (let l = mlRollover now l; used = mlUsedBy l tenantID in
      (if used \<ge> capQuantums l then 0 else capQuantums l - used, l))"

definition mlRecord :: "time \<Rightarrow> string \<Rightarrow> u64 \<Rightarrow> memoryLedger \<Rightarrow> memoryLedger" where
  "mlRecord now tenantID quantums l =
     (let l = mlRollover now l; cur = mlUsedBy l tenantID; sum = cur + quantums in
      l\<lparr>mlUsed := (mlUsed l)(tenantID \<mapsto> (if sum < cur then max_u64 else sum))\<rparr>)"

section \<open>Check, broadcast, record\<close>

text \<open>
  How the two enforcement points use a ledger, over a sequence of withdrawals of any tenants: each is
  checked with \<open>Enforce\<close>, and recorded only when the chain accepts the broadcast (the last component).
  The result lists the withdrawals that went through.
\<close>

fun withdrawRun :: "(time \<Rightarrow> string \<Rightarrow> 'l \<Rightarrow> u64 \<times> 'l) \<Rightarrow> (time \<Rightarrow> string \<Rightarrow> u64 \<Rightarrow> 'l \<Rightarrow> 'l) \<Rightarrow> limitsConfig
    \<Rightarrow> (time \<times> string \<times> u64 \<times> bool) list \<Rightarrow> 'l \<Rightarrow> (time \<times> string \<times> u64) list \<times> 'l" where
  "withdrawRun R W cfg [] l = ([], l)"
| "withdrawRun R W cfg ((t, k, q, accepted) # es) l =
     (case Enforce (R t) cfg (Some l) k ToolWithdraw q of
        (None, Some l') \<Rightarrow>
          if accepted
          then (let (xs, l'') = withdrawRun R W cfg es (W t k q l') in ((t, k, q) # xs, l''))
          else withdrawRun R W cfg es l'
      | (Some e, Some l') \<Rightarrow> withdrawRun R W cfg es l'
      | (_, None) \<Rightarrow> withdrawRun R W cfg es l)"

text \<open>What tenant \<open>k\<close> withdrew in day \<open>d\<close>.\<close>

definition daySum :: "int \<Rightarrow> string \<Rightarrow> (time \<times> string \<times> u64) list \<Rightarrow> nat" where
  "daySum d k xs = sum_list (map (\<lambda>(t, k', q). if k' = k \<and> dayNumber t = d then unat q else 0) xs)"

lemma daySum_simps [simp]:
  "daySum d k [] = 0"
  "daySum d k ((t, k', q) # xs) = (if k' = k \<and> dayNumber t = d then unat q else 0) + daySum d k xs"
  by (simp_all add: daySum_def)

lemma withdrawRun_times: "(t, k, q) \<in> set (fst (withdrawRun R W cfg es l)) \<Longrightarrow> t \<in> fst ` set es"
proof (induction es arbitrary: l)
  case (Cons e es)
  then show ?case
    by (cases e) (auto simp: Let_def case_prod_beta split: prod.splits option.splits if_splits)
qed simp

lemma daySum_zero: "(\<forall>(t, k, q) \<in> set xs. dayNumber t \<noteq> d) \<Longrightarrow> daySum d k xs = 0"
  by (induction xs) auto

section \<open>The interface of a ledger\<close>

text \<open>
  What a \<open>WithdrawLedger\<close> promises, at a clock that does not go back: \<open>ok t l\<close> says that the ledger was
  last used at or before \<open>t\<close>, \<open>spent t k l\<close> is what tenant \<open>k\<close> has spent in the UTC day of \<open>t\<close>.
\<close>

locale withdraw_ledger =
  fixes remaining :: "time \<Rightarrow> string \<Rightarrow> 'l \<Rightarrow> u64 \<times> 'l"
    and recordq :: "time \<Rightarrow> string \<Rightarrow> u64 \<Rightarrow> 'l \<Rightarrow> 'l"
    and ok :: "time \<Rightarrow> 'l \<Rightarrow> bool"
    and spent :: "time \<Rightarrow> string \<Rightarrow> 'l \<Rightarrow> nat"
    and capq :: "'l \<Rightarrow> nat"
  assumes ok_mono: "ok t l \<Longrightarrow> t \<le> t' \<Longrightarrow> ok t' l"
    and ok_remaining: "ok t l \<Longrightarrow> ok t (snd (remaining t k l))"
    and ok_record: "ok t l \<Longrightarrow> ok t (recordq t k q l)"
    and cap_remaining: "capq (snd (remaining t k l)) = capq l"
    and cap_record: "capq (recordq t k q l) = capq l"
    and remaining_is: "unat (fst (remaining t k l)) = capq l - spent t k l"
    and spent_remaining: "ok t l \<Longrightarrow> t \<le> t' \<Longrightarrow> spent t' k' (snd (remaining t k l)) = spent t' k' l"
    and spent_record: "ok t l \<Longrightarrow> spent t k l + unat q < 2 ^ 64 \<Longrightarrow> spent t k (recordq t k q l) = spent t k l + unat q"
    and spent_record_other: "ok t l \<Longrightarrow> t \<le> t' \<Longrightarrow> k' \<noteq> k \<Longrightarrow> spent t' k' (recordq t k q l) = spent t' k' l"
    and spent_day: "dayNumber t = dayNumber t' \<Longrightarrow> spent t k l = spent t' k l"
    and spent_new_day: "ok t l \<Longrightarrow> dayNumber t < dayNumber t' \<Longrightarrow> spent t' k l = 0"
    and cap_fits: "capq l < 2 ^ 64"
begin

text \<open>Accepting and then recording keeps the tenant's total of the day within the cap.\<close>

lemma accept_record:
  assumes "ok t l" "spent t k l \<le> capq l" "q \<le> fst (remaining t k l)"
  defines "l' \<equiv> recordq t k q (snd (remaining t k l))"
  shows "spent t k l' = spent t k l + unat q \<and> spent t k l' \<le> capq l' \<and> capq l' = capq l"
proof -
  have "unat q \<le> capq l - spent t k l"
    using assms(3) by (simp add: remaining_is [symmetric] word_le_nat_alt)
  with assms(2) have fits: "spent t k l + unat q \<le> capq l" by simp
  have s: "spent t k (snd (remaining t k l)) = spent t k l" using assms(1) by (simp add: spent_remaining)
  have "spent t k l' = spent t k l + unat q"
    unfolding l'_def using spent_record [OF ok_remaining [OF assms(1)], of k k q] s fits cap_fits [of l]
    by (simp add: s)
  with fits show ?thesis by (simp add: l'_def cap_record cap_remaining)
qed

lemma Enforce_withdraw:
  assumes "dailyCapQuantums cfg \<noteq> None"
  shows "\<exists>e l'. Enforce (remaining t) cfg (Some l) k ToolWithdraw q = (e, Some l') \<and>
    (l' = l \<and> e \<noteq> None \<or> l' = snd (remaining t k l) \<and> (e = None \<longleftrightarrow> q \<le> fst (remaining t k l)))"
  using assms by (auto simp: Enforce_def case_prod_beta Let_def split: option.splits)

text \<open>Whatever the order of the tenants' requests, no tenant withdraws more than the cap in a day.\<close>

lemma withdrawRun_within_cap:
  assumes "dailyCapQuantums cfg \<noteq> None" "sorted (map fst es)"
    and "ok t0 l" "\<forall>e \<in> set es. t0 \<le> fst e" "spent (endOfDay d) k l \<le> capq l"
  shows "spent (endOfDay d) k l + daySum d k (fst (withdrawRun remaining recordq cfg es l)) \<le> capq l"
  using assms(2-)
proof (induction es arbitrary: t0 l)
  case (Cons e es)
  obtain t k' q a where e: "e = (t, k', q, a)" by (cases e)
  have ok: "ok t l" using Cons.prems ok_mono e by simp
  have later: "\<forall>e \<in> set es. t \<le> fst e" "sorted (map fst es)" using Cons.prems(1) e by auto
  show ?case
  proof (cases "dayNumber t \<le> d")
    case False
    then have "dayNumber t' \<noteq> d" if "t' \<in> fst ` set (e # es)" for t'
      using that later(1) e dayNumber_mono [of t t'] by fastforce
    then have "daySum d k (fst (withdrawRun remaining recordq cfg (e # es) l)) = 0"
      by (intro daySum_zero) (metis (mono_tags, lifting) case_prodI2 withdrawRun_times)
    then show ?thesis using Cons.prems by simp
  next
    case True
    then have le: "t \<le> endOfDay d" by (rule le_endOfDay)
    obtain er l' where E: "Enforce (remaining t) cfg (Some l) k' ToolWithdraw q = (er, Some l')"
      and l': "l' = l \<and> er \<noteq> None \<or> l' = snd (remaining t k' l) \<and> (er = None \<longleftrightarrow> q \<le> fst (remaining t k' l))"
      using Enforce_withdraw [OF assms(1)] by metis
    have s': "spent (endOfDay d) k l' = spent (endOfDay d) k l" "ok t l'" "capq l' = capq l"
      using l' ok le spent_remaining ok_remaining cap_remaining by auto
    show ?thesis
    proof (cases "er = None \<and> a")
      case False
      then have "fst (withdrawRun remaining recordq cfg (e # es) l) = fst (withdrawRun remaining recordq cfg es l')"
        using E e by (auto split: option.splits)
      then show ?thesis using Cons.IH [OF later(2) s'(2) later(1)] Cons.prems(4) s' by simp
    next
      case True
      let ?l = "recordq t k' q l'"
      have run: "fst (withdrawRun remaining recordq cfg (e # es) l) =
          (t, k', q) # fst (withdrawRun remaining recordq cfg es ?l)"
        using E e True by (simp add: Let_def case_prod_beta)
      have ok'': "ok t ?l" and cap'': "capq ?l = capq l" using s' by (simp_all add: ok_record cap_record)
      have step: "spent (endOfDay d) k ?l = spent (endOfDay d) k l + (if k' = k \<and> dayNumber t = d then unat q else 0)
          \<and> spent (endOfDay d) k ?l \<le> capq l"
      proof (cases "k' = k")
        case False
        then show ?thesis using spent_record_other [OF s'(2) le, of k k' q] s' Cons.prems(4) by simp
      next
        case k: True
        show ?thesis
        proof (cases "dayNumber t = d")
          case False
          with \<open>dayNumber t \<le> d\<close> have "dayNumber t < dayNumber (endOfDay d)" by simp
          then show ?thesis using spent_new_day [OF ok''] spent_new_day [OF ok] False by simp
        next
          case day: True
          have sd: "spent t k x = spent (endOfDay d) k x" for x using spent_day day by simp
          have "spent t k l \<le> capq l" "q \<le> fst (remaining t k l)" "l' = snd (remaining t k l)"
            using Cons.prems(4) l' True k sd by auto
          then show ?thesis using accept_record [OF ok, of k q] k day sd by simp
        qed
      qed
      then show ?thesis using Cons.IH [OF later(2) ok'' later(1)] run cap'' by simp
    qed
  qed
qed simp

end

section \<open>The in-memory ledger keeps the interface\<close>

definition mlOk :: "time \<Rightarrow> memoryLedger \<Rightarrow> bool" where
  "mlOk t l \<longleftrightarrow> mlDay l = [] \<or> (\<exists>t0 \<le> t. mlDay l = utcDay t0)"

definition mlSpent :: "time \<Rightarrow> string \<Rightarrow> memoryLedger \<Rightarrow> nat" where
  "mlSpent t k l = (if mlDay l = utcDay t then unat (mlUsedBy l k) else 0)"

lemma mlOk_today: "mlOk t l \<Longrightarrow> t \<le> t' \<Longrightarrow> mlDay l = utcDay t' \<Longrightarrow> mlDay l = utcDay t"
  by (auto simp: mlOk_def utcDay_eq_iff) (metis dayNumber_mono order_antisym)

lemma mlRollover_simps [simp]:
  "mlDay (mlRollover t l) = utcDay t"
  "capQuantums (mlRollover t l) = capQuantums l"
  "unat (mlUsedBy (mlRollover t l) k) = mlSpent t k l"
  by (simp_all add: mlRollover_def mlSpent_def mlUsedBy_def Let_def)

lemma mlRecord_simps [simp]:
  "mlDay (mlRecord t k q l) = utcDay t"
  "capQuantums (mlRecord t k q l) = capQuantums l"
  by (simp_all add: mlRecord_def Let_def)

lemma mlRemaining_simps [simp]: "snd (mlRemaining t k l) = mlRollover t l"
  by (simp add: mlRemaining_def Let_def)

lemma unat_mlRemaining: "unat (fst (mlRemaining t k l)) = unat (capQuantums l) - mlSpent t k l"
proof -
  have "unat (fst (mlRemaining t k l)) =
      (if mlSpent t k l \<ge> unat (capQuantums l) then 0 else unat (capQuantums l) - mlSpent t k l)"
    by (auto simp: mlRemaining_def Let_def word_le_nat_alt unat_sub)
  then show ?thesis by simp
qed

lemma mlSpent_today: "mlSpent t k l = (if mlDay l = utcDay t then unat (mlUsedBy l k) else 0)"
  by (rule mlSpent_def)

lemma mlUsedBy_mlRecord:
  "mlUsedBy (mlRecord t k q l) k' =
     (if k' = k then (let cur = mlUsedBy (mlRollover t l) k in if cur + q < cur then max_u64 else cur + q)
      else mlUsedBy (mlRollover t l) k')"
  by (simp add: mlRecord_def mlUsedBy_def Let_def)

lemma mlSpent_rollover:
  "mlOk t l \<Longrightarrow> t \<le> t' \<Longrightarrow> mlSpent t' k (mlRollover t l) = mlSpent t' k l"
  using mlOk_today [of t l t'] by (auto simp: mlSpent_def mlRollover_def mlUsedBy_def Let_def)

lemma mlSpent_other:
  "k' \<noteq> k \<Longrightarrow> mlSpent t' k' (mlRecord t k q l) = mlSpent t' k' (mlRollover t l)"
  by (simp add: mlSpent_def mlUsedBy_mlRecord)

lemma no_wrap_iff: "unat (x :: u64) + unat y < 2 ^ 64 \<longleftrightarrow> \<not> x + y < x"
proof -
  have "x + y < x \<longleftrightarrow> \<not> x \<le> x + y" by (rule not_le [symmetric])
  also have "x \<le> x + y \<longleftrightarrow> unat x + unat y < 2 ^ 64"
    by (cases "unat x + unat y < 2 ^ 64")
      (use u64_less_2p64 [of x] u64_less_2p64 [of y] in
        \<open>auto simp: word_le_nat_alt unat_word_ariths mod_if not_less\<close>)
  finally show ?thesis by simp
qed

lemma mlSpent_record:
  "mlSpent t k l + unat q < 2 ^ 64 \<Longrightarrow> mlSpent t k (mlRecord t k q l) = mlSpent t k l + unat q"
  using no_wrap_iff [of "mlUsedBy (mlRollover t l) k" q] unat_add_small [of "mlUsedBy (mlRollover t l) k" q]
  by (simp add: mlSpent_def [of t k "mlRecord t k q l"] mlUsedBy_mlRecord Let_def)

text \<open>A recorded spend is never lost: beyond the range of the counter it is clamped to the maximum.\<close>

lemma mlSpent_record_clamps:
  "mlSpent t k (mlRecord t k q l) = min (2 ^ 64 - 1) (mlSpent t k l + unat q)"
proof (cases "mlSpent t k l + unat q < 2 ^ 64")
  case False
  then have "mlUsedBy (mlRollover t l) k + q < mlUsedBy (mlRollover t l) k"
    using no_wrap_iff [of "mlUsedBy (mlRollover t l) k" q] by simp
  then show ?thesis
    using False by (simp add: mlSpent_def [of t k "mlRecord t k q l"] mlUsedBy_mlRecord unat_max_u64)
qed (simp add: mlSpent_record)

interpretation ml: withdraw_ledger mlRemaining mlRecord mlOk mlSpent "\<lambda>l. unat (capQuantums l)"
proof (unfold_locales, goal_cases)
  case (1 t l t') then show ?case by (auto simp: mlOk_def intro: order_trans)
next
  case (10 t t' k l) then show ?case by (simp add: mlSpent_def utcDay_eq_iff)
next
  case (11 t l t' k)
  then show ?case by (auto simp: mlSpent_def mlOk_def utcDay_eq_iff dest: dayNumber_mono)
next
  case (12 l) show ?case using u64_less_2p64 by blast
qed (auto simp: mlOk_def unat_mlRemaining mlSpent_rollover mlSpent_record mlSpent_other)

section \<open>Lemmas on amounts and caps\<close>

lemma HumanToQuantums_decimal:
  assumes "all_digits a" "a \<noteq> []" "all_digits b" "b \<noteq> []" "length b \<le> 6"
  shows "HumanToQuantums (a @ ''.'' @ b) =
    (let n = int (digits_val a * 10 ^ 6 + digits_val b * 10 ^ (6 - length b)) in
     if isUint64 n then Inr (of_int n)
     else Inl (Errorf ''usdc amount overflows uint64: %s'' [AStr (a @ ''.'' @ b)]))"
proof -
  let ?s = "a @ ''.'' @ b"
  have dig: "is_digit (hd a)" "is_digit (last b)"
    using assms by (auto simp: all_digits_iff)
  then have trim: "trimSpace ?s = ?s"
    using assms by (intro trimSpace_id) (simp_all add: is_digit_printable)
  have neg: "\<not> hasPrefix ?s ''-''"
    using dig(1) assms(2) by (cases a) (auto simp: hasPrefix_def)
  have "CHR ''.'' \<notin> set a" using assms(1) by (auto simp: all_digits_iff)
  then have cut: "cut CHR ''.'' ?s = Some (a, b)" by simp
  have "bigSetString (a @ b @ replicate (6 - length b) CHR ''0'') =
      Some (int (digits_val a * 10 ^ 6 + digits_val b * 10 ^ (6 - length b)))"
    using assms by (subst bigSetString_digits) (simp_all add: digits_val_append)
  with trim neg cut assms show ?thesis by (simp add: HumanToQuantums_def Let_def)
qed

lemma max_u64_div: "max_u64 div quantumsPerUSDC = 18446744073709"
  by (simp add: max_u64_def quantumsPerUSDC_def)

lemma capQuantumsOf_Some:
  "capQuantumsOf c = Some q \<longleftrightarrow> c \<noteq> 0 \<and> unat c * 1000000 < 2 ^ 64 \<and> unat q = unat c * 1000000"
proof -
  have lim: "c > max_u64 div quantumsPerUSDC \<longleftrightarrow> \<not> unat c * 1000000 < 2 ^ 64"
    by (auto simp: max_u64_div word_less_nat_alt)
  show ?thesis
  proof (cases "unat c * 1000000 < 2 ^ 64")
    case True
    then have "unat (c * quantumsPerUSDC) = unat c * 1000000"
      using unat_mult_small [of c quantumsPerUSDC] by (simp add: quantumsPerUSDC_def)
    then show ?thesis using True lim by (auto simp: capQuantumsOf_def word_unat_eq_iff)
  qed (simp add: capQuantumsOf_def lim)
qed

section \<open>Properties\<close>

text \<open>C28: rendering an amount in USDC and reading it back gives the amount, for every \<open>uint64\<close>.\<close>

theorem HumanToQuantums_QuantumsToHuman: "HumanToQuantums (QuantumsToHuman q) = Inr q"
proof -
  let ?w = "unat (q div quantumsPerUSDC)" and ?f = "unat (q mod quantumsPerUSDC)"
  have wf: "?w = unat q div 10 ^ 6" "?f = unat q mod 10 ^ 6"
    by (simp_all add: quantumsPerUSDC_def unat_div_distrib unat_mod_distrib)
  then have len: "length (zpad 6 (nat_dec ?f)) = 6"
    using length_nat_dec_le [of ?f 6] by simp
  have "int (?w * 10 ^ 6 + ?f) = int (unat q)" unfolding wf by (simp only: div_mult_mod_eq)
  then have "int (digits_val (nat_dec ?w) * 10 ^ 6 + digits_val (zpad 6 (nat_dec ?f)) * 10 ^ 0) = int (unat q)"
    by simp
  then show ?thesis
    unfolding QuantumsToHuman_def using len
    by (subst HumanToQuantums_decimal) (simp_all add: zpad_not_Nil Let_def del: length_zpad)
qed

text \<open>A decimal amount with at most six decimals is read exactly: the result is the amount times a
  million, and the only failure is a value outside \<open>uint64\<close>.\<close>

lemma HumanToQuantums_exact:
  assumes "all_digits a" "a \<noteq> []" "all_digits b" "b \<noteq> []" "length b \<le> 6"
  shows "HumanToQuantums (a @ ''.'' @ b) = Inr q \<longleftrightarrow>
    unat q * 10 ^ length b = digits_val (a @ b) * 10 ^ 6"
proof -
  let ?n = "digits_val a * 10 ^ 6 + digits_val b * 10 ^ (6 - length b)"
  have pow: "(10 :: nat) ^ (6 - length b) * 10 ^ length b = 10 ^ 6"
    using assms(5) by (simp flip: power_add)
  have "?n * 10 ^ length b = digits_val a * 10 ^ 6 * 10 ^ length b + digits_val b * 10 ^ 6"
    by (simp only: pow [symmetric] algebra_simps)
  then have "digits_val (a @ b) * 10 ^ 6 = ?n * 10 ^ length b"
    by (simp add: digits_val_append algebra_simps)
  then have val: "unat q * 10 ^ length b = digits_val (a @ b) * 10 ^ 6 \<longleftrightarrow> unat q = ?n" by simp
  have "HumanToQuantums (a @ ''.'' @ b) = Inr q \<longleftrightarrow> int (unat q) = int ?n"
    using isUint64_unat(1) [of q] of_int_u64_eq_iff [of "int ?n" q]
    unfolding HumanToQuantums_decimal [OF assms] Let_def
    by (cases "isUint64 (int ?n)") (metis sum.inject(2), metis Inl_Inr_False)
  then show ?thesis using val by (simp only: of_nat_eq_iff)
qed

text \<open>\<open>CheckPerTx\<close> passes exactly when the tool has no cap (none configured, or one too large for a
  \<open>uint64\<close> of quantums) or the amount is at most the cap in quantums.\<close>

lemma CheckPerTx_exact:
  "CheckPerTx cfg tool q = None \<longleftrightarrow>
     (let c = (if tool = ToolDeposit then unat (DepositMaxUSDC cfg)
               else if tool = ToolWithdraw then unat (WithdrawMaxUSDC cfg)
               else if tool = ToolTransfer then unat (TransferMaxUSDC cfg) else 0) in
      c = 0 \<or> 2 ^ 64 \<le> c * 1000000 \<or> unat q \<le> c * 1000000)"
proof -
  have cap: "(case capQuantumsOf c of None \<Rightarrow> True | Some capQ \<Rightarrow> \<not> q > capQ) \<longleftrightarrow>
      unat c = 0 \<or> 2 ^ 64 \<le> unat c * 1000000 \<or> unat q \<le> unat c * 1000000" for c
  proof (cases "capQuantumsOf c")
    case None
    then have "\<not> (c \<noteq> 0 \<and> unat c * 1000000 < 2 ^ 64)"
      by (auto simp: capQuantumsOf_def max_u64_div word_less_nat_alt split: if_splits)
    then show ?thesis using None by (auto simp: unat_eq_zero)
  next
    case (Some m)
    then have "c \<noteq> 0 \<and> unat c * 1000000 < 2 ^ 64 \<and> unat m = unat c * 1000000"
      by (rule capQuantumsOf_Some [THEN iffD1])
    then show ?thesis using Some by (auto simp: unat_eq_zero word_less_nat_alt)
  qed
  have "CheckPerTx cfg tool q = None \<longleftrightarrow>
      (case perToolCapQuantums cfg tool of None \<Rightarrow> True | Some capQ \<Rightarrow> \<not> q > capQ)"
    by (simp add: CheckPerTx_def split: option.splits)
  then show ?thesis by (simp add: perToolCapQuantums_def cap Let_def)
qed

text \<open>C7: whatever sequence of withdrawals the tenants request, in whatever order, with a clock that does
  not go back, no tenant's accepted withdrawals of one UTC day exceed the daily cap.\<close>

theorem daily_withdraw_cap_holds:
  assumes "dailyCapQuantums cfg = Some capQ" and "sorted (map fst es)"
  shows "daySum d k (fst (withdrawRun mlRemaining mlRecord cfg es (NewMemoryLedger (DailyWithdrawCapUSDC cfg))))
    \<le> unat (DailyWithdrawCapUSDC cfg) * 1000000"
proof -
  let ?l = "NewMemoryLedger (DailyWithdrawCapUSDC cfg)"
  have cap: "unat (capQuantums ?l) = unat (DailyWithdrawCapUSDC cfg) * 1000000"
    using assms(1) capQuantumsOf_Some [of "DailyWithdrawCapUSDC cfg"]
    by (auto simp: dailyCapQuantums_def capQuantumsOf_def NewMemoryLedger_def word_gt_0 split: if_splits)
  have "mlSpent (endOfDay d) k ?l + daySum d k (fst (withdrawRun mlRemaining mlRecord cfg es ?l)) \<le> unat (capQuantums ?l)"
  proof (rule ml.withdrawRun_within_cap [where ?t0.0 = "if es = [] then 0 else fst (hd es)"])
    show "mlOk (if es = [] then 0 else fst (hd es)) ?l" by (simp add: mlOk_def NewMemoryLedger_def)
    show "\<forall>e \<in> set es. (if es = [] then 0 else fst (hd es)) \<le> fst e" using assms(2) by (cases es) auto
    show "mlSpent (endOfDay d) k ?l \<le> unat (capQuantums ?l)" by (simp add: mlSpent_def NewMemoryLedger_def)
  qed (use assms in simp_all)
  then show ?thesis using cap by simp
qed

section \<open>The properties on concrete inputs\<close>

definition capConfig :: limitsConfig where
  "capConfig = \<lparr>DepositMaxUSDC = 0, WithdrawMaxUSDC = 80, TransferMaxUSDC = 0, DailyWithdrawCapUSDC = 100\<rparr>"

text \<open>Two tenants over midnight: the second request of \<open>a\<close> is over the cap, its third is in the next day.\<close>

definition capRequests :: "(time \<times> string \<times> u64 \<times> bool) list" where
  "capRequests = [(0, ''a'', 60000000, True), (hour, ''b'', 70000000, False), (2 * hour, ''a'', 60000000, True),
     (3 * hour, ''b'', 80000000, True), (25 * hour, ''a'', 60000000, True)]"

theorem daily_withdraw_cap_holds_witness:
  "fst (withdrawRun mlRemaining mlRecord capConfig capRequests (NewMemoryLedger 100)) =
     [(0, ''a'', 60000000), (3 * hour, ''b'', 80000000), (25 * hour, ''a'', 60000000)] \<and>
   daySum 0 ''a'' (fst (withdrawRun mlRemaining mlRecord capConfig capRequests (NewMemoryLedger 100))) \<le> 100000000"
proof -
  have "dailyCapQuantums capConfig = Some 100000000" "sorted (map fst capRequests)" by code_simp+
  from daily_withdraw_cap_holds [OF this, of 0 "''a''"]
  have "daySum 0 ''a'' (fst (withdrawRun mlRemaining mlRecord capConfig capRequests (NewMemoryLedger 100))) \<le> 100000000"
    by (simp add: capConfig_def)
  moreover have "fst (withdrawRun mlRemaining mlRecord capConfig capRequests (NewMemoryLedger 100)) =
     [(0, ''a'', 60000000), (3 * hour, ''b'', 80000000), (25 * hour, ''a'', 60000000)]"
    by (simp add: capRequests_def capConfig_def NewMemoryLedger_def Enforce_def CheckPerTx_def
        perToolCapQuantums_def dailyCapQuantums_def capQuantumsOf_def max_u64_def quantumsPerUSDC_def
        mlRemaining_def mlRecord_def mlRollover_def mlUsedBy_def Let_def utcDay_eq_iff dayNumber_def)
  ultimately show ?thesis by blast
qed

end
