(* ===== verification/TransferOut.thy ===== *)
theory TransferOut
  imports Go_Time "HOL-Library.AList"
begin

text \<open>
  Package \<open>lib/mcp/limits\<close>, file \<open>transferout.go\<close>: the daily transfer-out cap per owner and symbol,
  with its write-through file.

  The two-level Go maps are nested association lists with distinct keys. The store carries its file:
  \<open>sDisk\<close> is None when the file does not exist, and otherwise the JSON value in it (\<open>encoding/json\<close> is
  taken to be lossless on the snapshot) or a text that is not one. \<open>io\<close> tells how the n-th write of the
  file goes: the write of the temporary file or the rename may fail, and then the old file stays.
  A nil store is None.
\<close>

record symbolCap =
  scSymbol :: string
  scDecimals :: int
  scCapBase :: "int option"

record persistedSymbolCap =
  pcSymbol :: string
  pcDecimals :: int
  pcCapBase :: string

type_synonym 'v nested = "(string \<times> (string \<times> 'v) list) list"

record persistedTransferOut =
  pDay :: string
  pCaps :: "persistedSymbolCap nested"
  pUsed :: "string nested"

datatype fileText = Json persistedTransferOut | Malformed
datatype ioOutcome = IoOk | IoMarshalFails | IoWriteFails | IoRenameFails
datatype readOutcome = ReadOk | ReadFails

record transferOutStore =
  sPath :: string
  sDay :: string
  sCaps :: "symbolCap nested"
  sUsed :: "int nested"
  sDisk :: "fileText option"
  sWrites :: nat
  sErrs :: "err list"

section \<open>Two-level maps\<close>

definition inner :: "'v nested \<Rightarrow> string \<Rightarrow> (string \<times> 'v) list" where
  "inner m owner = (case map_of m owner of None \<Rightarrow> [] | Some b \<Rightarrow> b)"

definition lookup2 :: "'v nested \<Rightarrow> string \<Rightarrow> string \<Rightarrow> 'v option" where
  "lookup2 m owner symb = map_of (inner m owner) symb"

definition update2 :: "string \<Rightarrow> string \<Rightarrow> 'v \<Rightarrow> 'v nested \<Rightarrow> 'v nested" where
  "update2 owner symb v m = AList.update owner (AList.update symb v (inner m owner)) m"

definition delete2 :: "string \<Rightarrow> string \<Rightarrow> 'v nested \<Rightarrow> 'v nested" where
  "delete2 owner symb m = (case map_of m owner of None \<Rightarrow> m
     | Some b \<Rightarrow> AList.update owner (AList.delete symb b) m)"

definition nested_wf :: "'v nested \<Rightarrow> bool" where
  "nested_wf m \<longleftrightarrow> distinct (map fst m) \<and> (\<forall>(owner, b) \<in> set m. distinct (map fst b))"

section \<open>The store\<close>

definition NewMemoryTransferOutStore :: transferOutStore where
  "NewMemoryTransferOutStore =
     \<lparr>sPath = [], sDay = [], sCaps = [], sUsed = [], sDisk = None, sWrites = 0, sErrs = []\<rparr>"

definition reportErr :: "err \<Rightarrow> transferOutStore \<Rightarrow> transferOutStore" where
  "reportErr e s = s\<lparr>sErrs := sErrs s @ [e]\<rparr>"

definition persistCap :: "symbolCap \<Rightarrow> persistedSymbolCap" where
  "persistCap c = \<lparr>pcSymbol = scSymbol c, pcDecimals = scDecimals c,
     pcCapBase = (case scCapBase c of None \<Rightarrow> ''0'' | Some b \<Rightarrow> bigString b)\<rparr>"

text \<open>The snapshot loops: an owner with no symbols is left out.\<close>

definition snapNested :: "('v \<Rightarrow> 'p) \<Rightarrow> 'v nested \<Rightarrow> 'p nested" where
  "snapNested f m = map (\<lambda>(owner, b). (owner, map (\<lambda>(symb, v). (symb, f v)) b)) (filter (\<lambda>(owner, b). b \<noteq> []) m)"

definition snapshot :: "transferOutStore \<Rightarrow> persistedTransferOut" where
  "snapshot s = \<lparr>pDay = sDay s, pCaps = snapNested persistCap (sCaps s), pUsed = snapNested bigString (sUsed s)\<rparr>"

definition persistLocked :: "(nat \<Rightarrow> ioOutcome) \<Rightarrow> transferOutStore \<Rightarrow> transferOutStore" where
  "persistLocked io s =
     (if sPath s = [] then s
      else
        (let s' = s\<lparr>sWrites := sWrites s + 1\<rparr> in
         case io (sWrites s) of
           IoOk \<Rightarrow> s'\<lparr>sDisk := Some (Json (snapshot s))\<rparr>
         | IoMarshalFails \<Rightarrow> reportErr (Wrapf ''marshal transfer-out cap state: %w'' [] (Ext ''json'')) s'
         | IoWriteFails \<Rightarrow> reportErr (Wrapf ''write transfer-out cap file %s: %w'' [AStr (sPath s @ ''.tmp'')] (Ext ''os'')) s'
         | IoRenameFails \<Rightarrow> reportErr (Wrapf ''rename transfer-out cap file into place %s: %w'' [AStr (sPath s)] (Ext ''os'')) s'))"

definition storeRollover :: "(nat \<Rightarrow> ioOutcome) \<Rightarrow> time \<Rightarrow> transferOutStore \<Rightarrow> transferOutStore" where
  "storeRollover io now s =
     (let today = utcDay now in
      if sDay s = today then s else persistLocked io (s\<lparr>sDay := today, sUsed := []\<rparr>))"

definition SetCap :: "(nat \<Rightarrow> ioOutcome) \<Rightarrow> string \<Rightarrow> symbolCap \<Rightarrow> transferOutStore option \<Rightarrow> transferOutStore option" where
  "SetCap io owner c st = map_option (\<lambda>s.
     persistLocked io (s\<lparr>sCaps := update2 owner (scSymbol c) c (sCaps s)\<rparr>)) st"

definition SetUnlimited :: "(nat \<Rightarrow> ioOutcome) \<Rightarrow> string \<Rightarrow> string \<Rightarrow> transferOutStore option \<Rightarrow> transferOutStore option" where
  "SetUnlimited io owner symbol st = map_option (\<lambda>s.
     persistLocked io (s\<lparr>sCaps := delete2 owner symbol (sCaps s)\<rparr>)) st"

definition Cap :: "transferOutStore option \<Rightarrow> string \<Rightarrow> string \<Rightarrow> symbolCap option" where
  "Cap st owner symbol = (case st of None \<Rightarrow> None | Some s \<Rightarrow> lookup2 (sCaps s) owner symbol)"

definition usedOf :: "transferOutStore \<Rightarrow> string \<Rightarrow> string \<Rightarrow> int" where
  "usedOf s owner symbol = (case lookup2 (sUsed s) owner symbol of None \<Rightarrow> 0 | Some v \<Rightarrow> v)"

definition Used :: "(nat \<Rightarrow> ioOutcome) \<Rightarrow> time \<Rightarrow> transferOutStore option \<Rightarrow> string \<Rightarrow> string
    \<Rightarrow> int \<times> transferOutStore option" where
  "Used io now st owner symbol =
     (case st of
        None \<Rightarrow> (0, None)
      | Some s \<Rightarrow> (let s = storeRollover io now s in (usedOf s owner symbol, Some s)))"

text \<open>\<open>Record\<close>; a nil amount is None.\<close>

definition storeRecord :: "(nat \<Rightarrow> ioOutcome) \<Rightarrow> time \<Rightarrow> string \<Rightarrow> string \<Rightarrow> int option \<Rightarrow> transferOutStore option
    \<Rightarrow> transferOutStore option" where
  "storeRecord io now owner symbol amt st =
     (case (st, amt) of
        (Some s, Some a) \<Rightarrow>
          if a \<le> 0 then st
          else (let s = storeRollover io now s in
                Some (persistLocked io (s\<lparr>sUsed := update2 owner symbol (usedOf s owner symbol + a) (sUsed s)\<rparr>)))
      | _ \<Rightarrow> st)"

definition baseToHuman :: "int option \<Rightarrow> int \<Rightarrow> string" where
  "baseToHuman base decimals =
     (case base of
        None \<Rightarrow> ''0''
      | Some b \<Rightarrow>
          if decimals \<le> 0 then bigString b
          else
            (let absb = nat \<bar>b\<bar>; divisor = 10 ^ nat decimals;
                 whole = absb div divisor; frac = absb mod divisor;
                 out = nat_dec whole @
                   (if 0 < frac then ''.'' @ trimRight CHR ''0'' (zpad (nat decimals) (nat_dec frac)) else []) in
             if b < 0 then ''-'' @ out else out))"

definition Check :: "(nat \<Rightarrow> ioOutcome) \<Rightarrow> time \<Rightarrow> string \<Rightarrow> string \<Rightarrow> int option \<Rightarrow> transferOutStore option
    \<Rightarrow> err option \<times> transferOutStore option" where
  "Check io now owner symbol amt st =
     (case (st, amt) of
        (Some s, Some a) \<Rightarrow>
          if a \<le> 0 then (None, st)
          else
            (let s = storeRollover io now s in
             case lookup2 (sCaps s) owner symbol of
               None \<Rightarrow> (None, Some s)
             | Some c \<Rightarrow>
                 (case scCapBase c of
                    None \<Rightarrow> (None, Some s)
                  | Some cap \<Rightarrow>
                      (let used = usedOf s owner symbol in
                       if used + a > cap
                       then (Some (ErrSymbolCapExceeded (scSymbol c) (baseToHuman (Some cap) (scDecimals c))
                               (baseToHuman (Some a) (scDecimals c)) (baseToHuman (Some used) (scDecimals c))), Some s)
                       else (None, Some s))))
      | _ \<Rightarrow> (None, st))"

section \<open>Loading the file\<close>

fun loadSyms :: "(string \<Rightarrow> 'p \<Rightarrow> 'v res) \<Rightarrow> string \<Rightarrow> (string \<times> 'p) list \<Rightarrow> 'v nested \<Rightarrow> 'v nested res" where
  "loadSyms parse owner [] m = Inr m"
| "loadSyms parse owner ((symb, p) # ps) m =
     (case parse symb p of Inl e \<Rightarrow> Inl e | Inr v \<Rightarrow> loadSyms parse owner ps (update2 owner symb v m))"

fun loadOwners :: "(string \<Rightarrow> string \<Rightarrow> 'p \<Rightarrow> 'v res) \<Rightarrow> 'p nested \<Rightarrow> 'v nested \<Rightarrow> 'v nested res" where
  "loadOwners parse [] m = Inr m"
| "loadOwners parse ((owner, bySym) # os) m =
     (case loadSyms (parse owner) owner bySym m of Inl e \<Rightarrow> Inl e | Inr m' \<Rightarrow> loadOwners parse os m')"

definition parseCap :: "string \<Rightarrow> string \<Rightarrow> string \<Rightarrow> persistedSymbolCap \<Rightarrow> symbolCap res" where
  "parseCap path owner symb pc =
     (case bigSetString (pcCapBase pc) of
        None \<Rightarrow> Inl (Errorf ''transfer-out cap file %s: owner %s symbol %s: bad cap_base %q''
                  [AStr path, AStr owner, AStr symb, AStr (pcCapBase pc)])
      | Some b \<Rightarrow> Inr \<lparr>scSymbol = pcSymbol pc, scDecimals = pcDecimals pc, scCapBase = Some b\<rparr>)"

definition parseUsed :: "string \<Rightarrow> string \<Rightarrow> string \<Rightarrow> string \<Rightarrow> int res" where
  "parseUsed path owner symb amt =
     (case bigSetString amt of
        None \<Rightarrow> Inl (Errorf ''transfer-out cap file %s: owner %s symbol %s: bad used amount %q''
                  [AStr path, AStr owner, AStr symb, AStr amt])
      | Some v \<Rightarrow> Inr v)"

text \<open>\<open>LoadMemoryTransferOutStore\<close> on the file as it is on disk; \<open>rd\<close> tells whether an existing file can be read.\<close>

definition LoadMemoryTransferOutStore :: "readOutcome \<Rightarrow> string \<Rightarrow> fileText option \<Rightarrow> transferOutStore res" where
  "LoadMemoryTransferOutStore rd path disk =
     (let s = NewMemoryTransferOutStore\<lparr>sPath := path, sDisk := disk\<rparr> in
      if path = [] then Inr s
      else
        (case disk of
           None \<Rightarrow> Inr s
         | Some txt \<Rightarrow>
             if rd = ReadFails then Inl (Wrapf ''read transfer-out cap file %s: %w'' [AStr path] (Ext ''os''))
             else
               (case txt of
                  Malformed \<Rightarrow> Inl (Wrapf ''parse transfer-out cap file %s: %w'' [AStr path] (Ext ''json''))
                | Json snap \<Rightarrow>
                    rbind (loadOwners (parseCap path) (pCaps snap) []) (\<lambda>caps.
                    rbind (loadOwners (parseUsed path) (pUsed snap) []) (\<lambda>used.
                    Inr (s\<lparr>sDay := pDay snap, sCaps := caps, sUsed := used\<rparr>))))))"

section \<open>Lemmas on two-level maps\<close>

lemma map_of_AList_delete: "map_of (AList.delete k al) k' = (if k' = k then None else map_of al k')"
  by (simp add: delete_conv)

lemma inner_update:
  "inner (AList.update owner b m) owner' = (if owner' = owner then b else inner m owner')"
  by (simp add: inner_def update_conv')

lemma lookup2_update2 [simp]:
  "lookup2 (update2 owner symb v m) owner' symb' =
     (if owner' = owner \<and> symb' = symb then Some v else lookup2 m owner' symb')"
  by (simp add: lookup2_def update2_def inner_update update_conv')

lemma lookup2_delete2 [simp]:
  "lookup2 (delete2 owner symb m) owner' symb' =
     (if owner' = owner \<and> symb' = symb then None else lookup2 m owner' symb')"
proof (cases "map_of m owner")
  case None
  then show ?thesis by (auto simp: lookup2_def delete2_def inner_def)
next
  case (Some b)
  then have "inner m owner = b" by (simp add: inner_def)
  with Some show ?thesis by (simp add: lookup2_def delete2_def inner_update map_of_AList_delete)
qed

lemma lookup2_Nil [simp]: "lookup2 [] owner symb = None"
  by (simp add: lookup2_def inner_def)

lemma nested_wf_Nil [simp]: "nested_wf []"
  by (simp add: nested_wf_def)

lemma set_AList_update: "set (AList.update k v xs) \<subseteq> insert (k, v) (set xs)"
  by (induction xs) auto

lemma nested_wf_inner: "nested_wf m \<Longrightarrow> distinct (map fst (inner m owner))"
  by (auto simp: nested_wf_def inner_def split: option.splits dest!: map_of_SomeD)

lemma nested_wf_AList_update:
  "nested_wf m \<Longrightarrow> distinct (map fst b) \<Longrightarrow> nested_wf (AList.update owner b m)"
  using set_AList_update [of owner b m] by (fastforce simp: nested_wf_def distinct_update)

lemma nested_wf_update2 [simp]: "nested_wf m \<Longrightarrow> nested_wf (update2 owner symb v m)"
  by (simp add: update2_def nested_wf_AList_update distinct_update nested_wf_inner)

lemma nested_wf_delete2 [simp]: "nested_wf m \<Longrightarrow> nested_wf (delete2 owner symb m)"
  using nested_wf_inner [of m owner]
  by (auto simp: delete2_def inner_def intro!: nested_wf_AList_update distinct_delete split: option.splits)

lemma nested_wf_Cons:
  "nested_wf ((owner, b) # m) \<longleftrightarrow> owner \<notin> fst ` set m \<and> distinct (map fst b) \<and> nested_wf m"
  by (auto simp: nested_wf_def)

lemma inner_Cons: "inner ((owner, b) # m) owner' = (if owner' = owner then b else inner m owner')"
  by (simp add: inner_def)

lemma inner_not_in: "owner \<notin> fst ` set m \<Longrightarrow> inner m owner = []"
  by (simp add: inner_def map_of_eq_None_iff [THEN iffD2])

section \<open>The snapshot and its reload\<close>

lemma map_of_snd: "map_of (map (\<lambda>(y, v). (y, f v)) xs) y = map_option f (map_of xs y)"
  by (induction xs) auto

lemma snapNested_Cons:
  "snapNested f ((owner, b) # m) =
     (if b = [] then snapNested f m else (owner, map (\<lambda>(y, v). (y, f v)) b) # snapNested f m)"
  by (simp add: snapNested_def)

lemma fst_snapNested: "fst ` set (snapNested f m) \<subseteq> fst ` set m"
  by (force simp: snapNested_def)

lemma inner_snapNested:
  "nested_wf m \<Longrightarrow> inner (snapNested f m) owner = map (\<lambda>(y, v). (y, f v)) (inner m owner)"
proof (induction m)
  case (Cons x m)
  obtain o1 b where x: "x = (o1, b)" by (cases x)
  have "o1 \<notin> fst ` set (snapNested f m)"
    using Cons.prems fst_snapNested [of f m] by (auto simp: x nested_wf_Cons)
  with Cons show ?case by (auto simp: x snapNested_Cons inner_Cons nested_wf_Cons inner_not_in)
qed (simp add: snapNested_def inner_def)

lemma lookup2_snapNested:
  "nested_wf m \<Longrightarrow> lookup2 (snapNested f m) owner symb = map_option f (lookup2 m owner symb)"
  by (simp add: lookup2_def inner_snapNested map_of_snd)

lemma nested_wf_snapNested: "nested_wf m \<Longrightarrow> nested_wf (snapNested f m)"
proof (induction m)
  case (Cons x m)
  obtain o1 b where x: "x = (o1, b)" by (cases x)
  have "map fst (map (\<lambda>(y, v). (y, f v)) b) = map fst b" by (simp add: case_prod_beta comp_def)
  then show ?case
    using Cons fst_snapNested [of f m] by (auto simp: x snapNested_Cons nested_wf_Cons simp del: map_map)
qed (simp add: snapNested_def)

text \<open>Loading the entries of one owner, and of all owners.\<close>

lemma loadSyms_ok:
  assumes "\<forall>(y, p) \<in> set ps. parse y p = Inr (g p)" "distinct (map fst ps)" "nested_wf m"
  shows "\<exists>m'. loadSyms parse owner ps m = Inr m' \<and> nested_wf m' \<and>
    (\<forall>owner' y. lookup2 m' owner' y =
      (if owner' = owner \<and> y \<in> fst ` set ps then map_option g (map_of ps y) else lookup2 m owner' y))"
  using assms
proof (induction ps arbitrary: m)
  case (Cons x ps)
  obtain y p where x: "x = (y, p)" by (cases x)
  obtain m' where m': "loadSyms parse owner ps (update2 owner y (g p) m) = Inr m'" "nested_wf m'"
    "\<forall>owner' z. lookup2 m' owner' z = (if owner' = owner \<and> z \<in> fst ` set ps then map_option g (map_of ps z)
        else lookup2 (update2 owner y (g p) m) owner' z)"
    using Cons.IH [of "update2 owner y (g p) m"] Cons.prems by (auto simp: x)
  have "y \<notin> fst ` set ps" using Cons.prems by (auto simp: x)
  then show ?case using m' Cons.prems by (auto simp: x)
qed simp

lemma loadOwners_ok:
  assumes "\<forall>(o1, b) \<in> set os. \<forall>(y, p) \<in> set b. parse o1 y p = Inr (g p)" "nested_wf os" "nested_wf m"
    and "\<forall>o1 \<in> fst ` set os. \<forall>y. lookup2 m o1 y = None"
  shows "\<exists>m'. loadOwners parse os m = Inr m' \<and> nested_wf m' \<and>
    (\<forall>o1 y. lookup2 m' o1 y =
      (if o1 \<in> fst ` set os then map_option g (lookup2 os o1 y) else lookup2 m o1 y))"
  using assms
proof (induction os arbitrary: m)
  case (Cons x os)
  obtain o1 b where x: "x = (o1, b)" by (cases x)
  have d: "distinct (map fst b)" "o1 \<notin> fst ` set os" "nested_wf os"
    using Cons.prems(2) by (simp_all add: x nested_wf_Cons)
  obtain m1 where m1: "loadSyms (parse o1) o1 b m = Inr m1" "nested_wf m1"
    "\<forall>o2 y. lookup2 m1 o2 y = (if o2 = o1 \<and> y \<in> fst ` set b then map_option g (map_of b y) else lookup2 m o2 y)"
    using loadSyms_ok [of b "parse o1" g m o1] Cons.prems d by (auto simp: x)
  obtain m2 where m2: "loadOwners parse os m1 = Inr m2" "nested_wf m2"
    "\<forall>o2 y. lookup2 m2 o2 y = (if o2 \<in> fst ` set os then map_option g (lookup2 os o2 y) else lookup2 m1 o2 y)"
  proof -
    have "\<forall>o2 \<in> fst ` set os. \<forall>y. lookup2 m1 o2 y = None"
      using m1(3) d(2) Cons.prems(4) by (auto simp: x)
    then show thesis using that Cons.IH [of m1] Cons.prems(1) d(3) m1(2) by (auto simp: x)
  qed
  have "lookup2 m2 o2 y = (if o2 \<in> fst ` set (x # os) then map_option g (lookup2 (x # os) o2 y) else lookup2 m o2 y)"
    for o2 y
    using m1(3) m2(3) d(2) Cons.prems(4) map_of_eq_None_iff [of b y]
    by (auto simp: x lookup2_def [of "_ # _"] inner_Cons lookup2_def [of os] split: if_splits)
  then show ?case using m1 m2 by (auto simp: x)
qed simp

text \<open>A snapshot represents a store when it has the same day and, entry by entry, the rendered amounts.\<close>

definition represents :: "persistedTransferOut \<Rightarrow> transferOutStore \<Rightarrow> bool" where
  "represents snap s \<longleftrightarrow> pDay snap = sDay s \<and> nested_wf (pCaps snap) \<and> nested_wf (pUsed snap) \<and>
     (\<forall>o1 y. lookup2 (pCaps snap) o1 y = map_option persistCap (lookup2 (sCaps s) o1 y)) \<and>
     (\<forall>o1 y. lookup2 (pUsed snap) o1 y = map_option bigString (lookup2 (sUsed s) o1 y))"

text \<open>Every configured cap is a number (the tool that sets caps never stores a nil one).\<close>

definition caps_set :: "transferOutStore \<Rightarrow> bool" where
  "caps_set s \<longleftrightarrow> (\<forall>o1 y c. lookup2 (sCaps s) o1 y = Some c \<longrightarrow> scCapBase c \<noteq> None)"

text \<open>Two stores with the same limits and the same usage.\<close>

definition same_limits :: "transferOutStore \<Rightarrow> transferOutStore \<Rightarrow> bool" where
  "same_limits s s' \<longleftrightarrow> sDay s' = sDay s \<and> (\<forall>o1 y. lookup2 (sCaps s') o1 y = lookup2 (sCaps s) o1 y) \<and>
     (\<forall>o1 y. lookup2 (sUsed s') o1 y = lookup2 (sUsed s) o1 y)"

lemma represents_snapshot:
  "nested_wf (sCaps s) \<Longrightarrow> nested_wf (sUsed s) \<Longrightarrow> represents (snapshot s) s"
  by (simp add: represents_def snapshot_def nested_wf_snapNested lookup2_snapNested)

lemma parseCap_persistCap:
  "scCapBase c \<noteq> None \<Longrightarrow> parseCap path o1 y (persistCap c) = Inr c"
  by (auto simp: parseCap_def persistCap_def)

lemma parseUsed_bigString: "parseUsed path o1 y (bigString v) = Inr v"
  by (simp add: parseUsed_def)

lemma lookup2_in_set:
  "nested_wf m \<Longrightarrow> (o1, b) \<in> set m \<Longrightarrow> (y, p) \<in> set b \<Longrightarrow> lookup2 m o1 y = Some p"
  by (auto simp: nested_wf_def lookup2_def inner_def)

lemma lookup2_not_owner: "o1 \<notin> fst ` set m \<Longrightarrow> lookup2 m o1 y = None"
  by (simp add: lookup2_def inner_not_in)

text \<open>Loading what represents a map gives the map back.\<close>

lemma loadOwners_represents:
  assumes "nested_wf pm" "\<forall>o1 y. lookup2 pm o1 y = map_option f (lookup2 m o1 y)"
    and "\<forall>o1 y v. lookup2 m o1 y = Some v \<longrightarrow> parse o1 y (f v) = Inr v \<and> g (f v) = v"
  shows "\<exists>m'. loadOwners parse pm [] = Inr m' \<and> nested_wf m' \<and> (\<forall>o1 y. lookup2 m' o1 y = lookup2 m o1 y)"
proof -
  have "parse o1 y p = Inr (g p)" if "(o1, b) \<in> set pm" "(y, p) \<in> set b" for o1 b y p
  proof -
    have "lookup2 pm o1 y = Some p" using lookup2_in_set [OF assms(1) that] .
    then obtain v where "lookup2 m o1 y = Some v" "p = f v" using assms(2) by auto
    then show ?thesis using assms(3) by metis
  qed
  then obtain m' where m': "loadOwners parse pm [] = Inr m'" "nested_wf m'"
    "\<forall>o1 y. lookup2 m' o1 y = (if o1 \<in> fst ` set pm then map_option g (lookup2 pm o1 y) else lookup2 [] o1 y)"
    using loadOwners_ok [of pm parse g "[]"] assms(1) by fastforce
  have "lookup2 m' o1 y = lookup2 m o1 y" for o1 y
  proof -
    have "lookup2 m' o1 y = map_option g (lookup2 pm o1 y)"
      using m'(3) lookup2_not_owner [of o1 pm y] by auto
    then show ?thesis using assms(2,3) by (cases "lookup2 m o1 y") auto
  qed
  then show ?thesis using m' by blast
qed

lemma load_represents:
  assumes "represents snap s" "caps_set s" "path \<noteq> []"
  shows "\<exists>s'. LoadMemoryTransferOutStore ReadOk path (Some (Json snap)) = Inr s' \<and> same_limits s s' \<and>
    nested_wf (sCaps s') \<and> nested_wf (sUsed s') \<and> sPath s' = path \<and> sDisk s' = Some (Json snap)"
proof -
  let ?g = "\<lambda>p. \<lparr>scSymbol = pcSymbol p, scDecimals = pcDecimals p, scCapBase = bigSetString (pcCapBase p)\<rparr>"
  have g: "?g (persistCap c) = c" if "scCapBase c \<noteq> None" for c
    using that by (auto simp: persistCap_def)
  have "\<forall>o1 y v. lookup2 (sCaps s) o1 y = Some v \<longrightarrow> parseCap path o1 y (persistCap v) = Inr v \<and> ?g (persistCap v) = v"
    using assms(2) g parseCap_persistCap unfolding caps_set_def by metis
  then obtain caps where caps: "loadOwners (parseCap path) (pCaps snap) [] = Inr caps" "nested_wf caps"
    "\<forall>o1 y. lookup2 caps o1 y = lookup2 (sCaps s) o1 y"
    using loadOwners_represents [of "pCaps snap" persistCap "sCaps s" "parseCap path" ?g] assms(1)
    unfolding represents_def by blast
  obtain used where used: "loadOwners (parseUsed path) (pUsed snap) [] = Inr used" "nested_wf used"
    "\<forall>o1 y. lookup2 used o1 y = lookup2 (sUsed s) o1 y"
    using loadOwners_represents [of "pUsed snap" bigString "sUsed s" "parseUsed path" "\<lambda>p. the (bigSetString p)"] assms(1)
    by (auto simp: represents_def parseUsed_bigString)
  show ?thesis
    using caps used assms(1,3)
    by (simp add: LoadMemoryTransferOutStore_def Let_def same_limits_def NewMemoryTransferOutStore_def represents_def)
qed

section \<open>What each operation does to limits and usage\<close>

text \<open>The usage of the UTC day of \<open>now\<close>, as \<open>Used\<close> reports it.\<close>

definition todayUsed :: "time \<Rightarrow> transferOutStore \<Rightarrow> string \<Rightarrow> string \<Rightarrow> int" where
  "todayUsed now s o1 y = (if sDay s = utcDay now then usedOf s o1 y else 0)"

lemma persistLocked_simps [simp]:
  "sCaps (persistLocked io s) = sCaps s" "sUsed (persistLocked io s) = sUsed s"
  "sDay (persistLocked io s) = sDay s" "sPath (persistLocked io s) = sPath s"
  by (simp_all add: persistLocked_def Let_def reportErr_def split: ioOutcome.splits)

lemma storeRollover_simps [simp]:
  "sCaps (storeRollover io now s) = sCaps s" "sDay (storeRollover io now s) = utcDay now"
  "sPath (storeRollover io now s) = sPath s"
  "usedOf (storeRollover io now s) o1 y = todayUsed now s o1 y"
  by (simp_all add: storeRollover_def Let_def todayUsed_def usedOf_def)

lemma usedOf_update2:
  "usedOf (s\<lparr>sUsed := update2 o1 y v m\<rparr>) o2 z = (if o2 = o1 \<and> z = y then v else usedOf (s\<lparr>sUsed := m\<rparr>) o2 z)"
  by (simp add: usedOf_def)

lemma usedOf_cong: "sUsed s = sUsed s' \<Longrightarrow> usedOf s o1 y = usedOf s' o1 y"
  by (simp add: usedOf_def)

lemma storeRecord_used:
  assumes "0 < a"
  shows "\<exists>s'. storeRecord io now o1 y (Some a) (Some s) = Some s' \<and> sCaps s' = sCaps s \<and> sDay s' = utcDay now \<and>
    (\<forall>o2 z. usedOf s' o2 z = todayUsed now s o2 z + (if o2 = o1 \<and> z = y then a else 0))"
proof -
  let ?r = "storeRollover io now s"
  let ?s = "persistLocked io (?r\<lparr>sUsed := update2 o1 y (usedOf ?r o1 y + a) (sUsed ?r)\<rparr>)"
  have "usedOf ?s o2 z = todayUsed now s o2 z + (if o2 = o1 \<and> z = y then a else 0)" for o2 z
  proof -
    have "usedOf ?s o2 z = usedOf (?r\<lparr>sUsed := update2 o1 y (usedOf ?r o1 y + a) (sUsed ?r)\<rparr>) o2 z"
      by (rule usedOf_cong) simp
    then show ?thesis by (auto simp: usedOf_update2)
  qed
  then show ?thesis using assms by (simp add: storeRecord_def Let_def)
qed

section \<open>The store under any sequence of operations\<close>

text \<open>
  The operations the tools perform on the store, in any order: setting and removing caps, asking for the
  usage, a transfer (checked, and recorded when the chain accepts it: the last component), and a restart of
  the server, which loads the file. The trace lists the transfers that went through, with the cap in force.
\<close>

datatype storeEvent =
    EvSetCap string symbolCap
  | EvUnlimited string string
  | EvUsed string string
  | EvTransfer string string int bool
  | EvRestart

type_synonym outTrace = "(time \<times> string \<times> string \<times> int \<times> int option) list"

definition capInForce :: "transferOutStore \<Rightarrow> string \<Rightarrow> string \<Rightarrow> int option" where
  "capInForce s o1 y = Option.bind (Cap (Some s) o1 y) scCapBase"

fun storeStep :: "(nat \<Rightarrow> ioOutcome) \<Rightarrow> time \<times> storeEvent \<Rightarrow> outTrace \<times> transferOutStore \<Rightarrow> outTrace \<times> transferOutStore" where
  "storeStep io (t, EvSetCap o1 c) (tr, s) = (tr, the (SetCap io o1 c (Some s)))"
| "storeStep io (t, EvUnlimited o1 y) (tr, s) = (tr, the (SetUnlimited io o1 y (Some s)))"
| "storeStep io (t, EvUsed o1 y) (tr, s) = (tr, the (snd (Used io t (Some s) o1 y)))"
| "storeStep io (t, EvTransfer o1 y a accepted) (tr, s) =
     (case Check io t o1 y (Some a) (Some s) of
        (e, s') \<Rightarrow>
          if e = None \<and> accepted
          then (if 0 < a then tr @ [(t, o1, y, a, capInForce s o1 y)] else tr, the (storeRecord io t o1 y (Some a) s'))
          else (tr, the s'))"
| "storeStep io (t, EvRestart) (tr, s) =
     (tr, case LoadMemoryTransferOutStore ReadOk (sPath s) (sDisk s) of Inl e \<Rightarrow> s | Inr s' \<Rightarrow> s')"

definition storeRun :: "(nat \<Rightarrow> ioOutcome) \<Rightarrow> (time \<times> storeEvent) list \<Rightarrow> transferOutStore \<Rightarrow> outTrace \<times> transferOutStore" where
  "storeRun io es s = foldl (\<lambda>st e. storeStep io e st) ([], s) es"

definition outSum :: "int \<Rightarrow> string \<Rightarrow> string \<Rightarrow> outTrace \<Rightarrow> int" where
  "outSum d o1 y tr = sum_list (map (\<lambda>(t, o2, z, a, c). if o2 = o1 \<and> z = y \<and> dayNumber t = d then a else 0) tr)"

text \<open>Each transfer of the trace was within the cap in force, counting all transfers of its day before it.\<close>

definition within_caps :: "outTrace \<Rightarrow> bool" where
  "within_caps tr \<longleftrightarrow> (\<forall>i < length tr. case tr ! i of (t, o1, y, a, c) \<Rightarrow>
     (case c of None \<Rightarrow> True | Some cap \<Rightarrow> outSum (dayNumber t) o1 y (take (Suc i) tr) \<le> cap))"

definition synced :: "transferOutStore \<Rightarrow> bool" where
  "synced s \<longleftrightarrow> (case sDisk s of
      None \<Rightarrow> sDay s = [] \<and> (\<forall>o1 y. lookup2 (sCaps s) o1 y = None \<and> lookup2 (sUsed s) o1 y = None)
    | Some (Json snap) \<Rightarrow> represents snap s
    | Some Malformed \<Rightarrow> False)"

definition store_wf :: "transferOutStore \<Rightarrow> bool" where
  "store_wf s \<longleftrightarrow> nested_wf (sCaps s) \<and> nested_wf (sUsed s) \<and> caps_set s \<and> sPath s \<noteq> [] \<and> synced s"

text \<open>The usage of any day from \<open>t\<close> on is the sum of the trace.\<close>

definition usage_exact :: "time \<Rightarrow> outTrace \<Rightarrow> transferOutStore \<Rightarrow> bool" where
  "usage_exact t tr s \<longleftrightarrow>
     (sDay s = [] \<or> (\<exists>t0 \<le> t. sDay s = utcDay t0)) \<and>
     (\<forall>e \<in> set tr. fst e \<le> t) \<and>
     (\<forall>now \<ge> t. \<forall>o1 y. todayUsed now s o1 y = outSum (dayNumber now) o1 y tr)"

lemma outSum_append [simp]: "outSum d o1 y (tr @ tr') = outSum d o1 y tr + outSum d o1 y tr'"
  by (simp add: outSum_def)

lemma outSum_simps [simp]:
  "outSum d o1 y [] = 0"
  "outSum d o1 y ((t, o2, z, a, c) # tr) = (if o2 = o1 \<and> z = y \<and> dayNumber t = d then a else 0) + outSum d o1 y tr"
  by (simp_all add: outSum_def)

lemma within_caps_snoc:
  "within_caps (tr @ [(t, o1, y, a, c)]) \<longleftrightarrow>
     within_caps tr \<and> (case c of None \<Rightarrow> True | Some cap \<Rightarrow> outSum (dayNumber t) o1 y tr + a \<le> cap)"
  unfolding within_caps_def by (simp add: All_less_Suc nth_append conj_commute)

lemma Check_verdict:
  assumes "0 < a"
  shows "Check io now o1 y (Some a) (Some s) =
    ((case capInForce s o1 y of None \<Rightarrow> None
      | Some cap \<Rightarrow> if todayUsed now s o1 y + a > cap
          then Some (let c = the (lookup2 (sCaps s) o1 y) in
                 ErrSymbolCapExceeded (scSymbol c) (baseToHuman (Some cap) (scDecimals c))
                   (baseToHuman (Some a) (scDecimals c)) (baseToHuman (Some (todayUsed now s o1 y)) (scDecimals c)))
          else None), Some (storeRollover io now s))"
  using assms
  by (simp add: Check_def Let_def capInForce_def Cap_def split: option.splits)

lemma Check_nonpos: "a \<le> 0 \<Longrightarrow> Check io now o1 y (Some a) st = (None, st)"
  by (simp add: Check_def split: option.splits)

lemma todayUsed_cong:
  "same_limits s s' \<Longrightarrow> todayUsed now s' o1 y = todayUsed now s o1 y"
  by (simp add: todayUsed_def same_limits_def usedOf_def)

lemma todayUsed_rollover:
  assumes "sDay s = [] \<or> (\<exists>t0 \<le> t. sDay s = utcDay t0)" "t \<le> now"
  shows "todayUsed now (storeRollover io t s) o1 y = todayUsed now s o1 y"
proof (cases "utcDay now = utcDay t")
  case False
  then have "sDay s \<noteq> utcDay now"
    using assms dayNumber_mono by (auto simp: utcDay_eq_iff) (metis order_antisym)
  then show ?thesis using False by (simp add: todayUsed_def [of now])
next
  case True
  then show ?thesis by (simp add: todayUsed_def)
qed

text \<open>The file system in order: every write succeeds.\<close>

abbreviation writesOk :: "nat \<Rightarrow> ioOutcome" where
  "writesOk \<equiv> (\<lambda>n. IoOk)"

text \<open>Each operation keeps the store well formed and its file in step, when writes succeed.\<close>

lemma synced_persist:
  assumes "nested_wf (sCaps s)" "nested_wf (sUsed s)" "sPath s \<noteq> []"
  shows "synced (persistLocked writesOk s)"
  using assms represents_snapshot [of s]
  by (simp add: synced_def persistLocked_def represents_def)

lemma store_wf_persist:
  assumes "nested_wf (sCaps s)" "nested_wf (sUsed s)" "sPath s \<noteq> []" "caps_set s"
  shows "store_wf (persistLocked writesOk s)"
  using assms synced_persist [OF assms(1-3)] by (simp add: store_wf_def caps_set_def)

lemma store_wf_rollover:
  assumes "store_wf s"
  shows "store_wf (storeRollover writesOk now s)"
proof (cases "sDay s = utcDay now")
  case False
  have "store_wf (persistLocked writesOk (s\<lparr>sDay := utcDay now, sUsed := []\<rparr>))"
    by (rule store_wf_persist) (use assms in \<open>simp_all add: store_wf_def caps_set_def\<close>)
  then show ?thesis using False by (simp add: storeRollover_def)
qed (use assms in \<open>simp add: storeRollover_def\<close>)

lemma store_wf_record:
  assumes "store_wf s"
  shows "store_wf (the (storeRecord writesOk now o1 y (Some a) (Some s)))"
proof (cases "a \<le> 0")
  case False
  let ?r = "storeRollover writesOk now s"
  have r: "store_wf ?r" using assms by (rule store_wf_rollover)
  have "store_wf (persistLocked writesOk (?r\<lparr>sUsed := update2 o1 y (usedOf ?r o1 y + a) (sUsed ?r)\<rparr>))"
    by (rule store_wf_persist) (use r in \<open>simp_all add: store_wf_def caps_set_def\<close>)
  then show ?thesis using False by (simp add: storeRecord_def Let_def)
qed (use assms in \<open>simp add: storeRecord_def\<close>)

lemma store_wf_restart:
  assumes "store_wf s"
  shows "\<exists>s'. LoadMemoryTransferOutStore ReadOk (sPath s) (sDisk s) = Inr s' \<and> store_wf s' \<and> same_limits s s'"
proof (cases "sDisk s")
  case None
  then show ?thesis
    using assms
    by (simp add: store_wf_def synced_def LoadMemoryTransferOutStore_def Let_def
        NewMemoryTransferOutStore_def same_limits_def caps_set_def)
next
  case (Some ft)
  then obtain snap where snap: "sDisk s = Some (Json snap)" "represents snap s"
    using assms by (cases ft) (auto simp: store_wf_def synced_def)
  obtain s' where s': "LoadMemoryTransferOutStore ReadOk (sPath s) (Some (Json snap)) = Inr s'" "same_limits s s'"
    "nested_wf (sCaps s')" "nested_wf (sUsed s')" "sPath s' = sPath s" "sDisk s' = Some (Json snap)"
    using load_represents [OF snap(2)] assms by (auto simp: store_wf_def)
  then have "store_wf s'"
    using assms snap(2) by (simp add: store_wf_def synced_def caps_set_def same_limits_def represents_def)
  then show ?thesis using s' snap by auto
qed

lemma store_wf_step:
  assumes "store_wf s" "\<forall>o1 c. ev = EvSetCap o1 c \<longrightarrow> scCapBase c \<noteq> None"
  shows "store_wf (snd (storeStep writesOk (t, ev) (tr, s)))"
proof (cases ev)
  case (EvSetCap o1 c)
  have "store_wf (persistLocked writesOk (s\<lparr>sCaps := update2 o1 (scSymbol c) c (sCaps s)\<rparr>))"
    by (rule store_wf_persist) (use assms in \<open>auto simp: EvSetCap store_wf_def caps_set_def\<close>)
  then show ?thesis by (simp add: EvSetCap SetCap_def)
next
  case (EvUnlimited o1 y)
  have "store_wf (persistLocked writesOk (s\<lparr>sCaps := delete2 o1 y (sCaps s)\<rparr>))"
    by (rule store_wf_persist) (use assms in \<open>auto simp: store_wf_def caps_set_def\<close>)
  then show ?thesis by (simp add: EvUnlimited SetUnlimited_def)
next
  case (EvUsed o1 y)
  then show ?thesis using assms store_wf_rollover by (simp add: Used_def Let_def)
next
  case (EvTransfer o1 y a acc)
  obtain e s' where C: "Check writesOk t o1 y (Some a) (Some s) = (e, Some s')" "s' = s \<or> s' = storeRollover writesOk t s"
    by (cases "0 < a") (auto simp: Check_verdict Check_nonpos not_less)
  then have "store_wf s'" using assms store_wf_rollover by auto
  then show ?thesis using C store_wf_record by (simp add: EvTransfer)
next
  case EvRestart
  then show ?thesis using store_wf_restart [OF assms(1)] by auto
qed

lemma outSum_other_days: "\<forall>e \<in> set tr. dayNumber (fst e) \<noteq> d \<Longrightarrow> outSum d o1 y tr = 0"
  by (induction tr) auto

lemma usage_exact_later: "usage_exact t tr s \<Longrightarrow> t \<le> t' \<Longrightarrow> usage_exact t' tr s"
  unfolding usage_exact_def by (meson order_trans)

text \<open>Operations that leave usage alone.\<close>

lemma usage_exact_same:
  assumes "usage_exact t tr s" "\<forall>now \<ge> t. \<forall>o1 y. todayUsed now s' o1 y = todayUsed now s o1 y"
    and "sDay s' = sDay s \<or> sDay s' = utcDay t"
  shows "usage_exact t tr s'"
  using assms by (auto simp: usage_exact_def)

lemma usage_exact_rollover:
  assumes "usage_exact t tr s"
  shows "usage_exact t tr (storeRollover io t s)"
  using todayUsed_rollover [of s t] assms
  by (intro usage_exact_same [OF assms]) (auto simp: usage_exact_def)

lemma usage_exact_record:
  assumes "usage_exact t tr s" "0 < a"
  shows "usage_exact t (tr @ [(t, o1, y, a, c)]) (the (storeRecord writesOk t o1 y (Some a) (Some s)))"
proof -
  obtain s' where s': "storeRecord writesOk t o1 y (Some a) (Some s) = Some s'" "sDay s' = utcDay t"
    "\<forall>o2 z. usedOf s' o2 z = todayUsed t s o2 z + (if o2 = o1 \<and> z = y then a else 0)"
    using storeRecord_used [OF assms(2)] by metis
  have "todayUsed now s' o2 z = outSum (dayNumber now) o2 z (tr @ [(t, o1, y, a, c)])" if now: "t \<le> now" for now o2 z
  proof (cases "dayNumber now = dayNumber t")
    case True
    then have "outSum (dayNumber now) o2 z tr = todayUsed t s o2 z" using assms(1) by (simp add: usage_exact_def)
    then show ?thesis using True s' by (auto simp: todayUsed_def [of now] utcDay_eq_iff)
  next
    case False
    then have "dayNumber t < dayNumber now" using dayNumber_mono [OF now] by simp
    moreover have "dayNumber (fst e) \<le> dayNumber t" if "e \<in> set tr" for e
      using that assms(1) dayNumber_mono by (auto simp: usage_exact_def)
    ultimately have "outSum (dayNumber now) o2 z tr = 0"
      by (intro outSum_other_days) force
    then show ?thesis using False s' by (simp add: todayUsed_def utcDay_eq_iff)
  qed
  moreover have "\<forall>e \<in> set (tr @ [(t, o1, y, a, c)]). fst e \<le> t" using assms(1) by (simp add: usage_exact_def)
  ultimately show ?thesis using s'(1,2) unfolding usage_exact_def by auto
qed

lemma storeStep_exact:
  assumes "store_wf s" "usage_exact t tr s" "within_caps tr"
    and "\<forall>o1 c. ev = EvSetCap o1 c \<longrightarrow> scCapBase c \<noteq> None"
    and "storeStep writesOk (t, ev) (tr, s) = (tr', s')"
  shows "store_wf s' \<and> usage_exact t tr' s' \<and> within_caps tr'"
proof -
  have wf: "store_wf s'" using store_wf_step [OF assms(1,4), of t tr] assms(5) by simp
  have "usage_exact t tr' s' \<and> within_caps tr'"
  proof (cases ev)
    case (EvSetCap o1 c)
    then have eq: "tr' = tr" "s' = persistLocked writesOk (s\<lparr>sCaps := update2 o1 (scSymbol c) c (sCaps s)\<rparr>)"
      using assms(5) by (simp_all add: SetCap_def)
    show ?thesis
      unfolding eq using assms(2,3)
      by (intro conjI usage_exact_same [OF assms(2)]) (simp_all add: todayUsed_def usedOf_def)
  next
    case (EvUnlimited o1 y)
    then have eq: "tr' = tr" "s' = persistLocked writesOk (s\<lparr>sCaps := delete2 o1 y (sCaps s)\<rparr>)"
      using assms(5) by (simp_all add: SetUnlimited_def)
    show ?thesis
      unfolding eq using assms(2,3)
      by (intro conjI usage_exact_same [OF assms(2)]) (simp_all add: todayUsed_def usedOf_def)
  next
    case (EvUsed o1 y)
    then show ?thesis using assms(2,3,5) usage_exact_rollover by (auto simp: Used_def Let_def)
  next
    case EvRestart
    obtain s1 where "LoadMemoryTransferOutStore ReadOk (sPath s) (sDisk s) = Inr s1" "same_limits s s1"
      using store_wf_restart [OF assms(1)] by blast
    then have "tr' = tr \<and> same_limits s s'" using assms(5) EvRestart by auto
    then show ?thesis
      using assms(2,3) todayUsed_cong by (auto intro!: usage_exact_same [OF assms(2)] simp: same_limits_def)
  next
    case (EvTransfer o1 y a acc)
    show ?thesis
    proof (cases "0 < a")
      case False
      then show ?thesis using assms(2,3,5) EvTransfer by (auto simp: Check_nonpos storeRecord_def split: if_splits)
    next
      case True
      let ?r = "storeRollover writesOk t s"
      have r: "usage_exact t tr ?r" using assms(2) by (rule usage_exact_rollover)
      have used: "todayUsed t s o1 y = outSum (dayNumber t) o1 y tr" using assms(2) by (simp add: usage_exact_def)
      obtain e where C: "Check writesOk t o1 y (Some a) (Some s) = (e, Some ?r)"
        and e: "e = None \<longrightarrow> (case capInForce s o1 y of None \<Rightarrow> True | Some cap \<Rightarrow> todayUsed t s o1 y + a \<le> cap)"
        using Check_verdict [OF True, of writesOk t o1 y s] by (auto split: option.splits if_splits)
      show ?thesis
      proof (cases "e = None \<and> acc")
        case False
        then show ?thesis using assms(3,5) EvTransfer C r by auto
      next
        case acc: True
        then have "tr' = tr @ [(t, o1, y, a, capInForce s o1 y)]"
          and "s' = the (storeRecord writesOk t o1 y (Some a) (Some ?r))"
          using assms(5) EvTransfer C True by auto
        then show ?thesis
          using usage_exact_record [OF r True] assms(3) e acc used
          by (simp add: within_caps_snoc split: option.splits)
      qed
    qed
  qed
  with wf show ?thesis by simp
qed

lemma storeRun_exact:
  assumes "sorted (map fst es)" "\<forall>(t, ev) \<in> set es. \<forall>o1 c. ev = EvSetCap o1 c \<longrightarrow> scCapBase c \<noteq> None"
    and "store_wf s" "usage_exact t0 tr s" "within_caps tr" "\<forall>e \<in> set es. t0 \<le> fst e"
    and "foldl (\<lambda>st e. storeStep writesOk e st) (tr, s) es = (tr', s')"
  shows "store_wf s' \<and> usage_exact (last (t0 # map fst es)) tr' s' \<and> within_caps tr'"
  using assms
proof (induction es arbitrary: tr s t0)
  case (Cons e es)
  obtain t ev where e: "e = (t, ev)" by (cases e)
  obtain tr1 s1 where S: "storeStep writesOk (t, ev) (tr, s) = (tr1, s1)" by fastforce
  have "usage_exact t tr s" using Cons.prems(4,6) usage_exact_later by (auto simp: e)
  then have "store_wf s1 \<and> usage_exact t tr1 s1 \<and> within_caps tr1"
    using storeStep_exact [OF Cons.prems(3) _ Cons.prems(5) _ S] Cons.prems(2) by (auto simp: e)
  then have "store_wf s' \<and> usage_exact (last (t # map fst es)) tr' s' \<and> within_caps tr'"
    using Cons.IH [of s1 t tr1] Cons.prems S by (auto simp: e)
  then show ?case by (simp add: e)
qed simp

section \<open>Properties\<close>

text \<open>A transfer-out is refused exactly when its amount is positive, a cap is set for the owner and the
  symbol, and the amount with today's usage exceeds the cap; the refusal names the symbol, the limit, the
  request and the usage. A check never changes the caps nor today's usage.\<close>

lemma transfer_out_check_exact:
  "\<exists>s'. Check io now o1 y (Some a) (Some s) =
     (if 0 < a \<and> (case capInForce s o1 y of None \<Rightarrow> False | Some cap \<Rightarrow> cap < todayUsed now s o1 y + a)
      then Some (let c = the (lookup2 (sCaps s) o1 y) in
             ErrSymbolCapExceeded (scSymbol c) (baseToHuman (capInForce s o1 y) (scDecimals c))
               (baseToHuman (Some a) (scDecimals c)) (baseToHuman (Some (todayUsed now s o1 y)) (scDecimals c)))
      else None, Some s') \<and>
   sCaps s' = sCaps s \<and> (\<forall>o2 z. todayUsed now s' o2 z = todayUsed now s o2 z)"
proof (cases "0 < a")
  case True
  have "todayUsed now (storeRollover io now s) o2 z = todayUsed now s o2 z" for o2 z
    by (simp add: todayUsed_def [of now "storeRollover io now s"])
  then show ?thesis
    by (intro exI [of _ "storeRollover io now s"]) (simp add: Check_verdict True split: option.splits)
next
  case False
  then show ?thesis by (simp add: Check_nonpos)
qed

text \<open>C6: whatever the sequence of cap changes, queries, transfers and restarts of the server, with a clock that
  does not go back and writes that succeed: the store's usage of a day is exactly the sum of the owner's accepted
  transfers of the symbol in that day, and at every accepted transfer that sum was within the cap then in force.\<close>

theorem transfer_out_caps_hold:
  assumes "sorted (map fst es)"
    and "\<forall>(t, ev) \<in> set es. \<forall>o1 c. ev = EvSetCap o1 c \<longrightarrow> scCapBase c \<noteq> None"
    and "path \<noteq> []"
    and "storeRun writesOk es (NewMemoryTransferOutStore\<lparr>sPath := path\<rparr>) = (tr, s)"
    and "\<forall>e \<in> set es. fst e \<le> now"
  shows "within_caps tr \<and> todayUsed now s o1 y = outSum (dayNumber now) o1 y tr"
proof -
  let ?s0 = "NewMemoryTransferOutStore\<lparr>sPath := path\<rparr>"
  define t0 where "t0 = (if es = [] then now else fst (hd es))"
  have t0: "\<forall>e \<in> set es. t0 \<le> fst e" using assms(1) by (cases es) (auto simp: t0_def)
  have init: "store_wf ?s0" "usage_exact t0 [] ?s0" "within_caps []"
    using assms(3)
    by (simp_all add: store_wf_def NewMemoryTransferOutStore_def caps_set_def synced_def usage_exact_def
        todayUsed_def within_caps_def usedOf_def)
  have "usage_exact (last (t0 # map fst es)) tr s \<and> within_caps tr"
    using storeRun_exact [OF assms(1,2) init t0] assms(4) by (auto simp: storeRun_def)
  moreover have "last (t0 # map fst es) \<le> now" using assms(5) by (cases es rule: rev_cases) (auto simp: t0_def)
  ultimately show ?thesis by (simp add: usage_exact_def)
qed

text \<open>C27: the state survives a restart. After a write that succeeds, loading the file gives a store with the
  same day, caps and usage, so every later check gives the same verdict.\<close>

theorem transfer_out_restart:
  assumes "nested_wf (sCaps s)" "nested_wf (sUsed s)" "caps_set s" "sPath s \<noteq> []" "io (sWrites s) = IoOk"
  shows "\<exists>s'. LoadMemoryTransferOutStore ReadOk (sPath s) (sDisk (persistLocked io s)) = Inr s' \<and>
    (\<forall>o1 y. Cap (Some s') o1 y = Cap (Some s) o1 y) \<and>
    (\<forall>now o1 y amt. fst (Check io' now o1 y amt (Some s')) = fst (Check io' now o1 y amt (Some s)))"
proof -
  have disk: "sDisk (persistLocked io s) = Some (Json (snapshot s))"
    using assms(4,5) by (simp add: persistLocked_def Let_def)
  obtain s' where s': "LoadMemoryTransferOutStore ReadOk (sPath s) (Some (Json (snapshot s))) = Inr s'" "same_limits s s'"
    using load_represents [OF represents_snapshot [OF assms(1,2)] assms(3,4)] by blast
  have cap: "Cap (Some s') o1 y = Cap (Some s) o1 y" "capInForce s' o1 y = capInForce s o1 y" for o1 y
    using s'(2) by (simp_all add: Cap_def capInForce_def same_limits_def)
  have "fst (Check io' now o1 y amt (Some s')) = fst (Check io' now o1 y amt (Some s))" for now o1 y amt
  proof (cases amt)
    case (Some a)
    show ?thesis
    proof (cases "0 < a")
      case True
      have "lookup2 (sCaps s') o1 y = lookup2 (sCaps s) o1 y" using s'(2) by (simp add: same_limits_def)
      then show ?thesis 
        by (simp add: Some Check_verdict [OF True] cap todayUsed_cong [OF s'(2)] split: option.split)
    next
      case False
      then show ?thesis by (simp add: Some Check_nonpos)
    qed
  qed (simp add: Check_def)
  then show ?thesis using disk s'(1) cap(1) by auto
qed

section \<open>The properties on concrete inputs\<close>

definition usdcCap :: symbolCap where
  "usdcCap = \<lparr>scSymbol = ''usdc'', scDecimals = 6, scCapBase = Some 100000000\<rparr>"

text \<open>A cap of 100 USDC: after a restart the second transfer is still over the cap, the third is in the next day.\<close>

definition outEvents :: "(time \<times> storeEvent) list" where
  "outEvents = [(0, EvSetCap ''svp1'' usdcCap), (hour, EvTransfer ''svp1'' ''usdc'' 60000000 True), (2 * hour, EvRestart),
     (3 * hour, EvTransfer ''svp1'' ''usdc'' 60000000 True), (25 * hour, EvTransfer ''svp1'' ''usdc'' 60000000 True)]"

definition capsPath :: string where
  "capsPath = ''caps.json''"

lemma outEvents_trace:
  "fst (storeRun writesOk outEvents (NewMemoryTransferOutStore\<lparr>sPath := capsPath\<rparr>)) =
     [(hour, ''svp1'', ''usdc'', 60000000, Some 100000000), (25 * hour, ''svp1'', ''usdc'', 60000000, Some 100000000)]"
  by code_simp

theorem transfer_out_caps_hold_witness:
  "todayUsed (26 * hour) (snd (storeRun writesOk outEvents (NewMemoryTransferOutStore\<lparr>sPath := capsPath\<rparr>)))
     ''svp1'' ''usdc'' = 60000000"
proof -
  let ?r = "storeRun writesOk outEvents (NewMemoryTransferOutStore\<lparr>sPath := capsPath\<rparr>)"
  have "todayUsed (26 * hour) (snd ?r) ''svp1'' ''usdc'' = outSum (dayNumber (26 * hour)) ''svp1'' ''usdc'' (fst ?r)"
    using transfer_out_caps_hold [of outEvents capsPath "fst ?r" "snd ?r" "26 * hour" "''svp1''" "''usdc''"]
    by (simp add: outEvents_def usdcCap_def capsPath_def)
  then show ?thesis unfolding outEvents_trace by (simp add: dayNumber_def)
qed

definition cappedStore :: transferOutStore where
  "cappedStore = NewMemoryTransferOutStore\<lparr>sPath := capsPath, sDay := utcDay 0,
     sCaps := [(''svp1'', [(''usdc'', usdcCap)])], sUsed := [(''svp1'', [(''usdc'', 70000000)])]\<rparr>"

theorem transfer_out_restart_witness:
  "\<exists>s'. LoadMemoryTransferOutStore ReadOk (sPath cappedStore) (sDisk (persistLocked writesOk cappedStore)) = Inr s' \<and>
    Cap (Some s') ''svp1'' ''usdc'' = Some usdcCap \<and>
    fst (Check writesOk hour ''svp1'' ''usdc'' (Some 40000000) (Some s')) \<noteq> None"
proof -
  have wf: "nested_wf (sCaps cappedStore)" "nested_wf (sUsed cappedStore)" "caps_set cappedStore" "sPath cappedStore \<noteq> []"
    by (auto simp: cappedStore_def nested_wf_def caps_set_def lookup2_def inner_def usdcCap_def capsPath_def split: if_splits)
  have "Cap (Some cappedStore) ''svp1'' ''usdc'' = Some usdcCap"
    "fst (Check writesOk hour ''svp1'' ''usdc'' (Some 40000000) (Some cappedStore)) \<noteq> None"
    by (simp_all add: Check_verdict capInForce_def Cap_def lookup2_def inner_def cappedStore_def usdcCap_def
        todayUsed_def usedOf_def utcDay_eq_iff dayNumber_def)
  then show ?thesis using transfer_out_restart [OF wf, of writesOk writesOk] by fastforce
qed

end
