(* ===== verification/Policy.thy ===== *)
theory Policy
  imports Complex_Main Go_Time
begin

text \<open>
  Package \<open>lib/mcp/policy\<close>: the tenant guardrails, the per-key rate limiter, the idempotency table of
  broadcasts and the audit log.

  The token bucket of \<open>golang.org/x/time/rate\<close> is a parameter, a pair of functions on its own state
  type. The source of self-issued tenants is the Go interface \<open>DynamicSource\<close>: a function argument,
  None when nil, with its promises in the locale \<open>dynamic_source\<close>. The clock is an argument.
\<close>

section \<open>Tenants (policy.go)\<close>

record tenantPolicy =
  tpTenantID :: string
  tpOwner :: string
  tpAllowedSubaccounts :: "u32 set"
  tpKillSwitch :: bool

type_synonym dynamicSource = "string \<Rightarrow> tenantPolicy option"

record engine =
  perTenant :: "string \<rightharpoonup> tenantPolicy"
  dynamicSrc :: "dynamicSource option"

fun indexTenants :: "tenantPolicy list \<Rightarrow> (string \<rightharpoonup> tenantPolicy) \<Rightarrow> (string \<rightharpoonup> tenantPolicy)" where
  "indexTenants [] m = m"
| "indexTenants (t # ts) m = indexTenants ts (m(tpTenantID t \<mapsto> t))"

definition NewEngine :: "tenantPolicy list \<Rightarrow> engine" where
  "NewEngine tenants = \<lparr>perTenant = indexTenants tenants Map.empty, dynamicSrc = None\<rparr>"

definition SetDynamicSource :: "dynamicSource \<Rightarrow> engine \<Rightarrow> engine" where
  "SetDynamicSource src e = e\<lparr>dynamicSrc := Some src\<rparr>"

definition Tenant :: "engine \<Rightarrow> string \<Rightarrow> tenantPolicy res" where
  "Tenant e tenantID =
     (case perTenant e tenantID of
        Some tp \<Rightarrow> Inr tp
      | None \<Rightarrow>
          (case dynamicSrc e of
             None \<Rightarrow> Inl (Errorf ''unknown tenant %q'' [AStr tenantID])
           | Some dyn \<Rightarrow>
               (case dyn tenantID of
                  Some tp \<Rightarrow> Inr tp
                | None \<Rightarrow> Inl (Errorf ''unknown tenant %q'' [AStr tenantID]))))"

definition CheckTenant :: "engine \<Rightarrow> string \<Rightarrow> unit res" where
  "CheckTenant e tenantID =
     rbind (Tenant e tenantID) (\<lambda>tp.
     if tpKillSwitch tp then Inl (Errorf ''kill switch active for tenant %s'' [AStr tenantID])
     else Inr ())"

definition CheckOwner :: "engine \<Rightarrow> string \<Rightarrow> string \<Rightarrow> unit res" where
  "CheckOwner e tenantID requestedOwner =
     rbind (Tenant e tenantID) (\<lambda>tp.
     if requestedOwner \<noteq> [] \<and> requestedOwner \<noteq> tpOwner tp
     then Inl (Errorf ''owner %s not allowed for tenant %s (allowed: %s)''
            [AStr requestedOwner, AStr tenantID, AStr (tpOwner tp)])
     else Inr ())"

definition CheckSubaccount :: "engine \<Rightarrow> string \<Rightarrow> u32 \<Rightarrow> unit res" where
  "CheckSubaccount e tenantID subaccount =
     rbind (Tenant e tenantID) (\<lambda>tp.
     if subaccount \<in> tpAllowedSubaccounts tp then Inr ()
     else Inl (Errorf ''subaccount %d not allowed for tenant %s'' [AInt (uint subaccount), AStr tenantID]))"

section \<open>Rate limiting (rate.go)\<close>

text \<open>The limiter of \<open>x/time/rate\<close>: a new bucket for a rate and a burst, and one request at a time.\<close>

record 'lim rateLib =
  newLimiter :: "rat \<Rightarrow> int \<Rightarrow> 'lim"
  limAllow :: "time \<Rightarrow> 'lim \<Rightarrow> bool \<times> 'lim"

record 'lim rateLimiter =
  rlRps :: rat
  rlBurst :: int
  perKey :: "string \<rightharpoonup> 'lim"

definition NewRateLimiter :: "rat \<Rightarrow> int \<Rightarrow> 'lim rateLimiter" where
  "NewRateLimiter rps burst =
     \<lparr>rlRps = (if rps = 0 then 10 else rps), rlBurst = (if burst = 0 then 5 else burst), perKey = Map.empty\<rparr>"

definition rlAllow :: "'lim rateLib \<Rightarrow> time \<Rightarrow> string \<Rightarrow> 'lim rateLimiter \<Rightarrow> bool \<times> 'lim rateLimiter" where
  "rlAllow L now key r =
     (let bkt = (case perKey r key of Some bkt \<Rightarrow> bkt | None \<Rightarrow> newLimiter L (rlRps r) (rlBurst r));
          (ok, bkt') = limAllow L now bkt in
      (ok, r\<lparr>perKey := (perKey r)(key \<mapsto> bkt')\<rparr>))"

section \<open>Idempotency (idempotency.go)\<close>

definition DefaultIdempotencyTTL :: duration where
  "DefaultIdempotencyTTL = 10 * minute"

record idempotency =
  idTTL :: duration
  idSeen :: "string \<rightharpoonup> time"

definition NewIdempotency :: "duration \<Rightarrow> idempotency" where
  "NewIdempotency ttl = \<lparr>idTTL = (if ttl = 0 then DefaultIdempotencyTTL else ttl), idSeen = Map.empty\<rparr>"

definition idKey :: "string \<Rightarrow> string \<Rightarrow> string" where
  "idKey tenantID clientID = tenantID @ ''|'' @ clientID"

definition Claim :: "time \<Rightarrow> string \<Rightarrow> string \<Rightarrow> idempotency \<Rightarrow> err option \<times> idempotency" where
  "Claim now tenantID clientID i =
     (if clientID = [] then (Some (Errorf ''missing client_id'' []), i)
      else
        (let key = idKey tenantID clientID in
         case idSeen i key of
           Some expiry \<Rightarrow>
             if expiry > now
             then (Some (Errorf ''duplicate broadcast: client_id %s already used for tenant %s'' [AStr clientID, AStr tenantID]), i)
             else (None, i\<lparr>idSeen := (idSeen i)(key \<mapsto> now + idTTL i)\<rparr>)
         | None \<Rightarrow> (None, i\<lparr>idSeen := (idSeen i)(key \<mapsto> now + idTTL i)\<rparr>)))"

section \<open>Audit log (audit.go)\<close>

text \<open>A zero time is None; \<open>Append\<close> fills it in. The writer is the list of entries written.\<close>

record auditEntry =
  aeTime :: "time option"
  aeTenantID :: string
  aeOwner :: string
  aeTool :: string
  aeClientID :: string
  aeTxHash :: string
  aeMsgType :: string
  aeSubaccount :: u32
  aeNotionalUSD :: string
  aeCode :: u32
  aeOutcome :: string
  aeReason :: string

definition emptyAudit :: auditEntry where
  "emptyAudit = \<lparr>aeTime = None, aeTenantID = [], aeOwner = [], aeTool = [], aeClientID = [], aeTxHash = [],
     aeMsgType = [], aeSubaccount = 0, aeNotionalUSD = [], aeCode = 0, aeOutcome = [], aeReason = []\<rparr>"

definition Append :: "time \<Rightarrow> auditEntry \<Rightarrow> auditEntry list \<Rightarrow> auditEntry list" where
  "Append now e rows = rows @ [case aeTime e of None \<Rightarrow> e\<lparr>aeTime := Some now\<rparr> | Some t \<Rightarrow> e]"

section \<open>What a dynamic source promises\<close>

text \<open>A source over a store that is well formed: a resolved policy is the one of the tenant asked for, and it has an
  owner.\<close>

locale dynamic_source =
  fixes dyn :: "'st \<Rightarrow> dynamicSource"
    and wf :: "'st \<Rightarrow> bool"
  assumes dyn_id: "wf st \<Longrightarrow> dyn st i = Some tp \<Longrightarrow> tpTenantID tp = i"
    and dyn_owner: "wf st \<Longrightarrow> dyn st i = Some tp \<Longrightarrow> tpOwner tp \<noteq> []"
begin

text \<open>An engine with no static tenants, as the server builds it, resolves exactly the dynamic ones, and its three
  checks are exact on them.\<close>

lemma Tenant_dynamic: "Tenant (SetDynamicSource (dyn st) (NewEngine [])) i = Inr tp \<longleftrightarrow> dyn st i = Some tp"
  by (auto simp: Tenant_def SetDynamicSource_def NewEngine_def split: option.splits)

lemma checks_dynamic:
  assumes "wf st" "dyn st i = Some tp"
  defines "e \<equiv> SetDynamicSource (dyn st) (NewEngine [])"
  shows "tpTenantID tp = i" "tpOwner tp \<noteq> []"
    and "CheckTenant e i = Inr () \<longleftrightarrow> \<not> tpKillSwitch tp"
    and "CheckOwner e i own = Inr () \<longleftrightarrow> own = [] \<or> own = tpOwner tp"
    and "CheckSubaccount e i sub = Inr () \<longleftrightarrow> sub \<in> tpAllowedSubaccounts tp"
  using assms dyn_id dyn_owner Tenant_dynamic [of st i tp]
  by (auto simp: CheckTenant_def CheckOwner_def CheckSubaccount_def)

lemma CheckTenant_dynamic:
  "CheckTenant (SetDynamicSource (dyn st) (NewEngine [])) i = Inr u \<longleftrightarrow> (\<exists>tp. dyn st i = Some tp \<and> \<not> tpKillSwitch tp)"
  by (auto simp: CheckTenant_def Tenant_dynamic)

end

section \<open>Lemmas\<close>

lemma indexTenants_id:
  "(\<forall>i tp. m i = Some tp \<longrightarrow> tpTenantID tp = i) \<Longrightarrow> indexTenants ts m i = Some tp \<Longrightarrow> tpTenantID tp = i"
proof (induction ts arbitrary: m)
  case (Cons t ts)
  have "\<forall>i tp. (m(tpTenantID t \<mapsto> t)) i = Some tp \<longrightarrow> tpTenantID tp = i"
    using Cons.prems(1) by auto
  then show ?case using Cons.IH Cons.prems(2) by (metis indexTenants.simps(2))
qed simp

lemma NewEngine_id: "perTenant (NewEngine ts) i = Some tp \<Longrightarrow> tpTenantID tp = i"
  unfolding NewEngine_def using indexTenants_id [of Map.empty ts] by simp

lemma idKey_inj:
  assumes "CHR ''|'' \<notin> set t1" "CHR ''|'' \<notin> set t2"
  shows "idKey t1 c1 = idKey t2 c2 \<longleftrightarrow> t1 = t2 \<and> c1 = c2"
proof
  assume "idKey t1 c1 = idKey t2 c2"
  then have "cut CHR ''|'' (t1 @ CHR ''|'' # c1) = cut CHR ''|'' (t2 @ CHR ''|'' # c2)" by (simp add: idKey_def)
  then show "t1 = t2 \<and> c1 = c2" using assms by simp
qed simp

lemma Claim_success:
  "Claim t tenant client i = (None, i') \<Longrightarrow>
     client \<noteq> [] \<and> (case idSeen i (idKey tenant client) of None \<Rightarrow> True | Some e \<Rightarrow> e \<le> t) \<and>
     i' = i\<lparr>idSeen := (idSeen i)(idKey tenant client \<mapsto> t + idTTL i)\<rparr>"
  by (auto simp: Claim_def Let_def split: if_splits option.splits)

lemma Claim_failure: "Claim t tenant client i = (Some e, i') \<Longrightarrow> i' = i"
  by (auto simp: Claim_def Let_def split: if_splits option.splits)

lemma rlAllow_other:
  "k' \<noteq> k \<Longrightarrow> fst (rlAllow L t' k' (snd (rlAllow L t k r))) = fst (rlAllow L t' k' r)"
  by (simp add: rlAllow_def Let_def case_prod_beta split: option.split)

section \<open>Properties\<close>

text \<open>The claims of different tenants do not interact, as long as tenant ids have no vertical bar.\<close>

lemma claims_of_tenants_independent:
  assumes "CHR ''|'' \<notin> set t1" "CHR ''|'' \<notin> set t2" "t1 \<noteq> t2"
  shows "fst (Claim now t2 c2 (snd (Claim now' t1 c1 i))) = fst (Claim now t2 c2 i)"
proof -
  have "idSeen (snd (Claim now' t1 c1 i)) (idKey t2 c2) = idSeen i (idKey t2 c2)"
    using idKey_inj [OF assms(1,2), of c1 c2] assms(3)
    by (auto simp: Claim_def Let_def split: option.splits)
  then show ?thesis by (simp add: Claim_def [of now] Let_def split: option.splits)
qed

text \<open>A request on one key never changes the verdict on another key: no tenant can use up the tokens of
  another.\<close>

lemma rate_limit_keys_independent:
  assumes "k' \<notin> set ks"
  shows "fst (rlAllow L t' k' (fold (\<lambda>(t, k) r. snd (rlAllow L t k r)) (zip ts ks) r)) = fst (rlAllow L t' k' r)"
  using assms
proof (induction ks arbitrary: ts r)
  case (Cons k2 ks)
  then show ?case by (cases ts) (auto simp: rlAllow_other)
qed simp

section \<open>Where the code departs from its comments\<close>

text \<open>Two tenants share a key when an id contains a vertical bar.\<close>

lemma claims_collide:
  "fst (Claim minute ''a|b'' ''c'' (snd (Claim 0 ''a'' ''b|c'' (NewIdempotency 0)))) \<noteq> None"
  by (simp add: Claim_def NewIdempotency_def idKey_def DefaultIdempotencyTTL_def)

end
