(* ===== verification/Auth_Stores.thy ===== *)
theory Auth_Stores
  imports Go_Encoding Go_Time "HOL-Library.AList"
begin

text \<open>
  Package \<open>lib/mcp/auth\<close>: the challenge text, the nonce store, signer recovery, session bindings, the
  self-issued tenants and the per-IP limiter. The Go maps are association lists; the clock and the
  random bytes (\<open>crypto/rand\<close>) are arguments. The three stores with expiring entries keep the interface
  \<open>ttl_store\<close>: sweeping is invisible to lookups.
\<close>

section \<open>The challenge text (challenge.go)\<close>

definition ChallengePrefix :: string where
  "ChallengePrefix = ''svpchain-mcp-auth-v1:''"

definition BuildChallenge :: "string \<Rightarrow> string \<Rightarrow> time \<Rightarrow> string" where
  "BuildChallenge chainID nonceHex expiresAt =
     ChallengePrefix @ chainID @ '':'' @ nonceHex @ '':'' @ bigString (unixSeconds expiresAt)"

record parsedChallenge =
  pcChainID :: string
  pcNonceHex :: string
  pcExpiresAt :: time

definition ParseChallenge :: "string \<Rightarrow> parsedChallenge res" where
  "ParseChallenge text =
     (if \<not> hasPrefix text ChallengePrefix then Inl (Errorf ''challenge must start with %q'' [AStr ChallengePrefix])
      else
        (case splitN CHR '':'' 4 text of
           [p0, chainID, nonceHex, expires] \<Rightarrow>
             rbind (rwrap ''parse expires_at %q: %w'' [AStr expires] (parseInt expires)) (\<lambda>expiresUnix.
             if chainID = [] then Inl (Errorf ''challenge chain_id is empty'' [])
             else if nonceHex = [] then Inl (Errorf ''challenge nonce is empty'' [])
             else Inr \<lparr>pcChainID = chainID, pcNonceHex = nonceHex, pcExpiresAt = expiresUnix * second\<rparr>)
         | _ \<Rightarrow> Inl (Errorf ''challenge malformed: expected %s<chain_id>:<nonce>:<expires_at>'' [AStr ChallengePrefix])))"

section \<open>Nonces (nonce_store.go)\<close>

definition DefaultChallengeTTL :: duration where
  "DefaultChallengeTTL = 5 * minute"

record nonceEntry =
  neOwner :: string
  neExpiresAt :: time

record nonceStore =
  nsTTL :: duration
  nsEntries :: "(string \<times> nonceEntry) list"

definition NewNonceStore :: "duration \<Rightarrow> nonceStore" where
  "NewNonceStore ttl = \<lparr>nsTTL = ttl, nsEntries = []\<rparr>"

text \<open>\<open>rnd\<close> is the outcome of \<open>rand.Read\<close> into a 16 byte buffer.\<close>

definition nsIssue :: "time \<Rightarrow> bytes res \<Rightarrow> string \<Rightarrow> nonceStore \<Rightarrow> (string \<times> time) res \<times> nonceStore" where
  "nsIssue now rnd owner s =
     (if owner = [] then (Inl (Errorf ''owner is required to issue a nonce'' []), s)
      else
        (case rnd of
           Inl e \<Rightarrow> (Inl (Wrapf ''generate nonce: %w'' [] e), s)
         | Inr buf \<Rightarrow>
             (let nonceHex = hexEncode buf; expiresAt = now + nsTTL s in
              (Inr (nonceHex, expiresAt),
               s\<lparr>nsEntries := AList.update nonceHex \<lparr>neOwner = owner, neExpiresAt = expiresAt\<rparr> (nsEntries s)\<rparr>))))"

definition nsConsume :: "time \<Rightarrow> string \<Rightarrow> nonceStore \<Rightarrow> (string \<times> time) res \<times> nonceStore" where
  "nsConsume now nonceHex s =
     (case map_of (nsEntries s) nonceHex of
        None \<Rightarrow> (Inl ErrNonceNotFound, s)
      | Some entry \<Rightarrow>
          (let s' = s\<lparr>nsEntries := AList.delete nonceHex (nsEntries s)\<rparr> in
           if \<not> now < neExpiresAt entry then (Inl ErrNonceExpired, s')
           else (Inr (neOwner entry, neExpiresAt entry), s')))"

definition nsSweep :: "time \<Rightarrow> nonceStore \<Rightarrow> nonceStore" where
  "nsSweep now s = s\<lparr>nsEntries := filter (\<lambda>(k, v). now < neExpiresAt v) (nsEntries s)\<rparr>"

definition nsLen :: "nonceStore \<Rightarrow> nat" where
  "nsLen s = length (nsEntries s)"

section \<open>Recovering the signer (recover.go)\<close>

text \<open>The cryptographic library: Keccak-256, public key recovery, the address of a key and its bech32 form.\<close>

record 'pub ethCrypto =
  Keccak256 :: "bytes \<Rightarrow> bytes"
  SigToPub :: "bytes \<Rightarrow> bytes \<Rightarrow> 'pub res"
  PubkeyToAddress :: "'pub \<Rightarrow> bytes"
  AccAddressString :: "bytes \<Rightarrow> string"

definition RecoverOwner :: "'pub ethCrypto \<Rightarrow> string \<Rightarrow> bytes \<Rightarrow> string res" where
  "RecoverOwner K message signature =
     (if length signature \<noteq> 65
      then Inl (Errorf ''signature must be 65 bytes (got %d)'' [AInt (int (length signature))])
      else
        rbind (rwrap ''recover pubkey: %w'' [] (SigToPub K (Keccak256 K (bytesOf message)) signature)) (\<lambda>pub.
        Inr (AccAddressString K (PubkeyToAddress K pub))))"

section \<open>Session bindings (session_bearers.go)\<close>

record sessionEntry =
  seBearer :: string
  seExpiresAt :: time

record sessionBearers =
  sbTTL :: duration
  sbEntries :: "(string \<times> sessionEntry) list"

definition NewSessionBearers :: "duration \<Rightarrow> sessionBearers" where
  "NewSessionBearers ttl = \<lparr>sbTTL = ttl, sbEntries = []\<rparr>"

definition sbBind :: "time \<Rightarrow> string \<Rightarrow> string \<Rightarrow> sessionBearers \<Rightarrow> sessionBearers" where
  "sbBind now sessionID bearer s =
     (if sessionID = [] \<or> bearer = [] then s
      else s\<lparr>sbEntries := AList.update sessionID \<lparr>seBearer = bearer, seExpiresAt = now + sbTTL s\<rparr> (sbEntries s)\<rparr>)"

definition sbLookup :: "time \<Rightarrow> string \<Rightarrow> sessionBearers \<Rightarrow> string" where
  "sbLookup now sessionID s =
     (if sessionID = [] then []
      else
        (case map_of (sbEntries s) sessionID of
           None \<Rightarrow> []
         | Some e \<Rightarrow> if \<not> now < seExpiresAt e then [] else seBearer e))"

definition sbSweep :: "time \<Rightarrow> sessionBearers \<Rightarrow> sessionBearers" where
  "sbSweep now s = s\<lparr>sbEntries := filter (\<lambda>(k, v). now < seExpiresAt v) (sbEntries s)\<rparr>"

definition sbLen :: "sessionBearers \<Rightarrow> nat" where
  "sbLen s = length (sbEntries s)"

section \<open>Self-issued tenants (dynamic_tenants.go)\<close>

definition DefaultBearerTTL :: duration where
  "DefaultBearerTTL = 24 * hour"

record tenantRecord =
  trTenantID :: string
  trOwner :: string
  trAllowedSubaccounts :: "u32 set"
  trKillSwitch :: bool
  trExpiresAt :: time

record dynamicTenantStore =
  dtTTL :: duration
  dtDefaultAllowed :: "u32 set"
  byBearer :: "(string \<times> string) list"
  byTenant :: "(string \<times> tenantRecord) list"

definition NewDynamicTenantStore :: "duration \<Rightarrow> u32 list \<Rightarrow> dynamicTenantStore" where
  "NewDynamicTenantStore ttl allowed =
     \<lparr>dtTTL = ttl, dtDefaultAllowed = set allowed, byBearer = [], byTenant = []\<rparr>"

text \<open>\<open>rndB\<close> and \<open>rndT\<close> are the outcomes of the two reads of random bytes (32 and 8).\<close>

definition Mint :: "time \<Rightarrow> bytes res \<Rightarrow> bytes res \<Rightarrow> string \<Rightarrow> dynamicTenantStore
    \<Rightarrow> (string \<times> string \<times> time) res \<times> dynamicTenantStore" where
  "Mint now rndB rndT owner s =
     (if owner = [] then (Inl (Errorf ''owner is required to mint a tenant'' []), s)
      else
        (case rndB of
           Inl e \<Rightarrow> (Inl (Wrapf ''generate bearer: %w'' [] e), s)
         | Inr bbuf \<Rightarrow>
             (case rndT of
                Inl e \<Rightarrow> (Inl (Wrapf ''generate tenant id: %w'' [] e), s)
              | Inr tbuf \<Rightarrow>
                  (let bearer = hexEncode bbuf; tenantID = ''auto-'' @ hexEncode tbuf; expiresAt = now + dtTTL s;
                       r = \<lparr>trTenantID = tenantID, trOwner = owner, trAllowedSubaccounts = dtDefaultAllowed s,
                            trKillSwitch = False, trExpiresAt = expiresAt\<rparr> in
                   (Inr (bearer, tenantID, expiresAt),
                    s\<lparr>byBearer := AList.update bearer tenantID (byBearer s),
                      byTenant := AList.update tenantID r (byTenant s)\<rparr>)))))"

definition LookupByTenantID :: "time \<Rightarrow> string \<Rightarrow> dynamicTenantStore \<Rightarrow> tenantRecord res" where
  "LookupByTenantID now tenantID s =
     (case map_of (byTenant s) tenantID of
        None \<Rightarrow> Inl ErrBearerNotFound
      | Some r \<Rightarrow> if \<not> now < trExpiresAt r then Inl ErrBearerExpired else Inr r)"

definition LookupByBearer :: "time \<Rightarrow> string \<Rightarrow> dynamicTenantStore \<Rightarrow> tenantRecord res" where
  "LookupByBearer now bearer s =
     (case map_of (byBearer s) bearer of
        None \<Rightarrow> Inl ErrBearerNotFound
      | Some tenantID \<Rightarrow>
          (case map_of (byTenant s) tenantID of
             None \<Rightarrow> Inl ErrBearerNotFound
           | Some r \<Rightarrow> if \<not> now < trExpiresAt r then Inl ErrBearerExpired else Inr r))"

fun dtSweepLoop :: "time \<Rightarrow> (string \<times> string) list \<Rightarrow> dynamicTenantStore \<Rightarrow> dynamicTenantStore" where
  "dtSweepLoop now [] s = s"
| "dtSweepLoop now ((bearer, tenantID) # bs) s =
     (if (case map_of (byTenant s) tenantID of None \<Rightarrow> True | Some r \<Rightarrow> \<not> now < trExpiresAt r)
      then dtSweepLoop now bs (s\<lparr>byBearer := AList.delete bearer (byBearer s), byTenant := AList.delete tenantID (byTenant s)\<rparr>)
      else dtSweepLoop now bs s)"

definition dtSweep :: "time \<Rightarrow> dynamicTenantStore \<Rightarrow> dynamicTenantStore" where
  "dtSweep now s = dtSweepLoop now (byBearer s) s"

definition dtLen :: "dynamicTenantStore \<Rightarrow> nat" where
  "dtLen s = length (byTenant s)"

section \<open>The per-IP limiter (ip_rate_limiter.go)\<close>

record ipEntry =
  ieCount :: int
  ieWindowStart :: time

record ipRateLimiter =
  ipMax :: int
  ipWindow :: duration
  ipEntries :: "(string \<times> ipEntry) list"

definition NewIPRateLimiter :: "int \<Rightarrow> duration \<Rightarrow> ipRateLimiter" where
  "NewIPRateLimiter mx window = \<lparr>ipMax = mx, ipWindow = window, ipEntries = []\<rparr>"

definition ipAllow :: "time \<Rightarrow> string \<Rightarrow> ipRateLimiter \<Rightarrow> bool \<times> ipRateLimiter" where
  "ipAllow now ip l =
     (if ip = [] then (True, l)
      else
        (case map_of (ipEntries l) ip of
           Some e \<Rightarrow>
             if now - ieWindowStart e \<ge> ipWindow l
             then (True, l\<lparr>ipEntries := AList.update ip \<lparr>ieCount = 1, ieWindowStart = now\<rparr> (ipEntries l)\<rparr>)
             else (ieCount e + 1 \<le> ipMax l,
                   l\<lparr>ipEntries := AList.update ip (e\<lparr>ieCount := ieCount e + 1\<rparr>) (ipEntries l)\<rparr>)
         | None \<Rightarrow> (True, l\<lparr>ipEntries := AList.update ip \<lparr>ieCount = 1, ieWindowStart = now\<rparr> (ipEntries l)\<rparr>)))"

definition ipSweep :: "time \<Rightarrow> ipRateLimiter \<Rightarrow> ipRateLimiter" where
  "ipSweep now l = l\<lparr>ipEntries := filter (\<lambda>(k, e). \<not> now - ieWindowStart e \<ge> ipWindow l) (ipEntries l)\<rparr>"

definition ipLen :: "ipRateLimiter \<Rightarrow> nat" where
  "ipLen l = length (ipEntries l)"

section \<open>Expiring stores\<close>

text \<open>The contract of a store whose entries expire: a sweep drops nothing that a later lookup would still find.\<close>

locale ttl_store =
  fixes find_live :: "time \<Rightarrow> string \<Rightarrow> 's \<Rightarrow> 'v option"
    and sweep :: "time \<Rightarrow> 's \<Rightarrow> 's"
    and wf :: "'s \<Rightarrow> bool"
  assumes wf_sweep: "wf s \<Longrightarrow> wf (sweep t s)"
    and sweep_invisible: "wf s \<Longrightarrow> t \<le> t' \<Longrightarrow> find_live t' k (sweep t s) = find_live t' k s"
begin

lemma sweeps_wf: "wf s \<Longrightarrow> wf (fold sweep ts s)"
  by (induction ts arbitrary: s) (simp_all add: wf_sweep)

text \<open>Any number of sweeps before a lookup is invisible to it.\<close>

lemma sweeps_invisible:
  "wf s \<Longrightarrow> \<forall>t \<in> set ts. t \<le> t' \<Longrightarrow> find_live t' k (fold sweep ts s) = find_live t' k s"
  by (induction ts arbitrary: s) (simp_all add: wf_sweep sweep_invisible)

end

section \<open>Lemmas on association lists\<close>

lemma map_of_AL_update: "map_of (AList.update k v xs) k' = (if k' = k then Some v else map_of xs k')"
  by (simp add: update_conv')

lemma map_of_AL_delete: "map_of (AList.delete k xs) k' = (if k' = k then None else map_of xs k')"
  by (simp add: delete_conv)

lemma map_of_filter_distinct:
  assumes "distinct (map fst xs)"
  shows "map_of (filter (\<lambda>(k, v). P k v) xs) k =
    (case map_of xs k of None \<Rightarrow> None | Some v \<Rightarrow> if P k v then Some v else None)"
  using assms
proof (induction xs)
  case (Cons x xs)
  obtain k1 v1 where x: "x = (k1, v1)" by (cases x)
  then have "map_of xs k1 = None" using Cons.prems by (simp add: map_of_eq_None_iff)
  then show ?case using Cons by (auto simp: x split: option.splits)
qed simp

lemma distinct_fst_filter: "distinct (map fst xs) \<Longrightarrow> distinct (map fst (filter P xs))"
  by (rule distinct_map_filter)

lemmas alist_simps = map_of_AL_update map_of_AL_delete map_of_filter_distinct

section \<open>The stores keep the interface\<close>

definition nsWf :: "nonceStore \<Rightarrow> bool" where
  "nsWf s \<longleftrightarrow> distinct (map fst (nsEntries s))"

definition nsFind :: "time \<Rightarrow> string \<Rightarrow> nonceStore \<Rightarrow> (string \<times> time) option" where
  "nsFind now n s = (case fst (nsConsume now n s) of Inl e \<Rightarrow> None | Inr r \<Rightarrow> Some r)"

definition sbWf :: "sessionBearers \<Rightarrow> bool" where
  "sbWf s \<longleftrightarrow> distinct (map fst (sbEntries s))"

definition dtFind :: "time \<Rightarrow> string \<Rightarrow> dynamicTenantStore \<Rightarrow> tenantRecord option" where
  "dtFind now bearer s = (case LookupByBearer now bearer s of Inl e \<Rightarrow> None | Inr r \<Rightarrow> Some r)"

definition dtFindID :: "time \<Rightarrow> string \<Rightarrow> dynamicTenantStore \<Rightarrow> tenantRecord option" where
  "dtFindID now tenantID s = (case LookupByTenantID now tenantID s of Inl e \<Rightarrow> None | Inr r \<Rightarrow> Some r)"

definition ipWf :: "ipRateLimiter \<Rightarrow> bool" where
  "ipWf l \<longleftrightarrow> distinct (map fst (ipEntries l))"

lemma nsFind_iff:
  "nsFind now n s = (case map_of (nsEntries s) n of None \<Rightarrow> None
     | Some e \<Rightarrow> if now < neExpiresAt e then Some (neOwner e, neExpiresAt e) else None)"
  by (simp add: nsFind_def nsConsume_def Let_def split: option.splits)

lemma dtFind_iff:
  "dtFind now b s = (case map_of (byBearer s) b of None \<Rightarrow> None | Some i \<Rightarrow> dtFindID now i s)"
  by (simp add: dtFind_def dtFindID_def LookupByBearer_def LookupByTenantID_def split: option.splits)

lemma dtFindID_iff:
  "dtFindID now i s = (case map_of (byTenant s) i of None \<Rightarrow> None | Some r \<Rightarrow> if now < trExpiresAt r then Some r else None)"
  by (simp add: dtFindID_def LookupByTenantID_def split: option.splits)

lemma dtFindID_sweepLoop: "t \<le> t' \<Longrightarrow> dtFindID t' i (dtSweepLoop t bs s) = dtFindID t' i s"
proof (induction t bs s rule: dtSweepLoop.induct)
  case (2 now bearer tenantID bs s)
  show ?case
  proof (cases "case map_of (byTenant s) tenantID of None \<Rightarrow> True | Some r \<Rightarrow> \<not> now < trExpiresAt r")
    case True
    then have "dtFindID t' i (s\<lparr>byBearer := AList.delete bearer (byBearer s), byTenant := AList.delete tenantID (byTenant s)\<rparr>) =
        dtFindID t' i s"
      using 2(3) by (auto simp: dtFindID_iff alist_simps split: option.splits)
    then show ?thesis using 2 True by simp
  next
    case False
    then show ?thesis using 2 by simp
  qed
qed simp

lemma dtFind_sweepLoop:
  assumes "t \<le> t'" "\<forall>(b1, i1) \<in> set bs. map_of (byBearer s) b1 \<in> {None, Some i1}"
  shows "dtFind t' b (dtSweepLoop t bs s) = dtFind t' b s"
  using assms
proof (induction t bs s rule: dtSweepLoop.induct)
  case (2 now bearer tenantID bs s)
  show ?case
  proof (cases "case map_of (byTenant s) tenantID of None \<Rightarrow> True | Some r \<Rightarrow> \<not> now < trExpiresAt r")
    case True
    let ?s = "s\<lparr>byBearer := AList.delete bearer (byBearer s), byTenant := AList.delete tenantID (byTenant s)\<rparr>"
    have gone: "dtFind t' bearer s = None"
      using True 2(3,4) by (auto simp: dtFind_iff dtFindID_iff split: option.splits)
    have "dtFindID t' j ?s = dtFindID t' j s" for j
      using True 2(3) by (auto simp: dtFindID_iff alist_simps split: option.splits)
    with gone have "dtFind t' b ?s = dtFind t' b s"
      by (auto simp: dtFind_iff alist_simps split: option.splits)
    moreover have "map_of (byBearer ?s) b1 \<in> {None, Some i1}" if "(b1, i1) \<in> set bs" for b1 i1
      using bspec [OF 2(4), of "(b1, i1)"] that by (auto simp: alist_simps)
    ultimately show ?thesis using 2(1) [OF True 2(3)] True by auto
  next
    case False
    then show ?thesis using 2 by simp
  qed
qed simp

definition dtWf :: "dynamicTenantStore \<Rightarrow> bool" where
  "dtWf s \<longleftrightarrow> distinct (map fst (byBearer s))"

lemma dtWf_sweepLoop: "dtWf s \<Longrightarrow> dtWf (dtSweepLoop t bs s)"
  by (induction t bs s rule: dtSweepLoop.induct) (auto simp: dtWf_def distinct_delete)

interpretation ns: ttl_store nsFind nsSweep nsWf
  by unfold_locales
    (auto simp: nsWf_def nsSweep_def nsFind_iff distinct_fst_filter alist_simps split: option.splits)

interpretation sb: ttl_store "\<lambda>t k s. Some (sbLookup t k s)" sbSweep sbWf
  by unfold_locales
    (auto simp: sbWf_def sbSweep_def sbLookup_def distinct_fst_filter alist_simps split: option.splits)

interpretation dt: ttl_store dtFind dtSweep dtWf
proof (unfold_locales, goal_cases)
  case (1 s t) then show ?case by (simp add: dtSweep_def dtWf_sweepLoop)
next
  case (2 s t t' k)
  then show ?case unfolding dtSweep_def by (intro dtFind_sweepLoop) (auto simp: dtWf_def)
qed

interpretation dti: ttl_store dtFindID dtSweep "\<lambda>s. True"
  by unfold_locales (simp_all add: dtSweep_def dtFindID_sweepLoop)

interpretation ip: ttl_store "\<lambda>t k l. Some (fst (ipAllow t k l))" ipSweep ipWf
  by unfold_locales
    (auto simp: ipWf_def ipSweep_def ipAllow_def distinct_fst_filter alist_simps split: option.splits)

section \<open>Runs of the nonce store\<close>

datatype nonceEvent = NIssue "bytes res" string | NConsume string | NSweep

fun nsStep :: "time \<times> nonceEvent \<Rightarrow> nonceStore \<Rightarrow> nonceStore" where
  "nsStep (t, NIssue rnd owner) s = snd (nsIssue t rnd owner s)"
| "nsStep (t, NConsume n) s = snd (nsConsume t n s)"
| "nsStep (t, NSweep) s = nsSweep t s"

text \<open>The event issues, or consumes, the nonce \<open>n\<close>.\<close>

fun issues :: "string \<Rightarrow> time \<times> nonceEvent \<Rightarrow> bool" where
  "issues n (t, NIssue (Inr buf) owner) \<longleftrightarrow> hexEncode buf = n"
| "issues n e \<longleftrightarrow> False"

fun consumes :: "string \<Rightarrow> time \<times> nonceEvent \<Rightarrow> bool" where
  "consumes n (t, NConsume m) \<longleftrightarrow> m = n"
| "consumes n e \<longleftrightarrow> False"

lemma nsStep_wf: "nsWf s \<Longrightarrow> nsWf (nsStep e s)"
  by (cases "(e, s)" rule: nsStep.cases)
    (auto simp: nsIssue_def nsConsume_def nsSweep_def nsWf_def Let_def distinct_update distinct_delete
      distinct_fst_filter split: option.splits sum.splits)

lemma nsStep_find:
  assumes "nsWf s" "\<not> issues n e" "\<not> consumes n e" "fst e \<le> t'"
  shows "nsFind t' n (nsStep e s) = nsFind t' n s"
proof (cases "(e, s)" rule: nsStep.cases)
  case (1 t rnd owner s')
  then show ?thesis using assms by (cases rnd) (auto simp: nsIssue_def nsFind_iff Let_def alist_simps)
next
  case (2 t m s')
  then show ?thesis using assms by (auto simp: nsConsume_def nsFind_iff Let_def alist_simps split: option.splits)
next
  case (3 t s')
  then show ?thesis using assms ns.sweep_invisible by simp
qed

lemma nsRun_find:
  "nsWf s \<Longrightarrow> \<forall>e \<in> set es. \<not> issues n e \<and> \<not> consumes n e \<and> fst e \<le> t' \<Longrightarrow>
    nsFind t' n (fold nsStep es s) = nsFind t' n s"
  by (induction es arbitrary: s) (simp_all add: nsStep_wf nsStep_find)

lemma nsRun_absent:
  "map_of (nsEntries s) n = None \<Longrightarrow> nsWf s \<Longrightarrow> \<forall>e \<in> set es. \<not> issues n e \<Longrightarrow>
    map_of (nsEntries (fold nsStep es s)) n = None"
proof (induction es arbitrary: s)
  case (Cons e es)
  have "map_of (nsEntries (nsStep e s)) n = None"
  proof (cases "(e, s)" rule: nsStep.cases)
    case (1 t rnd owner s')
    then show ?thesis using Cons.prems by (cases rnd) (auto simp: nsIssue_def Let_def alist_simps)
  next
    case (2 t m s')
    then show ?thesis using Cons.prems by (auto simp: nsConsume_def Let_def alist_simps split: option.splits)
  next
    case (3 t s')
    then show ?thesis using Cons.prems by (auto simp: nsSweep_def nsWf_def alist_simps)
  qed
  then show ?case using Cons by (simp add: nsStep_wf)
qed simp

lemma nsConsume_gone: "map_of (nsEntries (snd (nsConsume t n s))) n = None"
  by (simp add: nsConsume_def Let_def alist_simps split: option.splits)

section \<open>Lemmas on challenges\<close>

lemma splitN_Suc: "c \<notin> set a \<Longrightarrow> splitN c (Suc (Suc n)) (a @ c # b) = a # splitN c (Suc n) b"
  by simp

lemma hexEncode_no_colon: "CHR '':'' \<notin> set (hexEncode bs)"
  using set_hexEncode not_hex_lower(1) by blast

lemma parseInt_bigString: "- (2 ^ 63) \<le> i \<Longrightarrow> i < 2 ^ 63 \<Longrightarrow> parseInt (bigString i) = Inr i"
  by (simp add: parseInt_def)

section \<open>Runs of the tenant store and of the limiter\<close>

datatype tenantEvent = DMint "bytes res" "bytes res" string | DSweep

fun dtStep :: "time \<times> tenantEvent \<Rightarrow> dynamicTenantStore \<Rightarrow> dynamicTenantStore" where
  "dtStep (t, DMint rndB rndT owner) s = snd (Mint t rndB rndT owner s)"
| "dtStep (t, DSweep) s = dtSweep t s"

text \<open>The event draws the bearer \<open>b\<close> or the tenant id \<open>i\<close> again.\<close>

fun redraws :: "string \<Rightarrow> string \<Rightarrow> time \<times> tenantEvent \<Rightarrow> bool" where
  "redraws b i (t, DMint (Inr bb) (Inr tb) owner) \<longleftrightarrow> hexEncode bb = b \<or> ''auto-'' @ hexEncode tb = i"
| "redraws b i e \<longleftrightarrow> False"

lemma dtStep_wf: "dtWf s \<Longrightarrow> dtWf (dtStep e s)"
  by (cases "(e, s)" rule: dtStep.cases)
    (auto simp: Mint_def dtSweep_def Let_def dtWf_def distinct_update dtWf_sweepLoop [unfolded dtWf_def] split: sum.splits)

lemma dtStep_findID:
  assumes "\<not> redraws b i e" "fst e \<le> t'"
  shows "dtFindID t' i (dtStep e s) = dtFindID t' i s"
proof (cases "(e, s)" rule: dtStep.cases)
  case (1 t rndB rndT owner s')
  then show ?thesis
    using assms by (cases rndB; cases rndT) (auto simp: Mint_def Let_def dtFindID_iff alist_simps)
next
  case (2 t s')
  then show ?thesis using assms dti.sweep_invisible by simp
qed

lemma sweepLoop_bearer: "map_of (byBearer (dtSweepLoop t bs s)) b \<in> {map_of (byBearer s) b, None}"
  by (induction t bs s rule: dtSweepLoop.induct) (auto simp: alist_simps split: if_splits)

lemma dtStep_find:
  assumes "dtWf s" "map_of (byBearer s) b \<in> {Some i, None}" "\<not> redraws b i e" "fst e \<le> t'"
  shows "dtFind t' b (dtStep e s) = dtFind t' b s \<and> map_of (byBearer (dtStep e s)) b \<in> {Some i, None}"
proof (cases "(e, s)" rule: dtStep.cases)
  case (1 t rndB rndT owner s')
  have same: "map_of (byBearer (dtStep e s)) b = map_of (byBearer s) b"
    using assms 1 by (cases rndB; cases rndT) (auto simp: Mint_def Let_def alist_simps)
  then show ?thesis using dtStep_findID [OF assms(3,4), of s] assms(2) by (auto simp: dtFind_iff)
next
  case (2 t s')
  then show ?thesis using assms dt.sweep_invisible sweepLoop_bearer [of t "byBearer s" s b] by (auto simp: dtSweep_def)
qed

lemma dtRun_find:
  assumes "dtWf s" "map_of (byBearer s) b \<in> {Some i, None}" "\<forall>e \<in> set es. \<not> redraws b i e \<and> fst e \<le> t'"
  shows "dtFind t' b (fold dtStep es s) = dtFind t' b s"
  using assms
proof (induction es arbitrary: s)
  case (Cons e es)
  then show ?case using dtStep_find [of s b i e t'] dtStep_wf [of s e] by simp
qed simp

fun ipRun :: "time list \<Rightarrow> string \<Rightarrow> ipRateLimiter \<Rightarrow> bool list" where
  "ipRun [] ip l = []"
| "ipRun (t # ts) ip l = (let (ok, l') = ipAllow t ip l in ok # ipRun ts ip l')"

lemma ipRun_in_window:
  assumes "ip \<noteq> []" "map_of (ipEntries l) ip = Some e" "\<forall>t \<in> set ts. t - ieWindowStart e < ipWindow l"
  shows "int (length (filter (\<lambda>ok. ok) (ipRun ts ip l))) = max 0 (min (int (length ts)) (ipMax l - ieCount e))"
  using assms(2,3)
proof (induction ts arbitrary: l e)
  case (Cons t ts)
  let ?e = "e\<lparr>ieCount := ieCount e + 1\<rparr>"
  let ?l = "l\<lparr>ipEntries := AList.update ip ?e (ipEntries l)\<rparr>"
  have "ipAllow t ip l = (ieCount e + 1 \<le> ipMax l, ?l)"
    using Cons.prems assms(1) by (simp add: ipAllow_def)
  moreover have "int (length (filter (\<lambda>ok. ok) (ipRun ts ip ?l))) = max 0 (min (int (length ts)) (ipMax l - (ieCount e + 1)))"
    using Cons.IH [of ?l ?e] Cons.prems by (simp add: alist_simps)
  ultimately show ?case by auto
qed simp

section \<open>Properties\<close>

text \<open>The challenge text reads back: parsing the text built for a chain, a nonce and an expiry gives the three
  back, the expiry to the second. The chain id is not empty and has no colon.\<close>

lemma ParseChallenge_BuildChallenge:
  assumes "chainID \<noteq> []" "CHR '':'' \<notin> set chainID" "buf \<noteq> []"
    and "- (2 ^ 63) \<le> unixSeconds t" "unixSeconds t < 2 ^ 63"
  shows "ParseChallenge (BuildChallenge chainID (hexEncode buf) t) =
    Inr \<lparr>pcChainID = chainID, pcNonceHex = hexEncode buf, pcExpiresAt = unixSeconds t * second\<rparr>"
proof -
  have hex: "hexEncode buf \<noteq> []" using assms(3) by (cases buf) simp_all
  have eq: "BuildChallenge chainID (hexEncode buf) t =
      ''svpchain-mcp-auth-v1'' @ CHR '':'' # chainID @ CHR '':'' # hexEncode buf @ CHR '':'' # bigString (unixSeconds t)"
    by (simp add: BuildChallenge_def ChallengePrefix_def)
  have "splitN CHR '':'' 4 (BuildChallenge chainID (hexEncode buf) t) =
      [''svpchain-mcp-auth-v1'', chainID, hexEncode buf, bigString (unixSeconds t)]"
    unfolding eq using assms(2) hexEncode_no_colon [of buf]
    by (simp add: numeral_eq_Suc splitN_Suc del: splitN.simps(3) append.simps) 
  moreover have "hasPrefix (BuildChallenge chainID (hexEncode buf) t) ChallengePrefix"
    by (simp add: BuildChallenge_def)
  ultimately show ?thesis
    using assms(1,4,5) hex by (simp add: ParseChallenge_def parseInt_bigString)
qed

text \<open>A nonce works once. Once it has been presented, whatever the outcome, presenting it again fails as
  unknown, whatever other challenges were issued, consumed or swept in between (with other nonces).\<close>

lemma nonce_single_use:
  assumes "nsWf s" "nsConsume t n s = (r, s1)" "\<forall>e \<in> set es. \<not> issues n e"
  shows "fst (nsConsume t' n (fold nsStep es s1)) = Inl ErrNonceNotFound"
proof -
  have "nsWf s1" using nsStep_wf [OF assms(1), of "(t, NConsume n)"] assms(2) by simp
  moreover have "map_of (nsEntries s1) n = None" using nsConsume_gone [of t n s] assms(2) by simp
  ultimately have "map_of (nsEntries (fold nsStep es s1)) n = None" using nsRun_absent assms(3) by blast
  then show ?thesis by (simp add: nsConsume_def)
qed

text \<open>A nonce is bound to the owner it was issued for and to its expiry: presenting it later gives exactly that
  owner and expiry before the expiry, and fails from the expiry on, whatever happened to other nonces in between.\<close>

lemma nonce_bound_to_owner:
  assumes "nsWf s" "nsIssue t (Inr buf) owner s = (Inr (n, x), s1)"
    and "\<forall>e \<in> set es. \<not> issues n e \<and> \<not> consumes n e \<and> fst e \<le> t'"
  shows "fst (nsConsume t' n (fold nsStep es s1)) = Inr (own, y) \<longleftrightarrow>
    own = owner \<and> y = t + nsTTL s \<and> t' < t + nsTTL s"
proof -
  have "nsWf s1" using nsStep_wf [OF assms(1), of "(t, NIssue (Inr buf) owner)"] assms(2) by simp
  then have "nsFind t' n (fold nsStep es s1) = nsFind t' n s1" using nsRun_find assms(3) by blast
  also have "\<dots> = (if t' < t + nsTTL s then Some (owner, t + nsTTL s) else None)"
    using assms(2) by (auto simp: nsIssue_def Let_def nsFind_iff alist_simps split: if_splits)
  finally show ?thesis by (auto simp: nsFind_def split: sum.splits if_splits)
qed

text \<open>A bearer that \<open>auth_verify\<close> mints stands for the owner it was minted for exactly until it expires, whatever
  other tenants are minted (with other random bytes) or swept in between.\<close>

lemma bearer_valid_until_expiry:
  assumes "dtWf s" "Mint t (Inr bb) (Inr tb) owner s = (Inr (b, i, x), s1)"
    and "\<forall>e \<in> set es. \<not> redraws b i e \<and> fst e \<le> t'"
  shows "LookupByBearer t' b (fold dtStep es s1) = Inr r \<longleftrightarrow>
    t' < t + dtTTL s \<and> r = \<lparr>trTenantID = i, trOwner = owner, trAllowedSubaccounts = dtDefaultAllowed s,
      trKillSwitch = False, trExpiresAt = t + dtTTL s\<rparr>"
proof -
  let ?r = "\<lparr>trTenantID = i, trOwner = owner, trAllowedSubaccounts = dtDefaultAllowed s,
      trKillSwitch = False, trExpiresAt = t + dtTTL s\<rparr>"
  have s1: "map_of (byBearer s1) b = Some i" "map_of (byTenant s1) i = Some ?r"
    using assms(2) by (auto simp: Mint_def Let_def alist_simps split: if_splits)
  have "dtWf s1" using dtStep_wf [OF assms(1), of "(t, DMint (Inr bb) (Inr tb) owner)"] assms(2) by simp
  then have "dtFind t' b (fold dtStep es s1) = dtFind t' b s1" using dtRun_find [of s1 b i es t'] s1 assms(3) by simp
  also have "\<dots> = (if t' < t + dtTTL s then Some ?r else None)" using s1 by (simp add: dtFind_iff dtFindID_iff)
  finally show ?thesis by (auto simp: dtFind_def split: sum.splits if_splits)
qed

text \<open>Within a window opened by a call from an address, exactly as many calls are let through as the limit
  allows (the limit is at least one): the first ones, and no more.\<close>

lemma ip_limit_exact:
  assumes "ip \<noteq> []" "1 \<le> ipMax l"
    and "case map_of (ipEntries l) ip of None \<Rightarrow> True | Some e \<Rightarrow> ipWindow l \<le> t - ieWindowStart e"
    and "\<forall>t' \<in> set ts. t' < t + ipWindow l"
  shows "int (length (filter (\<lambda>ok. ok) (ipRun (t # ts) ip l))) = min (int (length (t # ts))) (ipMax l)"
proof -
  let ?e = "\<lparr>ieCount = 1, ieWindowStart = t\<rparr>"
  let ?l = "l\<lparr>ipEntries := AList.update ip ?e (ipEntries l)\<rparr>"
  have first: "ipAllow t ip l = (True, ?l)"
    using assms(1,3) by (auto simp: ipAllow_def split: option.splits)
  have "int (length (filter (\<lambda>ok. ok) (ipRun ts ip ?l))) = max 0 (min (int (length ts)) (ipMax l - 1))"
    using ipRun_in_window [OF assms(1), of ?l ?e ts] assms(4) by (fastforce simp: alist_simps)
  then show ?thesis using first assms(2) by simp
qed


section \<open>The properties on concrete inputs\<close>

text \<open>Two nonces are issued to \<open>svp1alice\<close> and \<open>svp1bob\<close>.\<close>

definition twoNonces :: nonceStore where
  "twoNonces = fold nsStep [(0, NIssue (Inr [1]) ''svp1alice''), (1, NIssue (Inr [2]) ''svp1bob'')] (NewNonceStore DefaultChallengeTTL)"

lemma nsWf_twoNonces: "nsWf twoNonces"
  by code_simp

definition freshTenants :: dynamicTenantStore where
  "freshTenants = NewDynamicTenantStore DefaultBearerTTL [0, 1]"


end
