(* ===== verification/Tx_Builder.thy ===== *)
theory Tx_Builder
  imports Go_Encoding Go_Time
begin

text \<open>
  The wire payloads (\<open>lib/mcp/payload\<close>), the chain messages the server builds, and the transaction
  assembler (\<open>lib/mcp/builder/seq.go\<close>, \<open>tx.go\<close>).

  The chain's message types come from the protocol and SDK packages; the constructors here carry the fields
  the server sets or reads. Marshalling, \<open>ValidateBasic\<close>, bech32 and the coin predicates are fields of the
  parameter \<open>sdkLib\<close>. Every \<open>build\<close> function ends in \<open>Assemble\<close>: the locale \<open>cosmos_builder\<close> states that, and
  proves once what holds of each payload.
\<close>

section \<open>Chain messages\<close>

record subaccountId =
  saOwner :: string
  saNumber :: u32

record orderId =
  oiSubaccount :: subaccountId
  oiClientId :: u32
  oiFlags :: u32
  oiClobPairId :: u32

datatype orderSide = SIDE_BUY | SIDE_SELL
datatype orderTIF = TIF_UNSPECIFIED | TIF_IOC | TIF_POST_ONLY
datatype orderCondition = COND_UNSPECIFIED | COND_STOP_LOSS | COND_TAKE_PROFIT
datatype goodTil = GoodTilBlock u32 | GoodTilBlockTime u32

record clobOrder =
  orId :: orderId
  orSide :: orderSide
  orQuantums :: u64
  orSubticks :: u64
  orTimeInForce :: orderTIF
  orReduceOnly :: bool
  orCondition :: orderCondition
  orTriggerSubticks :: u64
  orGoodTil :: goodTil

record coin =
  coDenom :: string
  coAmount :: int

datatype msg =
    MsgPlaceOrder clobOrder
  | MsgCancelOrder orderId goodTil
  | MsgBatchCancel subaccountId "(u32 \<times> u32 list) list" u32
  | MsgDepositToSubaccount string subaccountId u32 u64
  | MsgWithdrawFromSubaccount subaccountId string u32 u64
  | MsgCreateTransfer subaccountId subaccountId u32 u64
  | MsgSend string string "coin list"
  | MsgOther string bytes

record anyMsg =
  anyTypeURL :: string
  anyValue :: bytes

text \<open>The order flags of the protocol, as the sources document them.\<close>

abbreviation OrderIdFlags_ShortTerm :: u32 where "OrderIdFlags_ShortTerm \<equiv> 0"
abbreviation OrderIdFlags_Conditional :: u32 where "OrderIdFlags_Conditional \<equiv> 32"
abbreviation OrderIdFlags_LongTerm :: u32 where "OrderIdFlags_LongTerm \<equiv> 64"

text \<open>The SDK and protocol packages.\<close>

record sdkLib =
  ValidateBasic :: "msg \<Rightarrow> err option"
  NewAnyWithValue :: "msg \<Rightarrow> anyMsg res"
  MarshalTxBody :: "anyMsg list \<Rightarrow> bytes res"
  IsShortTermOrder :: "orderId \<Rightarrow> bool"
  AssetUsdcId :: u32
  CoinIsValid :: "coin \<Rightarrow> bool"
  CoinIsPositive :: "coin \<Rightarrow> bool"
  NewCoins :: "coin \<Rightarrow> coin list"
  AccAddressFromBech32 :: "string \<Rightarrow> bytes res"

section \<open>Payloads (payload.go)\<close>

definition CurrentVersion :: int where
  "CurrentVersion = 1"

record payloadCoin =
  pcDenom :: string
  pcAmount :: string

record payloadFee =
  pfGasLimit :: string
  pfAmount :: "payloadCoin list"

record subaccountRef =
  srOwner :: string
  srNumber :: u32

record summary =
  suToolName :: string
  suMsgTypeURL :: string
  suSubaccount :: subaccountRef
  suTicker :: string
  suSide :: string
  suSizeHuman :: string
  suPriceHuman :: string
  suNotionalUSD :: string
  suGoodTil :: string
  suReduceOnly :: bool
  suOrderClientID :: u32
  suAssetID :: u32
  suAmountHuman :: string
  suRecipientOwner :: string
  suRecipientNum :: u32
  suDenom :: string

text \<open>The zero value of the summary, from which each builder sets its fields.\<close>

definition emptySummary :: summary where
  "emptySummary = \<lparr>suToolName = [], suMsgTypeURL = [], suSubaccount = \<lparr>srOwner = [], srNumber = 0\<rparr>, suTicker = [],
     suSide = [], suSizeHuman = [], suPriceHuman = [], suNotionalUSD = [], suGoodTil = [], suReduceOnly = False,
     suOrderClientID = 0, suAssetID = 0, suAmountHuman = [], suRecipientOwner = [], suRecipientNum = 0, suDenom = []\<rparr>"

record txPayload =
  tpVersion :: int
  tpClientID :: string
  tpChainID :: string
  tpSignerAddress :: string
  tpAccountNumber :: string
  tpSequence :: string
  tpIsShortTermCLOB :: bool
  tpTxBodyBytesB64 :: string
  tpAuthInfoBytesB64 :: string
  tpSignBytesB64 :: string
  tpFee :: payloadFee
  tpSummary :: summary
  tpExpiresAt :: time

record signedTx =
  stTxRawBytesB64 :: string
  stSignatureB64 :: string
  stPubKeyB64 :: string

record broadcastResult =
  brTxHash :: string
  brCode :: u32
  brRawLog :: string

section \<open>Short-term messages (seq.go)\<close>

fun IsShortTermClobMsgs :: "sdkLib \<Rightarrow> msg list \<Rightarrow> bool" where
  "IsShortTermClobMsgs S [MsgPlaceOrder ord] \<longleftrightarrow> IsShortTermOrder S (orId ord)"
| "IsShortTermClobMsgs S [MsgCancelOrder oid gt] \<longleftrightarrow> IsShortTermOrder S oid"
| "IsShortTermClobMsgs S [MsgBatchCancel sa bs b] \<longleftrightarrow> True"
| "IsShortTermClobMsgs S ms \<longleftrightarrow> False"

section \<open>The assembler (tx.go)\<close>

definition ClobGasLimit :: u64 where
  "ClobGasLimit = 1000000"

definition DefaultPayloadTTL :: duration where
  "DefaultPayloadTTL = 30 * second"

record assembler =
  asChainID :: string
  asFeeDenom :: string
  asFeeAmount :: string
  asGasLimit :: u64

definition NewAssembler :: "string \<Rightarrow> string \<Rightarrow> string \<Rightarrow> u64 \<Rightarrow> assembler" where
  "NewAssembler chainID feeDenom feeAmount gasLimit =
     \<lparr>asChainID = chainID, asFeeDenom = feeDenom, asFeeAmount = feeAmount,
      asGasLimit = (if gasLimit = 0 then ClobGasLimit else gasLimit)\<rparr>"

record buildArgs =
  baMsgs :: "msg list"
  baSignerAddress :: string
  baAccountNumber :: u64
  baSequence :: u64
  baClientID :: string
  baSummary :: summary

fun wrapAnys :: "sdkLib \<Rightarrow> nat \<Rightarrow> msg list \<Rightarrow> anyMsg list res" where
  "wrapAnys S i [] = Inr []"
| "wrapAnys S i (m # ms) =
     rbind (rwrap ''wrap msg %d in Any: %w'' [AInt (int i)] (NewAnyWithValue S m)) (\<lambda>a.
     rbind (wrapAnys S (Suc i) ms) (\<lambda>as. Inr (a # as)))"

definition encodeTxBody :: "sdkLib \<Rightarrow> msg list \<Rightarrow> bytes res" where
  "encodeTxBody S msgs =
     rbind (wrapAnys S 0 msgs) (\<lambda>anyMsgs.
     rwrap ''marshal TxBody: %w'' [] (MarshalTxBody S anyMsgs))"

definition Assemble :: "sdkLib \<Rightarrow> time \<Rightarrow> assembler \<Rightarrow> buildArgs \<Rightarrow> txPayload res" where
  "Assemble S now a args =
     rbind (encodeTxBody S (baMsgs args)) (\<lambda>bodyBytes.
     (let isShortTermCLOB = IsShortTermClobMsgs S (baMsgs args);
          feeAmount = (if \<not> isShortTermCLOB then [\<lparr>pcDenom = asFeeDenom a, pcAmount = asFeeAmount a\<rparr>] else []) in
      Inr \<lparr>tpVersion = CurrentVersion, tpClientID = baClientID args, tpChainID = asChainID a,
           tpSignerAddress = baSignerAddress args,
           tpAccountNumber = formatUint (baAccountNumber args), tpSequence = formatUint (baSequence args),
           tpIsShortTermCLOB = isShortTermCLOB, tpTxBodyBytesB64 = b64Encode bodyBytes,
           tpAuthInfoBytesB64 = [], tpSignBytesB64 = [],
           tpFee = \<lparr>pfGasLimit = formatUint (asGasLimit a), pfAmount = feeAmount\<rparr>,
           tpSummary = baSummary args, tpExpiresAt = now + DefaultPayloadTTL\<rparr>))"

text \<open>An instance of the packages, for the examples: every message passes its checks and is encoded by its type URL.\<close>

fun docURL :: "msg \<Rightarrow> string" where
  "docURL (MsgPlaceOrder ord) = ''/dydxprotocol.clob.MsgPlaceOrder''"
| "docURL (MsgCancelOrder oid gt) = ''/dydxprotocol.clob.MsgCancelOrder''"
| "docURL (MsgBatchCancel sa bs b) = ''/dydxprotocol.clob.MsgBatchCancel''"
| "docURL (MsgDepositToSubaccount sender sa aid q) = ''/dydxprotocol.sending.MsgDepositToSubaccount''"
| "docURL (MsgWithdrawFromSubaccount sa rcpt aid q) = ''/dydxprotocol.sending.MsgWithdrawFromSubaccount''"
| "docURL (MsgCreateTransfer sender rcpt aid q) = ''/dydxprotocol.sending.MsgCreateTransfer''"
| "docURL (MsgSend sender rcpt cs) = ''/cosmos.bank.v1beta1.MsgSend''"
| "docURL (MsgOther url v) = url"

definition docSDK :: sdkLib where
  "docSDK = \<lparr>ValidateBasic = (\<lambda>_. None), NewAnyWithValue = (\<lambda>m. Inr \<lparr>anyTypeURL = docURL m, anyValue = []\<rparr>),
     MarshalTxBody = (\<lambda>as. Inr (concat (map (\<lambda>a. bytesOf (anyTypeURL a)) as))),
     IsShortTermOrder = (\<lambda>oid. oiFlags oid = 0), AssetUsdcId = 0, CoinIsValid = (\<lambda>c. coDenom c \<noteq> [] \<and> 0 \<le> coAmount c),
     CoinIsPositive = (\<lambda>c. 0 < coAmount c), NewCoins = (\<lambda>c. [c]), AccAddressFromBech32 = (\<lambda>s. Inr (bytesOf s))\<rparr>"

text \<open>The account a message acts for, which must sign it.\<close>

fun msgSigner :: "msg \<Rightarrow> string" where
  "msgSigner (MsgPlaceOrder ord) = saOwner (oiSubaccount (orId ord))"
| "msgSigner (MsgCancelOrder oid gt) = saOwner (oiSubaccount oid)"
| "msgSigner (MsgBatchCancel sa bs b) = saOwner sa"
| "msgSigner (MsgDepositToSubaccount sender sa aid q) = sender"
| "msgSigner (MsgWithdrawFromSubaccount sa rcpt aid q) = saOwner sa"
| "msgSigner (MsgCreateTransfer sender rcpt aid q) = saOwner sender"
| "msgSigner (MsgSend sender rcpt cs) = sender"
| "msgSigner (MsgOther url v) = []"

section \<open>The contract of a builder\<close>

text \<open>
  A builder returns a message and its payload; the payload is the assembler's for that one message, the
  requesting owner, the account state and the client id it was given.
\<close>

locale cosmos_builder =
  fixes S :: sdkLib
    and build :: "assembler \<Rightarrow> u64 \<Rightarrow> u64 \<Rightarrow> time \<Rightarrow> (msg \<times> txPayload) res"
    and owner :: string
    and clientID :: string
  assumes builds: "build a an sq now = Inr (m, p) \<Longrightarrow> msgSigner m = owner \<and> (\<exists>su. Assemble S now a
      \<lparr>baMsgs = [m], baSignerAddress = owner, baAccountNumber = an, baSequence = sq, baClientID = clientID, baSummary = su\<rparr> = Inr p)"
begin

text \<open>What the client may rely on: who signs, with which account state, for which chain, what is in the body, and
  that a fee is asked exactly for what is not a short-term order.\<close>

lemma payload_contract:
  assumes "build a an sq now = Inr (m, p)"
  shows "msgSigner m = owner \<and> tpVersion p = CurrentVersion \<and> tpSignerAddress p = owner \<and> tpClientID p = clientID \<and>
    tpChainID p = asChainID a \<and> parseUint (tpAccountNumber p) = Inr an \<and> parseUint (tpSequence p) = Inr sq \<and>
    parseUint (pfGasLimit (tpFee p)) = Inr (asGasLimit a) \<and>
    (\<exists>body. encodeTxBody S [m] = Inr body \<and> b64Decode (tpTxBodyBytesB64 p) = Some body) \<and>
    tpIsShortTermCLOB p = IsShortTermClobMsgs S [m] \<and>
    (pfAmount (tpFee p) = [] \<longleftrightarrow> IsShortTermClobMsgs S [m]) \<and> tpExpiresAt p = now + DefaultPayloadTTL"
  using builds [OF assms] by (auto simp: Assemble_def Let_def split: if_splits)

end

text \<open>The builders of the chain's own messages also run the chain's stateless checks.\<close>

locale validated_builder = cosmos_builder +
  assumes validated: "build a an sq now = Inr (m, p) \<Longrightarrow> ValidateBasic S m = None"
begin

lemma builds_valid:
  "build a an sq now = Inr (m, p) \<Longrightarrow> msgSigner m = owner \<and> ValidateBasic S m = None \<and> (\<exists>su. Assemble S now a
      \<lparr>baMsgs = [m], baSignerAddress = owner, baAccountNumber = an, baSequence = sq, baClientID = clientID, baSummary = su\<rparr> = Inr p)"
  using validated builds by blast

lemma validated_contract:
  "build a an sq now = Inr (m, p) \<Longrightarrow>
    ValidateBasic S m = None \<and> msgSigner m = owner \<and> tpSignerAddress p = owner \<and> tpClientID p = clientID"
  using validated payload_contract by blast

end

section \<open>Lemmas\<close>

lemma wrapAnys_length: "wrapAnys S i ms = Inr as \<Longrightarrow> length as = length ms"
  by (induction ms arbitrary: i as) auto

lemma IsShortTermClobMsgs_iff:
  "IsShortTermClobMsgs S ms \<longleftrightarrow> (\<exists>m. ms = [m] \<and> (case m of
      MsgPlaceOrder ord \<Rightarrow> IsShortTermOrder S (orId ord)
    | MsgCancelOrder oid gt \<Rightarrow> IsShortTermOrder S oid
    | MsgBatchCancel sa bs b \<Rightarrow> True
    | _ \<Rightarrow> False))"
  by (cases "(S, ms)" rule: IsShortTermClobMsgs.cases) auto

end
