(* ===== verification/Orders.thy ===== *)
theory Orders
  imports Tx_Builder Units
begin

text \<open>
  The order builders of \<open>lib/mcp/builder\<close>: \<open>orders.go\<close> (limit, market and conditional orders) and
  \<open>cancels.go\<close> (single and batch cancels). Each keeps the contract \<open>cosmos_builder\<close>.
\<close>

section \<open>Parsing the enum words (orders.go)\<close>

definition parseConditionType :: "string \<Rightarrow> orderCondition res" where
  "parseConditionType s =
     (if s = ''STOP_LOSS'' then Inr COND_STOP_LOSS
      else if s = ''TAKE_PROFIT'' then Inr COND_TAKE_PROFIT
      else Inl (Errorf ''invalid condition_type %q (want STOP_LOSS or TAKE_PROFIT)'' [AStr s]))"

definition parseSide :: "string \<Rightarrow> orderSide res" where
  "parseSide s =
     (if s = ''BUY'' then Inr SIDE_BUY
      else if s = ''SELL'' then Inr SIDE_SELL
      else Inl (Errorf ''invalid side %q (want BUY or SELL)'' [AStr s]))"

definition parseTimeInForce :: "string \<Rightarrow> orderTIF res" where
  "parseTimeInForce s =
     (if s = [] \<or> s = ''UNSPECIFIED'' then Inr TIF_UNSPECIFIED
      else if s = ''IOC'' then Inr TIF_IOC
      else if s = ''POST_ONLY'' then Inr TIF_POST_ONLY
      else Inl (Errorf ''invalid time_in_force %q'' [AStr s]))"

section \<open>Placing orders (orders.go)\<close>

record placeLimitOrderInput =
  loOwner :: string
  loSubaccountNum :: u32
  loTicker :: string
  loSide :: string
  loHumanSize :: string
  loHumanPrice :: string
  loTimeInForce :: string
  loReduceOnly :: bool
  loGoodTilBlock :: u32
  loOrderClientID :: u32
  loPayloadClientID :: string

definition u32dec :: "u32 \<Rightarrow> string" where
  "u32dec n = nat_dec (unat n)"

definition BuildPlaceLimitOrder :: "sdkLib \<Rightarrow> protocolLib \<Rightarrow> placeLimitOrderInput \<Rightarrow> cache \<Rightarrow> assembler \<Rightarrow> u64 \<Rightarrow> u64
    \<Rightarrow> time \<Rightarrow> (msg \<times> txPayload) res" where
  "BuildPlaceLimitOrder S L inp cch asm accountNumber sequence now =
     rbind (of_opt (Errorf ''unknown ticker %q (markets cache not populated?)'' [AStr (loTicker inp)])
              (ResolveTicker cch (loTicker inp))) (\<lambda>meta.
     rbind (rwrap ''size: %w'' [] (SizeToQuantums L (loHumanSize inp) meta)) (\<lambda>quantums.
     rbind (rwrap ''price: %w'' [] (PriceToSubticks L (loHumanPrice inp) meta)) (\<lambda>subticks.
     rbind (parseSide (loSide inp)) (\<lambda>side.
     rbind (parseTimeInForce (loTimeInForce inp)) (\<lambda>tif.
     rbind (require (loGoodTilBlock inp \<noteq> 0) (Errorf ''good_til_block is required for short-term orders'' [])) (\<lambda>_.
     (let order = \<lparr>
            orId = \<lparr>oiSubaccount = \<lparr>saOwner = loOwner inp, saNumber = loSubaccountNum inp\<rparr>,
                    oiClientId = loOrderClientID inp, oiFlags = OrderIdFlags_ShortTerm, oiClobPairId = ClobPairID meta\<rparr>,
            orSide = side, orQuantums = quantums, orSubticks = subticks, orTimeInForce = tif,
            orReduceOnly = loReduceOnly inp, orCondition = COND_UNSPECIFIED, orTriggerSubticks = 0,
            orGoodTil = GoodTilBlock (loGoodTilBlock inp)\<rparr>;
          m = MsgPlaceOrder order in
      rbind (rwrap ''MsgPlaceOrder.ValidateBasic: %w'' [] (of_err (ValidateBasic S m))) (\<lambda>_.
      (let su = emptySummary\<lparr>suToolName := ''build_place_limit_order'', suMsgTypeURL := ''/dydxprotocol.clob.MsgPlaceOrder'',
             suSubaccount := \<lparr>srOwner = loOwner inp, srNumber = loSubaccountNum inp\<rparr>, suTicker := loTicker inp,
             suSide := loSide inp, suSizeHuman := loHumanSize inp, suPriceHuman := loHumanPrice inp,
             suGoodTil := ''block:'' @ u32dec (loGoodTilBlock inp), suReduceOnly := loReduceOnly inp,
             suOrderClientID := loOrderClientID inp\<rparr> in
       rbind (rwrap ''assemble: %w'' [] (Assemble S now asm \<lparr>baMsgs = [m], baSignerAddress = loOwner inp,
                baAccountNumber = accountNumber, baSequence = sequence, baClientID = loPayloadClientID inp, baSummary = su\<rparr>)) (\<lambda>p.
       Inr (m, p)))))))))))"

record placeMarketOrderInput =
  moOwner :: string
  moSubaccountNum :: u32
  moTicker :: string
  moSide :: string
  moHumanSize :: string
  moWorstPrice :: string
  moOraclePrice :: string
  moSlippageBps :: u32
  moReduceOnly :: bool
  moGoodTilBlock :: u32
  moOrderClientID :: u32
  moPayloadClientID :: string

text \<open>The worst price: the explicit one, or the oracle price with slippage.\<close>

definition marketWorst :: "protocolLib \<Rightarrow> placeMarketOrderInput \<Rightarrow> marketMeta \<Rightarrow> (u64 \<times> string) res" where
  "marketWorst L inp meta =
     (if moWorstPrice inp \<noteq> [] then
        rbind (rwrap ''worst_price: %w'' [] (PriceToSubticks L (moWorstPrice inp) meta)) (\<lambda>st. Inr (st, moWorstPrice inp))
      else if moOraclePrice inp \<noteq> [] \<and> 0 < moSlippageBps inp then
        rbind (rwrap ''aggressive subticks: %w'' []
                 (AggressiveSubticks L (moSide inp) (moOraclePrice inp) (moSlippageBps inp) meta)) (\<lambda>st.
        Inr (st, ''oracle='' @ moOraclePrice inp @ '' slip='' @ u32dec (moSlippageBps inp) @ ''bps''))
      else Inl (Errorf ''market order requires either worst_price or (oracle_price + slippage_bps)'' []))"

definition BuildPlaceMarketOrder :: "sdkLib \<Rightarrow> protocolLib \<Rightarrow> placeMarketOrderInput \<Rightarrow> cache \<Rightarrow> assembler \<Rightarrow> u64 \<Rightarrow> u64
    \<Rightarrow> time \<Rightarrow> (msg \<times> txPayload) res" where
  "BuildPlaceMarketOrder S L inp cch asm accountNumber sequence now =
     rbind (of_opt (Errorf ''unknown ticker %q (markets cache not populated?)'' [AStr (moTicker inp)])
              (ResolveTicker cch (moTicker inp))) (\<lambda>meta.
     rbind (rwrap ''size: %w'' [] (SizeToQuantums L (moHumanSize inp) meta)) (\<lambda>quantums.
     rbind (parseSide (moSide inp)) (\<lambda>side.
     rbind (marketWorst L inp meta) (\<lambda>(subticks, worstHuman).
     rbind (require (moGoodTilBlock inp \<noteq> 0) (Errorf ''good_til_block is required for short-term orders'' [])) (\<lambda>_.
     (let order = \<lparr>
            orId = \<lparr>oiSubaccount = \<lparr>saOwner = moOwner inp, saNumber = moSubaccountNum inp\<rparr>,
                    oiClientId = moOrderClientID inp, oiFlags = OrderIdFlags_ShortTerm, oiClobPairId = ClobPairID meta\<rparr>,
            orSide = side, orQuantums = quantums, orSubticks = subticks, orTimeInForce = TIF_IOC,
            orReduceOnly = moReduceOnly inp, orCondition = COND_UNSPECIFIED, orTriggerSubticks = 0,
            orGoodTil = GoodTilBlock (moGoodTilBlock inp)\<rparr>;
          m = MsgPlaceOrder order in
      rbind (rwrap ''MsgPlaceOrder.ValidateBasic: %w'' [] (of_err (ValidateBasic S m))) (\<lambda>_.
      (let su = emptySummary\<lparr>suToolName := ''build_place_market_order'', suMsgTypeURL := ''/dydxprotocol.clob.MsgPlaceOrder'',
             suSubaccount := \<lparr>srOwner = moOwner inp, srNumber = moSubaccountNum inp\<rparr>, suTicker := moTicker inp,
             suSide := moSide inp, suSizeHuman := moHumanSize inp, suPriceHuman := worstHuman,
             suGoodTil := ''block:'' @ u32dec (moGoodTilBlock inp), suReduceOnly := moReduceOnly inp,
             suOrderClientID := moOrderClientID inp\<rparr> in
       rbind (rwrap ''assemble: %w'' [] (Assemble S now asm \<lparr>baMsgs = [m], baSignerAddress = moOwner inp,
                baAccountNumber = accountNumber, baSequence = sequence, baClientID = moPayloadClientID inp, baSummary = su\<rparr>)) (\<lambda>p.
       Inr (m, p))))))))))"

record placeConditionalOrderInput =
  coOwner :: string
  coSubaccountNum :: u32
  coTicker :: string
  coSide :: string
  coHumanSize :: string
  coHumanPrice :: string
  coConditionType :: string
  coTriggerPrice :: string
  coTimeInForce :: string
  coReduceOnly :: bool
  coGoodTilBlockTime :: u32
  coOrderClientID :: u32
  coPayloadClientID :: string

definition BuildPlaceConditionalOrder :: "sdkLib \<Rightarrow> protocolLib \<Rightarrow> placeConditionalOrderInput \<Rightarrow> cache \<Rightarrow> assembler
    \<Rightarrow> u64 \<Rightarrow> u64 \<Rightarrow> time \<Rightarrow> (msg \<times> txPayload) res" where
  "BuildPlaceConditionalOrder S L inp cch asm accountNumber sequence now =
     rbind (of_opt (Errorf ''unknown ticker %q'' [AStr (coTicker inp)]) (ResolveTicker cch (coTicker inp))) (\<lambda>meta.
     rbind (rwrap ''size: %w'' [] (SizeToQuantums L (coHumanSize inp) meta)) (\<lambda>quantums.
     rbind (rwrap ''price: %w'' [] (PriceToSubticks L (coHumanPrice inp) meta)) (\<lambda>subticks.
     rbind (rwrap ''trigger_price: %w'' [] (PriceToSubticks L (coTriggerPrice inp) meta)) (\<lambda>triggerSubticks.
     rbind (parseSide (coSide inp)) (\<lambda>side.
     rbind (parseTimeInForce (coTimeInForce inp)) (\<lambda>tif.
     rbind (parseConditionType (coConditionType inp)) (\<lambda>cond.
     rbind (require (coGoodTilBlockTime inp \<noteq> 0)
              (Errorf ''good_til_block_time is required for stateful (conditional) orders'' [])) (\<lambda>_.
     (let order = \<lparr>
            orId = \<lparr>oiSubaccount = \<lparr>saOwner = coOwner inp, saNumber = coSubaccountNum inp\<rparr>,
                    oiClientId = coOrderClientID inp, oiFlags = OrderIdFlags_Conditional, oiClobPairId = ClobPairID meta\<rparr>,
            orSide = side, orQuantums = quantums, orSubticks = subticks, orTimeInForce = tif,
            orReduceOnly = coReduceOnly inp, orCondition = cond, orTriggerSubticks = triggerSubticks,
            orGoodTil = GoodTilBlockTime (coGoodTilBlockTime inp)\<rparr>;
          m = MsgPlaceOrder order in
      rbind (rwrap ''MsgPlaceOrder.ValidateBasic: %w'' [] (of_err (ValidateBasic S m))) (\<lambda>_.
      (let su = emptySummary\<lparr>suToolName := ''build_place_conditional_order'', suMsgTypeURL := ''/dydxprotocol.clob.MsgPlaceOrder'',
             suSubaccount := \<lparr>srOwner = coOwner inp, srNumber = coSubaccountNum inp\<rparr>, suTicker := coTicker inp,
             suSide := coSide inp, suSizeHuman := coHumanSize inp,
             suPriceHuman := coHumanPrice inp @ '' ('' @ coConditionType inp @ '' @ trigger '' @ coTriggerPrice inp @ '')'',
             suGoodTil := ''time:'' @ u32dec (coGoodTilBlockTime inp), suReduceOnly := coReduceOnly inp,
             suOrderClientID := coOrderClientID inp\<rparr> in
       rbind (rwrap ''assemble: %w'' [] (Assemble S now asm \<lparr>baMsgs = [m], baSignerAddress = coOwner inp,
                baAccountNumber = accountNumber, baSequence = sequence, baClientID = coPayloadClientID inp, baSummary = su\<rparr>)) (\<lambda>p.
       Inr (m, p)))))))))))))"

section \<open>Cancelling orders (cancels.go)\<close>

definition validateCancelFlags :: "u32 \<Rightarrow> u32 \<Rightarrow> u32 \<Rightarrow> err option" where
  "validateCancelFlags flags goodTilBlock goodTilTime =
     (if flags = OrderIdFlags_ShortTerm then
        (if goodTilBlock = 0 then Some (Errorf ''short-term cancel (order_flags=0) requires good_til_block'' [])
         else if goodTilTime \<noteq> 0 then Some (Errorf ''short-term cancel must not set good_til_block_time'' [])
         else None)
      else if flags = OrderIdFlags_Conditional \<or> flags = OrderIdFlags_LongTerm then
        (if goodTilTime = 0
         then Some (Errorf ''stateful cancel (order_flags=%d) requires good_til_block_time'' [AInt (uint flags)])
         else if goodTilBlock \<noteq> 0 then Some (Errorf ''stateful cancel must not set good_til_block'' [])
         else None)
      else Some (Errorf ''invalid order_flags %d (want 0=ShortTerm, 32=Conditional, 64=LongTerm)'' [AInt (uint flags)]))"

definition describeGoodTil :: "u32 \<Rightarrow> u32 \<Rightarrow> string" where
  "describeGoodTil block blockTime = (if 0 < block then ''block:'' @ u32dec block else ''time:'' @ u32dec blockTime)"

record cancelOrderInput =
  cxOwner :: string
  cxSubaccountNum :: u32
  cxClobPairID :: u32
  cxOrderClientID :: u32
  cxOrderFlags :: u32
  cxGoodTilBlock :: u32
  cxGoodTilBlockTime :: u32
  cxPayloadClientID :: string

definition BuildCancelOrder :: "sdkLib \<Rightarrow> cancelOrderInput \<Rightarrow> assembler \<Rightarrow> u64 \<Rightarrow> u64 \<Rightarrow> time \<Rightarrow> (msg \<times> txPayload) res" where
  "BuildCancelOrder S inp asm accountNumber sequence now =
     rbind (of_err (validateCancelFlags (cxOrderFlags inp) (cxGoodTilBlock inp) (cxGoodTilBlockTime inp))) (\<lambda>_.
     (let oid = \<lparr>oiSubaccount = \<lparr>saOwner = cxOwner inp, saNumber = cxSubaccountNum inp\<rparr>, oiClientId = cxOrderClientID inp,
                 oiFlags = cxOrderFlags inp, oiClobPairId = cxClobPairID inp\<rparr>;
          m = MsgCancelOrder oid (if 0 < cxGoodTilBlock inp then GoodTilBlock (cxGoodTilBlock inp)
                                  else GoodTilBlockTime (cxGoodTilBlockTime inp)) in
      rbind (rwrap ''MsgCancelOrder.ValidateBasic: %w'' [] (of_err (ValidateBasic S m))) (\<lambda>_.
      (let su = emptySummary\<lparr>suToolName := ''build_cancel_order'', suMsgTypeURL := ''/dydxprotocol.clob.MsgCancelOrder'',
             suSubaccount := \<lparr>srOwner = cxOwner inp, srNumber = cxSubaccountNum inp\<rparr>, suOrderClientID := cxOrderClientID inp,
             suGoodTil := describeGoodTil (cxGoodTilBlock inp) (cxGoodTilBlockTime inp)\<rparr> in
       rbind (rwrap ''assemble: %w'' [] (Assemble S now asm \<lparr>baMsgs = [m], baSignerAddress = cxOwner inp,
                baAccountNumber = accountNumber, baSequence = sequence, baClientID = cxPayloadClientID inp, baSummary = su\<rparr>)) (\<lambda>p.
       Inr (m, p))))))"

record orderBatchInput =
  obClobPairID :: u32
  obClientIDs :: "u32 list"

record batchCancelOrdersInput =
  bcOwner :: string
  bcSubaccountNum :: u32
  bcBatches :: "orderBatchInput list"
  bcGoodTilBlock :: u32
  bcPayloadClientID :: string

text \<open>The loop over the batches: the messages' batches and the number of ids.\<close>

fun orderBatches :: "nat \<Rightarrow> orderBatchInput list \<Rightarrow> ((u32 \<times> u32 list) list \<times> nat) res" where
  "orderBatches i [] = Inr ([], 0)"
| "orderBatches i (b # bs) =
     (if obClientIDs b = []
      then Inl (Errorf ''batches[%d] (clob_pair_id=%d) has no client_ids'' [AInt (int i), AInt (uint (obClobPairID b))])
      else rbind (orderBatches (Suc i) bs) (\<lambda>(r, n). Inr ((obClobPairID b, obClientIDs b) # r, length (obClientIDs b) + n)))"

definition BuildBatchCancelOrders :: "sdkLib \<Rightarrow> batchCancelOrdersInput \<Rightarrow> assembler \<Rightarrow> u64 \<Rightarrow> u64 \<Rightarrow> time
    \<Rightarrow> (msg \<times> txPayload) res" where
  "BuildBatchCancelOrders S inp asm accountNumber sequence now =
     rbind (require (bcBatches inp \<noteq> [])
              (Errorf ''batch cancel requires at least one (clob_pair_id, client_ids) tuple'' [])) (\<lambda>_.
     rbind (require (bcGoodTilBlock inp \<noteq> 0)
              (Errorf ''good_til_block is required (batch cancel is short-term only)'' [])) (\<lambda>_.
     rbind (orderBatches 0 (bcBatches inp)) (\<lambda>(batches, totalIDs).
     (let m = MsgBatchCancel \<lparr>saOwner = bcOwner inp, saNumber = bcSubaccountNum inp\<rparr> batches (bcGoodTilBlock inp) in
      rbind (rwrap ''MsgBatchCancel.ValidateBasic: %w'' [] (of_err (ValidateBasic S m))) (\<lambda>_.
      (let su = emptySummary\<lparr>suToolName := ''build_batch_cancel_orders'', suMsgTypeURL := ''/dydxprotocol.clob.MsgBatchCancel'',
             suSubaccount := \<lparr>srOwner = bcOwner inp, srNumber = bcSubaccountNum inp\<rparr>,
             suGoodTil := ''block:'' @ u32dec (bcGoodTilBlock inp), suOrderClientID := of_nat totalIDs\<rparr> in
       rbind (rwrap ''assemble: %w'' [] (Assemble S now asm \<lparr>baMsgs = [m], baSignerAddress = bcOwner inp,
                baAccountNumber = accountNumber, baSequence = sequence, baClientID = bcPayloadClientID inp, baSummary = su\<rparr>)) (\<lambda>p.
       Inr (m, p))))))))"

section \<open>The builders keep the contract\<close>

interpretation blo: validated_builder S "BuildPlaceLimitOrder S L inp cch" "loOwner inp" "loPayloadClientID inp"
  for S L inp cch
  by unfold_locales (auto simp: BuildPlaceLimitOrder_def Let_def)

interpretation bmo: validated_builder S "BuildPlaceMarketOrder S L inp cch" "moOwner inp" "moPayloadClientID inp"
  for S L inp cch
  by unfold_locales (auto simp: BuildPlaceMarketOrder_def Let_def)

interpretation bco: validated_builder S "BuildPlaceConditionalOrder S L inp cch" "coOwner inp" "coPayloadClientID inp"
  for S L inp cch
  by unfold_locales (auto simp: BuildPlaceConditionalOrder_def Let_def)

interpretation bcx: validated_builder S "BuildCancelOrder S inp" "cxOwner inp" "cxPayloadClientID inp"
  for S inp
  by unfold_locales (auto simp: BuildCancelOrder_def Let_def)

interpretation bbc: validated_builder S "BuildBatchCancelOrders S inp" "bcOwner inp" "bcPayloadClientID inp"
  for S inp
  by unfold_locales (auto simp: BuildBatchCancelOrders_def Let_def)

section \<open>Lemmas\<close>

lemma parseSide_Inr: "parseSide s = Inr d \<longleftrightarrow> s = ''BUY'' \<and> d = SIDE_BUY \<or> s = ''SELL'' \<and> d = SIDE_SELL"
  by (auto simp: parseSide_def)

lemma validateCancelFlags_None:
  "validateCancelFlags flags b t = None \<longleftrightarrow>
     flags = OrderIdFlags_ShortTerm \<and> b \<noteq> 0 \<and> t = 0 \<or>
     (flags = OrderIdFlags_Conditional \<or> flags = OrderIdFlags_LongTerm) \<and> t \<noteq> 0 \<and> b = 0"
  by (auto simp: validateCancelFlags_def)

lemma orderBatches_Inr:
  "orderBatches i bs = Inr (r, n) \<longleftrightarrow>
     (\<forall>b \<in> set bs. obClientIDs b \<noteq> []) \<and> r = map (\<lambda>b. (obClobPairID b, obClientIDs b)) bs \<and>
     n = sum_list (map (\<lambda>b. length (obClientIDs b)) bs)"
  by (induction bs arbitrary: i r n) (auto split: if_splits)

text \<open>What the protocol documents of an order id: it is short-term exactly when its flags are zero.\<close>

definition flags_ok :: "sdkLib \<Rightarrow> bool" where
  "flags_ok S \<longleftrightarrow> (\<forall>oid. IsShortTermOrder S oid \<longleftrightarrow> oiFlags oid = OrderIdFlags_ShortTerm)"

lemma size_Inr:
  assumes "protocolLib_ok L" "SizeToQuantums L s meta = Inr q" "ratSetString s = Some r" "0 \<le> r"
  shows "int (unat q) = \<lfloor>r * 10 powi (wrap32 (- AtomicResolution meta))\<rfloor> \<and>
    (StepBaseQuantums meta = 0 \<or> unat (StepBaseQuantums meta) dvd unat q)"
  using SizeToQuantums_iff [OF assms(1,3,4)] assms(2) by blast

lemma price_Inr:
  assumes "protocolLib_ok L" "PriceToSubticks L s meta = Inr q" "ratSetString s = Some r" "0 \<le> r"
  shows "int (unat q) = \<lfloor>r * 10 powi (priceExponent L meta)\<rfloor> \<and>
    (SubticksPerTick meta = 0 \<or> unat (SubticksPerTick meta) dvd unat q)"
  using PriceToSubticks_iff [OF assms(1,3,4)] assms(2) by blast

section \<open>Properties\<close>



text \<open>C37: a cancel that is built goes where its order lives: for a short-term order it carries a block, no time and no
  fee, for a stateful order (conditional or long-term) a time, no block and the fee; any other flags are refused.\<close>

theorem cancel_routed_by_flags:
  assumes "flags_ok S" "BuildCancelOrder S inp asm an sq now = Inr (m, p)"
  shows "\<exists>oid gt. m = MsgCancelOrder oid gt \<and> oiSubaccount oid = \<lparr>saOwner = cxOwner inp, saNumber = cxSubaccountNum inp\<rparr> \<and>
    oiFlags oid = cxOrderFlags inp \<and>
    (if cxOrderFlags inp = OrderIdFlags_ShortTerm
     then gt = GoodTilBlock (cxGoodTilBlock inp) \<and> cxGoodTilBlock inp \<noteq> 0 \<and> tpIsShortTermCLOB p \<and> pfAmount (tpFee p) = []
     else cxOrderFlags inp \<in> {OrderIdFlags_Conditional, OrderIdFlags_LongTerm} \<and>
       gt = GoodTilBlockTime (cxGoodTilBlockTime inp) \<and> cxGoodTilBlockTime inp \<noteq> 0 \<and> \<not> tpIsShortTermCLOB p \<and>
       pfAmount (tpFee p) = [\<lparr>pcDenom = asFeeDenom asm, pcAmount = asFeeAmount asm\<rparr>])"
  using assms
  by (auto simp: BuildCancelOrder_def Let_def validateCancelFlags_None flags_ok_def Assemble_def word_gt_0)

section \<open>The properties on the BTC-USD market\<close>

definition btcCache :: cache where
  "btcCache = (NewCache minute)\<lparr>byTicker := [(''BTC-USD'', btcMeta)]\<rparr>"

definition exAssembler :: assembler where
  "exAssembler = NewAssembler ''svp-1'' ''asvp'' ''5000'' 0"

definition exLimit :: placeLimitOrderInput where
  "exLimit = \<lparr>loOwner = ''svp1abc'', loSubaccountNum = 2, loTicker = ''BTC-USD'', loSide = ''SELL'', loHumanSize = ''0.05'',
     loHumanPrice = ''65000.00'', loTimeInForce = ''IOC'', loReduceOnly = False, loGoodTilBlock = 120, loOrderClientID = 9,
     loPayloadClientID = ''c1''\<rparr>"

definition exMarket :: placeMarketOrderInput where
  "exMarket = \<lparr>moOwner = ''svp1abc'', moSubaccountNum = 2, moTicker = ''BTC-USD'', moSide = ''BUY'', moHumanSize = ''0.05'',
     moWorstPrice = [], moOraclePrice = ''65000.001'', moSlippageBps = 100, moReduceOnly = False, moGoodTilBlock = 120,
     moOrderClientID = 9, moPayloadClientID = ''c1''\<rparr>"

definition exCancel :: cancelOrderInput where
  "exCancel = \<lparr>cxOwner = ''svp1abc'', cxSubaccountNum = 2, cxClobPairID = 0, cxOrderClientID = 9, cxOrderFlags = 64,
     cxGoodTilBlock = 0, cxGoodTilBlockTime = 1700000000, cxPayloadClientID = ''c2''\<rparr>"

lemma docSDK_flags_ok: "flags_ok docSDK"
  by (simp add: flags_ok_def docSDK_def)



theorem cancel_routed_by_flags_witness:
  "\<exists>oid p. BuildCancelOrder docSDK exCancel exAssembler 7 3 0 = Inr (MsgCancelOrder oid (GoodTilBlockTime 1700000000), p) \<and>
     oiFlags oid = 64 \<and> \<not> tpIsShortTermCLOB p \<and> pfAmount (tpFee p) = [\<lparr>pcDenom = ''asvp'', pcAmount = ''5000''\<rparr>]"
proof -
  have "\<not> isl (BuildCancelOrder docSDK exCancel exAssembler 7 3 0)" by code_simp
  then obtain m p where b: "BuildCancelOrder docSDK exCancel exAssembler 7 3 0 = Inr (m, p)"
    by (metis old.prod.exhaust sum.collapse(2))
  show ?thesis
    using cancel_routed_by_flags [OF docSDK_flags_ok b] b
    by (auto simp: exCancel_def exAssembler_def NewAssembler_def)
qed

end
