(* ===== verification/Funds_Builder.thy ===== *)
theory Funds_Builder
  imports Tx_Builder Withdraw_Limits
begin

text \<open>
  The funds builders of \<open>lib/mcp/builder/funds.go\<close>: deposits to and withdrawals from a subaccount, transfers between
  the subaccounts of one owner, and plain bank sends.
\<close>

section \<open>Amounts\<close>

text \<open>The conversion that opens three of the builders: a USDC amount that is positive.\<close>

definition positiveUSDC :: "string \<Rightarrow> u64 res" where
  "positiveUSDC human =
     rbind (rwrap ''human_usdc: %w'' [] (HumanToQuantums human)) (\<lambda>quantums.
     rbind (require (quantums \<noteq> 0) (Errorf ''human_usdc must be > 0'' [])) (\<lambda>_. Inr quantums))"

section \<open>Deposits\<close>

record depositInput =
  diOwner :: string
  diSubaccountNum :: u32
  diHumanUSDC :: string
  diPayloadClientID :: string

definition BuildDepositToSubaccount :: "sdkLib \<Rightarrow> depositInput \<Rightarrow> assembler \<Rightarrow> u64 \<Rightarrow> u64 \<Rightarrow> time
    \<Rightarrow> (msg \<times> txPayload) res" where
  "BuildDepositToSubaccount S inp asm accountNumber sequence now =
     rbind (positiveUSDC (diHumanUSDC inp)) (\<lambda>quantums.
     (let m = MsgDepositToSubaccount (diOwner inp) \<lparr>saOwner = diOwner inp, saNumber = diSubaccountNum inp\<rparr>
                (AssetUsdcId S) quantums in
      rbind (rwrap ''MsgDepositToSubaccount.ValidateBasic: %w'' [] (of_err (ValidateBasic S m))) (\<lambda>_.
      (let su = emptySummary\<lparr>suToolName := ''build_deposit_to_subaccount'',
             suMsgTypeURL := ''/dydxprotocol.sending.MsgDepositToSubaccount'',
             suSubaccount := \<lparr>srOwner = diOwner inp, srNumber = diSubaccountNum inp\<rparr>,
             suAssetID := AssetUsdcId S, suAmountHuman := diHumanUSDC inp\<rparr> in
       rbind (rwrap ''assemble: %w'' [] (Assemble S now asm \<lparr>baMsgs = [m], baSignerAddress = diOwner inp,
                baAccountNumber = accountNumber, baSequence = sequence, baClientID = diPayloadClientID inp, baSummary = su\<rparr>)) (\<lambda>p.
       Inr (m, p))))))"

section \<open>Transfers between the subaccounts of one owner\<close>

record transferInput =
  tiOwner :: string
  tiSenderSubaccountNum :: u32
  tiRecipientSubaccountNum :: u32
  tiHumanUSDC :: string
  tiPayloadClientID :: string

definition BuildTransferBetweenSubaccounts :: "sdkLib \<Rightarrow> transferInput \<Rightarrow> assembler \<Rightarrow> u64 \<Rightarrow> u64 \<Rightarrow> time
    \<Rightarrow> (msg \<times> txPayload) res" where
  "BuildTransferBetweenSubaccounts S inp asm accountNumber sequence now =
     rbind (require (tiSenderSubaccountNum inp \<noteq> tiRecipientSubaccountNum inp)
              (Errorf ''sender_subaccount_number must differ from recipient_subaccount_number'' [])) (\<lambda>_.
     rbind (positiveUSDC (tiHumanUSDC inp)) (\<lambda>quantums.
     (let m = MsgCreateTransfer \<lparr>saOwner = tiOwner inp, saNumber = tiSenderSubaccountNum inp\<rparr>
                \<lparr>saOwner = tiOwner inp, saNumber = tiRecipientSubaccountNum inp\<rparr> (AssetUsdcId S) quantums in
      rbind (rwrap ''MsgCreateTransfer.ValidateBasic: %w'' [] (of_err (ValidateBasic S m))) (\<lambda>_.
      (let su = emptySummary\<lparr>suToolName := ''build_transfer_between_subaccounts'',
             suMsgTypeURL := ''/dydxprotocol.sending.MsgCreateTransfer'',
             suSubaccount := \<lparr>srOwner = tiOwner inp, srNumber = tiSenderSubaccountNum inp\<rparr>,
             suAssetID := AssetUsdcId S, suAmountHuman := tiHumanUSDC inp,
             suRecipientOwner := tiOwner inp, suRecipientNum := tiRecipientSubaccountNum inp\<rparr> in
       rbind (rwrap ''assemble: %w'' [] (Assemble S now asm \<lparr>baMsgs = [m], baSignerAddress = tiOwner inp,
                baAccountNumber = accountNumber, baSequence = sequence, baClientID = tiPayloadClientID inp, baSummary = su\<rparr>)) (\<lambda>p.
       Inr (m, p)))))))"

section \<open>Bank sends\<close>

record bankSendInput =
  bsOwner :: string
  bsRecipient :: string
  bsAmount :: coin
  bsAmountHuman :: string
  bsPayloadClientID :: string

definition BuildBankSend :: "sdkLib \<Rightarrow> bankSendInput \<Rightarrow> assembler \<Rightarrow> u64 \<Rightarrow> u64 \<Rightarrow> time \<Rightarrow> (msg \<times> txPayload) res" where
  "BuildBankSend S inp asm accountNumber sequence now =
     rbind (require (CoinIsValid S (bsAmount inp) \<and> CoinIsPositive S (bsAmount inp))
              (Errorf ''amount must be a positive coin'' [])) (\<lambda>_.
     rbind (rwrap ''owner: %w'' [] (AccAddressFromBech32 S (bsOwner inp))) (\<lambda>_.
     rbind (rwrap ''recipient: %w'' [] (AccAddressFromBech32 S (bsRecipient inp))) (\<lambda>_.
     (let m = MsgSend (bsOwner inp) (bsRecipient inp) (NewCoins S (bsAmount inp));
          su = emptySummary\<lparr>suToolName := ''build_bank_send'', suMsgTypeURL := ''/cosmos.bank.v1beta1.MsgSend'',
             suAmountHuman := bsAmountHuman inp, suRecipientOwner := bsRecipient inp, suDenom := coDenom (bsAmount inp)\<rparr> in
      rbind (rwrap ''assemble: %w'' [] (Assemble S now asm \<lparr>baMsgs = [m], baSignerAddress = bsOwner inp,
               baAccountNumber = accountNumber, baSequence = sequence, baClientID = bsPayloadClientID inp, baSummary = su\<rparr>)) (\<lambda>p.
      Inr (m, p))))))"

section \<open>Withdrawals\<close>

record withdrawInput =
  wiOwner :: string
  wiSubaccountNum :: u32
  wiHumanUSDC :: string
  wiPayloadClientID :: string

definition BuildWithdrawFromSubaccount :: "sdkLib \<Rightarrow> withdrawInput \<Rightarrow> assembler \<Rightarrow> u64 \<Rightarrow> u64 \<Rightarrow> time
    \<Rightarrow> (msg \<times> txPayload) res" where
  "BuildWithdrawFromSubaccount S inp asm accountNumber sequence now =
     rbind (positiveUSDC (wiHumanUSDC inp)) (\<lambda>quantums.
     (let m = MsgWithdrawFromSubaccount \<lparr>saOwner = wiOwner inp, saNumber = wiSubaccountNum inp\<rparr> (wiOwner inp)
                (AssetUsdcId S) quantums in
      rbind (rwrap ''MsgWithdrawFromSubaccount.ValidateBasic: %w'' [] (of_err (ValidateBasic S m))) (\<lambda>_.
      (let su = emptySummary\<lparr>suToolName := ''build_withdraw_from_subaccount'',
             suMsgTypeURL := ''/dydxprotocol.sending.MsgWithdrawFromSubaccount'',
             suSubaccount := \<lparr>srOwner = wiOwner inp, srNumber = wiSubaccountNum inp\<rparr>,
             suAssetID := AssetUsdcId S, suAmountHuman := wiHumanUSDC inp\<rparr> in
       rbind (rwrap ''assemble: %w'' [] (Assemble S now asm \<lparr>baMsgs = [m], baSignerAddress = wiOwner inp,
                baAccountNumber = accountNumber, baSequence = sequence, baClientID = wiPayloadClientID inp, baSummary = su\<rparr>)) (\<lambda>p.
       Inr (m, p))))))"

text \<open>Who receives what a message moves, and how much of the quote asset it moves.\<close>

fun msgRecipient :: "msg \<Rightarrow> string" where
  "msgRecipient (MsgDepositToSubaccount sender sa aid q) = saOwner sa"
| "msgRecipient (MsgWithdrawFromSubaccount sa rcpt aid q) = rcpt"
| "msgRecipient (MsgCreateTransfer sender rcpt aid q) = saOwner rcpt"
| "msgRecipient (MsgSend sender rcpt cs) = rcpt"
| "msgRecipient m = msgSigner m"

fun msgQuantums :: "msg \<Rightarrow> (u32 \<times> u64) option" where
  "msgQuantums (MsgDepositToSubaccount sender sa aid q) = Some (aid, q)"
| "msgQuantums (MsgWithdrawFromSubaccount sa rcpt aid q) = Some (aid, q)"
| "msgQuantums (MsgCreateTransfer sender rcpt aid q) = Some (aid, q)"
| "msgQuantums m = None"

section \<open>The builders keep the contract\<close>

interpretation bdp: validated_builder S "BuildDepositToSubaccount S inp" "diOwner inp" "diPayloadClientID inp"
  for S inp
  by unfold_locales (auto simp: BuildDepositToSubaccount_def Let_def)

interpretation btr: validated_builder S "BuildTransferBetweenSubaccounts S inp" "tiOwner inp" "tiPayloadClientID inp"
  for S inp
  by unfold_locales (auto simp: BuildTransferBetweenSubaccounts_def Let_def)

interpretation bsd: cosmos_builder S "BuildBankSend S inp" "bsOwner inp" "bsPayloadClientID inp"
  for S inp
  by unfold_locales (auto simp: BuildBankSend_def Let_def)

interpretation bwd: validated_builder S "BuildWithdrawFromSubaccount S inp" "wiOwner inp" "wiPayloadClientID inp"
  for S inp
  by unfold_locales (auto simp: BuildWithdrawFromSubaccount_def Let_def)

section \<open>Lemmas\<close>

lemma positiveUSDC_Inr: "positiveUSDC h = Inr q \<longleftrightarrow> HumanToQuantums h = Inr q \<and> q \<noteq> 0"
  by (auto simp: positiveUSDC_def)

lemma BuildWithdraw_Inr:
  assumes "BuildWithdrawFromSubaccount S inp asm an sq now = Inr (m, p)"
  obtains q where "HumanToQuantums (wiHumanUSDC inp) = Inr q" "q \<noteq> 0"
    "m = MsgWithdrawFromSubaccount \<lparr>saOwner = wiOwner inp, saNumber = wiSubaccountNum inp\<rparr> (wiOwner inp) (AssetUsdcId S) q"
  using assms by (auto simp: BuildWithdrawFromSubaccount_def positiveUSDC_Inr Let_def)

lemma BuildTransfer_Inr:
  assumes "BuildTransferBetweenSubaccounts S inp asm an sq now = Inr (m, p)"
  obtains q where "HumanToQuantums (tiHumanUSDC inp) = Inr q" "q \<noteq> 0"
    "m = MsgCreateTransfer \<lparr>saOwner = tiOwner inp, saNumber = tiSenderSubaccountNum inp\<rparr>
       \<lparr>saOwner = tiOwner inp, saNumber = tiRecipientSubaccountNum inp\<rparr> (AssetUsdcId S) q"
    "tiSenderSubaccountNum inp \<noteq> tiRecipientSubaccountNum inp"
  using assms by (auto simp: BuildTransferBetweenSubaccounts_def positiveUSDC_Inr Let_def)

lemma BuildDeposit_Inr:
  assumes "BuildDepositToSubaccount S inp asm an sq now = Inr (m, p)"
  obtains q where "HumanToQuantums (diHumanUSDC inp) = Inr q" "q \<noteq> 0"
    "m = MsgDepositToSubaccount (diOwner inp) \<lparr>saOwner = diOwner inp, saNumber = diSubaccountNum inp\<rparr> (AssetUsdcId S) q"
  using assms by (auto simp: BuildDepositToSubaccount_def positiveUSDC_Inr Let_def)

section \<open>Properties\<close>

text \<open>C24: the subaccount tools cannot move funds to anyone else: a deposit, a transfer between subaccounts and a
  withdrawal that is built pays the owner it debits, moves exactly the requested amount of USDC, and never zero.\<close>

theorem subaccount_funds_stay_with_owner:
  assumes "BuildDepositToSubaccount S di asm an sq now = Inr (m, p) \<and> ow = diOwner di \<and> human = diHumanUSDC di \<or>
      BuildTransferBetweenSubaccounts S ti asm an sq now = Inr (m, p) \<and> ow = tiOwner ti \<and> human = tiHumanUSDC ti \<or>
      BuildWithdrawFromSubaccount S wi asm an sq now = Inr (m, p) \<and> ow = wiOwner wi \<and> human = wiHumanUSDC wi"
  shows "msgSigner m = ow \<and> msgRecipient m = ow \<and> tpSignerAddress p = ow \<and> ValidateBasic S m = None \<and>
    (\<exists>q. msgQuantums m = Some (AssetUsdcId S, q) \<and> HumanToQuantums human = Inr q \<and> q \<noteq> 0)"
  using assms
proof (elim disjE conjE)
  assume b: "BuildDepositToSubaccount S di asm an sq now = Inr (m, p)" and e: "ow = diOwner di" "human = diHumanUSDC di"
  from b show ?thesis by (rule BuildDeposit_Inr) (use bdp.validated_contract [OF b] e in auto)
next
  assume b: "BuildTransferBetweenSubaccounts S ti asm an sq now = Inr (m, p)" and e: "ow = tiOwner ti" "human = tiHumanUSDC ti"
  from b show ?thesis by (rule BuildTransfer_Inr) (use btr.validated_contract [OF b] e in auto)
next
  assume b: "BuildWithdrawFromSubaccount S wi asm an sq now = Inr (m, p)" and e: "ow = wiOwner wi" "human = wiHumanUSDC wi"
  from b show ?thesis by (rule BuildWithdraw_Inr) (use bwd.validated_contract [OF b] e in auto)
qed

theorem subaccount_funds_stay_with_owner_witness:
  "\<exists>m p. BuildWithdrawFromSubaccount docSDK
       \<lparr>wiOwner = ''svp1abc'', wiSubaccountNum = 1, wiHumanUSDC = ''12.5'', wiPayloadClientID = ''c''\<rparr>
       (NewAssembler ''svp-1'' ''asvp'' ''5000'' 0) 7 3 0 = Inr (m, p) \<and>
     msgRecipient m = ''svp1abc'' \<and> msgQuantums m = Some (0, 12500000)"
proof -
  let ?wi = "\<lparr>wiOwner = ''svp1abc'', wiSubaccountNum = 1, wiHumanUSDC = ''12.5'', wiPayloadClientID = ''c''\<rparr>"
    and ?a = "NewAssembler ''svp-1'' ''asvp'' ''5000'' 0"
  have "\<not> isl (BuildWithdrawFromSubaccount docSDK ?wi ?a 7 3 0)" by code_simp
  then obtain m p where b: "BuildWithdrawFromSubaccount docSDK ?wi ?a 7 3 0 = Inr (m, p)"
    by (metis old.prod.exhaust sum.collapse(2))
  have q: "HumanToQuantums ''12.5'' = Inr 12500000" "AssetUsdcId docSDK = 0" by code_simp+
  show ?thesis
    using subaccount_funds_stay_with_owner [OF disjI2 [OF disjI2 [OF conjI [OF b conjI [OF refl refl]]]]] b q
    by auto
qed

end
