(* ===== verification/Evm_Tx.thy ===== *)
theory Evm_Tx
  imports Tx_Builder
begin

text \<open>
  Ethereum transactions: the payload of \<open>lib/mcp/payload/payload.go\<close> and the contract-agnostic assembler of
  \<open>lib/mcp/builder/evm.go\<close>. The go-ethereum package (addresses and \<open>0x\<close> hex) and the JSON-RPC endpoint behind
  \<open>chain.EVMClient\<close> are parameters.
\<close>

section \<open>The packages\<close>

type_synonym address = bytes

record ethLib =
  HexToAddress :: "string \<Rightarrow> address"
  AddressHex :: "address \<Rightarrow> string"
  IsHexAddress :: "string \<Rightarrow> bool"
  HexutilEncode :: "bytes \<Rightarrow> string"
  HexutilDecode :: "string \<Rightarrow> bytes res"
  BytesToAddress :: "bytes \<Rightarrow> address"
  HexToHash :: "string \<Rightarrow> bytes"

text \<open>What go-ethereum documents: the text of a 20-byte address and of a byte string starts with \<open>0x\<close>, is printable and reads back;
  an address has 20 bytes, and 20 bytes are the address they are.\<close>

definition ethLib_ok :: "ethLib \<Rightarrow> bool" where
  "ethLib_ok E \<longleftrightarrow> (\<forall>a. length a = 20 \<longrightarrow> HexToAddress E (AddressHex E a) = a \<and>
       IsHexAddress E (AddressHex E a) \<and> hasPrefix (AddressHex E a) ''0x'' \<and> list_all printable (AddressHex E a)) \<and>
     (\<forall>b. HexutilDecode E (HexutilEncode E b) = Inr b \<and> hasPrefix (HexutilEncode E b) ''0x'') \<and>
     (\<forall>b. length (BytesToAddress E b) = 20 \<and> (length b = 20 \<longrightarrow> BytesToAddress E b = b)) \<and>
     (\<forall>t. length (HexToAddress E t) = 20)"

record callMsg =
  cmFrom :: address
  cmTo :: address
  cmValue :: int
  cmData :: bytes
  cmGasFeeCap :: "int option"
  cmGasTipCap :: "int option"

text \<open>The read calls of the endpoint, as one request sees them.\<close>

record evmClient =
  evPendingNonceAt :: "address \<Rightarrow> u64 res"
  evEstimateGas :: "callMsg \<Rightarrow> u64 res"
  evSuggestGasTipCap :: "int res"
  evBaseFee :: "int res"
  evChainID :: "int res"
  evBlockNumber :: "u64 res"
  evCallContract :: "callMsg \<Rightarrow> bytes res"

section \<open>Payloads (payload.go)\<close>

definition EVMTxTypeEIP1559 :: string where
  "EVMTxTypeEIP1559 = ''eip1559''"

record evmSummary =
  esToolName :: string
  esDescription :: string

record evmTxPayload =
  epVersion :: int
  epClientID :: string
  epEVMChainID :: string
  epSignerAddress :: string
  epTxType :: string
  epTo :: string
  epNonce :: string
  epGas :: string
  epMaxFeePerGas :: string
  epMaxPriorityFeePerGas :: string
  epValue :: string
  epData :: string
  epExpiresAt :: time
  epSummary :: evmSummary

record evmSignedTx =
  etRawTxHex :: string
  etTxHash :: string

section \<open>The assembler (evm.go)\<close>

definition evmGasBufferNum :: u64 where
  "evmGasBufferNum = 5"

definition evmGasBufferDen :: u64 where
  "evmGasBufferDen = 4"

record evmArgs =
  eaClientID :: string
  eaFrom :: address
  eaTo :: address
  eaData :: bytes
  eaValue :: "int option"
  eaSummary :: evmSummary

definition padGas :: "u64 \<Rightarrow> u64" where
  "padGas gas = gas * evmGasBufferNum div evmGasBufferDen"

definition EVMAssemble :: "ethLib \<Rightarrow> evmClient \<Rightarrow> time \<Rightarrow> evmArgs \<Rightarrow> evmTxPayload res" where
  "EVMAssemble E ec now args =
     (let val = (case eaValue args of None \<Rightarrow> 0 | Some v \<Rightarrow> v) in
      rbind (rwrap ''evm chain id: %w'' [] (evChainID ec)) (\<lambda>chainID.
      rbind (rwrap ''pending nonce for %s: %w'' [AStr (AddressHex E (eaFrom args))] (evPendingNonceAt ec (eaFrom args))) (\<lambda>nonce.
      rbind (rwrap ''suggest gas tip cap: %w'' [] (evSuggestGasTipCap ec)) (\<lambda>tip.
      rbind (rwrap ''base fee: %w'' [] (evBaseFee ec)) (\<lambda>baseFee.
      (let maxFee = baseFee * 2 + tip in
       rbind (rwrap ''estimate gas: %w'' [] (evEstimateGas ec \<lparr>cmFrom = eaFrom args, cmTo = eaTo args, cmValue = val,
                cmData = eaData args, cmGasFeeCap = Some maxFee, cmGasTipCap = Some tip\<rparr>)) (\<lambda>gas.
       Inr \<lparr>epVersion = CurrentVersion, epClientID = eaClientID args, epEVMChainID = bigString chainID,
            epSignerAddress = AddressHex E (eaFrom args), epTxType = EVMTxTypeEIP1559, epTo = AddressHex E (eaTo args),
            epNonce = formatUint nonce, epGas = formatUint (padGas gas), epMaxFeePerGas = bigString maxFee,
            epMaxPriorityFeePerGas = bigString tip, epValue = bigString val, epData = HexutilEncode E (eaData args),
            epExpiresAt = now + DefaultPayloadTTL, epSummary = eaSummary args\<rparr>)))))))"

section \<open>Instances for the examples\<close>

definition fitAddress :: "bytes \<Rightarrow> address" where
  "fitAddress bs = (let r = drop (length bs - 20) bs in replicate (20 - length r) 0 @ r)"

definition docEth :: ethLib where
  "docEth = \<lparr>
     HexToAddress = (\<lambda>s. case hexDecode (trimPrefix s ''0x'') of None \<Rightarrow> replicate 20 0 | Some bs \<Rightarrow> fitAddress bs),
     AddressHex = (\<lambda>a. ''0x'' @ hexEncode a),
     IsHexAddress = (\<lambda>s. case hexDecode (trimPrefix s ''0x'') of None \<Rightarrow> False | Some bs \<Rightarrow> length bs = 20),
     HexutilEncode = (\<lambda>b. ''0x'' @ hexEncode b),
     HexutilDecode = (\<lambda>s. of_opt (Ext ''hex string'') (hexDecode (trimPrefix s ''0x''))),
     BytesToAddress = fitAddress, HexToHash = (\<lambda>s. case hexDecode (trimPrefix s ''0x'') of None \<Rightarrow> [] | Some bs \<Rightarrow> bs)\<rparr>"

definition docClient :: evmClient where
  "docClient = \<lparr>evPendingNonceAt = (\<lambda>_. Inr 4), evEstimateGas = (\<lambda>_. Inr 100001), evSuggestGasTipCap = Inr 7,
     evBaseFee = Inr 1000, evChainID = Inr 262144, evBlockNumber = Inr 12, evCallContract = (\<lambda>_. Inr [])\<rparr>"

section \<open>Lemmas\<close>

lemma list_all_printable_hexEncode: "list_all printable (hexEncode bs)"
proof -
  have "printable (hexDigit n)" if "n < 16" for n
    using that by (simp add: hexDigit_def printable_def)
  moreover have "byteVal b div 16 < 16" for b using byteVal_less [of b] by simp
  ultimately show ?thesis by (induction bs rule: hexEncode.induct) simp_all
qed

lemma docEth_ok: "ethLib_ok docEth"
  by (auto simp: list_all_printable_hexEncode printable_def ethLib_ok_def docEth_def trimPrefix_def hasPrefix_def fitAddress_def Let_def split: option.split)

lemma unat_padGas:
  assumes "unat gas * 5 < 2 ^ 64"
  shows "unat (padGas gas) = unat gas * 5 div 4"
  using assms unat_mult_small [of gas 5]
  by (simp add: padGas_def evmGasBufferNum_def evmGasBufferDen_def unat_div_distrib)

text \<open>The payload of a build, field by field.\<close>

lemma EVMAssemble_Inr:
  "EVMAssemble E ec now args = Inr p \<longleftrightarrow>
     (\<exists>chainID nonce tip baseFee gas. evChainID ec = Inr chainID \<and> evPendingNonceAt ec (eaFrom args) = Inr nonce \<and>
        evSuggestGasTipCap ec = Inr tip \<and> evBaseFee ec = Inr baseFee \<and>
        evEstimateGas ec \<lparr>cmFrom = eaFrom args, cmTo = eaTo args, cmValue = (case eaValue args of None \<Rightarrow> 0 | Some v \<Rightarrow> v),
          cmData = eaData args, cmGasFeeCap = Some (baseFee * 2 + tip), cmGasTipCap = Some tip\<rparr> = Inr gas \<and>
        p = \<lparr>epVersion = CurrentVersion, epClientID = eaClientID args, epEVMChainID = bigString chainID,
            epSignerAddress = AddressHex E (eaFrom args), epTxType = EVMTxTypeEIP1559, epTo = AddressHex E (eaTo args),
            epNonce = formatUint nonce, epGas = formatUint (padGas gas), epMaxFeePerGas = bigString (baseFee * 2 + tip),
            epMaxPriorityFeePerGas = bigString tip, epValue = bigString (case eaValue args of None \<Rightarrow> 0 | Some v \<Rightarrow> v),
            epData = HexutilEncode E (eaData args), epExpiresAt = now + DefaultPayloadTTL, epSummary = eaSummary args\<rparr>)"
  by (auto simp: EVMAssemble_def Let_def)

end
