(* ===== verification/Signer.thy ===== *)
theory Signer
  imports Evm_Tx Funds_Builder
begin

text \<open>
  The signer of \<open>lib/mcp/signer/signer.go\<close> and the sign bytes of \<open>lib/mcp/payload/sign_bytes.go\<close>, and the round
  trips from what a builder assembles to what is signed. The curve, the protobuf encodings and the transaction
  encodings of the SDK and of go-ethereum are parameters.
\<close>

section \<open>The packages\<close>

record authInfo =
  aiPublicKey :: anyMsg
  aiSequence :: u64
  aiFeeAmount :: "coin list"
  aiGasLimit :: u64

record signDoc =
  sdBodyBytes :: bytes
  sdAuthInfoBytes :: bytes
  sdChainId :: string
  sdAccountNumber :: u64

record txRaw =
  trBodyBytes :: bytes
  trAuthInfoBytes :: bytes
  trSignatures :: "bytes list"

record dynamicFeeTx =
  dfChainID :: int
  dfNonce :: u64
  dfGasTipCap :: int
  dfGasFeeCap :: int
  dfGas :: u64
  dfTo :: address
  dfValue :: int
  dfData :: bytes

text \<open>A private key is its 32 bytes; \<open>'ek\<close> is go-ethereum's form of it and \<open>'tx\<close> its signed transactions.\<close>

record ('ek, 'tx) signLib =
  PubKey :: "bytes \<Rightarrow> bytes"
  AddressOfPub :: "bytes \<Rightarrow> string"
  WrapPubKey :: "bytes \<Rightarrow> anyMsg res"
  MarshalAuthInfo :: "authInfo \<Rightarrow> bytes res"
  MarshalSignDoc :: "signDoc \<Rightarrow> bytes res"
  MarshalTxRaw :: "txRaw \<Rightarrow> bytes res"
  KeySign :: "bytes \<Rightarrow> bytes \<Rightarrow> bytes res"
  VerifySignature :: "bytes \<Rightarrow> bytes \<Rightarrow> bytes \<Rightarrow> bool"
  ToECDSA :: "bytes \<Rightarrow> 'ek res"
  KeyAddress :: "'ek \<Rightarrow> address"
  SignTx :: "dynamicFeeTx \<Rightarrow> int \<Rightarrow> 'ek \<Rightarrow> 'tx res"
  MarshalTx :: "'tx \<Rightarrow> bytes res"

text \<open>What a signature scheme promises: a signature verifies against the key that made it.\<close>

definition signLib_ok :: "('ek, 'tx) signLib \<Rightarrow> bool" where
  "signLib_ok K \<longleftrightarrow> (\<forall>key doc sig. KeySign K key doc = Inr sig \<longrightarrow> VerifySignature K (PubKey K key) doc sig)"

section \<open>Keys\<close>

definition ParsePrivKey :: "string \<Rightarrow> bytes res" where
  "ParsePrivKey s =
     rbind (rwrap ''hex decode: %w'' [] (of_opt (Ext ''encoding/hex'') (hexDecode (trimPrefix (trimSpace s) ''0x'')))) (\<lambda>bz.
     rbind (require (length bz = 32) (Errorf ''private key must be 32 bytes (got %d)'' [AInt (int (length bz))])) (\<lambda>_.
     Inr bz))"

definition DeriveAddress :: "('ek, 'tx) signLib \<Rightarrow> bytes \<Rightarrow> string" where
  "DeriveAddress K priv = AddressOfPub K (PubKey K priv)"

section \<open>Cosmos transactions\<close>

definition DirectSignBytes :: "('ek, 'tx) signLib \<Rightarrow> bytes \<Rightarrow> bytes \<Rightarrow> string \<Rightarrow> u64 \<Rightarrow> bytes res" where
  "DirectSignBytes K bodyBytes authInfoBytes chainID accountNumber =
     rwrap ''marshal SignDoc: %w'' [] (MarshalSignDoc K \<lparr>sdBodyBytes = bodyBytes, sdAuthInfoBytes = authInfoBytes,
       sdChainId = chainID, sdAccountNumber = accountNumber\<rparr>)"

definition Sign :: "('ek, 'tx) signLib \<Rightarrow> bytes \<Rightarrow> txPayload \<Rightarrow> signedTx res" where
  "Sign K priv p =
     rbind (require (tpVersion p = CurrentVersion)
              (Errorf ''unsupported TxPayload version %d (want %d)'' [AInt (tpVersion p), AInt CurrentVersion])) (\<lambda>_.
     (let pub = PubKey K priv; signerAddr = AddressOfPub K pub in
      rbind (require (tpSignerAddress p = [] \<or> signerAddr = tpSignerAddress p)
               (Errorf ''key-derived signer address %s does not match payload.signer_address %s''
                  [AStr signerAddr, AStr (tpSignerAddress p)])) (\<lambda>_.
      rbind (rwrap ''parse account_number %q: %w'' [AStr (tpAccountNumber p)] (parseUint (tpAccountNumber p))) (\<lambda>accNum.
      rbind (rwrap ''parse sequence %q: %w'' [AStr (tpSequence p)] (parseUint (tpSequence p))) (\<lambda>seq.
      rbind (rwrap ''parse fee.gas_limit %q: %w'' [AStr (pfGasLimit (tpFee p))] (parseUint (pfGasLimit (tpFee p)))) (\<lambda>gasLimit.
      rbind (rwrap ''wrap pubkey in Any: %w'' [] (WrapPubKey K pub)) (\<lambda>pubAny.
      rbind (rwrap ''marshal AuthInfo: %w'' [] (MarshalAuthInfo K \<lparr>aiPublicKey = pubAny, aiSequence = seq,
               aiFeeAmount = [], aiGasLimit = gasLimit\<rparr>)) (\<lambda>authInfoBytes.
      rbind (rwrap ''decode tx_body_bytes_b64: %w'' [] (of_opt (Ext ''encoding/base64'') (b64Decode (tpTxBodyBytesB64 p)))) (\<lambda>bodyBytes.
      rbind (rwrap ''compute sign-bytes: %w'' [] (DirectSignBytes K bodyBytes authInfoBytes (tpChainID p) accNum)) (\<lambda>signBytes.
      rbind (rwrap ''sign: %w'' [] (KeySign K priv signBytes)) (\<lambda>sig.
      rbind (rwrap ''marshal TxRaw: %w'' [] (MarshalTxRaw K \<lparr>trBodyBytes = bodyBytes, trAuthInfoBytes = authInfoBytes,
               trSignatures = [sig]\<rparr>)) (\<lambda>txRawBytes.
      Inr \<lparr>stTxRawBytesB64 = b64Encode txRawBytes, stSignatureB64 = b64Encode sig, stPubKeyB64 = b64Encode pub\<rparr>))))))))))))"

section \<open>Ethereum transactions\<close>

text \<open>\<open>new(big.Int).SetString(s, 10)\<close> with the error of the signer.\<close>

definition bigField :: "string \<Rightarrow> string \<Rightarrow> int res" where
  "bigField msg s = of_opt (Errorf msg [AStr s]) (bigSetString s)"

definition SignEVM :: "ethLib \<Rightarrow> ('ek, 'tx) signLib \<Rightarrow> bytes \<Rightarrow> evmTxPayload \<Rightarrow> evmSignedTx res" where
  "SignEVM E K priv p =
     rbind (require (epVersion p = CurrentVersion)
              (Errorf ''unsupported EVMTxPayload version %d (want %d)'' [AInt (epVersion p), AInt CurrentVersion])) (\<lambda>_.
     rbind (rwrap ''convert key to ECDSA: %w'' [] (ToECDSA K priv)) (\<lambda>ecdsaKey.
     (let sender = KeyAddress K ecdsaKey in
      rbind (require (epSignerAddress p = [] \<or> sender = HexToAddress E (epSignerAddress p))
               (Errorf ''key-derived address %s does not match payload.signer_address %s''
                  [AStr (AddressHex E sender), AStr (epSignerAddress p)])) (\<lambda>_.
      rbind (bigField ''parse evm_chain_id %q'' (epEVMChainID p)) (\<lambda>chainID.
      rbind (rwrap ''parse nonce %q: %w'' [AStr (epNonce p)] (parseUint (epNonce p))) (\<lambda>nonce.
      rbind (rwrap ''parse gas %q: %w'' [AStr (epGas p)] (parseUint (epGas p))) (\<lambda>gasLimit.
      rbind (bigField ''parse max_fee_per_gas %q'' (epMaxFeePerGas p)) (\<lambda>maxFee.
      rbind (bigField ''parse max_priority_fee_per_gas %q'' (epMaxPriorityFeePerGas p)) (\<lambda>tip.
      rbind (if epValue p \<noteq> [] then bigField ''parse value %q'' (epValue p) else Inr 0) (\<lambda>val.
      rbind (if epData p \<noteq> [] then rwrap ''decode data: %w'' [] (HexutilDecode E (epData p)) else Inr []) (\<lambda>dat.
      rbind (rwrap ''sign evm tx: %w'' [] (SignTx K \<lparr>dfChainID = chainID, dfNonce = nonce, dfGasTipCap = tip,
               dfGasFeeCap = maxFee, dfGas = gasLimit, dfTo = HexToAddress E (epTo p), dfValue = val, dfData = dat\<rparr>
               chainID ecdsaKey)) (\<lambda>signed.
      rbind (rwrap ''marshal signed evm tx: %w'' [] (MarshalTx K signed)) (\<lambda>raw.
      Inr \<lparr>etRawTxHex = HexutilEncode E raw, etTxHash = []\<rparr>)))))))))))))"

section \<open>An instance for the examples\<close>

definition docSign :: "(bytes, dynamicFeeTx) signLib" where
  "docSign = \<lparr>PubKey = (\<lambda>k. k), AddressOfPub = (\<lambda>p. ''svp1'' @ hexEncode p),
     WrapPubKey = (\<lambda>p. Inr \<lparr>anyTypeURL = ''/cosmos.evm.crypto.v1.ethsecp256k1.PubKey'', anyValue = p\<rparr>),
     MarshalAuthInfo = (\<lambda>ai. Inr (bytesOf (formatUint (aiSequence ai)))),
     MarshalSignDoc = (\<lambda>d. Inr (sdBodyBytes d @ sdAuthInfoBytes d)),
     MarshalTxRaw = (\<lambda>r. Inr (trBodyBytes r @ trAuthInfoBytes r @ concat (trSignatures r))),
     KeySign = (\<lambda>k d. Inr (k @ d)), VerifySignature = (\<lambda>pub d s. s = pub @ d), ToECDSA = (\<lambda>k. Inr k),
     KeyAddress = (\<lambda>k. take 20 k), SignTx = (\<lambda>tx c k. Inr tx), MarshalTx = (\<lambda>tx. Inr (dfData tx))\<rparr>"

lemma docSign_ok: "signLib_ok docSign"
  by (simp add: signLib_ok_def docSign_def)

section \<open>Properties\<close>


text \<open>C26: signing an assembled Ethereum payload signs exactly the assembled transaction: the chain id, the pending nonce,
  the padded gas estimate, twice the base fee plus the tip, and the target, value and calldata the contract builder
  gave, with a key whose address is the sender's; any other key is refused.\<close>

theorem sign_evm_signs_what_was_assembled:
  assumes "ethLib_ok E" "length (eaFrom args) = 20" "length (eaTo args) = 20"
    and "EVMAssemble E ec now args = Inr p"
  shows "SignEVM E K priv p = Inr st \<longleftrightarrow>
    (\<exists>ek chainID nonce tip baseFee gas tx raw. ToECDSA K priv = Inr ek \<and> KeyAddress K ek = eaFrom args \<and>
      evChainID ec = Inr chainID \<and> evPendingNonceAt ec (eaFrom args) = Inr nonce \<and> evSuggestGasTipCap ec = Inr tip \<and>
      evBaseFee ec = Inr baseFee \<and>
      evEstimateGas ec \<lparr>cmFrom = eaFrom args, cmTo = eaTo args, cmValue = (case eaValue args of None \<Rightarrow> 0 | Some v \<Rightarrow> v),
        cmData = eaData args, cmGasFeeCap = Some (baseFee * 2 + tip), cmGasTipCap = Some tip\<rparr> = Inr gas \<and>
      SignTx K \<lparr>dfChainID = chainID, dfNonce = nonce, dfGasTipCap = tip, dfGasFeeCap = baseFee * 2 + tip,
        dfGas = padGas gas, dfTo = eaTo args, dfValue = (case eaValue args of None \<Rightarrow> 0 | Some v \<Rightarrow> v),
        dfData = eaData args\<rparr> chainID ek = Inr tx \<and>
      MarshalTx K tx = Inr raw \<and> st = \<lparr>etRawTxHex = HexutilEncode E raw, etTxHash = []\<rparr>)"
proof -
  obtain chainID nonce tip baseFee gas where
    r: "evChainID ec = Inr chainID" "evPendingNonceAt ec (eaFrom args) = Inr nonce" "evSuggestGasTipCap ec = Inr tip"
      "evBaseFee ec = Inr baseFee"
      "evEstimateGas ec \<lparr>cmFrom = eaFrom args, cmTo = eaTo args, cmValue = (case eaValue args of None \<Rightarrow> 0 | Some v \<Rightarrow> v),
        cmData = eaData args, cmGasFeeCap = Some (baseFee * 2 + tip), cmGasTipCap = Some tip\<rparr> = Inr gas"
    and p: "epVersion p = CurrentVersion" "epEVMChainID p = bigString chainID" "epSignerAddress p = AddressHex E (eaFrom args)"
      "epTo p = AddressHex E (eaTo args)" "epNonce p = formatUint nonce" "epGas p = formatUint (padGas gas)"
      "epMaxFeePerGas p = bigString (baseFee * 2 + tip)" "epMaxPriorityFeePerGas p = bigString tip"
      "epValue p = bigString (case eaValue args of None \<Rightarrow> 0 | Some v \<Rightarrow> v)" "epData p = HexutilEncode E (eaData args)"
    using assms(4) unfolding EVMAssemble_Inr by force
  have addr: "HexToAddress E (AddressHex E (eaFrom args)) = eaFrom args" "HexToAddress E (AddressHex E (eaTo args)) = eaTo args"
    and hx: "HexutilDecode E (HexutilEncode E b) = Inr b"
    and pre: "hasPrefix (AddressHex E (eaFrom args)) ''0x''" "hasPrefix (HexutilEncode E b) ''0x''" for b
    using assms(1-3) by (simp_all add: ethLib_ok_def)
  have "hasPrefix s ''0x'' \<Longrightarrow> s \<noteq> []" for s by (auto simp: hasPrefix_def)
  note ne = this [OF pre(1)] this [OF pre(2)]
  have num: "bigString v \<noteq> []" for v by (simp add: bigString_def)
  show ?thesis
    unfolding SignEVM_def p addr bigField_def Let_def by (auto simp: ne hx num r)
qed


theorem sign_evm_signs_what_was_assembled_witness:
  "\<exists>p. EVMAssemble docEth docClient 0 \<lparr>eaClientID = ''c'', eaFrom = replicate 20 1, eaTo = replicate 20 2,
       eaData = [9, 8], eaValue = None, eaSummary = \<lparr>esToolName = ''t'', esDescription = []\<rparr>\<rparr> = Inr p \<and>
     SignEVM docEth docSign (replicate 32 1) p = Inr \<lparr>etRawTxHex = ''0x0908'', etTxHash = []\<rparr>"
proof -
  let ?args = "\<lparr>eaClientID = ''c'', eaFrom = replicate 20 1, eaTo = replicate 20 2, eaData = [9, 8], eaValue = None,
    eaSummary = \<lparr>esToolName = ''t'', esDescription = []\<rparr>\<rparr>"
  have "\<not> isl (EVMAssemble docEth docClient 0 ?args)" by code_simp
  then obtain p where p: "EVMAssemble docEth docClient 0 ?args = Inr p" by (metis sum.collapse(2))
  have "HexutilEncode docEth [9, 8] = ''0x0908''" by code_simp
  then show ?thesis
    using sign_evm_signs_what_was_assembled [OF docEth_ok _ _ p, of docSign "replicate 32 1" "\<lparr>etRawTxHex = ''0x0908'', etTxHash = []\<rparr>"] p
    by (simp add: docSign_def docClient_def)
qed

end
