(* ===== verification/Server_Core.thy ===== *)
theory Server_Core
  imports Policy Auth_Stores Withdraw_Limits TransferOut Markets Tx_Builder
begin

text \<open>
  What every tool call goes through: the request context (\<open>tools/context.go\<close>), the shared state of the server
  (\<open>tools/deps.go\<close>), the adapter that feeds self-issued tenants to the policy engine
  (\<open>cmd/mcp-server/wire.go\<close>), the receiving middleware (\<open>cmd/mcp-server/mcp_auth.go\<close>, \<open>auth.go\<close>,
  \<open>server.go\<close>, \<open>tools/authgate.go\<close>) and the authorization prelude (\<open>tools/auth.go\<close>).

  A request runs at one instant \<open>now\<close>; its handler maps the server's state to a result and a new state.
\<close>

section \<open>Request context (context.go)\<close>

record tenantContext =
  tcTenantID :: string
  tcOwner :: string

record requestCtx =
  ctTenant :: "tenantContext option"
  ctIP :: string
  ctSessionID :: string

definition emptyCtx :: requestCtx where
  "emptyCtx = \<lparr>ctTenant = None, ctIP = [], ctSessionID = []\<rparr>"

definition WithTenant :: "requestCtx \<Rightarrow> tenantContext \<Rightarrow> requestCtx" where
  "WithTenant ctx tc = ctx\<lparr>ctTenant := Some tc\<rparr>"

definition TenantFrom :: "requestCtx \<Rightarrow> tenantContext option" where
  "TenantFrom ctx = ctTenant ctx"

definition WithIP :: "requestCtx \<Rightarrow> string \<Rightarrow> requestCtx" where
  "WithIP ctx ip = ctx\<lparr>ctIP := ip\<rparr>"

definition IPFrom :: "requestCtx \<Rightarrow> string" where
  "IPFrom ctx = ctIP ctx"

definition WithSessionID :: "requestCtx \<Rightarrow> string \<Rightarrow> requestCtx" where
  "WithSessionID ctx sid = ctx\<lparr>ctSessionID := sid\<rparr>"

definition SessionIDFrom :: "requestCtx \<Rightarrow> string" where
  "SessionIDFrom ctx = ctSessionID ctx"

section \<open>The state of the server (deps.go)\<close>

text \<open>\<open>svSent\<close> records what was handed to a chain: the rail, the instant, the tenant, its owner, the client id, the bytes
  and whether the chain accepted them. No handler reads it.\<close>

datatype rail = CosmosRail | EvmHome | EvmForeign

record sentTx =
  stRail :: rail
  stAt :: time
  stTenant :: string
  stOwner :: string
  stClientID :: string
  stBytes :: bytes
  stAccepted :: bool

record 'lim server =
  svChainID :: string
  svTenants :: dynamicTenantStore
  svNonces :: nonceStore
  svSessions :: "sessionBearers option"
  svIPLimit :: ipRateLimiter
  svRate :: "'lim rateLimiter"
  svIdem :: idempotency
  svAudit :: "auditEntry list"
  svLimits :: limitsConfig
  svLedger :: "memoryLedger option"
  svTransferOut :: "transferOutStore option"
  svMarkets :: cache
  svBuilder :: assembler
  svSent :: "sentTx list"

section \<open>Tenants of the policy engine (wire.go)\<close>

definition LookupTenantPolicy :: "time \<Rightarrow> dynamicTenantStore \<Rightarrow> dynamicSource" where
  "LookupTenantPolicy now store tenantID =
     (case LookupByTenantID now tenantID store of
        Inl e \<Rightarrow> None
      | Inr r \<Rightarrow> Some \<lparr>tpTenantID = trTenantID r, tpOwner = trOwner r,
                       tpAllowedSubaccounts = trAllowedSubaccounts r, tpKillSwitch = trKillSwitch r\<rparr>)"

definition policyEngine :: "time \<Rightarrow> 'lim server \<Rightarrow> engine" where
  "policyEngine now s = SetDynamicSource (LookupTenantPolicy now (svTenants s)) (NewEngine [])"

section \<open>Authorization (auth.go)\<close>

definition authorize :: "'lim rateLib \<Rightarrow> time \<Rightarrow> requestCtx \<Rightarrow> string \<Rightarrow> ('lim server, tenantPolicy) handler" where
  "authorize R now ctx tool s =
     (case TenantFrom ctx of
        None \<Rightarrow> (Inl ErrNoTenant, s)
      | Some tc \<Rightarrow>
          (case CheckTenant (policyEngine now s) (tcTenantID tc) of
             Inl e \<Rightarrow> (Inl e, s)
           | Inr _ \<Rightarrow>
               (case Tenant (policyEngine now s) (tcTenantID tc) of
                  Inl e \<Rightarrow> (Inl e, s)
                | Inr tp \<Rightarrow>
                    (let (ok, rl) = rlAllow R now (tool @ '':'' @ tcTenantID tc) (svRate s);
                         s' = s\<lparr>svRate := rl\<rparr> in
                     if \<not> ok then (Inl (Errorf ''rate limit exceeded'' []), s') else (Inr tp, s')))))"

definition authorizeOwner :: "'lim rateLib \<Rightarrow> time \<Rightarrow> requestCtx \<Rightarrow> string \<Rightarrow> string
    \<Rightarrow> ('lim server, tenantPolicy) handler" where
  "authorizeOwner R now ctx tool ownerAddr =
     hbind (authorize R now ctx tool) (\<lambda>tp s.
       (rbind (CheckOwner (policyEngine now s) (tpTenantID tp) ownerAddr) (\<lambda>_. Inr tp), s))"

definition authorizeSubaccount :: "'lim rateLib \<Rightarrow> time \<Rightarrow> requestCtx \<Rightarrow> string \<Rightarrow> u32
    \<Rightarrow> ('lim server, tenantPolicy) handler" where
  "authorizeSubaccount R now ctx tool sub =
     hbind (authorize R now ctx tool) (\<lambda>tp s.
       (rbind (CheckSubaccount (policyEngine now s) (tpTenantID tp) sub) (\<lambda>_. Inr tp), s))"

section \<open>The receiving middleware (auth.go, mcp_auth.go, server.go, authgate.go)\<close>

definition ipHeader :: string where
  "ipHeader = ''X-Mcp-Client-Ip''"

text \<open>A header map with canonical keys, read by \<open>Get\<close>.\<close>

type_synonym header = "string \<rightharpoonup> string"

definition hget :: "header \<Rightarrow> string \<Rightarrow> string" where
  "hget h k = (case h k of None \<Rightarrow> [] | Some v \<Rightarrow> v)"

text \<open>\<open>splitHostPort\<close> is the outcome of \<open>net.SplitHostPort(r.RemoteAddr)\<close>: the host, or an error.\<close>

definition clientIP :: "string res \<Rightarrow> string" where
  "clientIP splitHostPort = (case splitHostPort of Inl e \<Rightarrow> [] | Inr host \<Rightarrow> host)"

definition ipMiddleware :: "string res \<Rightarrow> header \<Rightarrow> header" where
  "ipMiddleware splitHostPort h =
     (if clientIP splitHostPort \<noteq> [] then h(ipHeader \<mapsto> clientIP splitHostPort) else h(ipHeader := None))"

definition LookupTenantByToken :: "time \<Rightarrow> string \<Rightarrow> 'lim server \<Rightarrow> tenantContext option" where
  "LookupTenantByToken now token s =
     (case LookupByBearer now token (svTenants s) of
        Inl e \<Rightarrow> None
      | Inr r \<Rightarrow> Some \<lparr>tcTenantID = trTenantID r, tcOwner = trOwner r\<rparr>)"

definition RequiresAuth :: "string \<Rightarrow> bool" where
  "RequiresAuth toolName = (if toolName = ''auth_challenge'' \<or> toolName = ''auth_verify'' then False else True)"

record mcpRequest =
  rqMethod :: string
  rqHeader :: "header option"
  rqToolName :: "string option"

text \<open>Path 1, the bearer of the request, and path 2, the one bound to its session.\<close>

definition resolveBearer :: "time \<Rightarrow> header \<Rightarrow> 'lim server \<Rightarrow> tenantContext option" where
  "resolveBearer now h s =
     (if hasPrefix (hget h ''Authorization'') ''Bearer ''
      then LookupTenantByToken now (drop 7 (hget h ''Authorization'')) s else None)"

definition resolveSession :: "time \<Rightarrow> string \<Rightarrow> 'lim server \<Rightarrow> tenantContext option" where
  "resolveSession now sessionID s =
     (if sessionID \<noteq> [] then
        (case svSessions s of
           None \<Rightarrow> None
         | Some sb \<Rightarrow> (let bearer = sbLookup now sessionID sb in
                      if bearer \<noteq> [] then LookupTenantByToken now bearer s else None))
      else None)"

definition resolveCtx :: "time \<Rightarrow> header \<Rightarrow> 'lim server \<Rightarrow> requestCtx" where
  "resolveCtx now h s =
     (let ctx = (if hget h ipHeader \<noteq> [] then WithIP emptyCtx (hget h ipHeader) else emptyCtx);
          sessionID = hget h ''Mcp-Session-Id'';
          ctx = (if sessionID \<noteq> [] then WithSessionID ctx sessionID else ctx) in
      case resolveBearer now h s of
        Some tc \<Rightarrow> WithTenant ctx tc
      | None \<Rightarrow> (case resolveSession now sessionID s of Some tc \<Rightarrow> WithTenant ctx tc | None \<Rightarrow> ctx))"

text \<open>What the middleware returns: the soft result that asks to authenticate, or what the next handler returned.\<close>

datatype 'r mcpResult = AuthRequiredResult | Handled 'r

definition authReceivingMiddleware :: "time \<Rightarrow> (requestCtx \<Rightarrow> 'lim server \<Rightarrow> 'r \<times> 'lim server) \<Rightarrow> mcpRequest
    \<Rightarrow> 'lim server \<Rightarrow> 'r mcpResult \<times> 'lim server" where
  "authReceivingMiddleware now nxt req s =
     (let ctx = (case rqHeader req of None \<Rightarrow> emptyCtx | Some h \<Rightarrow> resolveCtx now h s) in
      if rqMethod req = ''tools/call'' \<and> (case rqToolName req of None \<Rightarrow> False | Some n \<Rightarrow> RequiresAuth n) \<and>
         TenantFrom ctx = None
      then (AuthRequiredResult, s)
      else (let (r, s') = nxt ctx s in (Handled r, s')))"

section \<open>The tenants of the store are a dynamic source\<close>

definition tenantsOk :: "dynamicTenantStore \<Rightarrow> bool" where
  "tenantsOk st \<longleftrightarrow> (\<forall>(i, r) \<in> set (byTenant st). trTenantID r = i \<and> trOwner r \<noteq> [])"

lemma tenantsOk_get: "tenantsOk st \<Longrightarrow> map_of (byTenant st) i = Some r \<Longrightarrow> trTenantID r = i \<and> trOwner r \<noteq> []"
  by (auto simp: tenantsOk_def dest: map_of_SomeD)

lemma LookupByTenantID_Inr:
  "LookupByTenantID now i st = Inr r \<longleftrightarrow> map_of (byTenant st) i = Some r \<and> now < trExpiresAt r"
  by (auto simp: LookupByTenantID_def split: option.splits)

lemma LookupByBearer_Inr:
  "LookupByBearer now b st = Inr r \<longleftrightarrow> (\<exists>i. map_of (byBearer st) b = Some i \<and> LookupByTenantID now i st = Inr r)"
  by (auto simp: LookupByBearer_def LookupByTenantID_def split: option.splits)

lemma LookupTenantPolicy_Some:
  "LookupTenantPolicy now st i = Some tp \<longleftrightarrow> (\<exists>r. LookupByTenantID now i st = Inr r \<and>
     tp = \<lparr>tpTenantID = trTenantID r, tpOwner = trOwner r, tpAllowedSubaccounts = trAllowedSubaccounts r,
           tpKillSwitch = trKillSwitch r\<rparr>)"
  by (auto simp: LookupTenantPolicy_def split: sum.splits)

lemma tenantsOk_Mint: "tenantsOk st \<Longrightarrow> tenantsOk (snd (Mint now rb rt owner st))"
  by (auto simp: Mint_def Let_def tenantsOk_def split: sum.splits dest!: subsetD [OF set_AList_update])

lemma tenantsOk_sweepLoop: "tenantsOk st \<Longrightarrow> tenantsOk (dtSweepLoop now bs st)"
proof (induction now bs st rule: dtSweepLoop.induct)
  case (2 now bearer tenantID bs st)
  have "tenantsOk (st\<lparr>byBearer := AList.delete bearer (byBearer st), byTenant := AList.delete tenantID (byTenant st)\<rparr>)"
    using 2(3) by (auto simp: tenantsOk_def AList.delete_eq)
  then show ?case using 2 by simp
qed simp

interpretation ds: dynamic_source "LookupTenantPolicy now" tenantsOk for now
  by unfold_locales (auto simp: LookupTenantPolicy_Some LookupByTenantID_Inr dest: tenantsOk_get)

section \<open>Lemmas on authorization\<close>

text \<open>The tenant that a call acts for.\<close>

definition policyOf :: "tenantRecord \<Rightarrow> tenantPolicy" where
  "policyOf r = \<lparr>tpTenantID = trTenantID r, tpOwner = trOwner r, tpAllowedSubaccounts = trAllowedSubaccounts r,
     tpKillSwitch = trKillSwitch r\<rparr>"

lemma policyOf_simps [simp]:
  "tpTenantID (policyOf r) = trTenantID r" "tpOwner (policyOf r) = trOwner r"
  "tpAllowedSubaccounts (policyOf r) = trAllowedSubaccounts r" "tpKillSwitch (policyOf r) = trKillSwitch r"
  by (simp_all add: policyOf_def)

text \<open>The prelude with the engine of the server unfolded.\<close>

lemma authorize_eq:
  "authorize R now ctx tool s =
     (case ctTenant ctx of
        None \<Rightarrow> (Inl ErrNoTenant, s)
      | Some tc \<Rightarrow>
          (case LookupByTenantID now (tcTenantID tc) (svTenants s) of
             Inl e \<Rightarrow> (Inl (Errorf ''unknown tenant %q'' [AStr (tcTenantID tc)]), s)
           | Inr r \<Rightarrow>
               if trKillSwitch r then (Inl (Errorf ''kill switch active for tenant %s'' [AStr (tcTenantID tc)]), s)
               else (let (ok, rl) = rlAllow R now (tool @ '':'' @ tcTenantID tc) (svRate s) in
                     (if ok then Inr (policyOf r) else Inl (Errorf ''rate limit exceeded'' []), s\<lparr>svRate := rl\<rparr>))))"
  by (auto simp: authorize_def TenantFrom_def policyEngine_def CheckTenant_def Tenant_def SetDynamicSource_def
      NewEngine_def LookupTenantPolicy_def policyOf_def Let_def split: option.split sum.split prod.split)

lemma authorize_Inr:
  "authorize R now ctx tool s = (Inr tp, s') \<longleftrightarrow>
     (\<exists>tc r rl. ctTenant ctx = Some tc \<and> LookupByTenantID now (tcTenantID tc) (svTenants s) = Inr r \<and> \<not> trKillSwitch r \<and>
        rlAllow R now (tool @ '':'' @ tcTenantID tc) (svRate s) = (True, rl) \<and> tp = policyOf r \<and> s' = s\<lparr>svRate := rl\<rparr>)"
  by (auto simp: authorize_eq Let_def split: option.splits sum.splits prod.splits if_splits)

text \<open>Whatever its outcome, the prelude changes nothing but the rate limiter.\<close>

lemma authorize_state: "\<exists>rl. snd (authorize R now ctx tool s) = s\<lparr>svRate := rl\<rparr>"
  by (auto simp: authorize_eq Let_def case_prod_beta split: option.split sum.split) (metis server.surjective server.update_convs(6))+

lemma authorizeSubaccount_Inr:
  assumes "tenantsOk (svTenants s)"
  shows "authorizeSubaccount R now ctx tool sub s = (Inr tp, s') \<longleftrightarrow>
     (\<exists>tc r rl. ctTenant ctx = Some tc \<and> LookupByTenantID now (tcTenantID tc) (svTenants s) = Inr r \<and> \<not> trKillSwitch r \<and>
        sub \<in> trAllowedSubaccounts r \<and>
        rlAllow R now (tool @ '':'' @ tcTenantID tc) (svRate s) = (True, rl) \<and> tp = policyOf r \<and> s' = s\<lparr>svRate := rl\<rparr>)"
proof -
  have sub: "CheckSubaccount (policyEngine now (s\<lparr>svRate := rl\<rparr>)) (trTenantID r) sub = Inr u \<longleftrightarrow> sub \<in> trAllowedSubaccounts r"
    if "LookupByTenantID now i (svTenants s) = Inr r" for i r rl u
  proof -
    have i: "trTenantID r = i" using that assms by (auto simp: LookupByTenantID_Inr dest: tenantsOk_get)
    have "LookupTenantPolicy now (svTenants s) i = Some (policyOf r)"
      using that by (simp add: LookupTenantPolicy_Some policyOf_def)
    from ds.checks_dynamic(5) [OF assms this] show ?thesis by (simp add: policyEngine_def i)
  qed
  show ?thesis
    unfolding authorizeSubaccount_def hbind_Inr_iff authorize_Inr
    by (auto simp: sub)
qed

lemma authorizeOwner_Inr:
  assumes "tenantsOk (svTenants s)"
  shows "authorizeOwner R now ctx tool own s = (Inr tp, s') \<longleftrightarrow>
     authorize R now ctx tool s = (Inr tp, s') \<and> (own = [] \<or> own = tpOwner tp)"
proof -
  have own: "CheckOwner (policyEngine now (s\<lparr>svRate := rl\<rparr>)) (trTenantID r) ow = Inr u \<longleftrightarrow> ow = [] \<or> ow = trOwner r"
    if "LookupByTenantID now i (svTenants s) = Inr r" for i r rl u ow
  proof -
    have i: "trTenantID r = i" using that assms by (auto simp: LookupByTenantID_Inr dest: tenantsOk_get)
    have "LookupTenantPolicy now (svTenants s) i = Some (policyOf r)"
      using that by (simp add: LookupTenantPolicy_Some policyOf_def)
    from ds.checks_dynamic(4) [OF assms this] show ?thesis by (simp add: policyEngine_def i)
  qed
  show ?thesis
    unfolding authorizeOwner_def hbind_Inr_iff authorize_Inr by (auto simp: own)
qed

lemma resolveCtx_tenant:
  "ctTenant (resolveCtx now h s) = (case resolveBearer now h s of Some tc \<Rightarrow> Some tc
     | None \<Rightarrow> resolveSession now (hget h ''Mcp-Session-Id'') s)"
  by (auto simp: resolveCtx_def Let_def WithTenant_def WithIP_def WithSessionID_def emptyCtx_def split: option.split)

lemma LookupTenantByToken_Some:
  "LookupTenantByToken now b s = Some tc \<longleftrightarrow>
     (\<exists>r. LookupByBearer now b (svTenants s) = Inr r \<and> tc = \<lparr>tcTenantID = trTenantID r, tcOwner = trOwner r\<rparr>)"
  by (auto simp: LookupTenantByToken_def split: sum.split)

section \<open>Properties\<close>

text \<open>C16: a tool other than the two of the handshake never runs for a caller without a live bearer. When the middleware
  lets such a call through, the caller presented a bearer, in the request or bound to its session, that the tenant
  store resolves at that instant, and the handler runs with exactly that tenant in its context.\<close>

theorem tools_need_a_live_bearer:
  assumes "rqMethod req = ''tools/call''" "rqToolName req = Some tool" "tool \<noteq> ''auth_challenge''" "tool \<noteq> ''auth_verify''"
    and "authReceivingMiddleware now nxt req s = (Handled r, s')"
  shows "\<exists>h bearer trec ctx. rqHeader req = Some h \<and> LookupByBearer now bearer (svTenants s) = Inr trec \<and>
    (hget h ''Authorization'' = ''Bearer '' @ bearer \<or>
     (\<exists>sb. svSessions s = Some sb \<and> hget h ''Mcp-Session-Id'' \<noteq> [] \<and> bearer \<noteq> [] \<and>
           sbLookup now (hget h ''Mcp-Session-Id'') sb = bearer)) \<and>
    ctTenant ctx = Some \<lparr>tcTenantID = trTenantID trec, tcOwner = trOwner trec\<rparr> \<and> nxt ctx s = (r, s')"
proof -
  obtain h where h: "rqHeader req = Some h" and t: "ctTenant (resolveCtx now h s) \<noteq> None"
    and run: "nxt (resolveCtx now h s) s = (r, s')"
    using assms by (auto simp: authReceivingMiddleware_def Let_def RequiresAuth_def TenantFrom_def emptyCtx_def
        split: option.splits if_splits prod.splits)
  then obtain tc where tc: "ctTenant (resolveCtx now h s) = Some tc" by auto
  have seven: "length ''Bearer '' = 7" by simp
  have pre: "hasPrefix a ''Bearer '' \<Longrightarrow> a = ''Bearer '' @ drop 7 a" for a
    using append_take_drop_id [of 7 a] by (metis hasPrefix_def seven)
  from tc have "resolveBearer now h s = Some tc \<or> resolveSession now (hget h ''Mcp-Session-Id'') s = Some tc"
    by (auto simp: resolveCtx_tenant split: option.splits)
  then obtain bearer trec where "LookupByBearer now bearer (svTenants s) = Inr trec"
    "tc = \<lparr>tcTenantID = trTenantID trec, tcOwner = trOwner trec\<rparr>"
    "hget h ''Authorization'' = ''Bearer '' @ bearer \<or>
     (\<exists>sb. svSessions s = Some sb \<and> hget h ''Mcp-Session-Id'' \<noteq> [] \<and> bearer \<noteq> [] \<and>
           sbLookup now (hget h ''Mcp-Session-Id'') sb = bearer)"
    by (auto simp: resolveBearer_def resolveSession_def LookupTenantByToken_Some Let_def
        split: if_splits option.splits dest!: pre)
  then show ?thesis using h tc run by blast
qed

text \<open>C17: a call is authorized for a subaccount exactly when its context carries a tenant that is stored and not expired,
  is not kill-switched, may use the subaccount, and passes the rate limiter under the key of the tool and the tenant;
  the call then acts for that tenant, and only the limiter has changed.\<close>

theorem authorizeSubaccount_exact:
  assumes "tenantsOk (svTenants s)"
  shows "authorizeSubaccount R now ctx tool sub s = (Inr tp, s') \<longleftrightarrow>
     (\<exists>tc r rl. ctTenant ctx = Some tc \<and> LookupByTenantID now (tcTenantID tc) (svTenants s) = Inr r \<and> now < trExpiresAt r \<and>
        \<not> trKillSwitch r \<and> sub \<in> trAllowedSubaccounts r \<and> trOwner r \<noteq> [] \<and>
        rlAllow R now (tool @ '':'' @ tcTenantID tc) (svRate s) = (True, rl) \<and>
        tp = \<lparr>tpTenantID = tcTenantID tc, tpOwner = trOwner r, tpAllowedSubaccounts = trAllowedSubaccounts r, tpKillSwitch = False\<rparr> \<and>
        s' = s\<lparr>svRate := rl\<rparr>)"
  using assms
  by (auto simp: authorizeSubaccount_Inr policyOf_def LookupByTenantID_Inr dest: tenantsOk_get)

section \<open>The properties on a small server\<close>

definition exRate :: "nat rateLib" where
  "exRate = \<lparr>newLimiter = (\<lambda>rps burst. nat burst), limAllow = (\<lambda>now n. if 0 < n then (True, n - 1) else (False, n))\<rparr>"

text \<open>One tenant, minted at instant 0 for the owner \<open>svp1abc\<close>, whose bearer is bound to a session.\<close>

definition exServer :: "nat server" where
  "exServer = \<lparr>svChainID = ''svp-1'',
     svTenants = snd (Mint 0 (Inr [11]) (Inr [22]) ''svp1abc'' (NewDynamicTenantStore DefaultBearerTTL [0, 1])),
     svNonces = NewNonceStore DefaultChallengeTTL,
     svSessions = Some (sbBind 0 ''session-1'' ''0b'' (NewSessionBearers DefaultBearerTTL)),
     svIPLimit = NewIPRateLimiter 10 minute, svRate = NewRateLimiter 0 0, svIdem = NewIdempotency 0, svAudit = [],
     svLimits = \<lparr>DepositMaxUSDC = 0, WithdrawMaxUSDC = 1000, TransferMaxUSDC = 0, DailyWithdrawCapUSDC = 1500\<rparr>,
     svLedger = Some (NewMemoryLedger 1500), svTransferOut = Some NewMemoryTransferOutStore,
     svMarkets = NewCache minute, svBuilder = NewAssembler ''svp-1'' ''asvp'' ''5000'' 0, svSent = []\<rparr>"

definition exTenant :: requestCtx where
  "exTenant = \<lparr>ctTenant = Some \<lparr>tcTenantID = ''auto-16'', tcOwner = ''svp1abc''\<rparr>, ctIP = ''10.0.0.1'', ctSessionID = ''session-1''\<rparr>"

lemma exServer_ok: "tenantsOk (svTenants exServer)"
  by code_simp

lemma exTenant_ctx: "ctTenant exTenant = Some \<lparr>tcTenantID = ''auto-16'', tcOwner = ''svp1abc''\<rparr>"
  by (simp add: exTenant_def)

lemma exTenant_live:
  "LookupByTenantID second ''auto-16'' (svTenants exServer) =
     Inr \<lparr>trTenantID = ''auto-16'', trOwner = ''svp1abc'', trAllowedSubaccounts = {0, 1}, trKillSwitch = False,
          trExpiresAt = 24 * hour\<rparr>"
  by code_simp

theorem tools_need_a_live_bearer_witness:
  "\<exists>bearer trec. LookupByBearer second bearer (svTenants exServer) = Inr trec \<and>
     (\<exists>r s'. authReceivingMiddleware second (\<lambda>ctx s. (ctTenant ctx, s))
       \<lparr>rqMethod = ''tools/call'', rqHeader = Some [''Mcp-Session-Id'' \<mapsto> ''session-1''], rqToolName = Some ''whoami''\<rparr> exServer =
       (Handled r, s'))"
proof -
  let ?req = "\<lparr>rqMethod = ''tools/call'', rqHeader = Some [''Mcp-Session-Id'' \<mapsto> ''session-1''], rqToolName = Some ''whoami''\<rparr>"
  let ?m = "authReceivingMiddleware second (\<lambda>ctx s. (ctTenant ctx, s)) ?req exServer"
  have "case fst ?m of Handled r \<Rightarrow> True | AuthRequiredResult \<Rightarrow> False" by code_simp
  then obtain r where "fst ?m = Handled r" by (auto split: mcpResult.splits)
  then have m: "?m = (Handled r, snd ?m)" by (metis prod.collapse)
  show ?thesis using tools_need_a_live_bearer [OF _ _ _ _ m] m by auto
qed

theorem authorizeSubaccount_exact_witness:
  "tenantsOk (svTenants exServer) \<and>
   fst (authorizeSubaccount exRate second exTenant ''build_cancel_order'' 1 exServer) =
     Inr \<lparr>tpTenantID = ''auto-16'', tpOwner = ''svp1abc'', tpAllowedSubaccounts = {0, 1}, tpKillSwitch = False\<rparr>"
proof -
  let ?a = "authorizeSubaccount exRate second exTenant ''build_cancel_order'' 1 exServer"
  have "\<not> isl (fst ?a)" by code_simp
  then obtain tp where tp: "?a = (Inr tp, snd ?a)" by (metis prod.collapse sum.collapse(2))
  show ?thesis
    using authorizeSubaccount_exact [OF exServer_ok, of exRate second exTenant "''build_cancel_order''" 1 tp "snd ?a"] tp exServer_ok
    by (auto simp: exTenant_ctx exTenant_live)
qed

end
