(* ===== verification/Auth_Tools.thy ===== *)
theory Auth_Tools
  imports Server_Core
begin

text \<open>
  The handshake of \<open>lib/mcp/tools/auth_tools.go\<close>: \<open>auth_challenge\<close> issues a nonce to an owner, \<open>auth_verify\<close> checks
  the owner's signature over the challenge and mints the bearer. The runs of the server are an inductive relation
  over the two tools, the sweeps of the stores and whatever the other tools do.
\<close>

section \<open>The tools\<close>

record authChallengeOutput =
  acChallenge :: string
  acNonce :: string
  acExpiresAt :: int

definition AuthChallenge :: "time \<Rightarrow> bytes res \<Rightarrow> requestCtx \<Rightarrow> string \<Rightarrow> ('lim server, authChallengeOutput) handler" where
  "AuthChallenge now rnd ctx owner s =
     (let (ok, ipl) = ipAllow now (IPFrom ctx) (svIPLimit s); s = s\<lparr>svIPLimit := ipl\<rparr> in
      if \<not> ok then (Inl (Errorf ''rate limit exceeded'' []), s)
      else if owner = [] then (Inl (Errorf ''owner is required'' []), s)
      else
        (let (r, ns) = nsIssue now rnd owner (svNonces s); s = s\<lparr>svNonces := ns\<rparr> in
         case r of
           Inl e \<Rightarrow> (Inl (Wrapf ''issue nonce: %w'' [] e), s)
         | Inr (nonce, ex) \<Rightarrow>
             (Inr \<lparr>acChallenge = BuildChallenge (svChainID s) nonce ex, acNonce = nonce, acExpiresAt = unixSeconds ex\<rparr>, s)))"

record authVerifyInput =
  avNonce :: string
  avSignature :: string

record authVerifyOutput =
  aoBearerToken :: string
  aoOwner :: string
  aoExpiresAt :: int

text \<open>The words for a nonce that cannot be consumed.\<close>

definition nonceError :: "err \<Rightarrow> err" where
  "nonceError e =
     (if errIs e ErrNonceNotFound then Errorf ''nonce not found or already used'' []
      else if errIs e ErrNonceExpired then Errorf ''nonce expired; re-run auth_challenge'' []
      else e)"

text \<open>The signature check, once the nonce has given its owner and its expiry.\<close>

definition checkSignature :: "'pub ethCrypto \<Rightarrow> string \<Rightarrow> authVerifyInput \<Rightarrow> string \<Rightarrow> time \<Rightarrow> unit res" where
  "checkSignature K chainID inp boundOwner expiresAt =
     rbind (rwrap ''decode signature base64: %w'' [] (of_opt (Ext ''encoding/base64'') (b64Decode (avSignature inp)))) (\<lambda>sig.
     rbind (rwrap ''recover address from signature: %w'' []
              (RecoverOwner K (BuildChallenge chainID (avNonce inp) expiresAt) sig)) (\<lambda>recovered.
     require (recovered = boundOwner) (Errorf ''recovered address does not match the owner this nonce was issued to'' [])))"

definition AuthVerify :: "'pub ethCrypto \<Rightarrow> time \<Rightarrow> bytes res \<Rightarrow> bytes res \<Rightarrow> requestCtx \<Rightarrow> authVerifyInput
    \<Rightarrow> ('lim server, authVerifyOutput) handler" where
  "AuthVerify K now rndB rndT ctx inp s =
     (let (c, ns) = nsConsume now (avNonce inp) (svNonces s); s = s\<lparr>svNonces := ns\<rparr> in
      case c of
        Inl e \<Rightarrow> (Inl (nonceError e), s)
      | Inr (boundOwner, expiresAt) \<Rightarrow>
          (case checkSignature K (svChainID s) inp boundOwner expiresAt of
             Inl e \<Rightarrow> (Inl e, s)
           | Inr _ \<Rightarrow>
               (let (m, dt) = Mint now rndB rndT boundOwner (svTenants s); s = s\<lparr>svTenants := dt\<rparr> in
                case m of
                  Inl e \<Rightarrow> (Inl (Wrapf ''mint tenant: %w'' [] e), s)
                | Inr (bearer, tenantID, ex) \<Rightarrow>
                    (Inr \<lparr>aoBearerToken = bearer, aoOwner = boundOwner, aoExpiresAt = unixSeconds ex\<rparr>,
                     s\<lparr>svSessions := map_option (sbBind now (SessionIDFrom ctx) bearer) (svSessions s)\<rparr>))))"

section \<open>Runs of the server\<close>

datatype authEvent =
    EvChallenge requestCtx "bytes res" string
  | EvVerify requestCtx "bytes res" "bytes res" authVerifyInput

definition sweepServer :: "time \<Rightarrow> 'lim server \<Rightarrow> 'lim server" where
  "sweepServer now s = s\<lparr>svNonces := nsSweep now (svNonces s), svTenants := dtSweep now (svTenants s),
     svSessions := map_option (sbSweep now) (svSessions s), svIPLimit := ipSweep now (svIPLimit s)\<rparr>"

text \<open>\<open>authRun K s0 es s\<close>: from \<open>s0\<close>, after the handshake calls \<open>es\<close> in order, with sweeps and other tools in between,
  the server can be in the state \<open>s\<close>. Another tool touches neither the nonces nor the tenants.\<close>

inductive authRun :: "'pub ethCrypto \<Rightarrow> 'lim server \<Rightarrow> (time \<times> authEvent) list \<Rightarrow> 'lim server \<Rightarrow> bool" for K s0 where
  start: "authRun K s0 [] s0"
| challenge: "authRun K s0 es s \<Longrightarrow>
    authRun K s0 (es @ [(t, EvChallenge ctx rnd owner)]) (snd (AuthChallenge t rnd ctx owner s))"
| verify: "authRun K s0 es s \<Longrightarrow>
    authRun K s0 (es @ [(t, EvVerify ctx rndB rndT inp)]) (snd (AuthVerify K t rndB rndT ctx inp s))"
| sweep: "authRun K s0 es s \<Longrightarrow> authRun K s0 es (sweepServer t s)"
| other: "authRun K s0 es s \<Longrightarrow> svTenants s' = svTenants s \<Longrightarrow> svNonces s' = svNonces s \<Longrightarrow> svChainID s' = svChainID s \<Longrightarrow>
    authRun K s0 es s'"

text \<open>The nonce was issued to the owner by a call of the run.\<close>

definition issued :: "duration \<Rightarrow> (time \<times> authEvent) list \<Rightarrow> string \<Rightarrow> string \<Rightarrow> time \<Rightarrow> bool" where
  "issued ttl es nonce owner ex \<longleftrightarrow>
     (\<exists>t ctx rnd. (t, EvChallenge ctx (Inr rnd) owner) \<in> set es \<and> nonce = hexEncode rnd \<and> ex = t + ttl)"

text \<open>The owner proved possession of the key: a call of the run presented, before the nonce issued to them expired, a
  signature that recovers to them over the challenge of this chain and nonce.\<close>

definition proved :: "'pub ethCrypto \<Rightarrow> string \<Rightarrow> duration \<Rightarrow> (time \<times> authEvent) list \<Rightarrow> string \<Rightarrow> time \<Rightarrow> bool" where
  "proved K chainID ttl es owner t \<longleftrightarrow>
     (\<exists>pre ctx rndB rndT inp post ex sig. es = pre @ (t, EvVerify ctx rndB rndT inp) # post \<and>
        issued ttl pre (avNonce inp) owner ex \<and> t < ex \<and>
        b64Decode (avSignature inp) = Some sig \<and> RecoverOwner K (BuildChallenge chainID (avNonce inp) ex) sig = Inr owner)"

lemma issued_mono: "issued ttl es n ow ex \<Longrightarrow> issued ttl (es @ es') n ow ex"
  by (auto simp: issued_def)

lemma proved_mono: "proved K c ttl es ow t \<Longrightarrow> proved K c ttl (es @ es') ow t"
  unfolding proved_def by (metis append_Cons append_assoc)

text \<open>The invariant: every nonce in the store was issued, every tenant was proved.\<close>

definition authInv :: "'pub ethCrypto \<Rightarrow> 'lim server \<Rightarrow> (time \<times> authEvent) list \<Rightarrow> 'lim server \<Rightarrow> bool" where
  "authInv K s0 es s \<longleftrightarrow> svChainID s = svChainID s0 \<and> nsTTL (svNonces s) = nsTTL (svNonces s0) \<and>
     dtTTL (svTenants s) = dtTTL (svTenants s0) \<and> tenantsOk (svTenants s) \<and>
     (\<forall>(n, e) \<in> set (nsEntries (svNonces s)). issued (nsTTL (svNonces s0)) es n (neOwner e) (neExpiresAt e)) \<and>
     (\<forall>(i, r) \<in> set (byTenant (svTenants s)). \<exists>t. proved K (svChainID s0) (nsTTL (svNonces s0)) es (trOwner r) t \<and>
        trExpiresAt r = t + dtTTL (svTenants s0))"

lemma sweepLoop_subset:
  "set (byTenant (dtSweepLoop t bs s)) \<subseteq> set (byTenant s) \<and> dtTTL (dtSweepLoop t bs s) = dtTTL s"
proof (induction t bs s rule: dtSweepLoop.induct)
  case (2 now bearer tenantID bs s)
  have "set (AList.delete tenantID (byTenant s)) \<subseteq> set (byTenant s)" by (auto simp: AList.delete_eq)
  then show ?case using 2 by auto
qed simp

lemma authInvI:
  assumes "svChainID s = svChainID s0" "nsTTL (svNonces s) = nsTTL (svNonces s0)" "dtTTL (svTenants s) = dtTTL (svTenants s0)"
    and "tenantsOk (svTenants s)"
    and "\<And>n e. (n, e) \<in> set (nsEntries (svNonces s)) \<Longrightarrow> issued (nsTTL (svNonces s0)) es n (neOwner e) (neExpiresAt e)"
    and "\<And>i r. (i, r) \<in> set (byTenant (svTenants s)) \<Longrightarrow>
      \<exists>t. proved K (svChainID s0) (nsTTL (svNonces s0)) es (trOwner r) t \<and> trExpiresAt r = t + dtTTL (svTenants s0)"
  shows "authInv K s0 es s"
  using assms unfolding authInv_def by blast

lemma authInvD:
  assumes "authInv K s0 es s"
  shows "svChainID s = svChainID s0" "nsTTL (svNonces s) = nsTTL (svNonces s0)" "dtTTL (svTenants s) = dtTTL (svTenants s0)"
    and "tenantsOk (svTenants s)"
    and "(n, e) \<in> set (nsEntries (svNonces s)) \<Longrightarrow> issued (nsTTL (svNonces s0)) es n (neOwner e) (neExpiresAt e)"
    and "(i, r) \<in> set (byTenant (svTenants s)) \<Longrightarrow>
      \<exists>t. proved K (svChainID s0) (nsTTL (svNonces s0)) es (trOwner r) t \<and> trExpiresAt r = t + dtTTL (svTenants s0)"
  using assms unfolding authInv_def by blast+

lemma tenantsOk_subset: "tenantsOk st \<Longrightarrow> set (byTenant st') \<subseteq> set (byTenant st) \<Longrightarrow> tenantsOk st'"
  unfolding tenantsOk_def by blast

text \<open>Dropping entries and growing the run keeps the invariant.\<close>

lemma authInv_weaken:
  assumes "authInv K s0 es s" "svChainID s' = svChainID s" "nsTTL (svNonces s') = nsTTL (svNonces s)"
    and "dtTTL (svTenants s') = dtTTL (svTenants s)"
    and "set (nsEntries (svNonces s')) \<subseteq> set (nsEntries (svNonces s))"
    and "set (byTenant (svTenants s')) \<subseteq> set (byTenant (svTenants s))"
  shows "authInv K s0 (es @ es') s'"
proof (rule authInvI)
  fix n e assume "(n, e) \<in> set (nsEntries (svNonces s'))"
  then show "issued (nsTTL (svNonces s0)) (es @ es') n (neOwner e) (neExpiresAt e)"
    using assms(5) authInvD(5) [OF assms(1)] issued_mono by blast
next
  fix i r assume "(i, r) \<in> set (byTenant (svTenants s'))"
  then show "\<exists>t. proved K (svChainID s0) (nsTTL (svNonces s0)) (es @ es') (trOwner r) t \<and> trExpiresAt r = t + dtTTL (svTenants s0)"
    using assms(6) authInvD(6) [OF assms(1)] proved_mono by blast
qed (use assms authInvD(1-4) [OF assms(1)] tenantsOk_subset in \<open>simp_all\<close>)

text \<open>What the two tools do to the stores, by outcome.\<close>

lemma AuthChallenge_stores:
  "svTenants (snd (AuthChallenge t rnd ctx owner s)) = svTenants s \<and> svChainID (snd (AuthChallenge t rnd ctx owner s)) = svChainID s \<and>
   (svNonces (snd (AuthChallenge t rnd ctx owner s)) = svNonces s \<or>
    (\<exists>buf. rnd = Inr buf \<and> svNonces (snd (AuthChallenge t rnd ctx owner s)) = (svNonces s)\<lparr>nsEntries :=
       AList.update (hexEncode buf) \<lparr>neOwner = owner, neExpiresAt = t + nsTTL (svNonces s)\<rparr> (nsEntries (svNonces s))\<rparr>))"
  by (auto simp: AuthChallenge_def nsIssue_def Let_def case_prod_beta split: sum.split)

lemma nsConsume_stores:
  "nsTTL (snd (nsConsume t n s)) = nsTTL s \<and> set (nsEntries (snd (nsConsume t n s))) \<subseteq> set (nsEntries s)"
  by (auto simp: nsConsume_def Let_def AList.delete_eq split: option.split)

lemma checkSignature_Inr:
  "checkSignature K c inp ow ex = Inr u \<longleftrightarrow>
     (\<exists>sig. b64Decode (avSignature inp) = Some sig \<and> RecoverOwner K (BuildChallenge c (avNonce inp) ex) sig = Inr ow)"
  by (auto simp: checkSignature_def)

lemma AuthVerify_stores:
  "svChainID (snd (AuthVerify K t rb rt ctx inp s)) = svChainID s \<and>
   svNonces (snd (AuthVerify K t rb rt ctx inp s)) = snd (nsConsume t (avNonce inp) (svNonces s)) \<and>
   (svTenants (snd (AuthVerify K t rb rt ctx inp s)) = svTenants s \<or>
    (\<exists>ow ex. fst (nsConsume t (avNonce inp) (svNonces s)) = Inr (ow, ex) \<and>
       checkSignature K (svChainID s) inp ow ex = Inr () \<and>
       svTenants (snd (AuthVerify K t rb rt ctx inp s)) = snd (Mint t rb rt ow (svTenants s))))"
  by (auto simp: AuthVerify_def Let_def case_prod_beta split: sum.split)

lemma Mint_tenants:
  "dtTTL (snd (Mint t rb rt ow st)) = dtTTL st \<and> ((i, r) \<in> set (byTenant (snd (Mint t rb rt ow st))) \<longrightarrow>
     (i, r) \<in> set (byTenant st) \<or> trOwner r = ow \<and> trExpiresAt r = t + dtTTL st)"
  by (auto simp: Mint_def Let_def split: sum.split dest!: subsetD [OF set_AList_update])

lemma nsSweep_stores: "nsTTL (nsSweep t s) = nsTTL s \<and> set (nsEntries (nsSweep t s)) \<subseteq> set (nsEntries s)"
  by (auto simp: nsSweep_def)

lemma authInv_challenge:
  assumes "authInv K s0 es s"
  shows "authInv K s0 (es @ [(t, EvChallenge ctx rnd owner)]) (snd (AuthChallenge t rnd ctx owner s))"
    (is "authInv K s0 ?es ?s")
proof -
  note st = AuthChallenge_stores [of t rnd ctx owner s]
  show ?thesis
  proof (cases "svNonces ?s = svNonces s")
    case True
    then show ?thesis using st by (intro authInv_weaken [OF assms]) simp_all
  next
    case False
    then obtain buf where buf: "rnd = Inr buf" and ns: "svNonces ?s = (svNonces s)\<lparr>nsEntries :=
       AList.update (hexEncode buf) \<lparr>neOwner = owner, neExpiresAt = t + nsTTL (svNonces s)\<rparr> (nsEntries (svNonces s))\<rparr>"
      using st by blast
    show ?thesis
    proof (rule authInvI)
      fix n e assume "(n, e) \<in> set (nsEntries (svNonces ?s))"
      then have "(n, e) \<in> set (nsEntries (svNonces s)) \<or>
          n = hexEncode buf \<and> neOwner e = owner \<and> neExpiresAt e = t + nsTTL (svNonces s0)"
        using authInvD(2) [OF assms] by (auto simp: ns dest!: subsetD [OF set_AList_update])
      then show "issued (nsTTL (svNonces s0)) ?es n (neOwner e) (neExpiresAt e)"
        using authInvD(5) [OF assms] issued_mono unfolding buf by (fastforce simp: issued_def)
    next
      fix i r assume "(i, r) \<in> set (byTenant (svTenants ?s))"
      then show "\<exists>t. proved K (svChainID s0) (nsTTL (svNonces s0)) ?es (trOwner r) t \<and> trExpiresAt r = t + dtTTL (svTenants s0)"
        using authInvD(6) [OF assms, of i r] st proved_mono by metis
    qed (use st ns authInvD(1-4) [OF assms] in simp_all)
  qed
qed

lemma authInv_verify:
  assumes "authInv K s0 es s"
  shows "authInv K s0 (es @ [(t, EvVerify ctx rb rt inp)]) (snd (AuthVerify K t rb rt ctx inp s))"
    (is "authInv K s0 ?es ?s")
proof -
  note st = AuthVerify_stores [of K t rb rt ctx inp s] and ns = nsConsume_stores [of t "avNonce inp" "svNonces s"]
  show ?thesis
  proof (cases "svTenants ?s = svTenants s")
    case True
    then show ?thesis using st ns by (intro authInv_weaken [OF assms]) simp_all
  next
    case False
    then obtain ow ex where c: "fst (nsConsume t (avNonce inp) (svNonces s)) = Inr (ow, ex)"
      and sig: "checkSignature K (svChainID s) inp ow ex = Inr ()"
      and dt: "svTenants ?s = snd (Mint t rb rt ow (svTenants s))"
      using st by blast
    obtain e where "map_of (nsEntries (svNonces s)) (avNonce inp) = Some e" "neOwner e = ow" "neExpiresAt e = ex" "t < ex"
      using c by (auto simp: nsConsume_def Let_def split: option.splits if_splits)
    then have iss: "issued (nsTTL (svNonces s0)) es (avNonce inp) ow ex" "t < ex"
      using authInvD(5) [OF assms, of "avNonce inp" e] by (auto dest: map_of_SomeD)
    have here: "proved K (svChainID s0) (nsTTL (svNonces s0)) ?es ow t"
      using sig iss authInvD(1) [OF assms] unfolding proved_def checkSignature_Inr by metis
    show ?thesis
    proof (rule authInvI)
      fix n e assume "(n, e) \<in> set (nsEntries (svNonces ?s))"
      then show "issued (nsTTL (svNonces s0)) ?es n (neOwner e) (neExpiresAt e)"
        using st ns authInvD(5) [OF assms] issued_mono by (metis subsetD)
    next
      fix i r assume "(i, r) \<in> set (byTenant (svTenants ?s))"
      then show "\<exists>t. proved K (svChainID s0) (nsTTL (svNonces s0)) ?es (trOwner r) t \<and> trExpiresAt r = t + dtTTL (svTenants s0)"
        using Mint_tenants [of t rb rt ow "svTenants s" i r] here authInvD(3) [OF assms] authInvD(6) [OF assms, of i r] proved_mono
        unfolding dt by metis
    qed (use st ns dt authInvD(1-4) [OF assms] tenantsOk_Mint Mint_tenants in simp_all)
  qed
qed

lemma authRun_inv:
  assumes "authRun K s0 es s" "nsEntries (svNonces s0) = []" "byTenant (svTenants s0) = []"
  shows "authInv K s0 es s"
  using assms(1)
proof induction
  case start
  then show ?case using assms by (simp add: authInv_def tenantsOk_def)
next
  case (challenge es s t ctx rnd owner)
  from challenge.IH show ?case by (rule authInv_challenge)
next
  case (verify es s t ctx rndB rndT inp)
  from verify.IH show ?case by (rule authInv_verify)
next
  case (sweep es s t)
  then show ?case
    using authInv_weaken [OF sweep.IH, of "sweepServer t s" "[]"] nsSweep_stores [of t "svNonces s"]
      sweepLoop_subset [of t "byBearer (svTenants s)" "svTenants s"]
    by (simp add: sweepServer_def dtSweep_def)
next
  case (other es s s')
  then show ?case using authInv_weaken [OF other.IH, of s' "[]"] by simp
qed

section \<open>Properties\<close>

text \<open>C8: a bearer stands for a proof of ownership. In every run of a server that starts without nonces and tenants,
  whatever calls, sweeps and other tools come in between, a bearer that resolves to a tenant was minted by an
  \<open>auth_verify\<close> that presented in time a signature recovering to the tenant's owner, over the challenge text of
  this chain and of a nonce that an earlier \<open>auth_challenge\<close> issued to that owner; and the bearer has not outlived
  its time to live since then.\<close>

theorem bearer_proves_ownership:
  assumes "authRun K s0 es s" "nsEntries (svNonces s0) = []" "byTenant (svTenants s0) = []"
    and "LookupByBearer now bearer (svTenants s) = Inr r"
  shows "\<exists>t. proved K (svChainID s0) (nsTTL (svNonces s0)) es (trOwner r) t \<and> now < t + dtTTL (svTenants s0)"
proof -
  obtain i where i: "map_of (byTenant (svTenants s)) i = Some r" "now < trExpiresAt r"
    using assms(4) by (auto simp: LookupByBearer_Inr LookupByTenantID_Inr)
  then show ?thesis using authInvD(6) [OF authRun_inv [OF assms(1-3)], of i r] map_of_SomeD by metis
qed

text \<open>C39: the handshake works for the owner. A challenge that is not rate-limited, then within its time to live a
  verification with a signature that recovers to the owner over the text of the challenge, gives a bearer that
  resolves to a tenant of the owner until its time to live ends, and that the session of the call is bound to.\<close>

theorem handshake_succeeds:
  assumes "AuthChallenge t (Inr buf) ctx owner s = (Inr out, s1)"
    and "RecoverOwner K (acChallenge out) sig = Inr owner" "t' < t + nsTTL (svNonces s)"
    and "avNonce inp = acNonce out" "b64Decode (avSignature inp) = Some sig"
    and "t'' < t' + dtTTL (svTenants s)" "bb \<noteq> []" "ctSessionID ctx' \<noteq> []" "svSessions s = Some sb" "t'' < t' + sbTTL sb"
  shows "\<exists>out' s2 r. AuthVerify K t' (Inr bb) (Inr tb) ctx' inp s1 = (Inr out', s2) \<and> aoOwner out' = owner \<and>
    LookupByBearer t'' (aoBearerToken out') (svTenants s2) = Inr r \<and> trOwner r = owner \<and> \<not> trKillSwitch r \<and>
    resolveSession t'' (ctSessionID ctx') s2 = Some \<lparr>tcTenantID = trTenantID r, tcOwner = owner\<rparr>"
proof -
  let ?ex = "t + nsTTL (svNonces s)"
  have out: "out = \<lparr>acChallenge = BuildChallenge (svChainID s) (hexEncode buf) ?ex, acNonce = hexEncode buf,
      acExpiresAt = unixSeconds ?ex\<rparr>"
    and s1: "svChainID s1 = svChainID s" "svTenants s1 = svTenants s" "svSessions s1 = svSessions s"
      "map_of (nsEntries (svNonces s1)) (hexEncode buf) = Some \<lparr>neOwner = owner, neExpiresAt = ?ex\<rparr>" "owner \<noteq> []"
    using assms(1) by (auto simp: AuthChallenge_def nsIssue_def Let_def case_prod_beta alist_simps split: if_splits)
  have n: "avNonce inp = hexEncode buf" using assms(4) out by simp
  have c: "nsConsume t' (avNonce inp) (svNonces s1) = (Inr (owner, ?ex), snd (nsConsume t' (avNonce inp) (svNonces s1)))"
    using s1(4) assms(3) n by (simp add: nsConsume_def Let_def)
  have sig: "checkSignature K (svChainID s1) inp owner ?ex = Inr ()"
    using assms(2,5) n s1(1) by (simp add: checkSignature_Inr out)
  have "hexEncode bb \<noteq> []" using assms(7) by (cases bb) simp_all
  then show ?thesis
    using sig assms(6,8-10) s1(2,3,5)
    by (subst AuthVerify_def, subst c)
      (simp add: Mint_def Let_def LookupByBearer_Inr LookupByTenantID_Inr alist_simps resolveSession_def
        LookupTenantByToken_def LookupByBearer_def sbLookup_def sbBind_def SessionIDFrom_def)
qed

section \<open>The properties on a small server\<close>

text \<open>A toy signature scheme: a signature names its signer.\<close>

definition exCrypto :: "bytes ethCrypto" where
  "exCrypto = \<lparr>Keccak256 = (\<lambda>b. b), SigToPub = (\<lambda>h sig. Inr sig), PubkeyToAddress = (\<lambda>p. p),
     AccAddressString = (\<lambda>b. ''svp1'' @ stringOf (take 3 b))\<rparr>"

definition exSig :: string where
  "exSig = b64Encode (bytesOf ''abc'' @ replicate 62 0)"

definition exStart :: "nat server" where
  "exStart = exServer\<lparr>svTenants := NewDynamicTenantStore DefaultBearerTTL [0, 1],
     svSessions := Some (NewSessionBearers DefaultBearerTTL)\<rparr>"

definition exCtx :: requestCtx where
  "exCtx = \<lparr>ctTenant = None, ctIP = ''10.0.0.1'', ctSessionID = ''session-1''\<rparr>"

definition exVerify :: authVerifyInput where
  "exVerify = \<lparr>avNonce = ''05'', avSignature = exSig\<rparr>"

abbreviation exEvents :: "(time \<times> authEvent) list" where
  "exEvents \<equiv> ([] @ [(0, EvChallenge exCtx (Inr [5]) ''svp1abc'')]) @ [(second, EvVerify exCtx (Inr [11]) (Inr [22]) exVerify)]"

theorem bearer_proves_ownership_witness:
  "\<exists>s r. authRun exCrypto exStart exEvents s \<and> LookupByBearer (2 * second) ''0b'' (svTenants s) = Inr r \<and>
     (\<exists>t. proved exCrypto ''svp-1'' DefaultChallengeTTL exEvents (trOwner r) t \<and> 2 * second < t + DefaultBearerTTL)"
proof -
  let ?s = "snd (AuthVerify exCrypto second (Inr [11]) (Inr [22]) exCtx exVerify
      (snd (AuthChallenge 0 (Inr [5]) exCtx ''svp1abc'' exStart)))"
  have run: "authRun exCrypto exStart exEvents ?s" by (intro authRun.intros)
  have "\<not> isl (LookupByBearer (2 * second) ''0b'' (svTenants ?s))" by code_simp
  then obtain r where r: "LookupByBearer (2 * second) ''0b'' (svTenants ?s) = Inr r" by (metis sum.collapse(2))
  have e: "nsEntries (svNonces exStart) = []" "byTenant (svTenants exStart) = []" "svChainID exStart = ''svp-1''"
    "nsTTL (svNonces exStart) = DefaultChallengeTTL" "dtTTL (svTenants exStart) = DefaultBearerTTL"
    by (simp_all add: exStart_def exServer_def NewNonceStore_def NewDynamicTenantStore_def)
  show ?thesis using bearer_proves_ownership [OF run e(1,2) r] run r unfolding e(3-5) by blast
qed

theorem handshake_succeeds_witness:
  "\<exists>out' s2 r. AuthVerify exCrypto second (Inr [11]) (Inr [22]) exCtx exVerify
      (snd (AuthChallenge 0 (Inr [5]) exCtx ''svp1abc'' exStart)) = (Inr out', s2) \<and>
    LookupByBearer (2 * second) (aoBearerToken out') (svTenants s2) = Inr r \<and> trOwner r = ''svp1abc''"
proof -
  let ?c = "AuthChallenge 0 (Inr [5]) exCtx ''svp1abc'' exStart"
  have "\<not> isl (fst ?c)" by code_simp
  then obtain out where c: "?c = (Inr out, snd ?c)" by (metis prod.collapse sum.collapse(2))
  have "fst ?c = Inr \<lparr>acChallenge = BuildChallenge ''svp-1'' ''05'' (5 * minute), acNonce = ''05'', acExpiresAt = 300\<rparr>" by code_simp
  with c have out: "out = \<lparr>acChallenge = BuildChallenge ''svp-1'' ''05'' (5 * minute), acNonce = ''05'', acExpiresAt = 300\<rparr>"
    by (metis fst_conv sum.inject(2))
  have rec: "RecoverOwner exCrypto (acChallenge out) (bytesOf ''abc'' @ replicate 62 0) = Inr ''svp1abc''"
    unfolding out by code_simp
  have e: "avNonce exVerify = acNonce out" "b64Decode (avSignature exVerify) = Some (bytesOf ''abc'' @ replicate 62 0)"
    "ctSessionID exCtx \<noteq> []" "svSessions exStart = Some (NewSessionBearers DefaultBearerTTL)"
    by (simp_all add: exVerify_def out exSig_def exCtx_def exStart_def)
  have t: "second < 0 + nsTTL (svNonces exStart)" "2 * second < second + dtTTL (svTenants exStart)"
    "2 * second < second + sbTTL (NewSessionBearers DefaultBearerTTL)" by code_simp+
  show ?thesis
    using handshake_succeeds [OF c rec t(1) e(1,2) t(2) _ e(3,4) t(3), of "[11]" "[22]"] by auto
qed

end
