(* ===== verification/Trade_Tools.thy ===== *)
theory Trade_Tools
  imports Server_Core Orders
begin

text \<open>
  The order tools: \<open>lib/mcp/tools/trade.go\<close> and \<open>trade_v022.go\<close>. Each authorizes the call for the subaccount, reads
  the account of the tenant's owner (\<open>acct\<close>, the chain's account client) and runs the builder for that owner. All
  keep the interface \<open>subaccount_tool\<close>, which the funds tools share.
\<close>

type_synonym accountClient = "string \<Rightarrow> (u64 \<times> u64) res"

text \<open>The account number and the sequence of the owner.\<close>

definition readAccount :: "accountClient \<Rightarrow> string \<Rightarrow> ('s, u64 \<times> u64) handler" where
  "readAccount acct owner = hlift (rwrap ''read account state: %w'' [] (acct owner))"

text \<open>The last lines of each tool: the payload of the builder, or its error.\<close>

definition payloadOf :: "(msg \<times> txPayload) res \<Rightarrow> txPayload res" where
  "payloadOf r = rbind r (\<lambda>(m, p). Inr p)"

section \<open>Placing orders\<close>

record limitOrderTool =
  tlSubaccountNumber :: u32
  tlTicker :: string
  tlSide :: string
  tlSize :: string
  tlPrice :: string
  tlTimeInForce :: string
  tlReduceOnly :: bool
  tlGoodTilBlock :: u32
  tlOrderClientID :: u32
  tlPayloadClientID :: string

definition toolBuildPlaceLimitOrder :: "sdkLib \<Rightarrow> protocolLib \<Rightarrow> limitOrderTool \<Rightarrow> 'lim rateLib \<Rightarrow> accountClient \<Rightarrow> time
    \<Rightarrow> requestCtx \<Rightarrow> ('lim server, txPayload) handler" where
  "toolBuildPlaceLimitOrder S L inp R acct now ctx =
     hbind (authorizeSubaccount R now ctx ''build_place_limit_order'' (tlSubaccountNumber inp)) (\<lambda>tp.
     hbind (readAccount acct (tpOwner tp)) (\<lambda>(accountNumber, sequence) s.
     (payloadOf (BuildPlaceLimitOrder S L
        \<lparr>loOwner = tpOwner tp, loSubaccountNum = tlSubaccountNumber inp, loTicker = tlTicker inp, loSide = tlSide inp,
         loHumanSize = tlSize inp, loHumanPrice = tlPrice inp, loTimeInForce = tlTimeInForce inp,
         loReduceOnly = tlReduceOnly inp, loGoodTilBlock = tlGoodTilBlock inp, loOrderClientID = tlOrderClientID inp,
         loPayloadClientID = tlPayloadClientID inp\<rparr>
        (svMarkets s) (svBuilder s) accountNumber sequence now), s)))"

record marketOrderTool =
  tmSubaccountNumber :: u32
  tmTicker :: string
  tmSide :: string
  tmSize :: string
  tmWorstPrice :: string
  tmOraclePrice :: string
  tmSlippageBps :: u32
  tmReduceOnly :: bool
  tmGoodTilBlock :: u32
  tmOrderClientID :: u32
  tmPayloadClientID :: string

definition toolBuildPlaceMarketOrder :: "sdkLib \<Rightarrow> protocolLib \<Rightarrow> marketOrderTool \<Rightarrow> 'lim rateLib \<Rightarrow> accountClient \<Rightarrow> time
    \<Rightarrow> requestCtx \<Rightarrow> ('lim server, txPayload) handler" where
  "toolBuildPlaceMarketOrder S L inp R acct now ctx =
     hbind (authorizeSubaccount R now ctx ''build_place_market_order'' (tmSubaccountNumber inp)) (\<lambda>tp.
     hbind (readAccount acct (tpOwner tp)) (\<lambda>(accountNumber, sequence) s.
     (payloadOf (BuildPlaceMarketOrder S L
        \<lparr>moOwner = tpOwner tp, moSubaccountNum = tmSubaccountNumber inp, moTicker = tmTicker inp, moSide = tmSide inp,
         moHumanSize = tmSize inp, moWorstPrice = tmWorstPrice inp, moOraclePrice = tmOraclePrice inp,
         moSlippageBps = tmSlippageBps inp, moReduceOnly = tmReduceOnly inp, moGoodTilBlock = tmGoodTilBlock inp,
         moOrderClientID = tmOrderClientID inp, moPayloadClientID = tmPayloadClientID inp\<rparr>
        (svMarkets s) (svBuilder s) accountNumber sequence now), s)))"

record conditionalOrderTool =
  tdSubaccountNumber :: u32
  tdTicker :: string
  tdSide :: string
  tdSize :: string
  tdPrice :: string
  tdConditionType :: string
  tdTriggerPrice :: string
  tdTimeInForce :: string
  tdReduceOnly :: bool
  tdGoodTilBlockTime :: u32
  tdOrderClientID :: u32
  tdPayloadClientID :: string

definition toolBuildPlaceConditionalOrder :: "sdkLib \<Rightarrow> protocolLib \<Rightarrow> conditionalOrderTool \<Rightarrow> 'lim rateLib \<Rightarrow> accountClient
    \<Rightarrow> time \<Rightarrow> requestCtx \<Rightarrow> ('lim server, txPayload) handler" where
  "toolBuildPlaceConditionalOrder S L inp R acct now ctx =
     hbind (authorizeSubaccount R now ctx ''build_place_conditional_order'' (tdSubaccountNumber inp)) (\<lambda>tp.
     hbind (readAccount acct (tpOwner tp)) (\<lambda>(accountNumber, sequence) s.
     (payloadOf (BuildPlaceConditionalOrder S L
        \<lparr>coOwner = tpOwner tp, coSubaccountNum = tdSubaccountNumber inp, coTicker = tdTicker inp, coSide = tdSide inp,
         coHumanSize = tdSize inp, coHumanPrice = tdPrice inp, coConditionType = tdConditionType inp,
         coTriggerPrice = tdTriggerPrice inp, coTimeInForce = tdTimeInForce inp, coReduceOnly = tdReduceOnly inp,
         coGoodTilBlockTime = tdGoodTilBlockTime inp, coOrderClientID = tdOrderClientID inp,
         coPayloadClientID = tdPayloadClientID inp\<rparr>
        (svMarkets s) (svBuilder s) accountNumber sequence now), s)))"

section \<open>Cancelling orders\<close>

record cancelOrderTool =
  tkSubaccountNumber :: u32
  tkClobPairID :: u32
  tkOrderClientID :: u32
  tkOrderFlags :: u32
  tkGoodTilBlock :: u32
  tkGoodTilBlockTime :: u32
  tkPayloadClientID :: string

definition toolBuildCancelOrder :: "sdkLib \<Rightarrow> cancelOrderTool \<Rightarrow> 'lim rateLib \<Rightarrow> accountClient \<Rightarrow> time \<Rightarrow> requestCtx
    \<Rightarrow> ('lim server, txPayload) handler" where
  "toolBuildCancelOrder S inp R acct now ctx =
     hbind (authorizeSubaccount R now ctx ''build_cancel_order'' (tkSubaccountNumber inp)) (\<lambda>tp.
     hbind (readAccount acct (tpOwner tp)) (\<lambda>(accountNumber, sequence) s.
     (payloadOf (BuildCancelOrder S
        \<lparr>cxOwner = tpOwner tp, cxSubaccountNum = tkSubaccountNumber inp, cxClobPairID = tkClobPairID inp,
         cxOrderClientID = tkOrderClientID inp, cxOrderFlags = tkOrderFlags inp, cxGoodTilBlock = tkGoodTilBlock inp,
         cxGoodTilBlockTime = tkGoodTilBlockTime inp, cxPayloadClientID = tkPayloadClientID inp\<rparr>
        (svBuilder s) accountNumber sequence now), s)))"

record batchTool =
  ttClobPairID :: u32
  ttClientIDs :: "u32 list"

record batchCancelTool =
  tbSubaccountNumber :: u32
  tbBatches :: "batchTool list"
  tbGoodTilBlock :: u32
  tbPayloadClientID :: string

definition toolBuildBatchCancelOrders :: "sdkLib \<Rightarrow> batchCancelTool \<Rightarrow> 'lim rateLib \<Rightarrow> accountClient \<Rightarrow> time \<Rightarrow> requestCtx
    \<Rightarrow> ('lim server, txPayload) handler" where
  "toolBuildBatchCancelOrders S inp R acct now ctx =
     hbind (authorizeSubaccount R now ctx ''build_batch_cancel_orders'' (tbSubaccountNumber inp)) (\<lambda>tp.
     hbind (readAccount acct (tpOwner tp)) (\<lambda>(accountNumber, sequence) s.
     (let batches = map (\<lambda>b. \<lparr>obClobPairID = ttClobPairID b, obClientIDs = ttClientIDs b\<rparr>) (tbBatches inp) in
      (payloadOf (BuildBatchCancelOrders S
         \<lparr>bcOwner = tpOwner tp, bcSubaccountNum = tbSubaccountNumber inp, bcBatches = batches,
          bcGoodTilBlock = tbGoodTilBlock inp, bcPayloadClientID = tbPayloadClientID inp\<rparr>
         (svBuilder s) accountNumber sequence now), s))))"

section \<open>The interface of a tool that acts on a subaccount\<close>

text \<open>A payload comes out only after the authorization for the subaccount and the read of the account, and is the
  assembler's for one valid message of the tenant's owner. A call may change the rate limiter and roll over the
  day of the withdrawal ledger, nothing else.\<close>

locale subaccount_tool =
  fixes S :: sdkLib
    and run :: "'lim rateLib \<Rightarrow> accountClient \<Rightarrow> time \<Rightarrow> requestCtx \<Rightarrow> ('lim server, txPayload) handler"
    and tool :: string
    and sub :: u32
    and clientID :: string
  assumes runs: "run R acct now ctx s = (Inr p, s') \<Longrightarrow>
      \<exists>tp s1 an sq m su. authorizeSubaccount R now ctx tool sub s = (Inr tp, s1) \<and> acct (tpOwner tp) = Inr (an, sq) \<and>
        msgSigner m = tpOwner tp \<and> ValidateBasic S m = None \<and>
        Assemble S now (svBuilder s1) \<lparr>baMsgs = [m], baSignerAddress = tpOwner tp, baAccountNumber = an, baSequence = sq,
          baClientID = clientID, baSummary = su\<rparr> = Inr p"
    and frame: "\<exists>rl l. snd (run R acct now ctx s) = s\<lparr>svRate := rl, svLedger := l\<rparr>"
begin

lemma tool_contract:
  assumes "tenantsOk (svTenants s)" "run R acct now ctx s = (Inr p, s')"
  shows "\<exists>tc r an sq m body. ctTenant ctx = Some tc \<and> LookupByTenantID now (tcTenantID tc) (svTenants s) = Inr r \<and>
    \<not> trKillSwitch r \<and> sub \<in> trAllowedSubaccounts r \<and> fst (rlAllow R now (tool @ '':'' @ tcTenantID tc) (svRate s)) \<and>
    acct (trOwner r) = Inr (an, sq) \<and> parseUint (tpAccountNumber p) = Inr an \<and> parseUint (tpSequence p) = Inr sq \<and>
    tpSignerAddress p = trOwner r \<and> tpClientID p = clientID \<and> tpChainID p = asChainID (svBuilder s) \<and>
    msgSigner m = trOwner r \<and> ValidateBasic S m = None \<and> encodeTxBody S [m] = Inr body \<and>
    b64Decode (tpTxBodyBytesB64 p) = Some body"
proof -
  obtain tp s1 an sq m su where a: "authorizeSubaccount R now ctx tool sub s = (Inr tp, s1)" "acct (tpOwner tp) = Inr (an, sq)"
      "msgSigner m = tpOwner tp" "ValidateBasic S m = None"
      "Assemble S now (svBuilder s1) \<lparr>baMsgs = [m], baSignerAddress = tpOwner tp, baAccountNumber = an, baSequence = sq,
          baClientID = clientID, baSummary = su\<rparr> = Inr p"
    using runs [OF assms(2)] by blast
  from a(1) obtain tc r rl where r: "ctTenant ctx = Some tc" "LookupByTenantID now (tcTenantID tc) (svTenants s) = Inr r"
      "\<not> trKillSwitch r" "sub \<in> trAllowedSubaccounts r"
      "rlAllow R now (tool @ '':'' @ tcTenantID tc) (svRate s) = (True, rl)" "tp = policyOf r" "s1 = s\<lparr>svRate := rl\<rparr>"
    by (auto simp: authorizeSubaccount_Inr [OF assms(1)])
  then show ?thesis using a(2-5) by (auto simp: Assemble_def Let_def)
qed

end

section \<open>The order tools keep the interface\<close>

text \<open>The frame: only the rate limiter and the ledger may differ from the state \<open>s0\<close>.\<close>

definition frameRL :: "'lim server \<Rightarrow> 'lim server \<Rightarrow> bool" where
  "frameRL s0 s \<longleftrightarrow> (\<exists>rl l. s = s0\<lparr>svRate := rl, svLedger := l\<rparr>)"

lemma frameRL_refl: "frameRL s s"
  unfolding frameRL_def by (metis server.surjective server.update_convs(6,10))

lemma frameRL_rate: "frameRL s0 s \<Longrightarrow> frameRL s0 (s\<lparr>svRate := rl\<rparr>)"
  unfolding frameRL_def by (cases s0) auto

lemma frameRL_ledger: "frameRL s0 s \<Longrightarrow> frameRL s0 (s\<lparr>svLedger := l\<rparr>)"
  unfolding frameRL_def by (cases s0) auto

lemma frame_of: "hpreserves (frameRL s) m \<Longrightarrow> \<exists>rl l. snd (m s) = s\<lparr>svRate := rl, svLedger := l\<rparr>"
  using hpreservesD [of "frameRL s" m s] frameRL_refl unfolding frameRL_def by blast

lemma hpreserves_authorize [hpres]: "hpreserves (frameRL s0) (authorize R now ctx tool)"
  unfolding hpreserves_def by (metis authorize_state frameRL_rate)

lemma hpreserves_authorizeSubaccount [hpres]: "hpreserves (frameRL s0) (authorizeSubaccount R now ctx tool sub)"
  unfolding authorizeSubaccount_def by (intro hpres)

lemma hpreserves_readAccount [hpres]: "hpreserves P (readAccount acct ow)"
  unfolding readAccount_def by (intro hpres)

lemma payloadOf_Inr: "payloadOf r = Inr p \<longleftrightarrow> (\<exists>m. r = Inr (m, p))"
  by (auto simp: payloadOf_def)

lemma readAccount_Inr: "readAccount acct ow s = (Inr a, s') \<longleftrightarrow> acct ow = Inr a \<and> s' = s"
  by (auto simp: readAccount_def)

interpretation tlo: subaccount_tool S "toolBuildPlaceLimitOrder S L inp" "''build_place_limit_order''"
    "tlSubaccountNumber inp" "tlPayloadClientID inp" for S L inp
proof (unfold_locales, goal_cases)
  case (1 R acct now ctx s p s')
  then show ?case
    by (auto simp: toolBuildPlaceLimitOrder_def hbind_Inr_iff readAccount_Inr payloadOf_Inr Let_def dest!: blo.builds_valid) blast
qed (intro frame_of, unfold toolBuildPlaceLimitOrder_def Let_def, intro hpres)

interpretation tmo: subaccount_tool S "toolBuildPlaceMarketOrder S L inp" "''build_place_market_order''"
    "tmSubaccountNumber inp" "tmPayloadClientID inp" for S L inp
proof (unfold_locales, goal_cases)
  case (1 R acct now ctx s p s')
  then show ?case
    by (auto simp: toolBuildPlaceMarketOrder_def hbind_Inr_iff readAccount_Inr payloadOf_Inr Let_def dest!: bmo.builds_valid) blast
qed (intro frame_of, unfold toolBuildPlaceMarketOrder_def Let_def, intro hpres)

interpretation tco: subaccount_tool S "toolBuildPlaceConditionalOrder S L inp" "''build_place_conditional_order''"
    "tdSubaccountNumber inp" "tdPayloadClientID inp" for S L inp
proof (unfold_locales, goal_cases)
  case (1 R acct now ctx s p s')
  then show ?case
    by (auto simp: toolBuildPlaceConditionalOrder_def hbind_Inr_iff readAccount_Inr payloadOf_Inr Let_def dest!: bco.builds_valid) blast
qed (intro frame_of, unfold toolBuildPlaceConditionalOrder_def Let_def, intro hpres)

interpretation tca: subaccount_tool S "toolBuildCancelOrder S inp" "''build_cancel_order''"
    "tkSubaccountNumber inp" "tkPayloadClientID inp" for S inp
proof (unfold_locales, goal_cases)
  case (1 R acct now ctx s p s')
  then show ?case
    by (auto simp: toolBuildCancelOrder_def hbind_Inr_iff readAccount_Inr payloadOf_Inr Let_def dest!: bcx.builds_valid) blast
qed (intro frame_of, unfold toolBuildCancelOrder_def Let_def, intro hpres)

interpretation tba: subaccount_tool S "toolBuildBatchCancelOrders S inp" "''build_batch_cancel_orders''"
    "tbSubaccountNumber inp" "tbPayloadClientID inp" for S inp
proof (unfold_locales, goal_cases)
  case (1 R acct now ctx s p s')
  then show ?case
    by (auto simp: toolBuildBatchCancelOrders_def hbind_Inr_iff readAccount_Inr payloadOf_Inr Let_def dest!: bbc.builds_valid) blast
qed (intro frame_of, unfold toolBuildBatchCancelOrders_def Let_def, intro hpres)

section \<open>Properties\<close>


definition exCancelTool :: cancelOrderTool where
  "exCancelTool = \<lparr>tkSubaccountNumber = 1, tkClobPairID = 0, tkOrderClientID = 9, tkOrderFlags = 64, tkGoodTilBlock = 0,
     tkGoodTilBlockTime = 1700000000, tkPayloadClientID = ''c2''\<rparr>"

definition exAccount :: accountClient where
  "exAccount owner = (if owner = ''svp1abc'' then Inr (7, 3) else Inl (Ext ''not found''))"


end
