(* ===== verification/Assets.thy ===== *)
theory Assets
  imports Evm_Tx Go_Rat
begin

text \<open>
  The transfer-out registry of \<open>lib/mcp/tools/assets.go\<close>, with the token table of \<open>swap.go\<close> it is built from, and the
  conversion of human amounts of \<open>account.go\<close>.

  The denom of USDC on the bank rail (\<open>assettypes.UusdcDenom\<close>) is the parameter \<open>uusdc\<close>. The decimals of
  \<open>cosmossdk.io/math\<close> are the parameter \<open>decLib\<close>, on the values they denote.
\<close>

section \<open>Decimals\<close>

record decLib =
  DecFromStr :: "string \<Rightarrow> rat res"
  DecMulInt :: "rat \<Rightarrow> int \<Rightarrow> rat"
  DecTruncateInt :: "rat \<Rightarrow> int"
  DecWithPrecString :: "int \<Rightarrow> int \<Rightarrow> string"

text \<open>What the package documents: up to 18 decimals are read exactly, what is read is a multiple of \<open>10 ^ -18\<close>,
  multiplication by an integer is exact, truncation is towards zero, and a decimal made of an integer and a number
  of at most 18 decimals is written with 18 decimals.\<close>

definition decLib_ok :: "decLib \<Rightarrow> bool" where
  "decLib_ok D \<longleftrightarrow>
     (\<forall>a b. all_digits a \<and> a \<noteq> [] \<and> all_digits b \<and> b \<noteq> [] \<and> length b \<le> 18 \<longrightarrow>
        DecFromStr D (a @ ''.'' @ b) = Inr (of_nat (digits_val (a @ b)) / 10 ^ length b)) \<and>
     (\<forall>a. all_digits a \<and> a \<noteq> [] \<longrightarrow> DecFromStr D a = Inr (of_nat (digits_val a))) \<and>
     (\<forall>d i. DecMulInt D d i = d * of_int i) \<and>
     (\<forall>d. 0 \<le> d \<longrightarrow> DecTruncateInt D d = \<lfloor>d\<rfloor>) \<and>
     (\<forall>v p. 0 \<le> v \<and> 0 \<le> p \<and> p \<le> 18 \<longrightarrow> DecWithPrecString D v p =
        nat_dec (nat v div 10 ^ nat p) @ ''.'' @ zpad 18 (nat_dec (nat v mod 10 ^ nat p * 10 ^ (18 - nat p))))"

definition humanAmount :: "decLib \<Rightarrow> int \<Rightarrow> int \<Rightarrow> string" where
  "humanAmount D amount decimals =
     (let s = DecWithPrecString D amount decimals in
      if CHR ''.'' \<in> set s then trimRight CHR ''.'' (trimRight CHR ''0'' s) else s)"

definition humanToBaseUnits :: "decLib \<Rightarrow> string \<Rightarrow> int \<Rightarrow> int res" where
  "humanToBaseUnits D human decimals =
     rbind (rwrap ''invalid amount %q: %w'' [AStr human] (DecFromStr D human)) (\<lambda>dec.
     rbind (require (0 < dec) (Errorf ''amount must be > 0'' [])) (\<lambda>_.
     (let scaled = DecMulInt D dec (10 ^ nat decimals) in
      if scaled \<noteq> of_int (DecTruncateInt D scaled)
      then Inl (Errorf ''amount %q has more precision than %d decimals allow'' [AStr human, AInt decimals])
      else Inr (DecTruncateInt D scaled))))"

section \<open>Known tokens (swap.go)\<close>

record knownToken =
  ktAddress :: address
  ktBankLinked :: bool

definition knownSwapTokens :: "ethLib \<Rightarrow> (string \<times> knownToken) list" where
  "knownSwapTokens E =
     [(''usdv'', \<lparr>ktAddress = HexToAddress E ''0x013a61E622e6ABFCaB64F52D274C3Fc0aA37f951'', ktBankLinked = False\<rparr>),
      (''usdc'', \<lparr>ktAddress = HexToAddress E ''0x732F6Ea7AfD5EdC02e7ba052075dd0780e285489'', ktBankLinked = True\<rparr>)]"

definition zeroAddress :: address where
  "zeroAddress = replicate 20 0"

section \<open>The registry (assets.go)\<close>

definition nativeBankDenom :: string where
  "nativeBankDenom = ''asvp''"

record assetSymbol =
  asSymbol :: string
  asBankDenom :: string
  asErc20 :: address
  asNative :: bool
  asDecimals :: int

definition knownAddress :: "ethLib \<Rightarrow> string \<Rightarrow> address" where
  "knownAddress E symb = (case map_of (knownSwapTokens E) symb of None \<Rightarrow> zeroAddress | Some kt \<Rightarrow> ktAddress kt)"

definition transferOutAssets :: "ethLib \<Rightarrow> string \<Rightarrow> assetSymbol list" where
  "transferOutAssets E uusdc =
     [\<lparr>asSymbol = ''svp'', asBankDenom = nativeBankDenom, asErc20 = zeroAddress, asNative = True, asDecimals = 18\<rparr>,
      \<lparr>asSymbol = ''usdc'', asBankDenom = uusdc, asErc20 = knownAddress E ''usdc'', asNative = False, asDecimals = 6\<rparr>,
      \<lparr>asSymbol = ''usdv'', asBankDenom = [], asErc20 = knownAddress E ''usdv'', asNative = False, asDecimals = 6\<rparr>]"

definition assetForSymbol :: "ethLib \<Rightarrow> string \<Rightarrow> string \<Rightarrow> assetSymbol option" where
  "assetForSymbol E uusdc symbol =
     (let key = toLower (trimSpace symbol) in find (\<lambda>a. asSymbol a = key) (transferOutAssets E uusdc))"

definition symbolForDenom :: "ethLib \<Rightarrow> string \<Rightarrow> string \<Rightarrow> string option" where
  "symbolForDenom E uusdc denom =
     map_option asSymbol (find (\<lambda>a. asBankDenom a \<noteq> [] \<and> asBankDenom a = denom) (transferOutAssets E uusdc))"

definition symbolForToken :: "ethLib \<Rightarrow> string \<Rightarrow> address \<Rightarrow> string option" where
  "symbolForToken E uusdc addr =
     map_option asSymbol (find (\<lambda>a. asErc20 a \<noteq> zeroAddress \<and> asErc20 a = addr) (transferOutAssets E uusdc))"

definition symbolForNative :: "ethLib \<Rightarrow> string \<Rightarrow> string option" where
  "symbolForNative E uusdc = map_option asSymbol (find asNative (transferOutAssets E uusdc))"

section \<open>Lemmas\<close>

lemma humanToBaseUnits_Inr:
  assumes "decLib_ok D"
  shows "humanToBaseUnits D s n = Inr v \<longleftrightarrow> (\<exists>d. DecFromStr D s = Inr d \<and> 0 < d \<and> d * 10 ^ nat n = of_int v)"
proof -
  have t: "DecTruncateInt D (d * 10 ^ nat n) = \<lfloor>d * 10 ^ nat n\<rfloor>" if "0 < d" for d
    using assms that by (simp add: decLib_ok_def)
  have m: "DecMulInt D d (10 ^ nat n) = d * 10 ^ nat n" for d
    using assms by (simp add: decLib_ok_def)
  show ?thesis
    by (cases "DecFromStr D s") (auto simp: humanToBaseUnits_def Let_def m t floor_unique require_def)
qed

lemma trimRight_append:
  "trimRight c (xs @ ys) = (if trimRight c ys = [] then trimRight c xs else xs @ trimRight c ys)"
  by (auto simp: trimRight_def dropWhile_append)

lemma trimRight_id: "(\<And>d. d \<in> set s \<Longrightarrow> d \<noteq> c) \<Longrightarrow> trimRight c s = s"
  by (cases s rule: rev_cases) (auto simp: trimRight_def)

lemma trimRight_Nil [simp]: "trimRight c [] = []"
  by (simp add: trimRight_def)

lemma trimRight_snoc [simp]: "trimRight c (s @ [d]) = (if d = c then trimRight c s else s @ [d])"
  by (simp add: trimRight_def)

text \<open>Trimming the zeros of a fraction, and the point when nothing is left of it.\<close>

lemma trim_decimal:
  assumes "all_digits a" "all_digits b"
  shows "trimRight CHR ''.'' (trimRight CHR ''0'' (a @ ''.'' @ b)) =
    (if trimRight CHR ''0'' b = [] then a else a @ ''.'' @ trimRight CHR ''0'' b)"
proof -
  have noPoint: "trimRight CHR ''.'' x = x" if "all_digits x" for x
    using that by (intro trimRight_id) (auto simp: all_digits_iff)
  have dig: "all_digits (trimRight CHR ''0'' b)"
    using assms(2) by (induction b rule: rev_induct) auto
  have "trimRight CHR ''0'' (a @ ''.'' @ b) =
      (if trimRight CHR ''0'' b = [] then a @ ''.'' else a @ ''.'' @ trimRight CHR ''0'' b)"
    using trimRight_append [of "CHR ''0''" "a @ ''.''" b] by simp
  moreover have "trimRight CHR ''.'' (a @ ''.'' @ x) = a @ ''.'' @ x" if "all_digits x" "x \<noteq> []" for x
    using trimRight_append [of "CHR ''.''" "a @ ''.''" x] noPoint [OF that(1)] that(2) by simp
  ultimately show ?thesis using dig noPoint [OF assms(1)] by simp
qed

lemma trimRight_zeros:
  assumes "all_digits b"
  shows "all_digits (trimRight CHR ''0'' b) \<and> length (trimRight CHR ''0'' b) \<le> length b \<and>
    digits_val b = digits_val (trimRight CHR ''0'' b) * 10 ^ (length b - length (trimRight CHR ''0'' b))"
  using assms
proof (induction b rule: rev_induct)
  case (snoc c b)
  then show ?case by (auto simp: Suc_diff_le)
qed simp

lemma DecFromStr_trimmed:
  assumes "decLib_ok D" "all_digits a" "a \<noteq> []" "all_digits b" "length b = 18"
  shows "DecFromStr D (trimRight CHR ''.'' (trimRight CHR ''0'' (a @ ''.'' @ b))) =
    Inr (of_nat (digits_val (a @ b)) / 10 ^ 18)"
proof -
  let ?t = "trimRight CHR ''0'' b"
  note z = trimRight_zeros [OF assms(4)]
  have e: "(10 :: rat) ^ 18 = 10 ^ length ?t * 10 ^ (18 - length ?t)"
    using z assms(5) by (simp flip: power_add)
  have "digits_val (a @ b) = digits_val (a @ ?t) * 10 ^ (18 - length ?t)"
    using z assms(5) by (simp add: digits_val_append algebra_simps flip: power_add)
  then have v: "(of_nat (digits_val (a @ b)) / 10 ^ 18 :: rat) = of_nat (digits_val (a @ ?t)) / 10 ^ length ?t"
    unfolding e by simp
  show ?thesis
  proof (cases "?t = []")
    case True
    then show ?thesis using assms(1-3) v by (simp only: trim_decimal [OF assms(2,4)]) (simp add: decLib_ok_def)
  next
    case False
    then show ?thesis
      using assms z v by (simp only: trim_decimal [OF assms(2,4)]) (simp add: decLib_ok_def)
  qed
qed

text \<open>What the registry finds is registered, under exactly the identifier asked for.\<close>

lemma symbolForDenom_Some:
  "symbolForDenom E u d = Some x \<Longrightarrow> \<exists>a \<in> set (transferOutAssets E u). asSymbol a = x \<and> asBankDenom a = d \<and> d \<noteq> []"
  by (auto simp: symbolForDenom_def find_Some_iff)

lemma symbolForToken_Some:
  "symbolForToken E u t = Some x \<Longrightarrow> \<exists>a \<in> set (transferOutAssets E u). asSymbol a = x \<and> asErc20 a = t \<and> t \<noteq> zeroAddress"
  by (auto simp: symbolForToken_def find_Some_iff)

lemma symbolForNative_svp: "symbolForNative E u = Some ''svp''"
  by (simp add: symbolForNative_def transferOutAssets_def)

lemma symbolForDenom_usdc: "u \<noteq> [] \<Longrightarrow> u \<noteq> ''asvp'' \<Longrightarrow> symbolForDenom E u u = Some ''usdc''"
  by (simp add: symbolForDenom_def transferOutAssets_def nativeBankDenom_def)

lemma symbolForToken_usdc:
  "knownAddress E ''usdc'' \<noteq> zeroAddress \<Longrightarrow> symbolForToken E u (knownAddress E ''usdc'') = Some ''usdc''"
  by (simp add: symbolForToken_def transferOutAssets_def)

section \<open>Properties\<close>

text \<open>C29: a base-unit amount of a token with at most 18 decimals survives being shown and read back: the human text of the
  amount, with its trailing zeros and its point trimmed, converts to exactly the amount.\<close>

theorem human_amount_round_trip:
  assumes "decLib_ok D" "0 < v" "0 \<le> n" "n \<le> 18"
  shows "humanToBaseUnits D (humanAmount D v n) n = Inr v"
proof -
  let ?w = "nat v div 10 ^ nat n" and ?f = "nat v mod 10 ^ nat n * 10 ^ (18 - nat n)"
  let ?a = "nat_dec ?w" and ?b = "zpad 18 (nat_dec ?f)"
  have n: "nat n \<le> 18" using assms(3,4) by simp
  have "nat v mod 10 ^ nat n < 10 ^ nat n" by simp
  then have "?f < 10 ^ nat n * 10 ^ (18 - nat n)" by simp
  also have "(10 :: nat) ^ nat n * 10 ^ (18 - nat n) = 10 ^ 18" using n by (metis le_add_diff_inverse power_add)
  finally have len: "length ?b = 18" using length_nat_dec_le [of ?f 18] by (simp add: max_def)
  have "digits_val (?a @ ?b) = ?w * 10 ^ 18 + ?f" using len by (simp add: digits_val_append)
  also have "\<dots> = nat v * 10 ^ (18 - nat n)"
  proof -
    have "(10 :: nat) ^ 18 = 10 ^ nat n * 10 ^ (18 - nat n)" using n by (metis le_add_diff_inverse power_add)
    then have "?w * 10 ^ 18 + ?f = (?w * 10 ^ nat n + nat v mod 10 ^ nat n) * 10 ^ (18 - nat n)"
      by (simp only: add_mult_distrib mult.assoc)
    then show ?thesis by (simp only: div_mult_mod_eq)
  qed
  finally have val: "digits_val (?a @ ?b) = nat v * 10 ^ (18 - nat n)" .
  have "DecWithPrecString D v n = ?a @ ''.'' @ ?b" using assms by (simp add: decLib_ok_def)
  then have "DecFromStr D (humanAmount D v n) = Inr (of_nat (nat v * 10 ^ (18 - nat n)) / 10 ^ 18)"
    using DecFromStr_trimmed [OF assms(1) _ _ _ len, of ?a] val by (simp add: humanAmount_def)
  moreover have "(of_nat (nat v * 10 ^ (18 - nat n)) / 10 ^ 18 :: rat) * 10 ^ nat n = of_int v"
  proof -
    have "(10 :: rat) ^ (18 - nat n) * 10 ^ nat n = 10 ^ 18" using n by (simp flip: power_add)
    then show ?thesis using assms(2) by (simp add: mult.assoc)
  qed
  moreover have "(0 :: rat) < of_nat (nat v * 10 ^ (18 - nat n)) / 10 ^ 18" using assms(2) by simp
  ultimately show ?thesis unfolding humanToBaseUnits_Inr [OF assms(1)] by blast
qed

definition docDec :: decLib where
  "docDec = \<lparr>
     DecFromStr = (\<lambda>s. case cut CHR ''.'' s of
         Some (a, b) \<Rightarrow> if all_digits (a @ b) \<and> a \<noteq> [] \<and> b \<noteq> [] \<and> length b \<le> 18
           then Inr (of_nat (digits_val (a @ b)) / 10 ^ length b) else Inl (Ext ''math'')
       | None \<Rightarrow> if all_digits s \<and> s \<noteq> [] then Inr (of_nat (digits_val s)) else Inl (Ext ''math'')),
     DecMulInt = (\<lambda>d i. d * of_int i), DecTruncateInt = (\<lambda>d. \<lfloor>d\<rfloor>),
     DecWithPrecString = (\<lambda>v p. nat_dec (nat v div 10 ^ nat p) @ ''.'' @
       zpad 18 (nat_dec (nat v mod 10 ^ nat p * 10 ^ (18 - nat p))))\<rparr>"

lemma docDec_ok: "decLib_ok docDec"
proof -
  have "CHR ''.'' \<notin> set a" if "all_digits a" for a using that by (auto simp: all_digits_iff)
  then show ?thesis by (auto simp: decLib_ok_def docDec_def)
qed

text \<open>A whole number is read as that many units.\<close>

lemma humanToBaseUnits_pos:
  assumes "decLib_ok D" "humanToBaseUnits D s n = Inr v"
  shows "0 < v"
proof -
  obtain d where "0 < d" "d * 10 ^ nat n = (of_int v :: rat)"
    using assms(2) unfolding humanToBaseUnits_Inr [OF assms(1)] by blast
  then have "(0 :: rat) < of_int v" by (metis mult_pos_pos zero_less_numeral zero_less_power)
  then show ?thesis by simp
qed

lemma humanToBaseUnits_whole:
  assumes "decLib_ok D" "all_digits a" "a \<noteq> []" "0 < digits_val a"
  shows "humanToBaseUnits D a n = Inr (int (digits_val a) * 10 ^ nat n)"
  unfolding humanToBaseUnits_Inr [OF assms(1)] using assms by (simp add: decLib_ok_def)

theorem human_amount_round_trip_witness:
  "humanAmount docDec 1500000 6 = ''1.5'' \<and> humanToBaseUnits docDec ''1.5'' 6 = Inr 1500000"
proof -
  have "digit_char 0 = CHR ''0''" "digit_char 1 = CHR ''1''" "digit_char 5 = CHR ''5''" by code_simp+
  then have "nat_dec 500000000000000000 = ''500000000000000000''" "nat_dec 1 = ''1''" by (simp_all add: nat_dec.simps)
  then have "DecWithPrecString docDec 1500000 6 = ''1.500000000000000000''" by (simp add: docDec_def zpad_def)
  then have h: "humanAmount docDec 1500000 6 = ''1.5''" by (simp add: humanAmount_def trimRight_def)
  show ?thesis using human_amount_round_trip [OF docDec_ok, of 1500000 6] h by simp
qed

end
