(* ===== verification/Funds_Tools.thy ===== *)
theory Funds_Tools
  imports Trade_Tools Funds_Builder Assets
begin

text \<open>
  The funds tools: \<open>lib/mcp/tools/funds.go\<close> (deposit, withdraw, bank send, transfer between subaccounts) and
  \<open>funds_caps.go\<close> (reading and setting the transfer-out cap). The bank package's check of a denom and its reading of an
  integer are the parameters \<open>validateDenom\<close> and \<open>intFromString\<close>; \<open>io\<close> is the outcome of the writes of the cap file.
\<close>

section \<open>Deposits and withdrawals\<close>

record depositTool =
  tfSubaccountNumber :: u32
  tfHumanUSDC :: string
  tfPayloadClientID :: string

definition toolBuildDepositToSubaccount :: "sdkLib \<Rightarrow> depositTool \<Rightarrow> 'lim rateLib \<Rightarrow> accountClient \<Rightarrow> time \<Rightarrow> requestCtx
    \<Rightarrow> ('lim server, txPayload) handler" where
  "toolBuildDepositToSubaccount S inp R acct now ctx =
     hbind (authorizeSubaccount R now ctx ''build_deposit_to_subaccount'' (tfSubaccountNumber inp)) (\<lambda>tp.
     hbind (hlift (rwrap ''human_usdc: %w'' [] (HumanToQuantums (tfHumanUSDC inp)))) (\<lambda>quantums.
     hbind (\<lambda>s. (of_err (CheckPerTx (svLimits s) ToolDeposit quantums), s)) (\<lambda>_.
     hbind (readAccount acct (tpOwner tp)) (\<lambda>(accountNumber, sequence) s.
     (payloadOf (BuildDepositToSubaccount S
        \<lparr>diOwner = tpOwner tp, diSubaccountNum = tfSubaccountNumber inp, diHumanUSDC = tfHumanUSDC inp,
         diPayloadClientID = tfPayloadClientID inp\<rparr>
        (svBuilder s) accountNumber sequence now), s)))))"

text \<open>The check against the caps and the ledger; the ledger may roll its day over.\<close>

definition enforceWithdraw :: "time \<Rightarrow> string \<Rightarrow> u64 \<Rightarrow> ('lim server, unit) handler" where
  "enforceWithdraw now tenantID quantums s =
     (let (e, l) = Enforce (mlRemaining now) (svLimits s) (svLedger s) tenantID ToolWithdraw quantums in
      (of_err e, s\<lparr>svLedger := l\<rparr>))"

record withdrawTool =
  twSubaccountNumber :: u32
  twHumanUSDC :: string
  twPayloadClientID :: string

definition toolBuildWithdrawFromSubaccount :: "sdkLib \<Rightarrow> withdrawTool \<Rightarrow> 'lim rateLib \<Rightarrow> accountClient \<Rightarrow> time \<Rightarrow> requestCtx
    \<Rightarrow> ('lim server, txPayload) handler" where
  "toolBuildWithdrawFromSubaccount S inp R acct now ctx =
     hbind (authorizeSubaccount R now ctx ''build_withdraw_from_subaccount'' (twSubaccountNumber inp)) (\<lambda>tp.
     hbind (hlift (rwrap ''human_usdc: %w'' [] (HumanToQuantums (twHumanUSDC inp)))) (\<lambda>quantums.
     hbind (enforceWithdraw now (tpTenantID tp) quantums) (\<lambda>_.
     hbind (readAccount acct (tpOwner tp)) (\<lambda>(accountNumber, sequence) s.
     (payloadOf (BuildWithdrawFromSubaccount S
        \<lparr>wiOwner = tpOwner tp, wiSubaccountNum = twSubaccountNumber inp, wiHumanUSDC = twHumanUSDC inp,
         wiPayloadClientID = twPayloadClientID inp\<rparr>
        (svBuilder s) accountNumber sequence now), s)))))"

section \<open>Bank sends\<close>

record bankSendTool =
  tsRecipient :: string
  tsDenom :: string
  tsAmount :: string
  tsPayloadClientID :: string

text \<open>The two denoms whose decimals the server knows.\<close>

definition knownDenoms :: "string \<Rightarrow> (string \<times> (string \<times> int)) list" where
  "knownDenoms uusdc = [(uusdc, (''USDC'', 6)), (''asvp'', (''SVP'', 18))]"

definition resolveSendAmount :: "decLib \<Rightarrow> (string \<Rightarrow> err option) \<Rightarrow> (string \<Rightarrow> int option) \<Rightarrow> string \<Rightarrow> string \<Rightarrow> string
    \<Rightarrow> (coin \<times> string) res" where
  "resolveSendAmount D validateDenom intFromString uusdc denom amount =
     rbind (rwrap ''invalid denom %q: %w'' [AStr denom] (of_err (validateDenom denom))) (\<lambda>_.
     case map_of (knownDenoms uusdc) denom of
       Some (symbol, decimals) \<Rightarrow>
         rbind (humanToBaseUnits D amount decimals) (\<lambda>amt.
         Inr (\<lparr>coDenom = denom, coAmount = amt\<rparr>, amount @ '' '' @ symbol))
     | None \<Rightarrow>
         rbind (of_opt (Errorf ''unknown denom %q: amount must be a base-unit integer (no decimal point)'' [AStr denom])
                  (intFromString amount)) (\<lambda>amt.
         rbind (require (0 < amt) (Errorf ''amount must be > 0'' [])) (\<lambda>_.
         Inr (\<lparr>coDenom = denom, coAmount = amt\<rparr>, amount @ '' '' @ denom))))"

definition toolBuildBankSend :: "sdkLib \<Rightarrow> decLib \<Rightarrow> (string \<Rightarrow> err option) \<Rightarrow> (string \<Rightarrow> int option) \<Rightarrow> string \<Rightarrow> bankSendTool
    \<Rightarrow> 'lim rateLib \<Rightarrow> accountClient \<Rightarrow> time \<Rightarrow> requestCtx \<Rightarrow> ('lim server, txPayload) handler" where
  "toolBuildBankSend S D validateDenom intFromString uusdc inp R acct now ctx =
     hbind (authorize R now ctx ''build_bank_send'') (\<lambda>tp.
     hbind (hlift (resolveSendAmount D validateDenom intFromString uusdc (tsDenom inp) (tsAmount inp))) (\<lambda>(c, amountHuman).
     hbind (readAccount acct (tpOwner tp)) (\<lambda>(accountNumber, sequence) s.
     (payloadOf (BuildBankSend S
        \<lparr>bsOwner = tpOwner tp, bsRecipient = tsRecipient inp, bsAmount = c, bsAmountHuman = amountHuman,
         bsPayloadClientID = tsPayloadClientID inp\<rparr>
        (svBuilder s) accountNumber sequence now), s))))"

section \<open>Transfers between subaccounts\<close>

record transferTool =
  tvSenderSubaccountNumber :: u32
  tvRecipientSubaccountNumber :: u32
  tvHumanUSDC :: string
  tvPayloadClientID :: string

definition toolBuildTransferBetweenSubaccounts :: "sdkLib \<Rightarrow> transferTool \<Rightarrow> 'lim rateLib \<Rightarrow> accountClient \<Rightarrow> time
    \<Rightarrow> requestCtx \<Rightarrow> ('lim server, txPayload) handler" where
  "toolBuildTransferBetweenSubaccounts S inp R acct now ctx =
     hbind (authorize R now ctx ''build_transfer_between_subaccounts'') (\<lambda>tp.
     hbind (\<lambda>s. (rwrap ''sender: %w'' [] (CheckSubaccount (policyEngine now s) (tpTenantID tp) (tvSenderSubaccountNumber inp)), s)) (\<lambda>_.
     hbind (\<lambda>s. (rwrap ''recipient: %w'' [] (CheckSubaccount (policyEngine now s) (tpTenantID tp) (tvRecipientSubaccountNumber inp)), s)) (\<lambda>_.
     hbind (hlift (rwrap ''human_usdc: %w'' [] (HumanToQuantums (tvHumanUSDC inp)))) (\<lambda>quantums.
     hbind (\<lambda>s. (of_err (CheckPerTx (svLimits s) ToolTransfer quantums), s)) (\<lambda>_.
     hbind (readAccount acct (tpOwner tp)) (\<lambda>(accountNumber, sequence) s.
     (payloadOf (BuildTransferBetweenSubaccounts S
        \<lparr>tiOwner = tpOwner tp, tiSenderSubaccountNum = tvSenderSubaccountNumber inp,
         tiRecipientSubaccountNum = tvRecipientSubaccountNumber inp, tiHumanUSDC = tvHumanUSDC inp,
         tiPayloadClientID = tvPayloadClientID inp\<rparr>
        (svBuilder s) accountNumber sequence now), s)))))))"

section \<open>The transfer-out cap of the caller (funds_caps.go)\<close>

record setCapOutput =
  soSymbol :: string
  soCap :: string

definition unknownSymbol :: "string \<Rightarrow> err" where
  "unknownSymbol symbol = Errorf ''unknown token symbol %q (known: svp, usdc, usdv)'' [AStr symbol]"

definition toolSetTransferOutCap :: "decLib \<Rightarrow> ethLib \<Rightarrow> string \<Rightarrow> (nat \<Rightarrow> ioOutcome) \<Rightarrow> string \<Rightarrow> string \<Rightarrow> 'lim rateLib
    \<Rightarrow> time \<Rightarrow> requestCtx \<Rightarrow> ('lim server, setCapOutput) handler" where
  "toolSetTransferOutCap D E uusdc io symbol amount R now ctx =
     hbind (authorize R now ctx ''set_transfer_out_cap'') (\<lambda>tp.
     case assetForSymbol E uusdc symbol of
       None \<Rightarrow> hfail (unknownSymbol symbol)
     | Some a \<Rightarrow>
         if trimSpace amount = ''0'' then
           hbind (hmod (\<lambda>s. s\<lparr>svTransferOut := SetUnlimited io (tpOwner tp) (asSymbol a) (svTransferOut s)\<rparr>)) (\<lambda>_.
           hret \<lparr>soSymbol = asSymbol a, soCap = ''unlimited''\<rparr>)
         else
           hbind (hlift (rwrap ''amount: %w'' [] (humanToBaseUnits D amount (asDecimals a)))) (\<lambda>base.
           hbind (hmod (\<lambda>s. s\<lparr>svTransferOut := SetCap io (tpOwner tp)
                    \<lparr>scSymbol = asSymbol a, scDecimals = asDecimals a, scCapBase = Some base\<rparr> (svTransferOut s)\<rparr>)) (\<lambda>_.
           hret \<lparr>soSymbol = asSymbol a, soCap = humanAmount D base (asDecimals a)\<rparr>)))"

record capDTO =
  cdSymbol :: string
  cdCap :: string
  cdUsedToday :: string
  cdRemaining :: string

text \<open>The report, asset by asset; reading the usage may roll the day over.\<close>

fun transferOutCapView :: "decLib \<Rightarrow> (nat \<Rightarrow> ioOutcome) \<Rightarrow> time \<Rightarrow> string \<Rightarrow> assetSymbol list \<Rightarrow> transferOutStore option
    \<Rightarrow> capDTO list \<times> transferOutStore option" where
  "transferOutCapView D io now owner [] st = ([], st)"
| "transferOutCapView D io now owner (a # as) st =
     (let (used, st) = Used io now st owner (asSymbol a);
          dto = \<lparr>cdSymbol = asSymbol a, cdCap = ''unlimited'', cdUsedToday = humanAmount D used (asDecimals a),
                 cdRemaining = ''unlimited''\<rparr>;
          dto = (case Cap st owner (asSymbol a) of
                   None \<Rightarrow> dto
                 | Some c \<Rightarrow>
                     (case scCapBase c of
                        None \<Rightarrow> dto
                      | Some b \<Rightarrow> (let rem = b - used; rem = (if rem < 0 then 0 else rem) in
                          dto\<lparr>cdCap := humanAmount D b (asDecimals a), cdRemaining := humanAmount D rem (asDecimals a)\<rparr>)));
          (rest, st) = transferOutCapView D io now owner as st in
      (dto # rest, st))"

definition toolGetTransferOutCap :: "decLib \<Rightarrow> ethLib \<Rightarrow> string \<Rightarrow> (nat \<Rightarrow> ioOutcome) \<Rightarrow> string \<Rightarrow> 'lim rateLib \<Rightarrow> time
    \<Rightarrow> requestCtx \<Rightarrow> ('lim server, capDTO list) handler" where
  "toolGetTransferOutCap D E uusdc io symbol R now ctx =
     hbind (authorize R now ctx ''get_transfer_out_cap'') (\<lambda>tp.
     hbind (if trimSpace symbol \<noteq> [] then
              (case assetForSymbol E uusdc (trimSpace symbol) of
                 None \<Rightarrow> hfail (unknownSymbol symbol)
               | Some a \<Rightarrow> hret [a])
            else hret (transferOutAssets E uusdc)) (\<lambda>assets.
     hdo (\<lambda>s. (let (v, st) = transferOutCapView D io now (tpOwner tp) assets (svTransferOut s) in
               (v, s\<lparr>svTransferOut := st\<rparr>)))))"

section \<open>The tools keep the interface\<close>

lemma enforceWithdraw_state: "\<exists>l. snd (enforceWithdraw now i q s) = s\<lparr>svLedger := l\<rparr>"
  by (simp add: enforceWithdraw_def case_prod_beta Let_def) blast

lemma hpreserves_enforceWithdraw [hpres]: "hpreserves (frameRL s0) (enforceWithdraw now i q)"
  unfolding hpreserves_def by (metis enforceWithdraw_state frameRL_ledger)

interpretation tde: subaccount_tool S "toolBuildDepositToSubaccount S inp" "''build_deposit_to_subaccount''"
    "tfSubaccountNumber inp" "tfPayloadClientID inp" for S inp
proof (unfold_locales, goal_cases)
  case (1 R acct now ctx s p s')
  then show ?case
    by (auto simp: toolBuildDepositToSubaccount_def hbind_Inr_iff readAccount_Inr payloadOf_Inr dest!: bdp.builds_valid) blast
qed (intro frame_of, unfold toolBuildDepositToSubaccount_def, intro hpres)

interpretation twi: subaccount_tool S "toolBuildWithdrawFromSubaccount S inp" "''build_withdraw_from_subaccount''"
    "twSubaccountNumber inp" "twPayloadClientID inp" for S inp
proof (unfold_locales, goal_cases)
  case (1 R acct now ctx s p s')
  then obtain tp s1 q s2 an sq m where a: "authorizeSubaccount R now ctx ''build_withdraw_from_subaccount'' (twSubaccountNumber inp) s = (Inr tp, s1)"
      "enforceWithdraw now (tpTenantID tp) q s1 = (Inr (), s2)" "acct (tpOwner tp) = Inr (an, sq)"
    and b: "BuildWithdrawFromSubaccount S \<lparr>wiOwner = tpOwner tp, wiSubaccountNum = twSubaccountNumber inp,
        wiHumanUSDC = twHumanUSDC inp, wiPayloadClientID = twPayloadClientID inp\<rparr> (svBuilder s2) an sq now = Inr (m, p)"
    by (auto simp: toolBuildWithdrawFromSubaccount_def hbind_Inr_iff readAccount_Inr payloadOf_Inr)
  have "svBuilder s2 = svBuilder s1" using enforceWithdraw_state [of now "tpTenantID tp" q s1] a(2) by auto
  then show ?case using a bwd.builds_valid [OF b] by auto
qed (intro frame_of, unfold toolBuildWithdrawFromSubaccount_def, intro hpres)

section \<open>Lemmas\<close>

lemma Enforce_None_withdraw:
  "Enforce Rem cfg ledger i ToolWithdraw q = (None, l') \<Longrightarrow> CheckPerTx cfg ToolWithdraw q = None \<and>
    (\<forall>l d. ledger = Some l \<and> dailyCapQuantums cfg = Some d \<longrightarrow> q \<le> fst (Rem i l))"
  by (auto simp: Enforce_def Let_def case_prod_beta split: option.splits if_splits)

lemma enforceWithdraw_Inr:
  "enforceWithdraw now i q s = (Inr u, s') \<Longrightarrow> CheckPerTx (svLimits s) ToolWithdraw q = None \<and>
    (\<forall>l d. svLedger s = Some l \<and> dailyCapQuantums (svLimits s) = Some d \<longrightarrow> q \<le> fst (mlRemaining now i l))"
  by (cases "Enforce (mlRemaining now) (svLimits s) (svLedger s) i ToolWithdraw q")
    (auto simp: enforceWithdraw_def dest: Enforce_None_withdraw)

lemma Cap_SetCap:
  "Cap (SetCap io ow c (Some st)) o1 y = (if o1 = ow \<and> y = scSymbol c then Some c else Cap (Some st) o1 y)"
  by (auto simp: Cap_def SetCap_def)

lemma Cap_SetUnlimited:
  "Cap (SetUnlimited io ow x (Some st)) o1 y = (if o1 = ow \<and> y = x then None else Cap (Some st) o1 y)"
  by (auto simp: Cap_def SetUnlimited_def)

section \<open>Properties\<close>

text \<open>C20: a withdrawal that is built is within the caps and pays the caller: the amount is at most the cap per transaction
  and, when a daily cap is set, what is left of the tenant's day; the body to sign is the encoding of the withdrawal of
  exactly that amount of USDC from the owner's allowed subaccount to the owner.\<close>

theorem withdraw_tool_within_caps:
  assumes "tenantsOk (svTenants s)" "toolBuildWithdrawFromSubaccount S inp R acct now ctx s = (Inr p, s')"
  shows "\<exists>tc r q body. ctTenant ctx = Some tc \<and> LookupByTenantID now (tcTenantID tc) (svTenants s) = Inr r \<and> \<not> trKillSwitch r \<and>
    twSubaccountNumber inp \<in> trAllowedSubaccounts r \<and> HumanToQuantums (twHumanUSDC inp) = Inr q \<and> q \<noteq> 0 \<and>
    CheckPerTx (svLimits s) ToolWithdraw q = None \<and>
    (\<forall>l d. svLedger s = Some l \<and> dailyCapQuantums (svLimits s) = Some d \<longrightarrow> q \<le> fst (mlRemaining now (tcTenantID tc) l)) \<and>
    encodeTxBody S [MsgWithdrawFromSubaccount \<lparr>saOwner = trOwner r, saNumber = twSubaccountNumber inp\<rparr> (trOwner r) (AssetUsdcId S) q]
      = Inr body \<and> b64Decode (tpTxBodyBytesB64 p) = Some body"
proof -
  obtain tp s1 q s2 an sq m where a: "authorizeSubaccount R now ctx ''build_withdraw_from_subaccount'' (twSubaccountNumber inp) s = (Inr tp, s1)"
      "HumanToQuantums (twHumanUSDC inp) = Inr q" "enforceWithdraw now (tpTenantID tp) q s1 = (Inr (), s2)"
    and b: "BuildWithdrawFromSubaccount S \<lparr>wiOwner = tpOwner tp, wiSubaccountNum = twSubaccountNumber inp,
        wiHumanUSDC = twHumanUSDC inp, wiPayloadClientID = twPayloadClientID inp\<rparr> (svBuilder s2) an sq now = Inr (m, p)"
    using assms(2) by (auto simp: toolBuildWithdrawFromSubaccount_def hbind_Inr_iff readAccount_Inr payloadOf_Inr)
  from a(1) obtain tc r rl where r: "ctTenant ctx = Some tc" "LookupByTenantID now (tcTenantID tc) (svTenants s) = Inr r"
      "\<not> trKillSwitch r" "twSubaccountNumber inp \<in> trAllowedSubaccounts r" "tp = policyOf r" "s1 = s\<lparr>svRate := rl\<rparr>"
    by (auto simp: authorizeSubaccount_Inr [OF assms(1)])
  have id: "trTenantID r = tcTenantID tc" using r(2) assms(1) by (auto simp: LookupByTenantID_Inr dest: tenantsOk_get)
  obtain q' where q': "HumanToQuantums (twHumanUSDC inp) = Inr q'" "q' \<noteq> 0"
      "m = MsgWithdrawFromSubaccount \<lparr>saOwner = trOwner r, saNumber = twSubaccountNumber inp\<rparr> (trOwner r) (AssetUsdcId S) q'"
    using b by (rule BuildWithdraw_Inr) (simp add: r(5))
  then show ?thesis
    using a(2) enforceWithdraw_Inr [OF a(3)] r id bwd.payload_contract [OF b] by auto
qed

text \<open>C21: a caller changes only their own cap, of the symbol named, and to exactly the amount given: after the tool has
  succeeded, the cap of the caller's owner for that symbol is the amount in base units, or none for the amount 0;
  every other cap, and all usage, is as before.\<close>

theorem set_cap_changes_own_cap_only:
  assumes "decLib_ok D" "svTransferOut s = Some st" "toolSetTransferOutCap D E uusdc io symbol amount R now ctx s = (Inr out, s')"
  shows "\<exists>tc r a st'. ctTenant ctx = Some tc \<and> LookupByTenantID now (tcTenantID tc) (svTenants s) = Inr r \<and>
    assetForSymbol E uusdc symbol = Some a \<and> soSymbol out = asSymbol a \<and> svTransferOut s' = Some st' \<and> sUsed st' = sUsed st \<and>
    (\<forall>o1 y. (o1, y) \<noteq> (trOwner r, asSymbol a) \<longrightarrow> Cap (Some st') o1 y = Cap (Some st) o1 y) \<and>
    (if trimSpace amount = ''0'' then Cap (Some st') (trOwner r) (asSymbol a) = None
     else (\<exists>d base. DecFromStr D amount = Inr d \<and> 0 < d \<and> d * 10 ^ nat (asDecimals a) = of_int base \<and>
       Cap (Some st') (trOwner r) (asSymbol a) =
         Some \<lparr>scSymbol = asSymbol a, scDecimals = asDecimals a, scCapBase = Some base\<rparr>))"
proof -
  obtain tp s1 where a: "authorize R now ctx ''set_transfer_out_cap'' s = (Inr tp, s1)"
    and rest: "(case assetForSymbol E uusdc symbol of
       None \<Rightarrow> hfail (unknownSymbol symbol)
     | Some a \<Rightarrow>
         if trimSpace amount = ''0'' then
           hbind (hmod (\<lambda>s. s\<lparr>svTransferOut := SetUnlimited io (tpOwner tp) (asSymbol a) (svTransferOut s)\<rparr>)) (\<lambda>_.
           hret \<lparr>soSymbol = asSymbol a, soCap = ''unlimited''\<rparr>)
         else
           hbind (hlift (rwrap ''amount: %w'' [] (humanToBaseUnits D amount (asDecimals a)))) (\<lambda>base.
           hbind (hmod (\<lambda>s. s\<lparr>svTransferOut := SetCap io (tpOwner tp)
                    \<lparr>scSymbol = asSymbol a, scDecimals = asDecimals a, scCapBase = Some base\<rparr> (svTransferOut s)\<rparr>)) (\<lambda>_.
           hret \<lparr>soSymbol = asSymbol a, soCap = humanAmount D base (asDecimals a)\<rparr>))) s1 = (Inr out, s')"
    using assms(3) unfolding toolSetTransferOutCap_def hbind_Inr_iff by blast
  from a obtain tc r rl where r: "ctTenant ctx = Some tc" "LookupByTenantID now (tcTenantID tc) (svTenants s) = Inr r"
      "tp = policyOf r" "s1 = s\<lparr>svRate := rl\<rparr>"
    by (auto simp: authorize_Inr)
  obtain a where sym: "assetForSymbol E uusdc symbol = Some a" using rest by (auto split: option.splits)
  show ?thesis
  proof (cases "trimSpace amount = ''0''")
    case True
    then have "svTransferOut s' = SetUnlimited io (trOwner r) (asSymbol a) (Some st)" "soSymbol out = asSymbol a"
      using rest sym r(3,4) assms(2) by (auto simp: hbind_Inr_iff)
    then show ?thesis
      using True r sym Cap_SetUnlimited [of io "trOwner r" "asSymbol a" st] by (auto simp: SetUnlimited_def)
  next
    case False
    then obtain base where "svTransferOut s' = SetCap io (trOwner r)
          \<lparr>scSymbol = asSymbol a, scDecimals = asDecimals a, scCapBase = Some base\<rparr> (Some st)" "soSymbol out = asSymbol a"
        "humanToBaseUnits D amount (asDecimals a) = Inr base"
      using rest sym r(3,4) assms(2) by (auto simp: hbind_Inr_iff)
    then show ?thesis
      using False r sym Cap_SetCap [of io "trOwner r" "\<lparr>scSymbol = asSymbol a, scDecimals = asDecimals a, scCapBase = Some base\<rparr>" st]
      by (auto simp: SetCap_def humanToBaseUnits_Inr [OF assms(1)])
  qed
qed

section \<open>Witnesses\<close>

definition exWithdrawTool :: withdrawTool where
  "exWithdrawTool = \<lparr>twSubaccountNumber = 1, twHumanUSDC = ''250.5'', twPayloadClientID = ''w1''\<rparr>"

theorem withdraw_tool_within_caps_witness:
  "\<exists>p s' body. toolBuildWithdrawFromSubaccount docSDK exWithdrawTool exRate exAccount second exTenant exServer = (Inr p, s') \<and>
     CheckPerTx (svLimits exServer) ToolWithdraw 250500000 = None \<and>
     250500000 \<le> fst (mlRemaining second ''auto-16'' (NewMemoryLedger 1500)) \<and>
     b64Decode (tpTxBodyBytesB64 p) = Some body"
proof -
  let ?c = "toolBuildWithdrawFromSubaccount docSDK exWithdrawTool exRate exAccount second exTenant exServer"
  have "\<not> isl (fst ?c)" by code_simp
  then obtain p where c: "?c = (Inr p, snd ?c)" by (metis prod.collapse sum.collapse(2))
  have q: "HumanToQuantums (twHumanUSDC exWithdrawTool) = Inr 250500000"
      "dailyCapQuantums (svLimits exServer) = Some 1500000000"
    by code_simp+
  have l: "svLedger exServer = Some (NewMemoryLedger 1500)" by (simp add: exServer_def)
  show ?thesis
    using withdraw_tool_within_caps [OF exServer_ok c] c q l by (auto simp: exTenant_ctx)
qed

theorem set_cap_changes_own_cap_only_witness:
  "\<exists>out s' st'. toolSetTransferOutCap docDec docEth ''ibc/usdc'' writesOk '' UsDc'' ''12.5'' exRate second exTenant exServer = (Inr out, s') \<and>
     svTransferOut s' = Some st' \<and>
     Cap (Some st') ''svp1abc'' ''usdc'' = Some \<lparr>scSymbol = ''usdc'', scDecimals = 6, scCapBase = Some 12500000\<rparr> \<and>
     Cap (Some st') ''svp1xyz'' ''usdc'' = None"
proof -
  let ?c = "toolSetTransferOutCap docDec docEth ''ibc/usdc'' writesOk '' UsDc'' ''12.5'' exRate second exTenant exServer"
  let ?a = "authorize exRate second exTenant ''set_transfer_out_cap'' exServer"
  have v: "\<not> isl (fst ?a)" "humanToBaseUnits docDec ''12.5'' 6 = Inr 12500000" "trimSpace ''12.5'' \<noteq> ''0''"
      "map_option (\<lambda>a. (asSymbol a, asDecimals a)) (assetForSymbol docEth ''ibc/usdc'' '' UsDc'') = Some (''usdc'', 6)"
      "DecFromStr docDec ''12.5'' = Inr (25 / 2)" "Cap (Some NewMemoryTransferOutStore) ''svp1xyz'' ''usdc'' = None"
    by code_simp+
  obtain tp where "?a = (Inr tp, snd ?a)" using v(1) by (metis prod.collapse sum.collapse(2))
  moreover obtain a where "assetForSymbol docEth ''ibc/usdc'' '' UsDc'' = Some a" "asSymbol a = ''usdc''" "asDecimals a = 6"
    using v(4) by auto
  ultimately obtain p where c: "?c = (Inr p, snd ?c)" using v(2,3) by (simp add: toolSetTransferOutCap_def)
  have s: "svTransferOut exServer = Some NewMemoryTransferOutStore" by (simp add: exServer_def)
  have "b = 12500000" if "d * 2 = 25" "d * 1000000 = rat_of_int b" for d :: rat and b
  proof -
    have "rat_of_int b = rat_of_int 12500000" using that by simp
    then show ?thesis unfolding of_int_eq_iff .
  qed
  then obtain st' where "svTransferOut (snd ?c) = Some st'" "Cap (Some st') ''svp1xyz'' ''usdc'' = None"
      "Cap (Some st') ''svp1abc'' ''usdc'' = Some \<lparr>scSymbol = ''usdc'', scDecimals = 6, scCapBase = Some 12500000\<rparr>"
    using set_cap_changes_own_cap_only [OF docDec_ok s c] v(3-) by (auto simp: exTenant_ctx exTenant_live)
  then show ?thesis using c by blast
qed

end
