(* ===== verification/Broadcast.thy ===== *)
theory Broadcast
  imports Funds_Tools Signer "HOL-Library.Multiset"
begin

text \<open>
  Broadcasting a signed transaction to the cosmos rail: \<open>lib/mcp/tools/cross.go\<close> (\<open>broadcast_signed_tx\<close>,
  \<open>get_tx_status\<close> and the inspection of the transaction), \<open>lib/mcp/chain/broadcast.go\<close> and \<open>chain/errors.go\<close>.

  The protobuf decoding of transactions and the interface registry are the parameter \<open>txLib\<close>; the RPC that hands the
  bytes to the chain is a function of the bytes. Go leaves the order in which a map is ranged over open: the parameter
  \<open>order\<close> gives the order of each of the two loops over the amounts by symbol.
\<close>

section \<open>Broadcast errors (errors.go)\<close>

text \<open>
  The expression \<open>insufficient fees?;\s*got:\s*(\S+)\s+required:\s*(\S+?)(?:\s*:\s*insufficient fee|$)\<close> as a matcher with
  continuations: alternatives in order of preference (greedy first, or shortest first for \<open>+?\<close>), and the leftmost
  match. Every literal of the expression is ASCII, so matching the bytes of a text gives what matching its runes gives.
\<close>

type_synonym 'r matcher = "string \<Rightarrow> 'r option"

definition reSpace :: "char \<Rightarrow> bool" where
  "reSpace c \<longleftrightarrow> (of_char c :: nat) \<in> {9, 10, 12, 13, 32}"

fun orElse :: "'r option \<Rightarrow> 'r option \<Rightarrow> 'r option" where
  "orElse (Some r) m = Some r"
| "orElse None m = m"

fun reLit :: "string \<Rightarrow> 'r matcher \<Rightarrow> 'r matcher" where
  "reLit [] k s = k s"
| "reLit (p # ps) k [] = None"
| "reLit (p # ps) k (c # s) = (if c = p then reLit ps k s else None)"

fun reStar :: "(char \<Rightarrow> bool) \<Rightarrow> 'r matcher \<Rightarrow> 'r matcher" where
  "reStar P k [] = k []"
| "reStar P k (c # s) = (if P c then orElse (reStar P k s) (k (c # s)) else k (c # s))"

fun rePlus :: "(char \<Rightarrow> bool) \<Rightarrow> 'r matcher \<Rightarrow> 'r matcher" where
  "rePlus P k [] = None"
| "rePlus P k (c # s) = (if P c then reStar P k s else None)"

text \<open>A captured repetition hands what it has read to the continuation.\<close>

fun capStar :: "(char \<Rightarrow> bool) \<Rightarrow> string \<Rightarrow> (string \<Rightarrow> 'r matcher) \<Rightarrow> 'r matcher" where
  "capStar P acc k [] = k acc []"
| "capStar P acc k (c # s) = (if P c then orElse (capStar P (acc @ [c]) k s) (k acc (c # s)) else k acc (c # s))"

fun capLazy :: "(char \<Rightarrow> bool) \<Rightarrow> string \<Rightarrow> (string \<Rightarrow> 'r matcher) \<Rightarrow> 'r matcher" where
  "capLazy P acc k [] = k acc []"
| "capLazy P acc k (c # s) = orElse (k acc (c # s)) (if P c then capLazy P (acc @ [c]) k s else None)"

fun capPlus :: "(char \<Rightarrow> bool) \<Rightarrow> (string \<Rightarrow> 'r matcher) \<Rightarrow> 'r matcher" where
  "capPlus P k [] = None"
| "capPlus P k (c # s) = (if P c then capStar P [c] k s else None)"

fun capPlusLazy :: "(char \<Rightarrow> bool) \<Rightarrow> (string \<Rightarrow> 'r matcher) \<Rightarrow> 'r matcher" where
  "capPlusLazy P k [] = None"
| "capPlusLazy P k (c # s) = (if P c then capLazy P [c] k s else None)"

definition reEnd :: "'r \<Rightarrow> 'r matcher" where
  "reEnd r s = (if s = [] then Some r else None)"

definition feeTail :: "(string \<times> string) \<Rightarrow> (string \<times> string) matcher" where
  "feeTail r s = orElse (reStar reSpace (reLit '':'' (reStar reSpace (reLit ''insufficient fee'' (\<lambda>_. Some r)))) s) (reEnd r s)"

definition feeRest :: "(string \<times> string) matcher" where
  "feeRest =
     reLit '';'' (reStar reSpace (reLit ''got:'' (reStar reSpace (capPlus (\<lambda>c. \<not> reSpace c) (\<lambda>got.
     rePlus reSpace (reLit ''required:'' (reStar reSpace (capPlusLazy (\<lambda>c. \<not> reSpace c) (\<lambda>required.
     feeTail (got, required))))))))))"

definition insufficientFeeRE :: "(string \<times> string) matcher" where
  "insufficientFeeRE = reLit ''insufficient fee'' (\<lambda>s. orElse (reLit ''s'' feeRest s) (feeRest s))"

fun findMatch :: "'r matcher \<Rightarrow> 'r matcher" where
  "findMatch m [] = m []"
| "findMatch m (c # s) = orElse (m (c # s)) (findMatch m s)"

text \<open>The typed error keeps what the chain requires and what it got.\<close>

definition ParseBroadcastError :: "broadcastResult \<Rightarrow> err option" where
  "ParseBroadcastError r =
     (if brCode r = 0 then None
      else (case findMatch insufficientFeeRE (brRawLog r) of
              Some (got, required) \<Rightarrow> Some (ErrInsufficientFee required got)
            | None \<Rightarrow> None))"

definition BroadcastSync :: "(bytes \<Rightarrow> broadcastResult res) \<Rightarrow> bytes \<Rightarrow> broadcastResult res" where
  "BroadcastSync BroadcastTx txBytes = rwrap ''Tx.Service/BroadcastTx: %w'' [] (BroadcastTx txBytes)"

section \<open>Inspecting a signed transaction (cross.go)\<close>

text \<open>The packages that decode: the signer infos of an \<open>AuthInfo\<close> are given by their public keys, a missing key is None.\<close>

record txLib =
  UnmarshalTxRaw :: "bytes \<Rightarrow> txRaw res"
  UnmarshalAuthInfo :: "bytes \<Rightarrow> anyMsg option list res"
  UnmarshalTxBody :: "bytes \<Rightarrow> anyMsg list res"
  UnpackMsg :: "anyMsg \<Rightarrow> msg res"
  UnpackPubKey :: "anyMsg \<Rightarrow> bytes res"
  PubKeyAddress :: "bytes \<Rightarrow> string"

definition signerAddressFromTxRaw :: "txLib \<Rightarrow> bytes \<Rightarrow> string res" where
  "signerAddressFromTxRaw T raw =
     rbind (rwrap ''unmarshal TxRaw: %w'' [] (UnmarshalTxRaw T raw)) (\<lambda>tx.
     rbind (rwrap ''unmarshal AuthInfo: %w'' [] (UnmarshalAuthInfo T (trAuthInfoBytes tx))) (\<lambda>infos.
     (case infos of
        [pkAny] \<Rightarrow>
          rbind (of_opt (Errorf ''signer info has no public key'' []) pkAny) (\<lambda>a.
          rbind (rwrap ''unpack signer pubkey: %w'' [] (UnpackPubKey T a)) (\<lambda>pk.
          Inr (PubKeyAddress T pk)))
      | _ \<Rightarrow> Inl (Errorf ''expected exactly 1 signer, got %d'' [AInt (int (length infos))]))))"

fun sumWithdraws :: "txLib \<Rightarrow> u32 \<Rightarrow> anyMsg list \<Rightarrow> u64 \<Rightarrow> u64 res" where
  "sumWithdraws T usdcId [] tot = Inr tot"
| "sumWithdraws T usdcId (a # as) tot =
     (case UnpackMsg T a of
        Inr (MsgWithdrawFromSubaccount sender recipient assetId quantums) \<Rightarrow>
          if assetId \<noteq> usdcId then sumWithdraws T usdcId as tot
          else (let sum = tot + quantums in
                if sum < tot then Inl (Errorf ''withdraw quantums total overflows uint64'' [])
                else sumWithdraws T usdcId as sum)
      | _ \<Rightarrow> sumWithdraws T usdcId as tot)"

definition extractWithdrawQuantums :: "txLib \<Rightarrow> u32 \<Rightarrow> bytes \<Rightarrow> u64 res" where
  "extractWithdrawQuantums T usdcId raw =
     rbind (rwrap ''unmarshal TxRaw: %w'' [] (UnmarshalTxRaw T raw)) (\<lambda>tx.
     rbind (rwrap ''unmarshal TxBody: %w'' [] (UnmarshalTxBody T (trBodyBytes tx))) (\<lambda>as.
     sumWithdraws T usdcId as 0))"

fun addCoins :: "ethLib \<Rightarrow> string \<Rightarrow> coin list \<Rightarrow> (string \<times> int) list \<Rightarrow> (string \<times> int) list" where
  "addCoins E uusdc [] out = out"
| "addCoins E uusdc (c # cs) out =
     (case symbolForDenom E uusdc (coDenom c) of
        None \<Rightarrow> addCoins E uusdc cs out
      | Some symb \<Rightarrow>
          (let cur = (case map_of out symb of None \<Rightarrow> 0 | Some v \<Rightarrow> v) in
           addCoins E uusdc cs (AList.update symb (cur + coAmount c) out)))"

fun sumSends :: "txLib \<Rightarrow> ethLib \<Rightarrow> string \<Rightarrow> string \<Rightarrow> anyMsg list \<Rightarrow> (string \<times> int) list \<Rightarrow> (string \<times> int) list" where
  "sumSends T E uusdc signerAddr [] out = out"
| "sumSends T E uusdc signerAddr (a # as) out =
     (case UnpackMsg T a of
        Inr (MsgSend fromAddress toAddress amount) \<Rightarrow>
          if fromAddress \<noteq> signerAddr then sumSends T E uusdc signerAddr as out
          else sumSends T E uusdc signerAddr as (addCoins E uusdc amount out)
      | _ \<Rightarrow> sumSends T E uusdc signerAddr as out)"

definition extractBankSends :: "txLib \<Rightarrow> ethLib \<Rightarrow> string \<Rightarrow> bytes \<Rightarrow> string \<Rightarrow> (string \<times> int) list res" where
  "extractBankSends T E uusdc raw signerAddr =
     rbind (rwrap ''unmarshal TxRaw: %w'' [] (UnmarshalTxRaw T raw)) (\<lambda>tx.
     rbind (rwrap ''unmarshal TxBody: %w'' [] (UnmarshalTxBody T (trBodyBytes tx))) (\<lambda>as.
     Inr (sumSends T E uusdc signerAddr as [])))"

section \<open>The broadcast handler (cross.go)\<close>

record broadcastEnv =
  beTx :: txLib
  beEth :: ethLib
  beUusdc :: string
  beUsdcId :: u32
  beIo :: "nat \<Rightarrow> ioOutcome"
  beOrder :: "nat \<Rightarrow> (string \<times> int) list \<Rightarrow> (string \<times> int) list"
  beBroadcastTx :: "bytes \<Rightarrow> broadcastResult res"

definition orderOk :: "(nat \<Rightarrow> (string \<times> int) list \<Rightarrow> (string \<times> int) list) \<Rightarrow> bool" where
  "orderOk order \<longleftrightarrow> (\<forall>i xs. mset (order i xs) = mset xs)"

record broadcastInput =
  biClientID :: string
  biSignedTx :: signedTx

definition claimID :: "time \<Rightarrow> string \<Rightarrow> string \<Rightarrow> ('lim server, unit) handler" where
  "claimID now tenantID clientID s =
     (let (e, i) = Claim now tenantID clientID (svIdem s) in (of_err e, s\<lparr>svIdem := i\<rparr>))"

text \<open>The two loops over the amounts by symbol.\<close>

fun checkTransfers :: "(nat \<Rightarrow> ioOutcome) \<Rightarrow> time \<Rightarrow> string \<Rightarrow> (string \<times> int) list \<Rightarrow> ('lim server, unit) handler" where
  "checkTransfers io now owner [] = hret ()"
| "checkTransfers io now owner ((symb, amt) # rest) =
     hbind (\<lambda>s. (let (e, st) = Check io now owner symb (Some amt) (svTransferOut s) in
                 (of_err e, s\<lparr>svTransferOut := st\<rparr>)))
       (\<lambda>_. checkTransfers io now owner rest)"

definition recordTransfers :: "(nat \<Rightarrow> ioOutcome) \<Rightarrow> time \<Rightarrow> string \<Rightarrow> (string \<times> int) list
    \<Rightarrow> transferOutStore option \<Rightarrow> transferOutStore option" where
  "recordTransfers io now owner xs st = fold (\<lambda>(symb, amt) st. storeRecord io now owner symb (Some amt) st) xs st"

text \<open>Everything before the bytes go out: the policy, the client id, the signer and the caps.\<close>

definition inspectSignedTx :: "broadcastEnv \<Rightarrow> broadcastInput \<Rightarrow> 'lim rateLib \<Rightarrow> time \<Rightarrow> requestCtx
    \<Rightarrow> ('lim server, tenantPolicy \<times> bytes \<times> u64 \<times> (string \<times> int) list) handler" where
  "inspectSignedTx W inp R now ctx =
     hbind (authorize R now ctx ''broadcast_signed_tx'') (\<lambda>tp.
     hbind (claimID now (tpTenantID tp) (biClientID inp)) (\<lambda>_.
     hbind (hlift (rwrap ''decode tx_raw_bytes_b64: %w'' [] (of_opt (Ext ''base64'') (b64Decode (stTxRawBytesB64 (biSignedTx inp)))))) (\<lambda>raw.
     hbind (hlift (rwrap ''decode signed tx: %w'' [] (signerAddressFromTxRaw (beTx W) raw))) (\<lambda>signerAddr.
     hbind (hlift (require (signerAddr = tpOwner tp)
        (Errorf ''signer address %s does not match tenant owner %s'' [AStr signerAddr, AStr (tpOwner tp)]))) (\<lambda>_.
     hbind (hlift (rwrap ''inspect tx: %w'' [] (extractWithdrawQuantums (beTx W) (beUsdcId W) raw))) (\<lambda>withdrawQ.
     hbind (if 0 < withdrawQ then enforceWithdraw now (tpTenantID tp) withdrawQ else hret ()) (\<lambda>_.
     hbind (hlift (rwrap ''inspect tx: %w'' [] (extractBankSends (beTx W) (beEth W) (beUusdc W) raw signerAddr))) (\<lambda>bankOut.
     hbind (checkTransfers (beIo W) now (tpOwner tp) (beOrder W 0 bankOut)) (\<lambda>_.
     hret (tp, raw, withdrawQ, bankOut))))))))))"

text \<open>Handing the bytes to the chain, the audit line, and what is recorded of an accepted transaction.\<close>

definition submitSignedTx :: "broadcastEnv \<Rightarrow> broadcastInput \<Rightarrow> time \<Rightarrow> tenantPolicy \<times> bytes \<times> u64 \<times> (string \<times> int) list
    \<Rightarrow> ('lim server, broadcastResult) handler" where
  "submitSignedTx W inp now = (\<lambda>(tp, raw, withdrawQ, bankOut) s.
     (let r = BroadcastSync (beBroadcastTx W) raw;
          res = (case r of Inl e \<Rightarrow> \<lparr>brTxHash = [], brCode = 0, brRawLog = []\<rparr> | Inr x \<Rightarrow> x);
          outcome = (case r of Inl e \<Rightarrow> ''chain_reject'' | Inr x \<Rightarrow> if brCode x \<noteq> 0 then ''chain_reject'' else ''broadcast'');
          s = s\<lparr>svSent := svSent s @ [\<lparr>stRail = CosmosRail, stAt = now, stTenant = tpTenantID tp, stOwner = tpOwner tp, stClientID = biClientID inp,
                  stBytes = raw, stAccepted = (outcome = ''broadcast'')\<rparr>],
                svAudit := Append now (emptyAudit\<lparr>aeTenantID := tpTenantID tp, aeOwner := tpOwner tp,
                  aeTool := ''broadcast_signed_tx'', aeClientID := biClientID inp, aeTxHash := brTxHash res,
                  aeCode := brCode res, aeOutcome := outcome, aeReason := brRawLog res\<rparr>) (svAudit s)\<rparr> in
      case r of
        Inl e \<Rightarrow> (Inl e, s)
      | Inr res \<Rightarrow>
          (case (if brCode res \<noteq> 0 then ParseBroadcastError res else None) of
             Some pe \<Rightarrow> (Inl pe, s)
           | None \<Rightarrow>
               (let s = (if brCode res = 0 \<and> 0 < withdrawQ
                         then s\<lparr>svLedger := map_option (mlRecord now (tpTenantID tp) withdrawQ) (svLedger s)\<rparr> else s);
                    s = (if brCode res = 0
                         then s\<lparr>svTransferOut := recordTransfers (beIo W) now (tpOwner tp) (beOrder W 1 bankOut) (svTransferOut s)\<rparr>
                         else s) in
                (Inr res, s)))))"

definition toolBroadcastSignedTx :: "broadcastEnv \<Rightarrow> broadcastInput \<Rightarrow> 'lim rateLib \<Rightarrow> time \<Rightarrow> requestCtx
    \<Rightarrow> ('lim server, broadcastResult) handler" where
  "toolBroadcastSignedTx W inp R now ctx = hbind (inspectSignedTx W inp R now ctx) (submitSignedTx W inp now)"

section \<open>Transaction status (cross.go)\<close>

record txStatus =
  tsTxHash :: string
  tsHeight :: int
  tsCode :: u32
  tsRawLog :: string

definition toolGetTxStatus :: "(string \<Rightarrow> txStatus res) \<Rightarrow> string \<Rightarrow> 'lim rateLib \<Rightarrow> time \<Rightarrow> requestCtx
    \<Rightarrow> ('lim server, txStatus) handler" where
  "toolGetTxStatus TxStatus txHash R now ctx =
     hbind (authorize R now ctx ''get_tx_status'') (\<lambda>_.
     hbind (hlift (TxStatus txHash)) (\<lambda>st.
     hret \<lparr>tsTxHash = tsTxHash st, tsHeight = tsHeight st, tsCode = tsCode st, tsRawLog = tsRawLog st\<rparr>))"

section \<open>Lemmas: matching\<close>

lemma reLit_append [simp]: "reLit p k (p @ s) = k s"
  by (induction p) auto

lemma reLit_Some: "reLit p k s = Some r \<Longrightarrow> \<exists>t. s = p @ t \<and> k t = Some r"
  by (induction p k s rule: reLit.induct) (auto split: if_splits)

lemma reStar_stop: "(\<And>c t. s = c # t \<Longrightarrow> \<not> P c) \<Longrightarrow> reStar P k s = k s"
  by (cases s) auto

lemma orElse_Some [simp]: "orElse m n = Some r \<longleftrightarrow> m = Some r \<or> m = None \<and> n = Some r"
  by (cases m) auto

lemma orElse_None [simp]: "orElse m n = None \<longleftrightarrow> m = None \<and> n = None"
  by (cases m) auto

lemma orElse_right [simp]: "orElse m None = m"
  by (cases m) auto

lemma capStar_word:
  "\<forall>c \<in> set w. P c \<Longrightarrow> (\<And>c t. s = c # t \<Longrightarrow> \<not> P c) \<Longrightarrow> k (acc @ w) s = Some r \<Longrightarrow> capStar P acc k (w @ s) = Some r"
proof (induction w arbitrary: acc)
  case Nil
  then show ?case by (cases s) auto
qed auto

lemma capLazy_word:
  "\<forall>c \<in> set w. P c \<Longrightarrow> k (acc @ w) s = Some r \<Longrightarrow> (\<And>u v. w = u @ v \<Longrightarrow> v \<noteq> [] \<Longrightarrow> k (acc @ u) (v @ s) = None) \<Longrightarrow>
   capLazy P acc k (w @ s) = Some r"
proof (induction w arbitrary: acc)
  case Nil
  then show ?case by (cases s) auto
next
  case (Cons c w)
  have "k acc (c # w @ s) = None" using Cons.prems(3) [of "[]" "c # w"] by simp
  moreover have "k ((acc @ [c]) @ u) (v @ s) = None" if "w = u @ v" "v \<noteq> []" for u v
    using Cons.prems(3) [of "c # u" v] that by simp
  ultimately show ?case using Cons.IH [of "acc @ [c]"] Cons.prems by simp
qed

lemma reSpace_space [simp]: "reSpace CHR '' ''" "\<not> reSpace CHR '':''" "\<not> reSpace CHR ''i''"
  by (simp_all add: reSpace_def)

lemma reStar_reLit_None:
  "\<not> P p \<Longrightarrow> s = c # t \<Longrightarrow> \<not> P c \<Longrightarrow> c \<noteq> p \<Longrightarrow> reStar P (reLit (p # ps) k) s = None"
  by simp

text \<open>A coin text that has been read only in part is not followed by the end of the expression.\<close>

lemma feeTail_inside:
  assumes "\<forall>c \<in> set v. \<not> reSpace c" "v \<noteq> []"
  shows "feeTail r (v @ '': insufficient fee'') = None"
proof -
  obtain c w where v: "v = c # w" using assms(2) by (cases v) auto
  have c: "\<not> reSpace c" using assms(1) v by simp
  let ?k = "reLit ''insufficient fee'' (\<lambda>_. Some r)"
  have "?k (w @ '': insufficient fee'') = None" if "\<forall>c \<in> set w. \<not> reSpace c"
  proof (rule ccontr)
    assume "?k (w @ '': insufficient fee'') \<noteq> None"
    then obtain t where t: "w @ '': insufficient fee'' = ''insufficient fee'' @ t" using reLit_Some by fastforce
    have "takeWhile (\<lambda>c. \<not> reSpace c) (w @ '': insufficient fee'') = w @ '':''"
      using that by (simp add: takeWhile_append2)
    moreover have "takeWhile (\<lambda>c. \<not> reSpace c) (''insufficient fee'' @ t) = ''insufficient''"
      by (simp add: reSpace_def)
    ultimately have "w @ '':'' = ''insufficient''" using t by simp
    then have "last (w @ '':'') = last ''insufficient''" by simp
    then show False by simp
  qed
  moreover have "reStar reSpace ?k (w @ '': insufficient fee'') = ?k (w @ '': insufficient fee'')"
    using assms(1) v by (intro reStar_stop) (cases w; auto)
  ultimately have "reStar reSpace (reLit '':'' (reStar reSpace ?k)) (v @ '': insufficient fee'') = None"
    using assms(1) c v by simp
  then show ?thesis using assms(2) by (simp add: feeTail_def reEnd_def)
qed

lemma feeRest_chain:
  assumes "got \<noteq> []" "required \<noteq> []" "\<forall>c \<in> set got \<union> set required. \<not> reSpace c"
  shows "feeRest (''; got: '' @ got @ '' required: '' @ required @ '': insufficient fee'') = Some (got, required)"
proof -
  obtain g gs where g: "got = g # gs" using assms(1) by (cases got) auto
  obtain q qs where q: "required = q # qs" using assms(2) by (cases required) auto
  have r: "capPlusLazy (\<lambda>c. \<not> reSpace c) (\<lambda>r. feeTail (got, r)) (required @ '': insufficient fee'') = Some (got, required)"
  proof -
    have "capLazy (\<lambda>c. \<not> reSpace c) [q] (\<lambda>r. feeTail (got, r)) (qs @ '': insufficient fee'') = Some (got, required)"
    proof (rule capLazy_word)
      show "feeTail (got, [q] @ qs) '': insufficient fee'' = Some (got, required)"
        by (simp add: feeTail_def q reSpace_def)
      show "feeTail (got, [q] @ u) (v @ '': insufficient fee'') = None" if "qs = u @ v" "v \<noteq> []" for u v
        using assms(3) that q by (intro feeTail_inside) auto
    qed (use assms(3) q in auto)
    then show ?thesis using assms(3) q by simp
  qed
  have sp: "reStar reSpace (capPlusLazy (\<lambda>c. \<not> reSpace c) (\<lambda>r. feeTail (got, r))) ('' '' @ required @ '': insufficient fee'') = Some (got, required)"
    using r assms(3) q by simp
  have "capStar (\<lambda>c. \<not> reSpace c) [g] (\<lambda>got. rePlus reSpace (reLit ''required:'' (reStar reSpace (capPlusLazy (\<lambda>c. \<not> reSpace c) (\<lambda>r. feeTail (got, r))))))
      (gs @ '' required: '' @ required @ '': insufficient fee'') = Some (got, required)"
    by (rule capStar_word) (use assms(3) g sp in \<open>auto simp: reSpace_def\<close>)
  then show ?thesis using assms(3) g by (simp add: feeRest_def reSpace_def)
qed

lemma insufficientFeeRE_Some:
  assumes "insufficientFeeRE s = Some r"
  shows "\<exists>t. s = ''insufficient fee;'' @ t \<or> s = ''insufficient fees;'' @ t"
proof -
  obtain t where t: "s = ''insufficient fee'' @ t" "orElse (reLit ''s'' feeRest t) (feeRest t) = Some r"
    using reLit_Some [OF assms [unfolded insufficientFeeRE_def]] by (elim exE conjE)
  have semi: "\<exists>v. u = '';'' @ v" if "feeRest u = Some r" for u
    using reLit_Some [OF that [unfolded feeRest_def]] by (elim exE conjE) (rule exI)
  consider u where "t = ''s'' @ u" "feeRest u = Some r" | "feeRest t = Some r"
    using t(2) unfolding orElse_Some by (elim disjE conjE) (drule reLit_Some, blast+)
  then show ?thesis
  proof cases
    case 1
    then show ?thesis using t(1) semi [of u] by auto
  next
    case 2
    then show ?thesis using t(1) semi [of t] by auto
  qed
qed

lemma findMatch_skip:
  "(\<And>u v. pre = u @ v \<Longrightarrow> v \<noteq> [] \<Longrightarrow> m (v @ s) = None) \<Longrightarrow> findMatch m (pre @ s) = findMatch m s"
proof (induction pre)
  case (Cons c pre)
  have "m (c # pre @ s) = None" using Cons.prems [of "[]" "c # pre"] by simp
  moreover have "findMatch m (pre @ s) = findMatch m s"
  proof (rule Cons.IH)
    show "m (v @ s) = None" if "pre = u @ v" "v \<noteq> []" for u v using Cons.prems [of "c # u" v] that by simp
  qed
  ultimately show ?case by simp
qed simp

lemma findMatch_here: "m s = Some r \<Longrightarrow> findMatch m s = Some r"
  by (cases s) auto

lemma insufficientFeeRE_not_before:
  assumes "CHR '';'' \<notin> set v" "v \<noteq> []"
  shows "insufficientFeeRE (v @ ''insufficient fees;'' @ t) = None"
proof (rule ccontr)
  assume "insufficientFeeRE (v @ ''insufficient fees;'' @ t) \<noteq> None"
  then obtain u where u: "v @ ''insufficient fees;'' @ t = ''insufficient fee;'' @ u \<or>
      v @ ''insufficient fees;'' @ t = ''insufficient fees;'' @ u"
    using insufficientFeeRE_Some by fastforce
  let ?w = "takeWhile (\<lambda>c. c \<noteq> CHR '';'')"
  have "?w (v @ ''insufficient fees;'' @ t) = v @ ''insufficient fees''"
    using assms(1) by (subst takeWhile_append2) auto
  moreover have "?w (''insufficient fee;'' @ u) = ''insufficient fee''" "?w (''insufficient fees;'' @ u) = ''insufficient fees''"
    by simp_all
  ultimately have "v @ ''insufficient fees'' = ''insufficient fee'' \<or> v @ ''insufficient fees'' = ''insufficient fees''"
    using u by metis
  then have "length (v @ ''insufficient fees'') \<le> 17" by (elim disjE) (drule arg_cong [where f = length], simp)+
  then show False using assms(2) by simp
qed

section \<open>What a transaction moves: the reference sums\<close>

text \<open>The messages of a transaction that the registry knows.\<close>

definition knownMsgs :: "txLib \<Rightarrow> anyMsg list \<Rightarrow> msg list" where
  "knownMsgs T as = List.map_filter (\<lambda>a. case UnpackMsg T a of Inl e \<Rightarrow> None | Inr m \<Rightarrow> Some m) as"

definition txMsgs :: "txLib \<Rightarrow> bytes \<Rightarrow> msg list" where
  "txMsgs T raw =
     (case rbind (UnmarshalTxRaw T raw) (\<lambda>tx. UnmarshalTxBody T (trBodyBytes tx)) of
        Inl e \<Rightarrow> [] | Inr as \<Rightarrow> knownMsgs T as)"

fun usdcWithdrawn :: "u32 \<Rightarrow> msg \<Rightarrow> nat" where
  "usdcWithdrawn usdcId (MsgWithdrawFromSubaccount sender recipient assetId quantums) = (if assetId = usdcId then unat quantums else 0)"
| "usdcWithdrawn usdcId m = 0"

definition withdrawTotal :: "txLib \<Rightarrow> u32 \<Rightarrow> bytes \<Rightarrow> nat" where
  "withdrawTotal T usdcId raw = sum_list (map (usdcWithdrawn usdcId) (txMsgs T raw))"

fun coinsSentBy :: "string \<Rightarrow> msg \<Rightarrow> coin list" where
  "coinsSentBy owner (MsgSend fromAddress toAddress amount) = (if fromAddress = owner then amount else [])"
| "coinsSentBy owner m = []"

definition symbolTotal :: "ethLib \<Rightarrow> string \<Rightarrow> string \<Rightarrow> coin list \<Rightarrow> int" where
  "symbolTotal E uusdc y cs = sum_list (map coAmount (filter (\<lambda>c. symbolForDenom E uusdc (coDenom c) = Some y) cs))"

definition bankTotal :: "txLib \<Rightarrow> ethLib \<Rightarrow> string \<Rightarrow> string \<Rightarrow> bytes \<Rightarrow> string \<Rightarrow> int" where
  "bankTotal T E uusdc owner raw y = symbolTotal E uusdc y (concat (map (coinsSentBy owner) (txMsgs T raw)))"

lemma knownMsgs_simps [simp]:
  "knownMsgs T [] = []"
  "knownMsgs T (a # as) = (case UnpackMsg T a of Inl e \<Rightarrow> knownMsgs T as | Inr m \<Rightarrow> m # knownMsgs T as)"
  by (simp_all add: knownMsgs_def map_filter_simps split: sum.split)

text \<open>The loop is exact: it fails exactly when the sum does not fit a \<open>uint64\<close>.\<close>

lemma sumWithdraws_eq:
  "sumWithdraws T u as tot =
     (let n = unat tot + sum_list (map (usdcWithdrawn u) (knownMsgs T as)) in
      if n < 2 ^ 64 then Inr (of_nat n) else Inl (Errorf ''withdraw quantums total overflows uint64'' []))"
proof (induction as arbitrary: tot)
  case Nil
  have "unat tot < 2 ^ 64" using unsigned_less [of tot, where ?'a = nat] by simp
  then show ?case by simp
next
  case (Cons a as)
  show ?case
  proof (cases "\<exists>s r q. UnpackMsg T a = Inr (MsgWithdrawFromSubaccount s r u q)")
    case True
    then obtain s r q where m: "UnpackMsg T a = Inr (MsgWithdrawFromSubaccount s r u q)" by blast
    show ?thesis
    proof (cases "unat tot + unat q < 2 ^ 64")
      case fits: True
      then have "\<not> tot + q < tot" "unat (tot + q) = unat tot + unat q"
        by (simp_all add: no_olen_add_nat word_le_nat_alt flip: not_le) (simp_all add: unat_word_ariths)
      then show ?thesis using m Cons.IH [of "tot + q"] by (simp add: Let_def add.assoc)
    next
      case False
      then have "tot + q < tot" using no_olen_add_nat [of tot q] by (simp add: not_le)
      then show ?thesis using m False by (simp add: Let_def)
    qed
  next
    case False
    then show ?thesis using Cons.IH [of tot] by (auto split: sum.split msg.split)
  qed
qed

lemma extractWithdrawQuantums_eq:
  "extractWithdrawQuantums T u raw =
     rbind (rwrap ''unmarshal TxRaw: %w'' [] (UnmarshalTxRaw T raw)) (\<lambda>tx.
     rbind (rwrap ''unmarshal TxBody: %w'' [] (UnmarshalTxBody T (trBodyBytes tx))) (\<lambda>as.
     if withdrawTotal T u raw < 2 ^ 64 then Inr (of_nat (withdrawTotal T u raw))
     else Inl (Errorf ''withdraw quantums total overflows uint64'' [])))"
  by (auto simp: extractWithdrawQuantums_def sumWithdraws_eq withdrawTotal_def txMsgs_def Let_def rbind_def rwrap_def
      split: sum.split)

lemma extractWithdrawQuantums_Inr: "extractWithdrawQuantums T u raw = Inr q \<Longrightarrow> unat q = withdrawTotal T u raw"
  by (auto simp: extractWithdrawQuantums_eq unat_of_nat split: if_splits)

text \<open>The amounts by symbol.\<close>

definition amountOf :: "(string \<times> int) list \<Rightarrow> string \<Rightarrow> int" where
  "amountOf out y = (case map_of out y of None \<Rightarrow> 0 | Some v \<Rightarrow> v)"

lemma amountOf_Nil [simp]: "amountOf [] y = 0"
  by (simp add: amountOf_def)

lemma amountOf_update: "amountOf (AList.update z v out) y = (if y = z then v else amountOf out y)"
  by (simp add: amountOf_def update_conv')

lemma amountOf_mem: "distinct (map fst out) \<Longrightarrow> (y, a) \<in> set out \<Longrightarrow> amountOf out y = a"
  by (simp add: amountOf_def)

lemma addCoins_exact:
  "amountOf (addCoins E uusdc cs out) y = amountOf out y + symbolTotal E uusdc y cs"
  by (induction cs arbitrary: out)
    (auto simp: symbolTotal_def Let_def amountOf_update amountOf_def [symmetric] split: option.split)

lemma addCoins_distinct: "distinct (map fst out) \<Longrightarrow> distinct (map fst (addCoins E uusdc cs out))"
  by (induction cs arbitrary: out) (auto simp: Let_def distinct_update split: option.split)

lemma sumSends_exact:
  "amountOf (sumSends T E uusdc owner as out) y =
     amountOf out y + symbolTotal E uusdc y (concat (map (coinsSentBy owner) (knownMsgs T as)))"
  by (induction as arbitrary: out)
    (auto simp: addCoins_exact symbolTotal_def split: sum.split msg.split)

lemma sumSends_distinct: "distinct (map fst out) \<Longrightarrow> distinct (map fst (sumSends T E uusdc owner as out))"
  by (induction as arbitrary: out) (auto simp: addCoins_distinct split: sum.split msg.split)

lemma extractBankSends_Inr:
  assumes "extractBankSends T E uusdc raw owner = Inr out"
  shows "distinct (map fst out) \<and> amountOf out y = bankTotal T E uusdc owner raw y"
  using assms
  by (auto simp: extractBankSends_def sumSends_distinct sumSends_exact bankTotal_def txMsgs_def)

section \<open>Checking and recording several symbols\<close>

text \<open>A store that has at most been rolled over to the day of \<open>now\<close>.\<close>

definition rolled :: "(nat \<Rightarrow> ioOutcome) \<Rightarrow> time \<Rightarrow> transferOutStore \<Rightarrow> transferOutStore \<Rightarrow> bool" where
  "rolled io now st st' \<longleftrightarrow> st' = st \<or> st' = storeRollover io now st"

lemma storeRollover_idem [simp]: "storeRollover io now (storeRollover io now st) = storeRollover io now st"
  by (simp add: storeRollover_def Let_def)

lemma rolled_trans: "rolled io now st st1 \<Longrightarrow> rolled io now st1 st2 \<Longrightarrow> rolled io now st st2"
  by (auto simp: rolled_def)

lemma rolled_refl [simp]: "rolled io now st st"
  by (simp add: rolled_def)

lemma rolled_same:
  "rolled io now st st' \<Longrightarrow> sCaps st' = sCaps st \<and> todayUsed now st' o1 y = todayUsed now st o1 y \<and>
     capInForce st' o1 y = capInForce st o1 y"
  by (auto simp: rolled_def todayUsed_def [of now "storeRollover io now st"] capInForce_def Cap_def)

definition withinCap :: "time \<Rightarrow> transferOutStore \<Rightarrow> string \<Rightarrow> string \<Rightarrow> int \<Rightarrow> bool" where
  "withinCap now st owner y a \<longleftrightarrow> 0 < a \<longrightarrow>
     (case capInForce st owner y of None \<Rightarrow> True | Some cap \<Rightarrow> todayUsed now st owner y + a \<le> cap)"

lemma withinCapD: "withinCap now st owner y a \<Longrightarrow> capInForce st owner y = Some cap \<Longrightarrow> 0 < a \<Longrightarrow> todayUsed now st owner y + a \<le> cap"
  by (simp add: withinCap_def)

lemma Check_rolled:
  "\<exists>e st'. Check io now owner y (Some a) (Some st) = (e, Some st') \<and> (e = None \<longleftrightarrow> withinCap now st owner y a) \<and>
     rolled io now st st'"
proof (cases "0 < a")
  case True
  then show ?thesis by (auto simp: Check_verdict withinCap_def rolled_def split: option.split)
next
  case False
  then show ?thesis by (simp add: Check_nonpos withinCap_def)
qed

lemma checkTransfers_Some:
  assumes "svTransferOut s = Some st"
  shows "\<exists>e st'. checkTransfers io now owner xs s = (of_err e, s\<lparr>svTransferOut := Some st'\<rparr>) \<and> rolled io now st st' \<and>
    (e = None \<longleftrightarrow> (\<forall>(y, a) \<in> set xs. withinCap now st owner y a))"
  using assms
proof (induction xs arbitrary: s st)
  case Nil
  then show ?case by (intro exI [of _ None] exI [of _ st]) (cases s, auto)
next
  case (Cons x xs)
  obtain y a where x: "x = (y, a)" by (cases x)
  obtain e st1 where C: "Check io now owner y (Some a) (Some st) = (e, Some st1)"
      "e = None \<longleftrightarrow> withinCap now st owner y a" "rolled io now st st1"
    using Check_rolled by blast
  show ?case
  proof (cases e)
    case (Some e1)
    then have "checkTransfers io now owner (x # xs) s = (of_err e, s\<lparr>svTransferOut := Some st1\<rparr>)"
      using C(1) Cons.prems x by (simp add: hbind_def)
    then show ?thesis using C Some x by (intro exI [of _ e] exI [of _ st1]) auto
  next
    case None
    have s1: "svTransferOut (s\<lparr>svTransferOut := Some st1\<rparr>) = Some st1" by simp
    obtain e2 st2 where I: "checkTransfers io now owner xs (s\<lparr>svTransferOut := Some st1\<rparr>) =
          (of_err e2, s\<lparr>svTransferOut := Some st1, svTransferOut := Some st2\<rparr>)" "rolled io now st1 st2"
        "e2 = None \<longleftrightarrow> (\<forall>(y, a) \<in> set xs. withinCap now st1 owner y a)"
      using Cons.IH [OF s1] by blast
    have w: "withinCap now st1 owner z b = withinCap now st owner z b" for z b
      using rolled_same [OF C(3), of owner z] by (simp add: withinCap_def split: option.split)
    have "checkTransfers io now owner (x # xs) s = (of_err e2, s\<lparr>svTransferOut := Some st2\<rparr>)"
      using C(1) Cons.prems x None I(1) by (simp add: hbind_def)
    then show ?thesis
      using C I x None w rolled_trans [OF C(3) I(2)] by (intro exI [of _ e2] exI [of _ st2]) auto
  qed
qed

lemma checkTransfers_None:
  assumes "svTransferOut s = None"
  shows "checkTransfers io now owner xs s = (Inr (), s)"
proof (induction xs)
  case (Cons x xs)
  then show ?case using assms by (cases x, cases s) (simp add: hbind_def Check_def)
qed simp

lemma checkTransfers_state: "\<exists>st. snd (checkTransfers io now owner xs s) = s\<lparr>svTransferOut := st\<rparr>"
proof (cases "svTransferOut s")
  case None
  then show ?thesis by (intro exI [of _ None]) (cases s, simp add: checkTransfers_None)
next
  case (Some st)
  then show ?thesis using checkTransfers_Some [of s st io now owner xs] by auto
qed

text \<open>The check-and-record events of the store, in the order of the second loop, have the effect of the two loops.\<close>

definition transferEvents :: "time \<Rightarrow> string \<Rightarrow> (string \<times> int) list \<Rightarrow> (time \<times> storeEvent) list" where
  "transferEvents now owner xs = map (\<lambda>(y, a). (now, EvTransfer owner y a True)) xs"

lemma todayUsed_storeRecord:
  assumes "storeRecord io now owner y (Some a) (Some st) = Some st'"
  shows "sCaps st' = sCaps st \<and> todayUsed now st' o1 z =
    todayUsed now st o1 z + (if o1 = owner \<and> z = y then max 0 a else 0)"
proof (cases "0 < a")
  case True
  then show ?thesis using storeRecord_used [OF True, of io now owner y st] assms by (auto simp: todayUsed_def [of now st'])
next
  case False
  then show ?thesis using assms by (simp add: storeRecord_def)
qed

lemma storeRecord_Some: "\<exists>st'. storeRecord io now owner y (Some a) (Some st) = Some st'"
  by (simp add: storeRecord_def Let_def)

lemma withinCap_storeRecord:
  assumes "storeRecord io now owner y (Some a) (Some st) = Some st'" "z \<noteq> y"
  shows "withinCap now st' owner z b = withinCap now st owner z b"
  using todayUsed_storeRecord [OF assms(1), of owner z] assms(2) by (simp add: withinCap_def capInForce_def Cap_def split: option.split)

lemma storeStep_transfer:
  assumes "withinCap now st owner y a"
  shows "storeStep io (now, EvTransfer owner y a True) (tr, st) =
    (tr @ (if 0 < a then [(now, owner, y, a, capInForce st owner y)] else []), the (storeRecord io now owner y (Some a) (Some st)))"
proof (cases "0 < a")
  case True
  then have "Check io now owner y (Some a) (Some st) = (None, Some (storeRollover io now st))"
    using assms by (auto simp: Check_verdict withinCap_def split: option.split)
  then show ?thesis using True by (simp add: storeRecord_def)
next
  case False
  then show ?thesis by (simp add: Check_nonpos)
qed

lemma transferEvents_run:
  assumes "distinct (map fst xs)" "\<forall>(y, a) \<in> set xs. withinCap now st owner y a"
  shows "\<exists>tr1 st'. (\<forall>tr. foldl (\<lambda>p e. storeStep io e p) (tr, st) (transferEvents now owner xs) = (tr @ tr1, st')) \<and>
    recordTransfers io now owner xs (Some st) = Some st' \<and>
    (\<forall>o1 z d. outSum d o1 z tr1 = (if o1 = owner \<and> d = dayNumber now then max 0 (amountOf xs z) else 0))"
  using assms
proof (induction xs arbitrary: st)
  case Nil
  then show ?case by (simp add: transferEvents_def recordTransfers_def)
next
  case (Cons x xs)
  obtain y a where x: "x = (y, a)" by (cases x)
  obtain st1 where st1: "storeRecord io now owner y (Some a) (Some st) = Some st1" using storeRecord_Some by blast
  let ?t = "if 0 < a then [(now, owner, y, a, capInForce st owner y)] else []"
  have others: "withinCap now st1 owner z b" if "(z, b) \<in> set xs" for z b
  proof -
    have "z \<noteq> y" using that Cons.prems(1) x by (auto simp: rev_image_eqI)
    then show ?thesis using that Cons.prems(2) x withinCap_storeRecord [OF st1] by auto
  qed
  have rest: "distinct (map fst xs)" "\<forall>(z, b) \<in> set xs. withinCap now st1 owner z b"
    using Cons.prems(1) others by auto
  obtain tr1 st' where I:
      "\<forall>tr. foldl (\<lambda>p e. storeStep io e p) (tr, st1) (transferEvents now owner xs) = (tr @ tr1, st')"
      "recordTransfers io now owner xs (Some st1) = Some st'"
      "\<forall>o1 z d. outSum d o1 z tr1 = (if o1 = owner \<and> d = dayNumber now then max 0 (amountOf xs z) else 0)"
    using Cons.IH [OF rest] by blast
  have step: "storeStep io (now, EvTransfer owner y a True) (tr, st) = (tr @ ?t, st1)" for tr
    using storeStep_transfer [of now st owner y a io tr] Cons.prems(2) x st1 by simp
  have "foldl (\<lambda>p e. storeStep io e p) (tr, st) (transferEvents now owner (x # xs)) = (tr @ (?t @ tr1), st')" for tr
    using I(1) step x by (simp add: transferEvents_def del: storeStep.simps)
  moreover have "recordTransfers io now owner (x # xs) (Some st) = Some st'"
    using I(2) st1 x by (simp add: recordTransfers_def)
  moreover have "map_of xs y = None" using Cons.prems(1) x by (simp add: map_of_eq_None_iff)
  then have "outSum d o1 z (?t @ tr1) = (if o1 = owner \<and> d = dayNumber now then max 0 (amountOf (x # xs) z) else 0)" for o1 z d
    using I(3) x by (auto simp: amountOf_def)
  ultimately show ?case by blast
qed

lemma amountOf_perm: "distinct (map fst xs) \<Longrightarrow> mset ys = mset xs \<Longrightarrow> amountOf ys y = amountOf xs y \<and> distinct (map fst ys) \<and> set ys = set xs"
proof -
  assume d: "distinct (map fst xs)" and m: "mset ys = mset xs"
  then have dy: "distinct (map fst ys)" by (metis mset_eq_imp_distinct_iff mset_map)
  have "set ys = set xs" using m by (rule mset_eq_setD)
  with d dy have "map_of ys = map_of xs" by (intro map_of_inject_set [THEN iffD2])
  then show ?thesis using dy \<open>set ys = set xs\<close> by (simp add: amountOf_def)
qed

text \<open>The effect of an operation on the store as a sequence of the store's own events at one instant; \<open>delta d o1 y\<close> is what
  it adds to the transfers of owner \<open>o1\<close> and symbol \<open>y\<close> in day \<open>d\<close>.\<close>

definition storeSim :: "(nat \<Rightarrow> ioOutcome) \<Rightarrow> time \<Rightarrow> transferOutStore \<Rightarrow> transferOutStore \<Rightarrow> (int \<Rightarrow> string \<Rightarrow> string \<Rightarrow> int) \<Rightarrow> bool" where
  "storeSim io now st st' delta \<longleftrightarrow> (\<exists>evs tr1.
     (\<forall>(t, ev) \<in> set evs. t = now \<and> (\<forall>o1 c. ev = EvSetCap o1 c \<longrightarrow> scCapBase c \<noteq> None)) \<and>
     (\<forall>tr. foldl (\<lambda>p e. storeStep io e p) (tr, st) evs = (tr @ tr1, st')) \<and>
     (\<forall>d o1 y. outSum d o1 y tr1 = delta d o1 y))"

lemma storeSim_refl: "storeSim io now st st (\<lambda>d o1 y. 0)"
  unfolding storeSim_def by (intro exI [of _ "[]"]) auto

lemma storeSim_step:
  assumes "\<And>tr. storeStep io (now, ev) (tr, st) = (tr, st')" "\<And>o1 c. ev = EvSetCap o1 c \<Longrightarrow> scCapBase c \<noteq> None"
  shows "storeSim io now st st' (\<lambda>d o1 y. 0)"
  unfolding storeSim_def using assms by (intro exI [of _ "[(now, ev)]"] exI [of _ "[]"]) auto

lemma storeSim_trans:
  assumes "storeSim io now st st1 f" "storeSim io now st1 st2 g"
  shows "storeSim io now st st2 (\<lambda>d o1 y. f d o1 y + g d o1 y)"
proof -
  obtain e1 t1 where 1: "\<forall>(t, ev) \<in> set e1. t = now \<and> (\<forall>o1 c. ev = EvSetCap o1 c \<longrightarrow> scCapBase c \<noteq> None)"
      "\<forall>tr. foldl (\<lambda>p e. storeStep io e p) (tr, st) e1 = (tr @ t1, st1)" "\<forall>d o1 y. outSum d o1 y t1 = f d o1 y"
    using assms(1) unfolding storeSim_def by blast
  obtain e2 t2 where 2: "\<forall>(t, ev) \<in> set e2. t = now \<and> (\<forall>o1 c. ev = EvSetCap o1 c \<longrightarrow> scCapBase c \<noteq> None)"
      "\<forall>tr. foldl (\<lambda>p e. storeStep io e p) (tr, st1) e2 = (tr @ t2, st2)" "\<forall>d o1 y. outSum d o1 y t2 = g d o1 y"
    using assms(2) unfolding storeSim_def by blast
  show ?thesis
    unfolding storeSim_def using 1 2 by (intro exI [of _ "e1 @ e2"] exI [of _ "t1 @ t2"]) (auto simp del: storeStep.simps)
qed

lemma storeSim_rolled:
  assumes "rolled io now st st'"
  shows "storeSim io now st st' (\<lambda>d o1 y. 0)"
proof (cases "st' = st")
  case False
  then have "storeStep io (now, EvUsed [] []) (tr, st) = (tr, st')" for tr
    using assms by (simp add: rolled_def Used_def Let_def)
  then show ?thesis by (rule storeSim_step) simp
qed (simp add: storeSim_refl)

lemma storeSim_record:
  assumes "distinct (map fst xs)" "\<forall>(y, a) \<in> set xs. withinCap now st owner y a"
  shows "\<exists>st'. recordTransfers io now owner xs (Some st) = Some st' \<and>
    storeSim io now st st' (\<lambda>d o1 y. if o1 = owner \<and> d = dayNumber now then max 0 (amountOf xs y) else 0)"
proof -
  obtain tr1 st' where r: "\<forall>tr. foldl (\<lambda>p e. storeStep io e p) (tr, st) (transferEvents now owner xs) = (tr @ tr1, st')"
      "recordTransfers io now owner xs (Some st) = Some st'"
      "\<forall>o1 z d. outSum d o1 z tr1 = (if o1 = owner \<and> d = dayNumber now then max 0 (amountOf xs z) else 0)"
    using transferEvents_run [OF assms] by blast
  have "\<forall>(t, ev) \<in> set (transferEvents now owner xs). t = now \<and> (\<forall>o1 c. ev = EvSetCap o1 c \<longrightarrow> scCapBase c \<noteq> None)"
    by (auto simp: transferEvents_def)
  then show ?thesis using r unfolding storeSim_def by blast
qed

text \<open>What such an operation keeps: the file in step, and the usage equal to the sum of the transfers.\<close>

lemma storeSim_exact:
  assumes "storeSim writesOk now st st' delta" "store_wf st" "usage_exact t tr st" "within_caps tr" "t \<le> now"
  shows "\<exists>tr'. store_wf st' \<and> usage_exact now tr' st' \<and> within_caps tr' \<and>
    (\<forall>d o1 y. outSum d o1 y tr' = outSum d o1 y tr + delta d o1 y)"
proof -
  obtain evs tr1 where e: "\<forall>(t, ev) \<in> set evs. t = now \<and> (\<forall>o1 c. ev = EvSetCap o1 c \<longrightarrow> scCapBase c \<noteq> None)"
      "\<forall>tr. foldl (\<lambda>p e. storeStep writesOk e p) (tr, st) evs = (tr @ tr1, st')" "\<forall>d o1 y. outSum d o1 y tr1 = delta d o1 y"
    using assms(1) unfolding storeSim_def by blast
  have times: "map fst evs = replicate (length evs) now"
    using e(1) by (intro nth_equalityI) (auto simp: case_prod_beta)
  have "sorted (map fst evs)" by (simp add: times sorted_replicate)
  moreover have "last (now # map fst evs) = now" by (simp add: times)
  moreover have "usage_exact now tr st" using assms(3,5) by (rule usage_exact_later)
  moreover have "\<forall>(t, ev) \<in> set evs. \<forall>o1 c. ev = EvSetCap o1 c \<longrightarrow> scCapBase c \<noteq> None" "\<forall>e \<in> set evs. now \<le> fst e"
    using e(1) by fastforce+
  ultimately have "store_wf st' \<and> usage_exact now (tr @ tr1) st' \<and> within_caps (tr @ tr1)"
    using storeRun_exact [of evs st now tr "tr @ tr1" st'] assms(2,4) e(2) by simp
  then show ?thesis using e(3) by (intro exI [of _ "tr @ tr1"]) simp
qed

section \<open>Lemmas on the handler\<close>

lemma claimID_Inr:
  "claimID now i c s = (Inr u, s') \<longleftrightarrow> fst (Claim now i c (svIdem s)) = None \<and> s' = s\<lparr>svIdem := snd (Claim now i c (svIdem s))\<rparr>"
  by (auto simp: claimID_def Let_def case_prod_beta)

lemma submitSignedTx_sent:
  "svSent (snd (submitSignedTx W inp now (tp, raw, q, out) s)) =
     svSent s @ [\<lparr>stRail = CosmosRail, stAt = now, stTenant = tpTenantID tp, stOwner = tpOwner tp, stClientID = biClientID inp,
       stBytes = raw, stAccepted = (\<exists>res. beBroadcastTx W raw = Inr res \<and> brCode res = 0)\<rparr>]"
  by (auto simp: submitSignedTx_def Let_def BroadcastSync_def rwrap_def split: sum.split option.split)

lemma submitSignedTx_audit:
  "\<exists>a. svAudit (snd (submitSignedTx W inp now (tp, raw, q, out) s)) = svAudit s @ [a] \<and> aeTime a = Some now \<and>
     aeTenantID a = tpTenantID tp \<and> aeOwner a = tpOwner tp \<and> aeClientID a = biClientID inp \<and> aeTool a = ''broadcast_signed_tx'' \<and>
     aeOutcome a = (if \<exists>res. beBroadcastTx W raw = Inr res \<and> brCode res = 0 then ''broadcast'' else ''chain_reject'')"
  by (auto simp: submitSignedTx_def Let_def BroadcastSync_def rwrap_def Append_def emptyAudit_def split: sum.split option.split)

text \<open>What holds when the checks pass.\<close>

lemma inspectSignedTx_Inr:
  assumes "tenantsOk (svTenants s)" "inspectSignedTx W inp R now ctx s = (Inr (tp, raw, q, out), s1)"
  shows "\<exists>tc r s0. ctTenant ctx = Some tc \<and> LookupByTenantID now (tcTenantID tc) (svTenants s) = Inr r \<and> \<not> trKillSwitch r \<and>
    tp = policyOf r \<and> trTenantID r = tcTenantID tc \<and> Claim now (tcTenantID tc) (biClientID inp) (svIdem s) = (None, svIdem s0) \<and>
    b64Decode (stTxRawBytesB64 (biSignedTx inp)) = Some raw \<and> signerAddressFromTxRaw (beTx W) raw = Inr (trOwner r) \<and>
    extractWithdrawQuantums (beTx W) (beUsdcId W) raw = Inr q \<and>
    extractBankSends (beTx W) (beEth W) (beUusdc W) raw (trOwner r) = Inr out \<and> svTransferOut s0 = svTransferOut s \<and>
    (if 0 < q then Enforce (mlRemaining now) (svLimits s) (svLedger s) (tcTenantID tc) ToolWithdraw q = (None, svLedger s0)
     else svLedger s0 = svLedger s) \<and>
    checkTransfers (beIo W) now (trOwner r) (beOrder W 0 out) s0 = (Inr (), s1)"
proof -
  obtain s2 s0 where a: "authorize R now ctx ''broadcast_signed_tx'' s = (Inr tp, s2)"
    and c: "fst (Claim now (tpTenantID tp) (biClientID inp) (svIdem s2)) = None"
    and rest: "b64Decode (stTxRawBytesB64 (biSignedTx inp)) = Some raw" "signerAddressFromTxRaw (beTx W) raw = Inr (tpOwner tp)"
      "extractWithdrawQuantums (beTx W) (beUsdcId W) raw = Inr q"
      "extractBankSends (beTx W) (beEth W) (beUusdc W) raw (tpOwner tp) = Inr out"
    and m: "(if 0 < q then enforceWithdraw now (tpTenantID tp) q else hret ())
        (s2\<lparr>svIdem := snd (Claim now (tpTenantID tp) (biClientID inp) (svIdem s2))\<rparr>) = (Inr (), s0)"
      "checkTransfers (beIo W) now (tpOwner tp) (beOrder W 0 out) s0 = (Inr (), s1)"
    using assms(2) unfolding inspectSignedTx_def by (auto simp: hbind_Inr_iff claimID_Inr)
  from a obtain tc r rl where r: "ctTenant ctx = Some tc" "LookupByTenantID now (tcTenantID tc) (svTenants s) = Inr r"
      "\<not> trKillSwitch r" "tp = policyOf r" "s2 = s\<lparr>svRate := rl\<rparr>"
    by (auto simp: authorize_Inr)
  have id: "trTenantID r = tcTenantID tc" using r(2) assms(1) by (auto simp: LookupByTenantID_Inr dest: tenantsOk_get)
  have "Claim now (tcTenantID tc) (biClientID inp) (svIdem s) = (None, svIdem s0) \<and> svTransferOut s0 = svTransferOut s \<and>
    (if 0 < q then Enforce (mlRemaining now) (svLimits s) (svLedger s) (tcTenantID tc) ToolWithdraw q = (None, svLedger s0)
     else svLedger s0 = svLedger s)"
    using m(1) c r(4,5) id by (auto simp: enforceWithdraw_def Let_def case_prod_beta prod_eq_iff split: if_splits)
  then show ?thesis using r id rest m(2) by auto
qed

text \<open>The checks change the limiters, the reservations, the ledger's day and the store's day, and nothing else.\<close>

definition frameB :: "'lim server \<Rightarrow> 'lim server \<Rightarrow> bool" where
  "frameB s0 s \<longleftrightarrow> (\<exists>rl i l st. s = s0\<lparr>svRate := rl, svIdem := i, svLedger := l, svTransferOut := st\<rparr>)"

lemma frameB_refl [simp]: "frameB s s"
  unfolding frameB_def by (cases s) auto

lemma frameB_update:
  assumes "frameB s0 s"
  shows "frameB s0 (s\<lparr>svRate := rl\<rparr>)" "frameB s0 (s\<lparr>svIdem := i\<rparr>)" "frameB s0 (s\<lparr>svLedger := l\<rparr>)" "frameB s0 (s\<lparr>svTransferOut := st\<rparr>)"
  using assms unfolding frameB_def by (cases s0, auto)+

lemma frameB_same:
  "frameB s0 s \<Longrightarrow> svSent s = svSent s0 \<and> svAudit s = svAudit s0 \<and> svTenants s = svTenants s0 \<and> svLimits s = svLimits s0"
  by (auto simp: frameB_def)

lemma hpreserves_frameB [hpres]:
  "hpreserves (frameB s0) (authorize R now ctx tool)" "hpreserves (frameB s0) (claimID now i c)"
  "hpreserves (frameB s0) (enforceWithdraw now i q)" "hpreserves (frameB s0) (checkTransfers io now owner xs)"
  unfolding hpreserves_def
  using authorize_state [of R now ctx tool] enforceWithdraw_state [of now i q] checkTransfers_state [of io now owner xs]
  by (metis frameB_update(1), simp add: claimID_def Let_def case_prod_beta frameB_update(2), metis frameB_update(3), metis frameB_update(4))

lemma inspectSignedTx_frame: "frameB s (snd (inspectSignedTx W inp R now ctx s))"
  by (rule hpreservesD [of "frameB s"]) (unfold inspectSignedTx_def, intro hpres, simp)

text \<open>The handler refines the store's events: accepted bank sends are added, by owner, symbol and day.\<close>

lemma checkTransfers_sim:
  assumes "svTransferOut s = Some st" "checkTransfers io now owner xs s = (r, s')"
  shows "\<exists>st'. svTransferOut s' = Some st' \<and> rolled io now st st' \<and> s' = s\<lparr>svTransferOut := Some st'\<rparr> \<and>
    (r = Inr () \<longleftrightarrow> (\<forall>(y, a) \<in> set xs. withinCap now st owner y a))"
  using checkTransfers_Some [OF assms(1), of io now owner xs] assms(2) by auto

text \<open>The store of a state, at most rolled over.\<close>

definition rolledTo :: "(nat \<Rightarrow> ioOutcome) \<Rightarrow> time \<Rightarrow> transferOutStore \<Rightarrow> 'lim server \<Rightarrow> bool" where
  "rolledTo io now st s \<longleftrightarrow> (\<exists>st1. svTransferOut s = Some st1 \<and> rolled io now st st1)"

lemma hpreserves_rolledTo_same: "(\<And>s. svTransferOut (snd (m s)) = svTransferOut s) \<Longrightarrow> hpreserves (rolledTo io now st) m"
  by (simp add: hpreserves_def rolledTo_def)

lemma authorize_store: "svTransferOut (snd (authorize R now ctx tool s)) = svTransferOut s"
  using authorize_state [of R now ctx tool s] by auto

lemma enforceWithdraw_store: "svTransferOut (snd (enforceWithdraw now i q s)) = svTransferOut s"
  using enforceWithdraw_state [of now i q s] by auto

lemma claimID_store: "svTransferOut (snd (claimID now i c s)) = svTransferOut s"
  by (simp add: claimID_def Let_def case_prod_beta)

lemmas hpreserves_rolledTo [hpres] =
  hpreserves_rolledTo_same [OF authorize_store] hpreserves_rolledTo_same [OF enforceWithdraw_store]
  hpreserves_rolledTo_same [OF claimID_store]

lemma hpreserves_rolledTo_check [hpres]: "hpreserves (rolledTo io now st) (checkTransfers io now owner xs)"
proof (unfold hpreserves_def, intro allI impI)
  fix s :: "'a server" assume "rolledTo io now st s"
  then obtain st1 where st1: "svTransferOut s = Some st1" "rolled io now st st1" by (auto simp: rolledTo_def)
  obtain e st2 where "checkTransfers io now owner xs s = (of_err e, s\<lparr>svTransferOut := Some st2\<rparr>)" "rolled io now st1 st2"
    using checkTransfers_Some [OF st1(1)] by blast
  then show "rolledTo io now st (snd (checkTransfers io now owner xs s))"
    using rolled_trans [OF st1(2)] by (simp add: rolledTo_def)
qed

lemma inspectSignedTx_store:
  assumes "svTransferOut s = Some st" "inspectSignedTx W inp R now ctx s = (r, s1)"
  shows "\<exists>st1. svTransferOut s1 = Some st1 \<and> rolled (beIo W) now st st1"
proof -
  have "hpreserves (rolledTo (beIo W) now st) (inspectSignedTx W inp R now ctx)"
    unfolding inspectSignedTx_def by (intro hpres)
  from hpreservesD [OF this, of s] show ?thesis using assms by (auto simp: rolledTo_def)
qed

text \<open>The effect of a call on the store and the log of what was sent, where \<open>out e y\<close> is what the transaction \<open>e\<close> moves
  out of its owner's account in symbol \<open>y\<close>: nothing was sent and the usage is as before, or one transaction was sent
  that is within the caps, and it is counted exactly when it was accepted.\<close>

definition sendEffect :: "(nat \<Rightarrow> ioOutcome) \<Rightarrow> time \<Rightarrow> (sentTx \<Rightarrow> string \<Rightarrow> int) \<Rightarrow> 'lim server \<Rightarrow> 'lim server \<Rightarrow> bool" where
  "sendEffect io now out s s' \<longleftrightarrow> (\<forall>st. svTransferOut s = Some st \<longrightarrow> (\<exists>st'. svTransferOut s' = Some st' \<and>
     (svSent s' = svSent s \<and> storeSim io now st st' (\<lambda>d o1 y. 0) \<or>
      (\<exists>e. svSent s' = svSent s @ [e] \<and> stAt e = now \<and> (\<forall>y. withinCap now st (stOwner e) y (out e y)) \<and>
         storeSim io now st st' (\<lambda>d o1 y. if stAccepted e \<and> o1 = stOwner e \<and> d = dayNumber now then max 0 (out e y) else 0)))))"

lemma withinCap_amountOf:
  assumes "distinct (map fst xs)" "\<forall>(y, a) \<in> set xs. withinCap now st owner y a"
  shows "withinCap now st owner y (amountOf xs y)"
proof (cases "map_of xs y")
  case None
  then show ?thesis by (simp add: amountOf_def withinCap_def)
next
  case (Some a)
  then have "(y, a) \<in> set xs" by (rule map_of_SomeD)
  then show ?thesis using assms(2) Some by (auto simp: amountOf_def)
qed

text \<open>The checks of one loop and the records of the other, in any orders.\<close>

lemma send_store:
  assumes "distinct (map fst xs)" "orderOk order" "svTransferOut s = Some st"
    and "checkTransfers io now owner (order 0 xs) s = (Inr (), s1)"
  shows "\<exists>st1 st2. svTransferOut s1 = Some st1 \<and> rolled io now st st1 \<and> (\<forall>y. withinCap now st owner y (amountOf xs y)) \<and>
    recordTransfers io now owner (order 1 xs) (Some st1) = Some st2 \<and>
    storeSim io now st st2 (\<lambda>d o1 y. if o1 = owner \<and> d = dayNumber now then max 0 (amountOf xs y) else 0)"
proof -
  have p: "amountOf (order i xs) y = amountOf xs y" "distinct (map fst (order i xs))" "set (order i xs) = set xs" for i y
    using amountOf_perm [OF assms(1), of "order i xs"] assms(2) by (auto simp: orderOk_def)
  obtain st1 where st1: "svTransferOut s1 = Some st1" "rolled io now st st1"
      "\<forall>(y, a) \<in> set xs. withinCap now st owner y a"
    using checkTransfers_sim [OF assms(3,4)] p(3) by auto
  have "withinCap now st1 owner y a = withinCap now st owner y a" for y a
    using rolled_same [OF st1(2), of owner y] by (simp add: withinCap_def split: option.split)
  then have w: "\<forall>(y, a) \<in> set (order 1 xs). withinCap now st1 owner y a" using st1(3) p(3) by auto
  obtain st2 where st2: "recordTransfers io now owner (order 1 xs) (Some st1) = Some st2"
      "storeSim io now st1 st2 (\<lambda>d o1 y. if o1 = owner \<and> d = dayNumber now then max 0 (amountOf xs y) else 0)"
    using storeSim_record [OF p(2) w] unfolding p(1) by blast
  show ?thesis
    using st1 st2 storeSim_trans [OF storeSim_rolled [OF st1(2)] st2(2)] withinCap_amountOf [OF assms(1) st1(3)] by auto
qed

definition sentBank :: "broadcastEnv \<Rightarrow> sentTx \<Rightarrow> string \<Rightarrow> int" where
  "sentBank W e y = (if stRail e = CosmosRail then bankTotal (beTx W) (beEth W) (beUusdc W) (stOwner e) (stBytes e) y else 0)"

lemma submitSignedTx_store:
  "svTransferOut (snd (submitSignedTx W inp now (tp, raw, q, out) s)) =
     (if \<exists>res. beBroadcastTx W raw = Inr res \<and> brCode res = 0
      then recordTransfers (beIo W) now (tpOwner tp) (beOrder W 1 out) (svTransferOut s) else svTransferOut s)"
  by (auto simp: submitSignedTx_def Let_def BroadcastSync_def rwrap_def split: sum.split option.split)

lemma broadcast_sendEffect:
  assumes "tenantsOk (svTenants s)" "orderOk (beOrder W)" "\<And>e y. stRail e = CosmosRail \<Longrightarrow> mv e y = sentBank W e y"
  shows "sendEffect (beIo W) now mv s (snd (toolBroadcastSignedTx W inp R now ctx s))"
proof (unfold sendEffect_def, intro allI impI)
  fix st assume st: "svTransferOut s = Some st"
  obtain r s1 where I: "inspectSignedTx W inp R now ctx s = (r, s1)" by fastforce
  have sent: "svSent s1 = svSent s" using inspectSignedTx_frame [of s W inp R now ctx] I frameB_same by (metis snd_conv)
  obtain st0 where st0: "svTransferOut s1 = Some st0" "rolled (beIo W) now st st0" using inspectSignedTx_store [OF st I] by blast
  let ?s' = "snd (toolBroadcastSignedTx W inp R now ctx s)"
  show "\<exists>st'. svTransferOut ?s' = Some st' \<and>
     (svSent ?s' = svSent s \<and> storeSim (beIo W) now st st' (\<lambda>d o1 y. 0) \<or>
      (\<exists>e. svSent ?s' = svSent s @ [e] \<and> stAt e = now \<and> (\<forall>y. withinCap now st (stOwner e) y (mv e y)) \<and>
         storeSim (beIo W) now st st' (\<lambda>d o1 y. if stAccepted e \<and> o1 = stOwner e \<and> d = dayNumber now then max 0 (mv e y) else 0)))"
  proof (cases r)
    case (Inl e)
    then have "?s' = s1" using I by (simp add: toolBroadcastSignedTx_def hbind_def)
    then show ?thesis using sent st0 storeSim_rolled [OF st0(2)] by auto
  next
    case (Inr x)
    obtain tp raw q out where x: "x = (tp, raw, q, out)" by (cases x)
    have s': "?s' = snd (submitSignedTx W inp now (tp, raw, q, out) s1)"
      using I Inr x by (simp add: toolBroadcastSignedTx_def hbind_def)
    define e where "e = \<lparr>stRail = CosmosRail, stAt = now, stTenant = tpTenantID tp, stOwner = tpOwner tp, stClientID = biClientID inp,
       stBytes = raw, stAccepted = (\<exists>res. beBroadcastTx W raw = Inr res \<and> brCode res = 0)\<rparr>"
    have e: "svSent ?s' = svSent s @ [e]" unfolding s' submitSignedTx_sent sent e_def by simp
    obtain tc :: tenantContext and c s0 where chk: "tp = policyOf c"
        "extractBankSends (beTx W) (beEth W) (beUusdc W) raw (trOwner c) = Inr out" "svTransferOut s0 = svTransferOut s"
        "checkTransfers (beIo W) now (trOwner c) (beOrder W 0 out) s0 = (Inr (), s1)"
      using inspectSignedTx_Inr [OF assms(1) I [unfolded Inr x]] by blast
    have out: "distinct (map fst out)" "\<And>y. amountOf out y = mv e y"
      using extractBankSends_Inr [OF chk(2)] chk(1) assms(3) [of e] by (auto simp: e_def sentBank_def)
    note s0 = chk(3) [unfolded st] chk(4)
    obtain st1 st2 where f: "svTransferOut s1 = Some st1" "rolled (beIo W) now st st1"
        "\<forall>y. withinCap now st (trOwner c) y (amountOf out y)"
        "recordTransfers (beIo W) now (trOwner c) (beOrder W 1 out) (Some st1) = Some st2"
        "storeSim (beIo W) now st st2 (\<lambda>d o1 y. if o1 = trOwner c \<and> d = dayNumber now then max 0 (amountOf out y) else 0)"
      using send_store [OF out(1) assms(2) s0] by blast
    have o: "stOwner e = trOwner c" "tpOwner tp = trOwner c" using chk(1) by (simp_all add: e_def)
    have "svTransferOut ?s' = (if stAccepted e then Some st2 else Some st1)"
      unfolding s' submitSignedTx_store using f(1,4) o(2) by (auto simp: e_def)
    moreover have "storeSim (beIo W) now st (if stAccepted e then st2 else st1)
        (\<lambda>d o1 y. if stAccepted e \<and> o1 = stOwner e \<and> d = dayNumber now then max 0 (mv e y) else 0)"
      using f(5) storeSim_rolled [OF f(2)] unfolding out(2) o(1) by (cases "stAccepted e") simp_all
    moreover have "stAt e = now" by (simp add: e_def)
    ultimately show ?thesis using e f(3) o out(2) by auto
  qed
qed

text \<open>A broadcast changes no tenant and no limit.\<close>

lemma submitSignedTx_frame:
  "svTenants (snd (submitSignedTx W inp now x s)) = svTenants s \<and> svLimits (snd (submitSignedTx W inp now x s)) = svLimits s \<and>
   svIdem (snd (submitSignedTx W inp now x s)) = svIdem s"
  by (auto simp: submitSignedTx_def Let_def case_prod_beta split: sum.split option.split)

lemma broadcast_tenants:
  "svTenants (snd (toolBroadcastSignedTx W inp R now ctx s)) = svTenants s"
  "svLimits (snd (toolBroadcastSignedTx W inp R now ctx s)) = svLimits s"
  using frameB_same [OF inspectSignedTx_frame [of s W inp R now ctx]]
  by (auto simp: toolBroadcastSignedTx_def hbind_def submitSignedTx_frame split: prod.split sum.split)

section \<open>The effect on the withdraw ledger\<close>

definition ledgerRolled :: "time \<Rightarrow> memoryLedger \<Rightarrow> 'lim server \<Rightarrow> bool" where
  "ledgerRolled now l s \<longleftrightarrow> svLedger s = Some l \<or> svLedger s = Some (mlRollover now l)"

lemma mlRollover_idem [simp]: "mlRollover now (mlRollover now l) = mlRollover now l"
  by (simp add: mlRollover_def Let_def)

lemma Enforce_ledger:
  "Enforce (mlRemaining now) cfg (Some l) i tool q = (e, x) \<Longrightarrow> x = Some l \<or> x = Some (mlRollover now l)"
  by (auto simp: Enforce_def mlRemaining_def Let_def split: option.splits if_splits)

lemma hpreserves_ledgerRolled_same: "(\<And>s. svLedger (snd (m s)) = svLedger s) \<Longrightarrow> hpreserves (ledgerRolled now l) m"
  by (simp add: hpreserves_def ledgerRolled_def)

lemma authorize_ledger: "svLedger (snd (authorize R now ctx tool s)) = svLedger s"
  using authorize_state [of R now ctx tool s] by auto

lemma claimID_ledger: "svLedger (snd (claimID now i c s)) = svLedger s"
  by (simp add: claimID_def Let_def case_prod_beta)

lemma checkTransfers_ledger: "svLedger (snd (checkTransfers io now owner xs s)) = svLedger s"
  using checkTransfers_state [of io now owner xs s] by auto

lemmas hpreserves_ledgerRolled [hpres] =
  hpreserves_ledgerRolled_same [OF authorize_ledger] hpreserves_ledgerRolled_same [OF claimID_ledger]
  hpreserves_ledgerRolled_same [OF checkTransfers_ledger]

lemma hpreserves_ledgerRolled_enforce [hpres]: "hpreserves (ledgerRolled now l) (enforceWithdraw now i q)"
proof (unfold hpreserves_def, intro allI impI)
  fix s :: "'a server" assume s: "ledgerRolled now l s"
  then obtain l1 where l1: "svLedger s = Some l1" "l1 = l \<or> l1 = mlRollover now l" by (auto simp: ledgerRolled_def)
  obtain e x where E: "Enforce (mlRemaining now) (svLimits s) (Some l1) i ToolWithdraw q = (e, x)" by fastforce
  then have "x = Some l1 \<or> x = Some (mlRollover now l1)" by (rule Enforce_ledger)
  then show "ledgerRolled now l (snd (enforceWithdraw now i q s))"
    using l1 E by (auto simp: enforceWithdraw_def ledgerRolled_def)
qed

lemma submitSignedTx_ledger:
  "svLedger (snd (submitSignedTx W inp now (tp, raw, q, out) s)) =
     (if (\<exists>res. beBroadcastTx W raw = Inr res \<and> brCode res = 0) \<and> 0 < q
      then map_option (mlRecord now (tpTenantID tp) q) (svLedger s) else svLedger s)"
  by (auto simp: submitSignedTx_def Let_def BroadcastSync_def rwrap_def split: sum.split option.split)

text \<open>Nothing was sent and the ledger is at most rolled over, or one transaction was sent: it withdraws nothing and the
  ledger is as before, or what it withdraws is within the tenant's day and recorded exactly when it was accepted.\<close>

definition ledgerEffect :: "time \<Rightarrow> (sentTx \<Rightarrow> nat) \<Rightarrow> 'lim server \<Rightarrow> 'lim server \<Rightarrow> bool" where
  "ledgerEffect now wd s s' \<longleftrightarrow> (\<forall>l. svLedger s = Some l \<and> dailyCapQuantums (svLimits s) \<noteq> None \<longrightarrow>
     (svSent s' = svSent s \<and> ledgerRolled now l s' \<or>
      (\<exists>e. svSent s' = svSent s @ [e] \<and> stAt e = now \<and>
         (wd e = 0 \<and> svLedger s' = Some l \<or>
          (\<exists>q. unat q = wd e \<and> q \<le> fst (mlRemaining now (stTenant e) l) \<and>
             svLedger s' = Some (if stAccepted e then mlRecord now (stTenant e) q (mlRollover now l) else mlRollover now l))))))"

definition sentWithdraw :: "broadcastEnv \<Rightarrow> sentTx \<Rightarrow> nat" where
  "sentWithdraw W e = (if stRail e = CosmosRail then withdrawTotal (beTx W) (beUsdcId W) (stBytes e) else 0)"

lemma Enforce_pass:
  assumes "Enforce (mlRemaining now) cfg (Some l) i ToolWithdraw q = (None, x)" "dailyCapQuantums cfg \<noteq> None"
  shows "q \<le> fst (mlRemaining now i l) \<and> x = Some (mlRollover now l)"
  using assms by (auto simp: Enforce_def case_prod_beta Let_def split: option.splits if_splits)

lemma broadcast_ledgerEffect:
  assumes "tenantsOk (svTenants s)" "\<And>e. stRail e = CosmosRail \<Longrightarrow> wd e = sentWithdraw W e"
  shows "ledgerEffect now wd s (snd (toolBroadcastSignedTx W inp R now ctx s))"
proof (unfold ledgerEffect_def, intro allI impI, elim conjE)
  fix l assume l: "svLedger s = Some l" and cap: "dailyCapQuantums (svLimits s) \<noteq> None"
  obtain r s1 where I: "inspectSignedTx W inp R now ctx s = (r, s1)" by fastforce
  have sent: "svSent s1 = svSent s" using inspectSignedTx_frame [of s W inp R now ctx] I frameB_same by (metis snd_conv)
  have "hpreserves (ledgerRolled now l) (inspectSignedTx W inp R now ctx)" unfolding inspectSignedTx_def by (intro hpres)
  from hpreservesD [OF this, of s] have l1: "ledgerRolled now l s1" using I l by (simp add: ledgerRolled_def)
  let ?s' = "snd (toolBroadcastSignedTx W inp R now ctx s)"
  show "svSent ?s' = svSent s \<and> ledgerRolled now l ?s' \<or>
      (\<exists>e. svSent ?s' = svSent s @ [e] \<and> stAt e = now \<and>
         (wd e = 0 \<and> svLedger ?s' = Some l \<or>
          (\<exists>q. unat q = wd e \<and> q \<le> fst (mlRemaining now (stTenant e) l) \<and>
             svLedger ?s' = Some (if stAccepted e then mlRecord now (stTenant e) q (mlRollover now l) else mlRollover now l))))"
  proof (cases r)
    case (Inl e)
    then have "?s' = s1" using I by (simp add: toolBroadcastSignedTx_def hbind_def)
    then show ?thesis using sent l1 by simp
  next
    case (Inr x)
    obtain tp raw q out where x: "x = (tp, raw, q, out)" by (cases x)
    have s': "?s' = snd (submitSignedTx W inp now (tp, raw, q, out) s1)"
      using I Inr x by (simp add: toolBroadcastSignedTx_def hbind_def)
    define e where "e = \<lparr>stRail = CosmosRail, stAt = now, stTenant = tpTenantID tp, stOwner = tpOwner tp, stClientID = biClientID inp,
       stBytes = raw, stAccepted = (\<exists>res. beBroadcastTx W raw = Inr res \<and> brCode res = 0)\<rparr>"
    have e: "svSent ?s' = svSent s @ [e]" "stAt e = now" unfolding s' submitSignedTx_sent sent e_def by simp_all
    obtain tc :: tenantContext and r0 s0 where chk: "tp = policyOf r0" "trTenantID r0 = tcTenantID tc"
        "extractWithdrawQuantums (beTx W) (beUsdcId W) raw = Inr q"
        "if 0 < q then Enforce (mlRemaining now) (svLimits s) (svLedger s) (tcTenantID tc) ToolWithdraw q = (None, svLedger s0)
         else svLedger s0 = svLedger s"
        "checkTransfers (beIo W) now (trOwner r0) (beOrder W 0 out) s0 = (Inr (), s1)"
      using inspectSignedTx_Inr [OF assms(1) I [unfolded Inr x]] by blast
    have l0: "svLedger s1 = svLedger s0" using checkTransfers_ledger [of "beIo W" now "trOwner r0" "beOrder W 0 out" s0] chk(5) by simp
    have q: "unat q = wd e" using extractWithdrawQuantums_Inr [OF chk(3)] assms(2) [of e] by (simp add: sentWithdraw_def e_def)
    have s'l: "svLedger ?s' = (if stAccepted e \<and> 0 < q then map_option (mlRecord now (stTenant e) q) (svLedger s0) else svLedger s0)"
      unfolding s' submitSignedTx_ledger l0 by (auto simp: e_def)
    show ?thesis
    proof (cases "0 < q")
      case False
      then have "wd e = 0" "svLedger ?s' = Some l" using q chk(4) s'l l by (auto simp: word_gt_0)
      then show ?thesis using e by blast
    next
      case True
      have t: "stTenant e = tcTenantID tc" using chk(1,2) by (simp add: e_def)
      have "q \<le> fst (mlRemaining now (stTenant e) l) \<and> svLedger s0 = Some (mlRollover now l)"
        using Enforce_pass [OF _ cap] chk(4) True l t by simp
      then show ?thesis using e q s'l True by auto
    qed
  qed
qed

section \<open>Properties\<close>



text \<open>C19: the sum of the withdrawals is exact. On a transaction that decodes, it is the sum of the quantums of all USDC
  withdrawals among the messages the registry knows, and the only failure is that this sum does not fit 64 bits.\<close>

theorem withdraw_sum_is_exact:
  assumes "UnmarshalTxRaw T raw = Inr tx" "UnmarshalTxBody T (trBodyBytes tx) = Inr as"
  shows "extractWithdrawQuantums T usdcId raw =
    (let n = (\<Sum>m \<leftarrow> knownMsgs T as. usdcWithdrawn usdcId m) in
     if n < 2 ^ 64 then Inr (of_nat n) else Inl (Errorf ''withdraw quantums total overflows uint64'' []))"
  using assms by (simp add: extractWithdrawQuantums_eq withdrawTotal_def txMsgs_def Let_def)

text \<open>C38: a rejection in the chain's documented wording for a fee that is too low is reported as such, with the coin the
  chain requires and the coin it got, whatever precedes the wording (text without a semicolon) in the log.\<close>

theorem insufficient_fee_is_typed:
  assumes "brCode r \<noteq> 0" "got \<noteq> []" "required \<noteq> []" "\<forall>c \<in> set got \<union> set required. \<not> reSpace c" "CHR '';'' \<notin> set pre"
    and "brRawLog r = pre @ ''insufficient fees; got: '' @ got @ '' required: '' @ required @ '': insufficient fee''"
  shows "ParseBroadcastError r = Some (ErrInsufficientFee required got)"
proof -
  let ?t = "''; got: '' @ got @ '' required: '' @ required @ '': insufficient fee''"
  have "insufficientFeeRE (''insufficient fees'' @ ?t) = Some (got, required)"
    using feeRest_chain [OF assms(2-4)] by (simp add: insufficientFeeRE_def)
  then have "findMatch insufficientFeeRE (''insufficient fees'' @ ?t) = Some (got, required)" by (rule findMatch_here)
  moreover have "findMatch insufficientFeeRE (pre @ ''insufficient fees'' @ ?t) = findMatch insufficientFeeRE (''insufficient fees'' @ ?t)"
  proof (rule findMatch_skip)
    fix u v assume "pre = u @ v" "v \<noteq> []"
    then show "insufficientFeeRE (v @ ''insufficient fees'' @ ?t) = None"
      using insufficientFeeRE_not_before [of v] assms(5) by simp
  qed
  moreover have "brRawLog r = pre @ ''insufficient fees'' @ ?t" unfolding assms(6) by simp
  ultimately have "findMatch insufficientFeeRE (brRawLog r) = Some (got, required)" by metis
  then show ?thesis using assms(1) by (simp add: ParseBroadcastError_def)
qed

section \<open>The properties on concrete inputs\<close>

definition docTx :: txLib where
  "docTx = \<lparr>UnmarshalTxRaw = (\<lambda>raw. Inr \<lparr>trBodyBytes = raw, trAuthInfoBytes = raw, trSignatures = []\<rparr>),
     UnmarshalAuthInfo = (\<lambda>_. Inr [Some \<lparr>anyTypeURL = ''pk'', anyValue = []\<rparr>]),
     UnmarshalTxBody = (\<lambda>raw. Inr (map (\<lambda>b. \<lparr>anyTypeURL = ''m'', anyValue = [b]\<rparr>) raw)),
     UnpackMsg = (\<lambda>a. if anyValue a = [1] then Inr (MsgWithdrawFromSubaccount \<lparr>saOwner = ''svp1abc'', saNumber = 0\<rparr> ''svp1abc'' 0 400000000)
        else if anyValue a = [2] then Inr (MsgSend ''svp1abc'' ''svp1xyz'' [\<lparr>coDenom = ''ibc/usdc'', coAmount = 3000000\<rparr>])
        else Inl (Ext ''unknown'')),
     UnpackPubKey = (\<lambda>a. Inr (anyValue a)), PubKeyAddress = (\<lambda>_. ''svp1abc'')\<rparr>"

definition exEnv :: broadcastEnv where
  "exEnv = \<lparr>beTx = docTx, beEth = docEth, beUusdc = ''ibc/usdc'', beUsdcId = 0, beIo = writesOk, beOrder = (\<lambda>i. if i = 0 then rev else (\<lambda>xs. xs)),
     beBroadcastTx = (\<lambda>_. Inr \<lparr>brTxHash = ''AB'', brCode = 0, brRawLog = []\<rparr>)\<rparr>"

definition exSigned :: broadcastInput where
  "exSigned = \<lparr>biClientID = ''c-1'', biSignedTx = \<lparr>stTxRawBytesB64 = b64Encode [1, 2, 3], stSignatureB64 = [], stPubKeyB64 = []\<rparr>\<rparr>"

definition exCapped :: "nat server" where
  "exCapped = exServer\<lparr>svTransferOut := SetCap writesOk ''svp1abc'' \<lparr>scSymbol = ''usdc'', scDecimals = 6, scCapBase = Some 5000000\<rparr> (svTransferOut exServer)\<rparr>"

lemma exCapped_ok: "tenantsOk (svTenants exCapped)" "orderOk (beOrder exEnv)"
  using exServer_ok by (simp_all add: exCapped_def exEnv_def orderOk_def)


theorem withdraw_sum_is_exact_witness: "extractWithdrawQuantums docTx 0 [1, 2, 1] = Inr 800000000"
proof -
  have u: "UnmarshalTxRaw docTx [1, 2, 1] = Inr \<lparr>trBodyBytes = [1, 2, 1], trAuthInfoBytes = [1, 2, 1], trSignatures = []\<rparr>"
      "UnmarshalTxBody docTx (trBodyBytes \<lparr>trBodyBytes = [1, 2, 1], trAuthInfoBytes = [1, 2, 1], trSignatures = []\<rparr>) =
        Inr (map (\<lambda>b. \<lparr>anyTypeURL = ''m'', anyValue = [b]\<rparr>) [1, 2, 1])"
    by (simp_all add: docTx_def)
  show ?thesis unfolding withdraw_sum_is_exact [OF u] by code_simp
qed

theorem insufficient_fee_is_typed_witness:
  "ParseBroadcastError \<lparr>brTxHash = [], brCode = 13, brRawLog = ''rpc: insufficient fees; got: 5asvp required: 9asvp: insufficient fee''\<rparr> =
     Some (ErrInsufficientFee ''9asvp'' ''5asvp'')"
  by (rule insufficient_fee_is_typed [where pre = "''rpc: ''"]) (simp_all add: reSpace_def)

end
