(* ===== verification/Evm_Broadcast.thy ===== *)
theory Evm_Broadcast
  imports Broadcast
begin

text \<open>
  Broadcasting a signed Ethereum transaction: \<open>lib/mcp/tools/evm.go\<close> (\<open>broadcast_evm_tx\<close>, \<open>evm_tx_status\<close> and the
  decoding of what a transaction moves out), the routing of \<open>deps.go\<close> and the two calls of \<open>lib/mcp/chain/evm.go\<close>.

  go-ethereum's decoding of a signed transaction, the recovery of its sender and its hash are the parameter \<open>evmTxLib\<close>.
  An endpoint is given by what it answers to a transaction and to a question for a receipt. \<open>errText\<close> is the text of an
  error, which only goes into the audit log.
\<close>

section \<open>The packages\<close>

record evmTx =
  vtTo :: "address option"
  vtValue :: int
  vtData :: bytes
  vtChainID :: int

record evmTxLib =
  UnmarshalEVM :: "bytes \<Rightarrow> evmTx res"
  SenderEVM :: "evmTx \<Rightarrow> address res"
  HashHexEVM :: "evmTx \<Rightarrow> string"

record receipt =
  rcStatus :: u64
  rcBlockNumber :: int
  rcGasUsed :: u64

text \<open>A receipt that is not there yet is an error that \<open>errors.Is\<close> recognizes.\<close>

definition ErrNotFound :: err where
  "ErrNotFound = Ext ''not found''"

record evmRpc =
  rpSend :: "evmTx \<Rightarrow> err option"
  rpReceipt :: "bytes \<Rightarrow> receipt res"

section \<open>The client (chain/evm.go) and routing (deps.go)\<close>

definition SendTransaction :: "evmTxLib \<Rightarrow> evmRpc \<Rightarrow> evmTx \<Rightarrow> string res" where
  "SendTransaction L c tx = rbind (of_err (rpSend c tx)) (\<lambda>_. Inr (HashHexEVM L tx))"

record evmEnv =
  veLib :: evmTxLib
  veEth :: ethLib
  veSdk :: sdkLib
  veUusdc :: string
  veIo :: "nat \<Rightarrow> ioOutcome"
  veOrder :: "nat \<Rightarrow> (string \<times> int) list \<Rightarrow> (string \<times> int) list"
  veErrText :: "err \<Rightarrow> string"
  veHome :: "evmRpc option"
  veForeign :: "u64 \<rightharpoonup> evmRpc"
  veHomeChainID :: u64
  veUniswap :: "(address \<times> address) option"

definition EVMClientFor :: "evmEnv \<Rightarrow> u64 \<Rightarrow> evmRpc option" where
  "EVMClientFor V chainID =
     (if chainID = veHomeChainID V \<and> veHome V \<noteq> None then veHome V
      else (case veForeign V chainID of Some fc \<Rightarrow> Some fc | None \<Rightarrow> None))"

section \<open>What a transaction moves out (evm.go)\<close>

definition ownerEthAddress :: "sdkLib \<Rightarrow> ethLib \<Rightarrow> string \<Rightarrow> address res" where
  "ownerEthAddress S E owner =
     rbind (rwrap ''parse owner %q: %w'' [AStr owner] (AccAddressFromBech32 S owner)) (\<lambda>acc. Inr (BytesToAddress E acc))"

definition selERC20Transfer :: bytes where
  "selERC20Transfer = [0xa9, 0x05, 0x9c, 0xbb]"

definition selERC20TransferFrom :: bytes where
  "selERC20TransferFrom = [0x23, 0xb8, 0x72, 0xdd]"

definition addOut :: "string \<Rightarrow> int \<Rightarrow> (string \<times> int) list \<Rightarrow> (string \<times> int) list" where
  "addOut symb amt out =
     (if amt \<le> 0 then out
      else (case map_of out symb of
              Some cur \<Rightarrow> AList.update symb (cur + amt) out
            | None \<Rightarrow> AList.update symb amt out))"

text \<open>A slice \<open>data[i:j]\<close>.\<close>

definition slice :: "bytes \<Rightarrow> nat \<Rightarrow> nat \<Rightarrow> bytes" where
  "slice bs i j = take (j - i) (drop i bs)"

definition decodeTransferOut :: "ethLib \<Rightarrow> string \<Rightarrow> address option \<Rightarrow> int \<Rightarrow> bytes \<Rightarrow> address \<Rightarrow> address \<Rightarrow> address
    \<Rightarrow> (string \<times> int) list" where
  "decodeTransferOut E uusdc to val data owner router wsvp =
     (let out = [];
          out = (case to of
                   Some t \<Rightarrow>
                     if 0 < val \<and> t \<noteq> router \<and> t \<noteq> wsvp
                     then (case symbolForNative E uusdc of Some symb \<Rightarrow> addOut symb val out | None \<Rightarrow> out)
                     else out
                 | None \<Rightarrow> out) in
      case to of
        Some t \<Rightarrow>
          if 4 \<le> length data
          then (case symbolForToken E uusdc t of
                  Some symb \<Rightarrow>
                    if take 4 data = selERC20Transfer \<and> 4 + 64 \<le> length data
                    then addOut symb (bigEndian (slice data (4 + 32) (4 + 64))) out
                    else if take 4 data = selERC20TransferFrom \<and> 4 + 96 \<le> length data
                    then (if BytesToAddress E (slice data (4 + 12) (4 + 32)) = owner
                          then addOut symb (bigEndian (slice data (4 + 64) (4 + 96))) out else out)
                    else out
                | None \<Rightarrow> out)
          else out
      | None \<Rightarrow> out)"

section \<open>The broadcast handler (evm.go)\<close>

record broadcastEVMInput =
  bvClientID :: string
  bvSignedTx :: evmSignedTx

definition evmDisabled :: err where
  "evmDisabled = Errorf ''EVM is not enabled on this server (no evm_rpc_url configured)'' []"

text \<open>Where the transaction goes, and whether that is the home chain.\<close>

definition routeEVM :: "evmEnv \<Rightarrow> evmRpc \<Rightarrow> evmTx \<Rightarrow> evmRpc \<times> bool" where
  "routeEVM V home tx =
     (case veForeign V (of_int (vtChainID tx)) of Some fc \<Rightarrow> (fc, False) | None \<Rightarrow> (home, True))"

definition evmOut :: "evmEnv \<Rightarrow> evmTx \<Rightarrow> address \<Rightarrow> (string \<times> int) list" where
  "evmOut V tx ownerEth =
     (let (router, wsvp) = (case veUniswap V of None \<Rightarrow> (zeroAddress, zeroAddress) | Some u \<Rightarrow> u) in
      decodeTransferOut (veEth V) (veUusdc V) (vtTo tx) (vtValue tx) (vtData tx) ownerEth router wsvp)"

definition inspectEVMTx :: "evmEnv \<Rightarrow> broadcastEVMInput \<Rightarrow> 'lim rateLib \<Rightarrow> time \<Rightarrow> requestCtx
    \<Rightarrow> ('lim server, tenantPolicy \<times> bytes \<times> evmTx \<times> evmRpc \<times> bool \<times> (string \<times> int) list) handler" where
  "inspectEVMTx V inp R now ctx =
     hbind (authorize R now ctx ''broadcast_evm_tx'') (\<lambda>tp.
     hbind (hlift (of_opt evmDisabled (veHome V))) (\<lambda>home.
     hbind (claimID now (tpTenantID tp) (bvClientID inp)) (\<lambda>_.
     hbind (hlift (rwrap ''decode raw_tx_hex: %w'' [] (HexutilDecode (veEth V) (etRawTxHex (bvSignedTx inp))))) (\<lambda>raw.
     hbind (hlift (rwrap ''decode signed evm tx: %w'' [] (UnmarshalEVM (veLib V) raw))) (\<lambda>tx.
     hbind (hlift (rwrap ''recover evm sender: %w'' [] (SenderEVM (veLib V) tx))) (\<lambda>from.
     hbind (hlift (ownerEthAddress (veSdk V) (veEth V) (tpOwner tp))) (\<lambda>ownerEth.
     hbind (hlift (require (from = ownerEth) (Errorf ''evm sender %s does not match tenant owner %s''
        [AStr (AddressHex (veEth V) from), AStr (AddressHex (veEth V) ownerEth)]))) (\<lambda>_.
     hbind (hret (routeEVM V home tx)) (\<lambda>(client, isHome).
        (let transferOut = (if isHome then evmOut V tx ownerEth else []) in
         hbind (checkTransfers (veIo V) now (tpOwner tp) (veOrder V 0 transferOut)) (\<lambda>_.
         hret (tp, raw, tx, client, isHome, transferOut))))))))))))"

definition submitEVMTx :: "evmEnv \<Rightarrow> broadcastEVMInput \<Rightarrow> time
    \<Rightarrow> tenantPolicy \<times> bytes \<times> evmTx \<times> evmRpc \<times> bool \<times> (string \<times> int) list \<Rightarrow> ('lim server, string) handler" where
  "submitEVMTx V inp now = (\<lambda>(tp, raw, tx, client, isHome, transferOut) s.
     (let r = SendTransaction (veLib V) client tx;
          txHash = (case r of Inl e \<Rightarrow> HashHexEVM (veLib V) tx | Inr h \<Rightarrow> h);
          s = s\<lparr>svSent := svSent s @ [\<lparr>stRail = (if isHome then EvmHome else EvmForeign), stAt = now, stTenant = tpTenantID tp,
                  stOwner = tpOwner tp, stClientID = bvClientID inp, stBytes = raw, stAccepted = \<not> isl r\<rparr>],
                svAudit := Append now (emptyAudit\<lparr>aeTenantID := tpTenantID tp, aeOwner := tpOwner tp,
                  aeTool := ''broadcast_evm_tx'', aeClientID := bvClientID inp, aeTxHash := txHash,
                  aeOutcome := (case r of Inl e \<Rightarrow> ''chain_reject'' | Inr h \<Rightarrow> ''broadcast''),
                  aeReason := (case r of Inl e \<Rightarrow> veErrText V e | Inr h \<Rightarrow> [])\<rparr>) (svAudit s)\<rparr> in
      case r of
        Inl e \<Rightarrow> (Inl (Wrapf ''broadcast evm tx: %w'' [] e), s)
      | Inr h \<Rightarrow>
          (Inr h, s\<lparr>svTransferOut := recordTransfers (veIo V) now (tpOwner tp) (veOrder V 1 transferOut) (svTransferOut s)\<rparr>)))"

definition toolBroadcastEVMTx :: "evmEnv \<Rightarrow> broadcastEVMInput \<Rightarrow> 'lim rateLib \<Rightarrow> time \<Rightarrow> requestCtx
    \<Rightarrow> ('lim server, string) handler" where
  "toolBroadcastEVMTx V inp R now ctx = hbind (inspectEVMTx V inp R now ctx) (submitEVMTx V inp now)"

section \<open>Transaction status (evm.go)\<close>

record evmStatusInput =
  viTxHash :: string
  viChainID :: u64

record evmStatusOutput =
  voTxHash :: string
  voStatus :: string
  voBlockNumber :: int
  voGasUsed :: u64

definition toolEVMTxStatus :: "evmEnv \<Rightarrow> evmStatusInput \<Rightarrow> 'lim rateLib \<Rightarrow> time \<Rightarrow> requestCtx \<Rightarrow> ('lim server, evmStatusOutput) handler" where
  "toolEVMTxStatus V inp R now ctx =
     hbind (authorize R now ctx ''evm_tx_status'') (\<lambda>_.
     hbind (hlift (of_opt evmDisabled (veHome V))) (\<lambda>home.
     hbind (if viChainID inp \<noteq> 0 \<and> viChainID inp \<noteq> veHomeChainID V
            then hlift (of_opt (Errorf ''chain id %d is not configured on this server'' [AInt (uint (viChainID inp))])
                    (veForeign V (viChainID inp)))
            else hret home) (\<lambda>client.
     (case rpReceipt client (HexToHash (veEth V) (viTxHash inp)) of
        Inl e \<Rightarrow>
          if errIs e ErrNotFound
          then hret \<lparr>voTxHash = viTxHash inp, voStatus = ''pending'', voBlockNumber = 0, voGasUsed = 0\<rparr>
          else hfail (Wrapf ''evm receipt %s: %w'' [AStr (viTxHash inp)] e)
      | Inr r \<Rightarrow>
          hret \<lparr>voTxHash = viTxHash inp, voStatus = (if rcStatus r = 1 then ''success'' else ''failed''),
                voBlockNumber = rcBlockNumber r, voGasUsed = rcGasUsed r\<rparr>))))"

section \<open>Lemmas\<close>

lemma amountOf_addOut: "amountOf (addOut z a out) y = amountOf out y + (if y = z then max 0 a else 0)"
  by (auto simp: addOut_def amountOf_def update_conv' split: option.split)

lemma addOut_distinct: "distinct (map fst out) \<Longrightarrow> distinct (map fst (addOut z a out))"
  by (auto simp: addOut_def distinct_update split: option.split)

lemma decodeTransferOut_distinct: "distinct (map fst (decodeTransferOut E uusdc to val data owner router wsvp))"
  by (auto simp: decodeTransferOut_def Let_def addOut_distinct split: option.split)

lemma evmOut_distinct: "distinct (map fst (evmOut V tx ownerEth))"
  by (simp add: evmOut_def decodeTransferOut_distinct case_prod_beta)

lemma case_prod_run_iff: "(case p of (a, b) \<Rightarrow> f a b) s = r \<longleftrightarrow> (\<exists>a b. p = (a, b) \<and> f a b s = r)"
  by (cases p) auto

text \<open>What holds when the checks pass.\<close>

lemma inspectEVMTx_Inr:
  assumes "tenantsOk (svTenants s)" "inspectEVMTx V inp R now ctx s = (Inr (tp, raw, tx, client, isHome, out), s1)"
  shows "\<exists>tc r home s0. ctTenant ctx = Some tc \<and> LookupByTenantID now (tcTenantID tc) (svTenants s) = Inr r \<and> \<not> trKillSwitch r \<and>
    tp = policyOf r \<and> trTenantID r = tcTenantID tc \<and> veHome V = Some home \<and>
    Claim now (tcTenantID tc) (bvClientID inp) (svIdem s) = (None, svIdem s0) \<and>
    HexutilDecode (veEth V) (etRawTxHex (bvSignedTx inp)) = Inr raw \<and> UnmarshalEVM (veLib V) raw = Inr tx \<and>
    (\<exists>own. ownerEthAddress (veSdk V) (veEth V) (trOwner r) = Inr own \<and> SenderEVM (veLib V) tx = Inr own \<and>
       out = (if isHome then evmOut V tx own else [])) \<and>
    routeEVM V home tx = (client, isHome) \<and> svTransferOut s0 = svTransferOut s \<and>
    svLedger s0 = svLedger s \<and> checkTransfers (veIo V) now (trOwner r) (veOrder V 0 out) s0 = (Inr (), s1)"
proof -
  obtain s2 s0 home own where a: "authorize R now ctx ''broadcast_evm_tx'' s = (Inr tp, s2)" "veHome V = Some home"
    and c: "claimID now (tpTenantID tp) (bvClientID inp) s2 = (Inr (), s0)"
    and rest: "HexutilDecode (veEth V) (etRawTxHex (bvSignedTx inp)) = Inr raw" "UnmarshalEVM (veLib V) raw = Inr tx"
      "SenderEVM (veLib V) tx = Inr own" "ownerEthAddress (veSdk V) (veEth V) (tpOwner tp) = Inr own"
      "routeEVM V home tx = (client, isHome)" "out = (if isHome then evmOut V tx own else [])"
      "checkTransfers (veIo V) now (tpOwner tp) (veOrder V 0 out) s0 = (Inr (), s1)"
    using assms(2) unfolding inspectEVMTx_def by (auto simp: hbind_Inr_iff case_prod_run_iff Let_def)
  from a(1) obtain tc r rl where r: "ctTenant ctx = Some tc" "LookupByTenantID now (tcTenantID tc) (svTenants s) = Inr r"
      "\<not> trKillSwitch r" "tp = policyOf r" "s2 = s\<lparr>svRate := rl\<rparr>"
    by (auto simp: authorize_Inr)
  have id: "trTenantID r = tcTenantID tc" using r(2) assms(1) by (auto simp: LookupByTenantID_Inr dest: tenantsOk_get)
  have "Claim now (tcTenantID tc) (bvClientID inp) (svIdem s) = (None, svIdem s0) \<and> svTransferOut s0 = svTransferOut s \<and>
      svLedger s0 = svLedger s"
    using c [unfolded claimID_Inr] r(4,5) id by (auto simp: prod_eq_iff)
  then show ?thesis using r id rest a(2) by auto
qed

lemma inspectEVMTx_frame: "frameB s (snd (inspectEVMTx V inp R now ctx s))"
  by (rule hpreservesD [of "frameB s"]) (unfold inspectEVMTx_def Let_def, intro hpres, simp)

lemma inspectEVMTx_store:
  assumes "svTransferOut s = Some st" "inspectEVMTx V inp R now ctx s = (r, s1)"
  shows "\<exists>st1. svTransferOut s1 = Some st1 \<and> rolled (veIo V) now st st1"
proof -
  have "hpreserves (rolledTo (veIo V) now st) (inspectEVMTx V inp R now ctx)"
    unfolding inspectEVMTx_def Let_def by (intro hpres)
  from hpreservesD [OF this, of s] show ?thesis using assms by (auto simp: rolledTo_def)
qed

lemma submitEVMTx_sent:
  "svSent (snd (submitEVMTx V inp now (tp, raw, tx, client, isHome, out) s)) =
     svSent s @ [\<lparr>stRail = (if isHome then EvmHome else EvmForeign), stAt = now, stTenant = tpTenantID tp, stOwner = tpOwner tp,
       stClientID = bvClientID inp, stBytes = raw, stAccepted = (rpSend client tx = None)\<rparr>]"
  by (auto simp: submitEVMTx_def Let_def SendTransaction_def of_err_def split: option.split)

lemma submitEVMTx_store:
  "svTransferOut (snd (submitEVMTx V inp now (tp, raw, tx, client, isHome, out) s)) =
     (if rpSend client tx = None then recordTransfers (veIo V) now (tpOwner tp) (veOrder V 1 out) (svTransferOut s)
      else svTransferOut s)"
  by (auto simp: submitEVMTx_def Let_def SendTransaction_def of_err_def split: option.split)

text \<open>What a transaction of the log moves out of its owner's account.\<close>

definition sentEVM :: "evmEnv \<Rightarrow> sentTx \<Rightarrow> string \<Rightarrow> int" where
  "sentEVM V e y =
     (if stRail e \<noteq> EvmHome then 0
      else (case (UnmarshalEVM (veLib V) (stBytes e), ownerEthAddress (veSdk V) (veEth V) (stOwner e)) of
              (Inr tx, Inr own) \<Rightarrow> amountOf (evmOut V tx own) y
            | _ \<Rightarrow> 0))"

lemma broadcastEVM_sendEffect:
  assumes "tenantsOk (svTenants s)" "orderOk (veOrder V)" "\<And>e y. stRail e \<noteq> CosmosRail \<Longrightarrow> mv e y = sentEVM V e y"
  shows "sendEffect (veIo V) now mv s (snd (toolBroadcastEVMTx V inp R now ctx s))"
proof (unfold sendEffect_def, intro allI impI)
  fix st assume st: "svTransferOut s = Some st"
  obtain r s1 where I: "inspectEVMTx V inp R now ctx s = (r, s1)" by fastforce
  have sent: "svSent s1 = svSent s" using inspectEVMTx_frame [of s V inp R now ctx] I frameB_same by (metis snd_conv)
  obtain st0 where st0: "svTransferOut s1 = Some st0" "rolled (veIo V) now st st0" using inspectEVMTx_store [OF st I] by blast
  let ?s' = "snd (toolBroadcastEVMTx V inp R now ctx s)"
  show "\<exists>st'. svTransferOut ?s' = Some st' \<and>
     (svSent ?s' = svSent s \<and> storeSim (veIo V) now st st' (\<lambda>d o1 y. 0) \<or>
      (\<exists>e. svSent ?s' = svSent s @ [e] \<and> stAt e = now \<and> (\<forall>y. withinCap now st (stOwner e) y (mv e y)) \<and>
         storeSim (veIo V) now st st' (\<lambda>d o1 y. if stAccepted e \<and> o1 = stOwner e \<and> d = dayNumber now then max 0 (mv e y) else 0)))"
  proof (cases r)
    case (Inl e)
    then have "?s' = s1" using I by (simp add: toolBroadcastEVMTx_def hbind_def)
    then show ?thesis using sent st0 storeSim_rolled [OF st0(2)] by auto
  next
    case (Inr x)
    obtain tp raw tx client isHome out where x: "x = (tp, raw, tx, client, isHome, out)" by (cases x)
    have s': "?s' = snd (submitEVMTx V inp now (tp, raw, tx, client, isHome, out) s1)"
      using I Inr x by (simp add: toolBroadcastEVMTx_def hbind_def)
    define e where "e = \<lparr>stRail = (if isHome then EvmHome else EvmForeign), stAt = now, stTenant = tpTenantID tp, stOwner = tpOwner tp,
       stClientID = bvClientID inp, stBytes = raw, stAccepted = (rpSend client tx = None)\<rparr>"
    have e: "svSent ?s' = svSent s @ [e]" unfolding s' submitEVMTx_sent sent e_def by simp
    obtain c s0 own where chk: "tp = policyOf c" "UnmarshalEVM (veLib V) raw = Inr tx"
        "ownerEthAddress (veSdk V) (veEth V) (trOwner c) = Inr own" "out = (if isHome then evmOut V tx own else [])"
        "svTransferOut s0 = Some st" "checkTransfers (veIo V) now (trOwner c) (veOrder V 0 out) s0 = (Inr (), s1)"
      using inspectEVMTx_Inr [OF assms(1) I [unfolded Inr x]] st by auto
    have out: "distinct (map fst out)" "\<And>y. amountOf out y = mv e y"
      using chk(1-4) evmOut_distinct assms(3) [of e] by (auto simp: e_def sentEVM_def)
    obtain st1 st2 where f: "svTransferOut s1 = Some st1" "rolled (veIo V) now st st1"
        "\<forall>y. withinCap now st (trOwner c) y (amountOf out y)"
        "recordTransfers (veIo V) now (trOwner c) (veOrder V 1 out) (Some st1) = Some st2"
        "storeSim (veIo V) now st st2 (\<lambda>d o1 y. if o1 = trOwner c \<and> d = dayNumber now then max 0 (amountOf out y) else 0)"
      using send_store [OF out(1) assms(2) chk(5,6)] by blast
    have o: "stOwner e = trOwner c" "tpOwner tp = trOwner c" using chk(1) by (simp_all add: e_def)
    have "svTransferOut ?s' = (if stAccepted e then Some st2 else Some st1)"
      unfolding s' submitEVMTx_store using f(1,4) o(2) by (auto simp: e_def)
    moreover have "storeSim (veIo V) now st (if stAccepted e then st2 else st1)
        (\<lambda>d o1 y. if stAccepted e \<and> o1 = stOwner e \<and> d = dayNumber now then max 0 (mv e y) else 0)"
      using f(5) storeSim_rolled [OF f(2)] unfolding out(2) o(1) by (cases "stAccepted e") simp_all
    moreover have "stAt e = now" by (simp add: e_def)
    ultimately show ?thesis using e f(3) o out(2) by auto
  qed
qed

lemma submitEVMTx_frame:
  "svTenants (snd (submitEVMTx V inp now x s)) = svTenants s \<and> svLimits (snd (submitEVMTx V inp now x s)) = svLimits s \<and>
   svIdem (snd (submitEVMTx V inp now x s)) = svIdem s"
  by (auto simp: submitEVMTx_def Let_def case_prod_beta split: sum.split)

lemma broadcastEVM_tenants:
  "svTenants (snd (toolBroadcastEVMTx V inp R now ctx s)) = svTenants s"
  "svLimits (snd (toolBroadcastEVMTx V inp R now ctx s)) = svLimits s"
  using frameB_same [OF inspectEVMTx_frame [of s V inp R now ctx]]
  by (auto simp: toolBroadcastEVMTx_def hbind_def submitEVMTx_frame split: prod.split sum.split)

lemma broadcastEVM_ledgerEffect:
  assumes "\<And>e. stRail e \<noteq> CosmosRail \<Longrightarrow> wd e = 0"
  shows "ledgerEffect now wd s (snd (toolBroadcastEVMTx V inp R now ctx s))"
proof (unfold ledgerEffect_def, intro allI impI, elim conjE)
  fix l assume l: "svLedger s = Some l"
  obtain r s1 where I: "inspectEVMTx V inp R now ctx s = (r, s1)" by fastforce
  have sent: "svSent s1 = svSent s" using inspectEVMTx_frame [of s V inp R now ctx] I frameB_same by (metis snd_conv)
  have "hpreserves (\<lambda>s. svLedger s = Some l) (inspectEVMTx V inp R now ctx)" unfolding inspectEVMTx_def Let_def
    by (intro hpres) (simp_all add: hpreserves_def authorize_ledger claimID_ledger checkTransfers_ledger)
  from hpreservesD [OF this, of s] have l1: "svLedger s1 = Some l" using I l by simp
  show "svSent (snd (toolBroadcastEVMTx V inp R now ctx s)) = svSent s \<and> ledgerRolled now l (snd (toolBroadcastEVMTx V inp R now ctx s)) \<or>
      (\<exists>e. svSent (snd (toolBroadcastEVMTx V inp R now ctx s)) = svSent s @ [e] \<and> stAt e = now \<and>
         (wd e = 0 \<and> svLedger (snd (toolBroadcastEVMTx V inp R now ctx s)) = Some l \<or>
          (\<exists>q. unat q = wd e \<and> q \<le> fst (mlRemaining now (stTenant e) l) \<and> svLedger (snd (toolBroadcastEVMTx V inp R now ctx s)) =
             Some (if stAccepted e then mlRecord now (stTenant e) q (mlRollover now l) else mlRollover now l))))"
  proof (cases r)
    case (Inl e)
    then show ?thesis using I sent l1 by (simp add: toolBroadcastEVMTx_def hbind_def ledgerRolled_def)
  next
    case (Inr x)
    obtain tp raw tx client isHome out where x: "x = (tp, raw, tx, client, isHome, out)" by (cases x)
    have s': "snd (toolBroadcastEVMTx V inp R now ctx s) = snd (submitEVMTx V inp now (tp, raw, tx, client, isHome, out) s1)"
      using I Inr x by (simp add: toolBroadcastEVMTx_def hbind_def)
    have "svLedger (snd (submitEVMTx V inp now (tp, raw, tx, client, isHome, out) s1)) = Some l"
      using l1 by (simp add: submitEVMTx_def Let_def split: sum.split)
    then show ?thesis using assms unfolding s' submitEVMTx_sent sent by simp
  qed
qed

text \<open>A call of \<open>transfer\<close> on a known token, with no native value, counts its second argument for that token's symbol and
  nothing else; a call of any other method (an approval, a swap) counts nothing.\<close>

lemma decode_token_transfer:
  assumes "symbolForToken E uusdc t = Some symb" "take 4 data = selERC20Transfer" "length data = 68"
  shows "amountOf (decodeTransferOut E uusdc (Some t) 0 data owner router wsvp) y =
    (if y = symb then bigEndian (drop 36 data) else 0)"
proof -
  have "slice data 36 68 = drop 36 data" using assms(3) by (simp add: slice_def)
  then show ?thesis
    using assms bigEndian_nonneg [of "drop 36 data"] by (simp add: decodeTransferOut_def Let_def amountOf_addOut)
qed

lemma decode_other_call:
  assumes "take 4 data \<noteq> selERC20Transfer" "take 4 data \<noteq> selERC20TransferFrom"
  shows "decodeTransferOut E uusdc to 0 data owner router wsvp = []"
  using assms by (simp add: decodeTransferOut_def Let_def split: option.split)

section \<open>Properties\<close>


section \<open>The properties on concrete inputs\<close>

definition usdcCall :: bytes where
  "usdcCall = selERC20Transfer @ replicate 32 7 @ replicate 29 0 @ [0x0f, 0x42, 0x40]"

definition docEvmTx :: evmTxLib where
  "docEvmTx = \<lparr>UnmarshalEVM = (\<lambda>raw. Inr \<lparr>vtTo = Some (knownAddress docEth ''usdc''), vtValue = 0, vtData = raw, vtChainID = 262144\<rparr>),
     SenderEVM = (\<lambda>tx. Inr (fitAddress (bytesOf ''svp1abc''))), HashHexEVM = (\<lambda>tx. ''0x01'')\<rparr>"

definition exEvm :: evmEnv where
  "exEvm = \<lparr>veLib = docEvmTx, veEth = docEth, veSdk = docSDK, veUusdc = ''ibc/usdc'', veIo = writesOk,
     veOrder = (\<lambda>i. if i = 0 then rev else (\<lambda>xs. xs)), veErrText = (\<lambda>_. []),
     veHome = Some \<lparr>rpSend = (\<lambda>tx. None), rpReceipt = (\<lambda>h. Inl ErrNotFound)\<rparr>, veForeign = Map.empty, veHomeChainID = 262144,
     veUniswap = None\<rparr>"

definition exSignedEVM :: broadcastEVMInput where
  "exSignedEVM = \<lparr>bvClientID = ''c-2'', bvSignedTx = \<lparr>etRawTxHex = ''0x'' @ hexEncode usdcCall, etTxHash = []\<rparr>\<rparr>"

lemma exEvm_ok: "orderOk (veOrder exEvm)"
  by (simp add: exEvm_def orderOk_def)


end
