(* ===== verification/Server_Run.thy ===== *)
theory Server_Run
  imports Evm_Broadcast Auth_Tools
begin

text \<open>
  Runs of the whole server: the calls of any clients in any order, at a clock that does not go back, with whatever the
  chains answer, and (where allowed) restarts of the process. The handlers are the ones of the other theories; a
  restart loads the transfer-out file and forgets everything else that is only in memory. What a client may do in a run
  is bounded by what the log of sent transactions shows.
\<close>

section \<open>The runs\<close>

record ('lim, 'pub) serverWorld =
  swCosmos :: broadcastEnv
  swEvm :: evmEnv
  swDec :: decLib
  swSdk :: sdkLib
  swRate :: "'lim rateLib"
  swCrypto :: "'pub ethCrypto"
  swFresh :: "'lim server"

text \<open>Files are written, map orders are orders, and a fresh server has no tenant.\<close>

definition worldOk :: "('lim, 'pub) serverWorld \<Rightarrow> bool" where
  "worldOk X \<longleftrightarrow> beIo (swCosmos X) = writesOk \<and> veIo (swEvm X) = writesOk \<and> orderOk (beOrder (swCosmos X)) \<and>
     orderOk (veOrder (swEvm X)) \<and> byTenant (svTenants (swFresh X)) = []"

text \<open>One call, at time \<open>t\<close>. The last two cases: a call that touches none of the state that matters here (every other tool),
  and a restart of the process.\<close>

inductive serverStep :: "('lim, 'pub) serverWorld \<Rightarrow> bool \<Rightarrow> time \<Rightarrow> 'lim server \<Rightarrow> 'lim server \<Rightarrow> bool" for X restarts where
  challenge: "serverStep X restarts t s (snd (AuthChallenge t rnd ctx owner s))"
| verify: "serverStep X restarts t s (snd (AuthVerify (swCrypto X) t rndB rndT ctx inp s))"
| sweep: "serverStep X restarts t s (sweepServer t s)"
| buildWithdraw: "serverStep X restarts t s (snd (toolBuildWithdrawFromSubaccount (swSdk X) inp (swRate X) acct t ctx s))"
| setCap: "serverStep X restarts t s
    (snd (toolSetTransferOutCap (swDec X) (beEth (swCosmos X)) (beUusdc (swCosmos X)) (beIo (swCosmos X)) symbol amount (swRate X) t ctx s))"
| getCap: "serverStep X restarts t s
    (snd (toolGetTransferOutCap (swDec X) (beEth (swCosmos X)) (beUusdc (swCosmos X)) (beIo (swCosmos X)) symbol (swRate X) t ctx s))"
| broadcast: "serverStep X restarts t s
    (snd (toolBroadcastSignedTx ((swCosmos X)\<lparr>beBroadcastTx := answer\<rparr>) bin (swRate X) t ctx s))"
| broadcastEVM: "serverStep X restarts t s
    (snd (toolBroadcastEVMTx ((swEvm X)\<lparr>veHome := home, veForeign := foreign\<rparr>) evin (swRate X) t ctx s))"
| other: "svTenants s' = svTenants s \<Longrightarrow> svIdem s' = svIdem s \<Longrightarrow> svLedger s' = svLedger s \<Longrightarrow> svTransferOut s' = svTransferOut s \<Longrightarrow>
    svSent s' = svSent s \<Longrightarrow> svLimits s' = svLimits s \<Longrightarrow> serverStep X restarts t s s'"
| restart: "restarts \<Longrightarrow> svTransferOut s = Some st \<Longrightarrow> LoadMemoryTransferOutStore ReadOk (sPath st) (sDisk st) = Inr st' \<Longrightarrow>
    serverStep X restarts t s ((swFresh X)\<lparr>svTransferOut := Some st', svSent := svSent s, svAudit := svAudit s\<rparr>)"

inductive serverRun :: "('lim, 'pub) serverWorld \<Rightarrow> bool \<Rightarrow> 'lim server \<Rightarrow> time \<Rightarrow> 'lim server \<Rightarrow> bool" for X restarts s0 where
  start: "serverRun X restarts s0 t s0"
| step: "serverRun X restarts s0 t s \<Longrightarrow> t \<le> t' \<Longrightarrow> serverStep X restarts t' s s' \<Longrightarrow> serverRun X restarts s0 t' s'"

text \<open>A server that has just been started for the first time, with a file for the caps.\<close>

definition startOk :: "'lim server \<Rightarrow> bool" where
  "startOk s \<longleftrightarrow> tenantsOk (svTenants s) \<and> svSent s = [] \<and>
     (\<exists>path. path \<noteq> [] \<and> svTransferOut s = Some (NewMemoryTransferOutStore\<lparr>sPath := path\<rparr>))"

section \<open>What the log shows\<close>

text \<open>What a sent transaction moves out of its owner's account in a capped symbol, on either rail.\<close>

definition movedOut :: "('lim, 'pub) serverWorld \<Rightarrow> sentTx \<Rightarrow> string \<Rightarrow> int" where
  "movedOut X e y = (if stRail e = CosmosRail then sentBank (swCosmos X) e y else sentEVM (swEvm X) e y)"

definition logOut :: "('lim, 'pub) serverWorld \<Rightarrow> int \<Rightarrow> string \<Rightarrow> string \<Rightarrow> sentTx list \<Rightarrow> int" where
  "logOut X d owner y es =
     (\<Sum>e \<leftarrow> es. if stAccepted e \<and> stOwner e = owner \<and> dayNumber (stAt e) = d then max 0 (movedOut X e y) else 0)"

definition logWithdrawn :: "('lim, 'pub) serverWorld \<Rightarrow> int \<Rightarrow> string \<Rightarrow> sentTx list \<Rightarrow> nat" where
  "logWithdrawn X d tenant es =
     (\<Sum>e \<leftarrow> es. if stAccepted e \<and> stTenant e = tenant \<and> dayNumber (stAt e) = d then sentWithdraw (swCosmos X) e else 0)"

section \<open>The effect of each call\<close>

lemma sendEffect_same:
  "svSent s' = svSent s \<Longrightarrow> svTransferOut s' = svTransferOut s \<Longrightarrow> sendEffect io now out s s'"
  by (auto simp: sendEffect_def storeSim_refl)

lemma AuthVerify_frame:
  "svTransferOut (snd (AuthVerify K t rb rt ctx inp s)) = svTransferOut s" "svSent (snd (AuthVerify K t rb rt ctx inp s)) = svSent s"
  "svLedger (snd (AuthVerify K t rb rt ctx inp s)) = svLedger s" "svIdem (snd (AuthVerify K t rb rt ctx inp s)) = svIdem s"
  "svLimits (snd (AuthVerify K t rb rt ctx inp s)) = svLimits s"
  by (simp_all add: AuthVerify_def Let_def case_prod_beta split: sum.split)

lemma AuthChallenge_frame:
  "svTransferOut (snd (AuthChallenge t rnd ctx owner s)) = svTransferOut s" "svSent (snd (AuthChallenge t rnd ctx owner s)) = svSent s"
  "svLedger (snd (AuthChallenge t rnd ctx owner s)) = svLedger s" "svIdem (snd (AuthChallenge t rnd ctx owner s)) = svIdem s"
  "svLimits (snd (AuthChallenge t rnd ctx owner s)) = svLimits s" "svTenants (snd (AuthChallenge t rnd ctx owner s)) = svTenants s"
  by (simp_all add: AuthChallenge_def Let_def case_prod_beta split: sum.split)

lemma AuthVerify_tenantsOk: "tenantsOk (svTenants s) \<Longrightarrow> tenantsOk (svTenants (snd (AuthVerify K t rb rt ctx inp s)))"
  using AuthVerify_stores [of K t rb rt ctx inp s] tenantsOk_Mint by metis

lemma sweepServer_tenantsOk: "tenantsOk (svTenants s) \<Longrightarrow> tenantsOk (svTenants (sweepServer t s))"
  by (simp add: sweepServer_def dtSweep_def tenantsOk_sweepLoop)

text \<open>A state reached from \<open>s0\<close> with nothing sent, the same tenants, reservations, ledger and limits, and a store changed by
  operations of its own that are not transfers.\<close>

definition quiet :: "(nat \<Rightarrow> ioOutcome) \<Rightarrow> time \<Rightarrow> 'lim server \<Rightarrow> 'lim server \<Rightarrow> bool" where
  "quiet io now s0 s \<longleftrightarrow> svTenants s = svTenants s0 \<and> svIdem s = svIdem s0 \<and> svLedger s = svLedger s0 \<and> svSent s = svSent s0 \<and>
     svLimits s = svLimits s0 \<and>
     (\<forall>st. svTransferOut s0 = Some st \<longrightarrow> (\<exists>st'. svTransferOut s = Some st' \<and> storeSim io now st st' (\<lambda>d o1 y. 0)))"

lemma quiet_refl [simp]: "quiet io now s s"
  by (simp add: quiet_def storeSim_refl)

lemma quiet_update:
  assumes "quiet io now s0 s" "\<And>st. svTransferOut s = Some st \<Longrightarrow> \<exists>st'. x = Some st' \<and> storeSim io now st st' (\<lambda>d o1 y. 0)"
  shows "quiet io now s0 (s\<lparr>svTransferOut := x\<rparr>)"
proof -
  have "\<exists>st'. x = Some st' \<and> storeSim io now st st' (\<lambda>d o1 y. 0)" if st: "svTransferOut s0 = Some st" for st
  proof -
    obtain st1 where 1: "svTransferOut s = Some st1" "storeSim io now st st1 (\<lambda>d o1 y. 0)" using assms(1) st by (auto simp: quiet_def)
    obtain st2 where 2: "x = Some st2" "storeSim io now st1 st2 (\<lambda>d o1 y. 0)" using assms(2) [OF 1(1)] by blast
    show ?thesis using storeSim_trans [OF 1(2) 2(2)] 2(1) by simp
  qed
  then show ?thesis using assms(1) by (simp add: quiet_def)
qed

lemma quiet_effect: "quiet io now s s' \<Longrightarrow> sendEffect io now out s s'"
  by (auto simp: quiet_def sendEffect_def)

lemma hpreserves_quiet_authorize [hpres]: "hpreserves (quiet io now s0) (authorize R t ctx tool)"
proof (unfold hpreserves_def, intro allI impI)
  fix s assume q: "quiet io now s0 s"
  obtain rl where "snd (authorize R t ctx tool s) = s\<lparr>svRate := rl\<rparr>" using authorize_state by blast
  then show "quiet io now s0 (snd (authorize R t ctx tool s))" using q by (simp add: quiet_def)
qed

text \<open>The cap tools refine the store's own operations.\<close>

lemma toolSetTransferOutCap_quiet:
  "quiet io now s (snd (toolSetTransferOutCap D E uusdc io symbol amount R t ctx s))"
proof -
  have "hpreserves (quiet io now s) (toolSetTransferOutCap D E uusdc io symbol amount R t ctx)"
    unfolding toolSetTransferOutCap_def
  proof (intro hpres)
    fix tp a and s' :: "'a server" assume "quiet io now s s'"
    then show "quiet io now s (s'\<lparr>svTransferOut := SetUnlimited io (tpOwner tp) (asSymbol a) (svTransferOut s')\<rparr>)"
    proof (rule quiet_update)
      fix st assume "svTransferOut s' = Some st"
      then show "\<exists>st'. SetUnlimited io (tpOwner tp) (asSymbol a) (svTransferOut s') = Some st' \<and> storeSim io now st st' (\<lambda>d o1 y. 0)"
        by (intro exI conjI storeSim_step [where ev = "EvUnlimited (tpOwner tp) (asSymbol a)"]) (auto simp: SetUnlimited_def)
    qed
  next
    fix tp a base and s' :: "'a server" assume "quiet io now s s'"
    let ?c = "\<lparr>scSymbol = asSymbol a, scDecimals = asDecimals a, scCapBase = Some base\<rparr>"
    from \<open>quiet io now s s'\<close> show "quiet io now s (s'\<lparr>svTransferOut := SetCap io (tpOwner tp) ?c (svTransferOut s')\<rparr>)"
    proof (rule quiet_update)
      fix st assume "svTransferOut s' = Some st"
      then show "\<exists>st'. SetCap io (tpOwner tp) ?c (svTransferOut s') = Some st' \<and> storeSim io now st st' (\<lambda>d o1 y. 0)"
        by (intro exI conjI storeSim_step [where ev = "EvSetCap (tpOwner tp) ?c"]) (auto simp: SetCap_def)
    qed
  qed
  from hpreservesD [OF this, of s] show ?thesis by simp
qed

lemma transferOutCapView_rolled: "\<exists>st'. snd (transferOutCapView D io now owner as (Some st)) = Some st' \<and> rolled io now st st'"
proof (induction as arbitrary: st)
  case (Cons a as)
  have "snd (Used io now (Some st) owner (asSymbol a)) = Some (storeRollover io now st)" by (simp add: Used_def Let_def)
  moreover obtain st' where "snd (transferOutCapView D io now owner as (Some (storeRollover io now st))) = Some st'"
      "rolled io now (storeRollover io now st) st'" using Cons.IH by blast
  ultimately show ?case by (auto simp: Let_def case_prod_beta rolled_def)
qed simp

lemma toolGetTransferOutCap_quiet:
  "quiet io now s (snd (toolGetTransferOutCap D E uusdc io symbol R now ctx s))"
proof -
  have "hpreserves (quiet io now s) (toolGetTransferOutCap D E uusdc io symbol R now ctx)"
    unfolding toolGetTransferOutCap_def
  proof (intro hpres)
    fix tp as and s' :: "'a server" assume q: "quiet io now s s'"
    have "quiet io now s (s'\<lparr>svTransferOut := snd (transferOutCapView D io now (tpOwner tp) as (svTransferOut s'))\<rparr>)"
    proof (rule quiet_update [OF q])
      fix st assume "svTransferOut s' = Some st"
      then show "\<exists>st'. snd (transferOutCapView D io now (tpOwner tp) as (svTransferOut s')) = Some st' \<and> storeSim io now st st' (\<lambda>d o1 y. 0)"
        using transferOutCapView_rolled [of D io now "tpOwner tp" as st] storeSim_rolled by auto
    qed
    then show "quiet io now s (snd (let (v, st) = transferOutCapView D io now (tpOwner tp) as (svTransferOut s') in
        (v, s'\<lparr>svTransferOut := st\<rparr>)))"
      by (simp add: Let_def case_prod_beta)
  qed
  from hpreservesD [OF this, of s] show ?thesis by simp
qed

lemma withdraw_frame:
  "\<exists>rl l. snd (toolBuildWithdrawFromSubaccount S inp R acct now ctx s) = s\<lparr>svRate := rl, svLedger := l\<rparr>"
  using twi.frame [of S inp R acct now ctx s] by auto

text \<open>What a transaction moves does not depend on the endpoints.\<close>

lemma evmOut_endpoints [simp]: "evmOut (V\<lparr>veHome := h, veForeign := f\<rparr>) tx own = evmOut V tx own"
  by (simp add: evmOut_def)

lemma sentEVM_endpoints [simp]: "sentEVM (V\<lparr>veHome := h, veForeign := f\<rparr>) e y = sentEVM V e y"
  by (simp add: sentEVM_def split: sum.split)

text \<open>Every call keeps the tenants well formed and has the effect on store and log that the send effect describes.\<close>

lemma serverStep_effect:
  assumes "serverStep X restarts t s s'" "worldOk X" "tenantsOk (svTenants s)"
  shows "tenantsOk (svTenants s') \<and> sendEffect writesOk t (movedOut X) s s'"
  using assms(1)
proof cases
  case (challenge rnd ctx owner)
  then show ?thesis using assms(3) by (simp add: AuthChallenge_frame sendEffect_same)
next
  case (verify rndB rndT ctx inp)
  then show ?thesis using assms(3) AuthVerify_tenantsOk by (auto simp: AuthVerify_frame sendEffect_same)
next
  case sweep
  then show ?thesis using assms(3) sweepServer_tenantsOk [OF assms(3)] by (auto intro: sendEffect_same simp: sweepServer_def)
next
  case (buildWithdraw inp acct ctx)
  obtain rl l where "s' = s\<lparr>svRate := rl, svLedger := l\<rparr>" using withdraw_frame buildWithdraw by metis
  then show ?thesis using assms(3) by (simp add: sendEffect_same)
next
  case (setCap symbol amount ctx)
  have "quiet (beIo (swCosmos X)) t s s'" unfolding setCap by (rule toolSetTransferOutCap_quiet)
  then have "quiet writesOk t s s'" using assms(2) by (simp add: worldOk_def)
  then show ?thesis using assms(3) quiet_effect [OF \<open>quiet writesOk t s s'\<close>] by (simp add: quiet_def)
next
  case (getCap symbol ctx)
  have "quiet (beIo (swCosmos X)) t s s'" unfolding getCap by (rule toolGetTransferOutCap_quiet)
  then have "quiet writesOk t s s'" using assms(2) by (simp add: worldOk_def)
  then show ?thesis using assms(3) quiet_effect [OF \<open>quiet writesOk t s s'\<close>] by (simp add: quiet_def)
next
  case (broadcast answer bin ctx)
  let ?W = "(swCosmos X)\<lparr>beBroadcastTx := answer\<rparr>"
  have "sendEffect (beIo ?W) t (movedOut X) s s'"
    unfolding broadcast using assms(2,3) by (intro broadcast_sendEffect) (simp_all add: worldOk_def movedOut_def sentBank_def)
  moreover have "svTenants s' = svTenants s" unfolding broadcast by (rule broadcast_tenants)
  ultimately show ?thesis using assms(2,3) by (simp add: worldOk_def)
next
  case (broadcastEVM foreign home evin ctx)
  let ?V = "(swEvm X)\<lparr>veHome := home, veForeign := foreign\<rparr>"
  have "sendEffect (veIo ?V) t (movedOut X) s s'"
    unfolding broadcastEVM using assms(2,3)
    by (intro broadcastEVM_sendEffect) (simp_all add: worldOk_def movedOut_def)
  moreover have "svTenants s' = svTenants s" unfolding broadcastEVM by (rule broadcastEVM_tenants)
  ultimately show ?thesis using assms(2,3) by (simp add: worldOk_def)
next
  case other
  then show ?thesis using assms(3) by (simp add: sendEffect_same)
next
  case (restart st st')
  have "storeStep writesOk (t, EvRestart) (tr, st) = (tr, st')" for tr using restart(4) by simp
  then have "storeSim writesOk t st st' (\<lambda>d o1 y. 0)" by (rule storeSim_step) simp
  then show ?thesis using restart assms(2) by (simp add: sendEffect_def worldOk_def tenantsOk_def)
qed

section \<open>The invariant of a run\<close>

definition outInv :: "('lim, 'pub) serverWorld \<Rightarrow> time \<Rightarrow> 'lim server \<Rightarrow> bool" where
  "outInv X t s \<longleftrightarrow> tenantsOk (svTenants s) \<and> (\<exists>st tr. svTransferOut s = Some st \<and> store_wf st \<and> usage_exact t tr st \<and> within_caps tr \<and>
     (\<forall>d o1 y. outSum d o1 y tr = logOut X d o1 y (svSent s)))"

lemma logOut_snoc: "logOut X d o1 y (es @ [e]) = logOut X d o1 y es +
    (if stAccepted e \<and> stOwner e = o1 \<and> dayNumber (stAt e) = d then max 0 (movedOut X e y) else 0)"
  by (simp add: logOut_def)

lemma outInv_start: "startOk s \<Longrightarrow> outInv X t s"
  unfolding startOk_def outInv_def
  by (auto intro!: exI [of _ "[]"] simp: store_wf_def NewMemoryTransferOutStore_def caps_set_def synced_def usage_exact_def
      todayUsed_def within_caps_def usedOf_def logOut_def)

lemma outInv_step:
  assumes "outInv X t s" "t \<le> t'" "serverStep X restarts t' s s'" "worldOk X"
  shows "outInv X t' s'"
proof -
  obtain st tr where i: "tenantsOk (svTenants s)" "svTransferOut s = Some st" "store_wf st" "usage_exact t tr st" "within_caps tr"
      "\<forall>d o1 y. outSum d o1 y tr = logOut X d o1 y (svSent s)"
    using assms(1) by (auto simp: outInv_def)
  have eff: "tenantsOk (svTenants s')" "sendEffect writesOk t' (movedOut X) s s'"
    using serverStep_effect [OF assms(3,4) i(1)] by auto
  then obtain st' where st': "svTransferOut s' = Some st'"
    and c: "svSent s' = svSent s \<and> storeSim writesOk t' st st' (\<lambda>d o1 y. 0) \<or>
      (\<exists>e. svSent s' = svSent s @ [e] \<and> stAt e = t' \<and>
         storeSim writesOk t' st st' (\<lambda>d o1 y. if stAccepted e \<and> o1 = stOwner e \<and> d = dayNumber t' then max 0 (movedOut X e y) else 0))"
    using i(2) unfolding sendEffect_def by blast
  obtain delta where delta: "storeSim writesOk t' st st' delta"
      "\<forall>d o1 y. logOut X d o1 y (svSent s') = logOut X d o1 y (svSent s) + delta d o1 y"
    using c by (elim disjE) (force simp: logOut_snoc)+
  obtain tr' where "store_wf st'" "usage_exact t' tr' st'" "within_caps tr'"
      "\<forall>d o1 y. outSum d o1 y tr' = outSum d o1 y tr + delta d o1 y"
    using storeSim_exact [OF delta(1) i(3-5) assms(2)] by blast
  then show ?thesis using eff(1) st' delta(2) i(6) unfolding outInv_def by auto
qed

lemma outInv_run: "serverRun X restarts s0 t s \<Longrightarrow> startOk s0 \<Longrightarrow> worldOk X \<Longrightarrow> outInv X t s"
  by (induction rule: serverRun.induct) (auto intro: outInv_start outInv_step)

section \<open>The withdraw ledger over a run\<close>

lemma ledgerEffect_same: "svSent s' = svSent s \<Longrightarrow> svLedger s' = svLedger s \<Longrightarrow> ledgerEffect now wd s s'"
  by (simp add: ledgerEffect_def ledgerRolled_def)

lemma buildWithdraw_ledgerEffect:
  "ledgerEffect now wd s (snd (toolBuildWithdrawFromSubaccount S inp R acct now ctx s))"
proof -
  have "svSent (snd (toolBuildWithdrawFromSubaccount S inp R acct now ctx s)) = svSent s"
    using withdraw_frame [of S inp R acct now ctx s] by auto
  moreover have "ledgerRolled now l (snd (toolBuildWithdrawFromSubaccount S inp R acct now ctx s))" if "svLedger s = Some l" for l
  proof -
    have "hpreserves (ledgerRolled now l) (toolBuildWithdrawFromSubaccount S inp R acct now ctx)"
      unfolding toolBuildWithdrawFromSubaccount_def authorizeSubaccount_def by (intro hpres)
    from hpreservesD [OF this, of s] show ?thesis using that by (simp add: ledgerRolled_def)
  qed
  ultimately show ?thesis by (simp add: ledgerEffect_def)
qed

lemma serverStep_ledgerEffect:
  assumes "serverStep X False t s s'" "tenantsOk (svTenants s)"
  shows "ledgerEffect t (sentWithdraw (swCosmos X)) s s' \<and> svLimits s' = svLimits s"
  using assms(1)
proof cases
  case (challenge rnd ctx owner)
  then show ?thesis by (simp add: AuthChallenge_frame ledgerEffect_same)
next
  case (verify rndB rndT ctx inp)
  then show ?thesis by (simp add: AuthVerify_frame ledgerEffect_same)
next
  case sweep
  then show ?thesis by (auto intro: ledgerEffect_same simp: sweepServer_def)
next
  case (buildWithdraw inp acct ctx)
  have "ledgerEffect t (sentWithdraw (swCosmos X)) s s'" unfolding buildWithdraw by (rule buildWithdraw_ledgerEffect)
  moreover obtain rl l where "s' = s\<lparr>svRate := rl, svLedger := l\<rparr>" using withdraw_frame buildWithdraw by metis
  ultimately show ?thesis by simp
next
  case (setCap symbol amount ctx)
  have "quiet (beIo (swCosmos X)) t s s'" unfolding setCap by (rule toolSetTransferOutCap_quiet)
  then show ?thesis by (simp add: quiet_def ledgerEffect_same)
next
  case (getCap symbol ctx)
  have "quiet (beIo (swCosmos X)) t s s'" unfolding getCap by (rule toolGetTransferOutCap_quiet)
  then show ?thesis by (simp add: quiet_def ledgerEffect_same)
next
  case (broadcast answer bin ctx)
  have "ledgerEffect t (sentWithdraw (swCosmos X)) s s'"
    unfolding broadcast by (rule broadcast_ledgerEffect [OF assms(2)]) (simp add: sentWithdraw_def)
  then show ?thesis unfolding broadcast by (simp add: broadcast_tenants)
next
  case (broadcastEVM foreign home evin ctx)
  have "ledgerEffect t (sentWithdraw (swCosmos X)) s s'"
    unfolding broadcastEVM by (rule broadcastEVM_ledgerEffect) (simp add: sentWithdraw_def)
  then show ?thesis unfolding broadcastEVM by (simp add: broadcastEVM_tenants)
next
  case other
  then show ?thesis by (simp add: ledgerEffect_same)
qed simp

text \<open>What the ledger says of a day is what the log shows, and within the cap.\<close>

definition ledgerInv :: "('lim, 'pub) serverWorld \<Rightarrow> time \<Rightarrow> 'lim server \<Rightarrow> bool" where
  "ledgerInv X t s \<longleftrightarrow> tenantsOk (svTenants s) \<and> dailyCapQuantums (svLimits s) \<noteq> None \<and> (\<forall>e \<in> set (svSent s). stAt e \<le> t) \<and>
     (\<exists>l. svLedger s = Some l \<and> mlOk t l \<and> unat (capQuantums l) = unat (DailyWithdrawCapUSDC (svLimits s)) * 1000000 \<and>
        (\<forall>k t'. t \<le> t' \<longrightarrow> mlSpent t' k l = logWithdrawn X (dayNumber t') k (svSent s)) \<and>
        (\<forall>d k. logWithdrawn X d k (svSent s) \<le> unat (capQuantums l)))"

lemma logWithdrawn_snoc: "logWithdrawn X d k (es @ [e]) = logWithdrawn X d k es +
    (if stAccepted e \<and> stTenant e = k \<and> dayNumber (stAt e) = d then sentWithdraw (swCosmos X) e else 0)"
  by (simp add: logWithdrawn_def)

lemma logWithdrawn_later:
  assumes "\<forall>e \<in> set es. stAt e \<le> t" "dayNumber t < d"
  shows "logWithdrawn X d k es = 0"
proof -
  have "dayNumber (stAt e) \<noteq> d" if "e \<in> set es" for e using assms dayNumber_mono [of "stAt e" t] that by fastforce
  then show ?thesis unfolding logWithdrawn_def by (induction es) auto
qed

lemma ledgerInv_start:
  assumes "tenantsOk (svTenants s)" "svSent s = []" "dailyCapQuantums (svLimits s) = Some q"
    and "svLedger s = Some (NewMemoryLedger (DailyWithdrawCapUSDC (svLimits s)))"
  shows "ledgerInv X t s"
proof -
  have "unat (capQuantums (NewMemoryLedger (DailyWithdrawCapUSDC (svLimits s)))) = unat (DailyWithdrawCapUSDC (svLimits s)) * 1000000"
    using assms(3) capQuantumsOf_Some [of "DailyWithdrawCapUSDC (svLimits s)"]
    by (auto simp: dailyCapQuantums_def capQuantumsOf_def NewMemoryLedger_def word_gt_0 split: if_splits)
  then show ?thesis
    using assms unfolding ledgerInv_def by (auto simp: mlOk_def mlSpent_def NewMemoryLedger_def logWithdrawn_def)
qed

lemma ledgerInv_step:
  assumes "ledgerInv X t s" "t \<le> t'" "serverStep X False t' s s'" "worldOk X"
  shows "ledgerInv X t' s'"
proof -
  obtain l where i: "tenantsOk (svTenants s)" "dailyCapQuantums (svLimits s) \<noteq> None" "\<forall>e \<in> set (svSent s). stAt e \<le> t"
      "svLedger s = Some l" "mlOk t l" "unat (capQuantums l) = unat (DailyWithdrawCapUSDC (svLimits s)) * 1000000"
      "\<forall>k t'. t \<le> t' \<longrightarrow> mlSpent t' k l = logWithdrawn X (dayNumber t') k (svSent s)"
      "\<forall>d k. logWithdrawn X d k (svSent s) \<le> unat (capQuantums l)"
    using assms(1) by (auto simp: ledgerInv_def)
  have ok: "mlOk t' l" using i(5) assms(2) by (rule ml.ok_mono)
  have r: "mlOk t' (mlRollover t' l)" "capQuantums (mlRollover t' l) = capQuantums l"
      "\<And>k t2. t' \<le> t2 \<Longrightarrow> mlSpent t2 k (mlRollover t' l) = mlSpent t2 k l"
    using ml.ok_remaining [OF ok] ml.spent_remaining [OF ok] by simp_all
  have eff: "tenantsOk (svTenants s')" "svLimits s' = svLimits s" "ledgerEffect t' (sentWithdraw (swCosmos X)) s s'"
    using serverStep_effect [OF assms(3,4) i(1)] serverStep_ledgerEffect [OF assms(3) i(1)] by auto
  have le: "stAt e \<le> t'" if "e \<in> set (svSent s)" for e using i(3) that assms(2) by fastforce
  from eff(3) i(2,4) consider
    (quiet) "svSent s' = svSent s" "svLedger s' = Some l \<or> svLedger s' = Some (mlRollover t' l)"
  | (none) e where "svSent s' = svSent s @ [e]" "stAt e = t'" "sentWithdraw (swCosmos X) e = 0" "svLedger s' = Some l"
  | (sent) e q where "svSent s' = svSent s @ [e]" "stAt e = t'" "unat q = sentWithdraw (swCosmos X) e"
      "q \<le> fst (mlRemaining t' (stTenant e) l)"
      "svLedger s' = Some (if stAccepted e then mlRecord t' (stTenant e) q (mlRollover t' l) else mlRollover t' l)"
    unfolding ledgerEffect_def ledgerRolled_def by blast
  then show ?thesis
  proof cases
    case quiet
    then show ?thesis using i eff(1,2) ok r le assms(2) unfolding ledgerInv_def by auto
  next
    case none
    then show ?thesis using i eff(1,2) ok le assms(2) unfolding ledgerInv_def by (auto simp: logWithdrawn_snoc)
  next
    case sent
    show ?thesis
    proof (cases "stAccepted e")
      case False
      then show ?thesis using sent i eff(1,2) r le assms(2) unfolding ledgerInv_def by (auto simp: logWithdrawn_snoc)
    next
      case True
      let ?k = "stTenant e" and ?l = "mlRecord t' (stTenant e) q (mlRollover t' l)"
      have spent: "mlSpent t' ?k l = logWithdrawn X (dayNumber t') ?k (svSent s)" using i(7) assms(2) by blast
      have a: "mlSpent t' ?k ?l = mlSpent t' ?k l + unat q" "mlSpent t' ?k ?l \<le> unat (capQuantums l)" "capQuantums ?l = capQuantums l"
        using ml.accept_record [OF ok _ sent(4)] i(8) spent by (simp_all add: ml.cap_record)
      have okl: "mlOk t' ?l" using r(1) by (rule ml.ok_record)
      have sp: "mlSpent t2 k ?l = logWithdrawn X (dayNumber t2) k (svSent s')" if t2: "t' \<le> t2" for k t2
      proof (cases "k = ?k \<and> dayNumber t2 = dayNumber t'")
        case day: True
        then have "mlSpent t2 k ?l = mlSpent t' ?k ?l" using ml.spent_day [of t2 t'] by simp
        then show ?thesis using a(1) spent day sent(1-3) True by (simp add: logWithdrawn_snoc)
      next
        case False
        have "mlSpent t2 k ?l = logWithdrawn X (dayNumber t2) k (svSent s)"
        proof (cases "k = ?k")
          case True
          then have later: "dayNumber t' < dayNumber t2" using False dayNumber_mono [OF t2] by auto
          have "logWithdrawn X (dayNumber t2) k (svSent s) = 0" by (rule logWithdrawn_later [OF _ later]) (use le in blast)
          then show ?thesis using ml.spent_new_day [OF okl later] by simp
        next
          case other: False
          then show ?thesis using ml.spent_record_other [OF r(1) t2 other] r(3) [OF t2] i(7) t2 assms(2) by simp
        qed
        then show ?thesis using False sent(1,2) by (auto simp: logWithdrawn_snoc)
      qed
      have "logWithdrawn X d k (svSent s') \<le> unat (capQuantums l)" for d k
      proof (cases "k = ?k \<and> d = dayNumber t'")
        case True
        then show ?thesis using sp [of t' k] a(2) by simp
      next
        case False
        then show ?thesis using i(8) sent(1,2) by (auto simp: logWithdrawn_snoc)
      qed
      then show ?thesis
        using sp okl a(3) i(2,6) eff(1,2) le sent(1,2,5) True unfolding ledgerInv_def by auto
    qed
  qed
qed

lemma ledgerInv_run: "serverRun X False s0 t s \<Longrightarrow> (\<And>t. ledgerInv X t s0) \<Longrightarrow> worldOk X \<Longrightarrow> ledgerInv X t s"
  by (induction rule: serverRun.induct) (auto intro: ledgerInv_step)

lemma run_limits:
  "serverRun X False s0 t s \<Longrightarrow> worldOk X \<Longrightarrow> tenantsOk (svTenants s0) \<Longrightarrow> tenantsOk (svTenants s) \<and> svLimits s = svLimits s0"
  by (induction rule: serverRun.induct) (auto dest: serverStep_effect serverStep_ledgerEffect)

section \<open>Reservations over a run\<close>

text \<open>The effect of a call on the reservations and the log: at most one claim, and what is sent was claimed.\<close>

definition claimEffect :: "time \<Rightarrow> 'lim server \<Rightarrow> 'lim server \<Rightarrow> bool" where
  "claimEffect now s s' \<longleftrightarrow> svIdem s' = svIdem s \<and> svSent s' = svSent s \<or>
     (\<exists>i c. Claim now i c (svIdem s) = (None, svIdem s') \<and>
        (svSent s' = svSent s \<or> (\<exists>e. svSent s' = svSent s @ [e] \<and> stAt e = now \<and> stTenant e = i \<and> stClientID e = c)))"

text \<open>A handler that makes at most one claim, of the client id \<open>c\<close>, and it succeeds.\<close>

definition hclaims :: "time \<Rightarrow> string \<Rightarrow> ('lim server, 'a) handler \<Rightarrow> bool" where
  "hclaims now c m \<longleftrightarrow> (\<forall>s. svIdem (snd (m s)) = svIdem s \<or> (\<exists>i. Claim now i c (svIdem s) = (None, svIdem (snd (m s)))))"

lemma hclaims_prefix:
  assumes "\<And>u. hpreserves (\<lambda>s. svIdem s = u) m" "\<And>x. hclaims now c (f x)"
  shows "hclaims now c (hbind m f)"
proof (unfold hclaims_def, intro allI)
  fix s
  obtain r s1 where m: "m s = (r, s1)" by fastforce
  have i: "svIdem s1 = svIdem s" using hpreservesD [OF assms(1), of s "svIdem s"] m by simp
  show "svIdem (snd (hbind m f s)) = svIdem s \<or> (\<exists>i. Claim now i c (svIdem s) = (None, svIdem (snd (hbind m f s))))"
  proof (cases r)
    case (Inr x)
    then show ?thesis using assms(2) [of x] m i by (simp add: hbind_def hclaims_def) metis
  qed (use m i in \<open>simp add: hbind_def\<close>)
qed

lemma hclaims_claim:
  fixes f :: "unit \<Rightarrow> ('lim server, 'b) handler"
  assumes "\<And>x u. hpreserves (\<lambda>s. svIdem s = u) (f x)"
  shows "hclaims now c (hbind (claimID now i c) f)"
proof (unfold hclaims_def, intro allI)
  fix s :: "'lim server"
  obtain e j where C: "Claim now i c (svIdem s) = (e, j)" by fastforce
  show "svIdem (snd (hbind (claimID now i c) f s)) = svIdem s \<or>
      (\<exists>i'. Claim now i' c (svIdem s) = (None, svIdem (snd (hbind (claimID now i c) f s))))"
  proof (cases e)
    case None
    have "svIdem (snd (f () (s\<lparr>svIdem := j\<rparr>))) = j" using hpreservesD [OF assms, of "s\<lparr>svIdem := j\<rparr>" j "()"] by simp
    then show ?thesis using C None by (auto simp: hbind_def claimID_def)
  next
    case (Some e1)
    then have "j = svIdem s" using C Claim_failure by blast
    then show ?thesis using C Some by (simp add: hbind_def claimID_def)
  qed
qed

lemma authorize_idem: "svIdem (snd (authorize R now ctx tool s)) = svIdem s"
  using authorize_state [of R now ctx tool s] by auto

lemma enforceWithdraw_idem: "svIdem (snd (enforceWithdraw now i q s)) = svIdem s"
  using enforceWithdraw_state [of now i q s] by auto

lemma checkTransfers_idem: "svIdem (snd (checkTransfers io now owner xs s)) = svIdem s"
  using checkTransfers_state [of io now owner xs s] by auto

lemma hpreserves_idem [hpres]:
  "hpreserves (\<lambda>s. svIdem s = u) (authorize R now ctx tool)"
  "hpreserves (\<lambda>s. svIdem s = u) (enforceWithdraw now i q)"
  "hpreserves (\<lambda>s. svIdem s = u) (checkTransfers io now owner xs)"
  by (simp_all add: hpreserves_def authorize_idem enforceWithdraw_idem checkTransfers_idem)

lemma inspectSignedTx_claims: "hclaims now (biClientID inp) (inspectSignedTx W inp R now ctx)"
  unfolding inspectSignedTx_def by (rule hclaims_prefix, intro hpres, rule hclaims_claim, intro hpres)

lemma inspectEVMTx_claims: "hclaims now (bvClientID inp) (inspectEVMTx V inp R now ctx)"
  unfolding inspectEVMTx_def Let_def
  by (rule hclaims_prefix, intro hpres, rule hclaims_prefix, intro hpres, rule hclaims_claim, intro hpres)

lemma broadcast_claimEffect:
  assumes "tenantsOk (svTenants s)"
  shows "claimEffect now s (snd (toolBroadcastSignedTx W inp R now ctx s))"
proof -
  obtain r s1 where I: "inspectSignedTx W inp R now ctx s = (r, s1)" by fastforce
  have sent: "svSent s1 = svSent s" using inspectSignedTx_frame [of s W inp R now ctx] I frameB_same by (metis snd_conv)
  show ?thesis
  proof (cases r)
    case (Inl e)
    then show ?thesis
      using inspectSignedTx_claims [of now inp W R ctx] I sent
      by (auto simp: toolBroadcastSignedTx_def hbind_def claimEffect_def hclaims_def) (metis snd_conv)
  next
    case (Inr x)
    obtain tp raw q out where x: "x = (tp, raw, q, out)" by (cases x)
    obtain tc :: tenantContext and c s0 where chk: "tp = policyOf c" "trTenantID c = tcTenantID tc"
        "Claim now (tcTenantID tc) (biClientID inp) (svIdem s) = (None, svIdem s0)"
        "checkTransfers (beIo W) now (trOwner c) (beOrder W 0 out) s0 = (Inr (), s1)"
      using inspectSignedTx_Inr [OF assms I [unfolded Inr x]] by blast
    have "svIdem s1 = svIdem s0" using checkTransfers_idem [of "beIo W" now "trOwner c" "beOrder W 0 out" s0] chk(4) by simp
    then show ?thesis
      using I Inr x chk(1-3) submitSignedTx_sent [of W inp now tp raw q out s1] submitSignedTx_frame [of W inp now x s1] sent
      by (auto simp: toolBroadcastSignedTx_def hbind_def claimEffect_def)
  qed
qed

lemma broadcastEVM_claimEffect:
  assumes "tenantsOk (svTenants s)"
  shows "claimEffect now s (snd (toolBroadcastEVMTx V inp R now ctx s))"
proof -
  obtain r s1 where I: "inspectEVMTx V inp R now ctx s = (r, s1)" by fastforce
  have sent: "svSent s1 = svSent s" using inspectEVMTx_frame [of s V inp R now ctx] I frameB_same by (metis snd_conv)
  show ?thesis
  proof (cases r)
    case (Inl e)
    then show ?thesis
      using inspectEVMTx_claims [of now inp V R ctx] I sent
      by (auto simp: toolBroadcastEVMTx_def hbind_def claimEffect_def hclaims_def) (metis snd_conv)
  next
    case (Inr x)
    obtain tp raw tx client isHome out where x: "x = (tp, raw, tx, client, isHome, out)" by (cases x)
    obtain tc :: tenantContext and c s0 where chk: "tp = policyOf c" "trTenantID c = tcTenantID tc"
        "Claim now (tcTenantID tc) (bvClientID inp) (svIdem s) = (None, svIdem s0)"
        "checkTransfers (veIo V) now (trOwner c) (veOrder V 0 out) s0 = (Inr (), s1)"
      using inspectEVMTx_Inr [OF assms I [unfolded Inr x]] by blast
    have "svIdem s1 = svIdem s0" using checkTransfers_idem [of "veIo V" now "trOwner c" "veOrder V 0 out" s0] chk(4) by simp
    then show ?thesis
      using I Inr x chk(1-3) submitEVMTx_sent [of V inp now tp raw tx client isHome out s1] submitEVMTx_frame [of V inp now x s1] sent
      by (auto simp: toolBroadcastEVMTx_def hbind_def claimEffect_def)
  qed
qed

lemma claimEffect_same: "svIdem s' = svIdem s \<Longrightarrow> svSent s' = svSent s \<Longrightarrow> claimEffect now s s'"
  by (simp add: claimEffect_def)

lemma serverStep_claimEffect:
  assumes "serverStep X False t s s'" "tenantsOk (svTenants s)"
  shows "claimEffect t s s'"
  using assms(1)
proof cases
  case (challenge rnd ctx owner)
  then show ?thesis by (simp add: AuthChallenge_frame claimEffect_same)
next
  case (verify rndB rndT ctx inp)
  then show ?thesis by (simp add: AuthVerify_frame claimEffect_same)
next
  case sweep
  then show ?thesis by (auto intro: claimEffect_same simp: sweepServer_def)
next
  case (buildWithdraw inp acct ctx)
  obtain rl l where "s' = s\<lparr>svRate := rl, svLedger := l\<rparr>" using withdraw_frame buildWithdraw by metis
  then show ?thesis by (simp add: claimEffect_same)
next
  case (setCap symbol amount ctx)
  have "quiet (beIo (swCosmos X)) t s s'" unfolding setCap by (rule toolSetTransferOutCap_quiet)
  then show ?thesis by (simp add: quiet_def claimEffect_same)
next
  case (getCap symbol ctx)
  have "quiet (beIo (swCosmos X)) t s s'" unfolding getCap by (rule toolGetTransferOutCap_quiet)
  then show ?thesis by (simp add: quiet_def claimEffect_same)
next
  case (broadcast answer bin ctx)
  show ?thesis unfolding broadcast by (rule broadcast_claimEffect [OF assms(2)])
next
  case (broadcastEVM foreign home evin ctx)
  show ?thesis unfolding broadcastEVM by (rule broadcastEVM_claimEffect [OF assms(2)])
next
  case other
  then show ?thesis by (simp add: claimEffect_same)
qed simp

text \<open>What was sent is still reserved for the reservation time, and what was sent twice was sent that much later.\<close>

definition claimInv :: "duration \<Rightarrow> time \<Rightarrow> 'lim server \<Rightarrow> bool" where
  "claimInv ttl t s \<longleftrightarrow> tenantsOk (svTenants s) \<and> idTTL (svIdem s) = ttl \<and> (\<forall>e \<in> set (svSent s). stAt e \<le> t \<and>
       (\<exists>x. idSeen (svIdem s) (idKey (stTenant e) (stClientID e)) = Some x \<and> stAt e + ttl \<le> x)) \<and>
     (\<forall>m n. m < n \<and> n < length (svSent s) \<and> stTenant (svSent s ! m) = stTenant (svSent s ! n) \<and>
        stClientID (svSent s ! m) = stClientID (svSent s ! n) \<longrightarrow> stAt (svSent s ! m) + ttl \<le> stAt (svSent s ! n))"

lemma claimInv_step:
  assumes "claimInv ttl t s" "t \<le> t'" "serverStep X False t' s s'" "worldOk X" "0 \<le> ttl"
  shows "claimInv ttl t' s'"
proof -
  have inv: "tenantsOk (svTenants s)" "idTTL (svIdem s) = ttl"
      "\<And>e. e \<in> set (svSent s) \<Longrightarrow> stAt e \<le> t' \<and> (\<exists>x. idSeen (svIdem s) (idKey (stTenant e) (stClientID e)) = Some x \<and> stAt e + ttl \<le> x)"
    using assms(1,2) by (auto simp: claimInv_def)
  have sp: "stAt (svSent s ! m) + ttl \<le> stAt (svSent s ! n)" if "m < n" "n < length (svSent s)"
      "stTenant (svSent s ! m) = stTenant (svSent s ! n)" "stClientID (svSent s ! m) = stClientID (svSent s ! n)" for m n
    using assms(1) that by (auto simp: claimInv_def)
  have ok: "tenantsOk (svTenants s')" using serverStep_effect [OF assms(3,4) inv(1)] by blast
  from serverStep_claimEffect [OF assms(3) inv(1)] consider
    (same) "svIdem s' = svIdem s" "svSent s' = svSent s"
  | (claim) i c where "Claim t' i c (svIdem s) = (None, svIdem s')"
      "svSent s' = svSent s \<or> (\<exists>e. svSent s' = svSent s @ [e] \<and> stAt e = t' \<and> stTenant e = i \<and> stClientID e = c)"
    unfolding claimEffect_def by blast
  then show ?thesis
  proof cases
    case same
    then show ?thesis using inv sp ok unfolding claimInv_def by auto
  next
    case claim
    note S = Claim_success [OF claim(1)]
    have res: "\<exists>x. idSeen (svIdem s') (idKey (stTenant e) (stClientID e)) = Some x \<and> stAt e + ttl \<le> x" if "e \<in> set (svSent s)" for e
      using inv(2) inv(3) [OF that] S assms(5) by (cases "idKey (stTenant e) (stClientID e) = idKey i c") auto
    have old: "stAt e + ttl \<le> t'" if "e \<in> set (svSent s)" "stTenant e = i" "stClientID e = c" for e
      using inv(3) [OF that(1)] S that(2,3) by auto
    from claim(2) show ?thesis
    proof (elim disjE exE conjE)
      assume "svSent s' = svSent s"
      then show ?thesis using inv sp ok res S unfolding claimInv_def by auto
    next
      fix e assume e: "svSent s' = svSent s @ [e]" "stAt e = t'" "stTenant e = i" "stClientID e = c"
      have "idSeen (svIdem s') (idKey i c) = Some (t' + ttl)" "idTTL (svIdem s') = ttl" using S inv(2) by auto
      moreover have "stAt (svSent s' ! m) + ttl \<le> stAt (svSent s' ! n)" if "m < n" "n < length (svSent s')"
          "stTenant (svSent s' ! m) = stTenant (svSent s' ! n)" "stClientID (svSent s' ! m) = stClientID (svSent s' ! n)" for m n
        using that sp [of m n] old [of "svSent s ! m"] e by (auto simp: nth_append less_Suc_eq split: if_splits)
      ultimately show ?thesis using inv(3) res ok e unfolding claimInv_def by auto
    qed
  qed
qed

lemma claimInv_run: "serverRun X False s0 t s \<Longrightarrow> (\<And>t. claimInv ttl t s0) \<Longrightarrow> worldOk X \<Longrightarrow> 0 \<le> ttl \<Longrightarrow> claimInv ttl t s"
  by (induction rule: serverRun.induct) (auto intro: claimInv_step)

section \<open>Properties\<close>



text \<open>C5: no transaction is sent twice for one client id. While the server runs, two transactions sent for the same tenant
  and client id, on either rail, are at least the reservation time apart.\<close>

theorem no_double_broadcast:
  assumes "worldOk X" "serverRun X False s0 t s" "tenantsOk (svTenants s0)" "svSent s0 = []" "0 \<le> idTTL (svIdem s0)"
    and "m < n" "n < length (svSent s)"
    and "stTenant (svSent s ! m) = stTenant (svSent s ! n)" "stClientID (svSent s ! m) = stClientID (svSent s ! n)"
  shows "stAt (svSent s ! m) + idTTL (svIdem s0) \<le> stAt (svSent s ! n)"
proof -
  have "claimInv (idTTL (svIdem s0)) t s"
    by (rule claimInv_run [OF assms(2) _ assms(1,5)]) (use assms(3,4) in \<open>simp add: claimInv_def\<close>)
  then show ?thesis using assms(6-9) by (auto simp: claimInv_def)
qed

section \<open>The properties on concrete inputs\<close>

text \<open>A tenant sets a cap of 5 USDC and sends 3 USDC over the bank rail.\<close>

definition exBoot :: "nat server" where
  "exBoot = exServer\<lparr>svTransferOut := Some (NewMemoryTransferOutStore\<lparr>sPath := ''caps.json''\<rparr>)\<rparr>"

definition exWorld :: "(nat, bytes) serverWorld" where
  "exWorld = \<lparr>swCosmos = exEnv, swEvm = exEvm, swDec = docDec, swSdk = docSDK, swRate = exRate, swCrypto = exCrypto,
     swFresh = exBoot\<lparr>svTenants := NewDynamicTenantStore DefaultBearerTTL [0, 1]\<rparr>\<rparr>"

definition exCapSet :: "nat server" where
  "exCapSet = snd (toolSetTransferOutCap docDec docEth ''ibc/usdc'' writesOk ''usdc'' ''5'' exRate second exTenant exBoot)"

definition exCapSet2 :: "nat server" where
  "exCapSet2 = (snd (authorize exRate second exTenant ''set_transfer_out_cap'' exBoot))\<lparr>svTransferOut :=
     SetCap writesOk ''svp1abc'' \<lparr>scSymbol = ''usdc'', scDecimals = 6, scCapBase = Some 5000000\<rparr> (svTransferOut exBoot)\<rparr>"

lemma exWorld_ok: "worldOk exWorld" "startOk exBoot"
  using exServer_ok by (auto simp: worldOk_def exWorld_def exEnv_def exEvm_def orderOk_def startOk_def exBoot_def exServer_def
      NewDynamicTenantStore_def)

lemma exCapSet_eq: "exCapSet = exCapSet2"
proof -
  let ?a = "authorize exRate second exTenant ''set_transfer_out_cap'' exBoot"
  have v: "map_sum (\<lambda>_. ()) tpOwner (fst ?a) = Inr ''svp1abc''" "trimSpace ''5'' \<noteq> ''0''" "digits_val ''5'' = 5" "all_digits ''5''"
      "map_option (\<lambda>a. (asSymbol a, asDecimals a)) (assetForSymbol docEth ''ibc/usdc'' ''usdc'') = Some (''usdc'', 6)"
    by code_simp+
  have five: "humanToBaseUnits docDec ''5'' 6 = Inr 5000000" using humanToBaseUnits_whole [OF docDec_ok v(4), of 6] v(3) by simp
  obtain tp where a: "?a = (Inr tp, snd ?a)" "tpOwner tp = ''svp1abc''" using v(1) by (cases "fst ?a") (auto simp: prod_eq_iff)
  obtain a where "assetForSymbol docEth ''ibc/usdc'' ''usdc'' = Some a" "asSymbol a = ''usdc''" "asDecimals a = 6" using v(5) by auto
  moreover have "svTransferOut (snd ?a) = svTransferOut exBoot" by (rule authorize_store)
  ultimately show ?thesis
    using v(2) five a by (simp add: exCapSet_def exCapSet2_def toolSetTransferOutCap_def)
qed

definition exSent :: "nat server" where
  "exSent = snd (toolBroadcastSignedTx ((swCosmos exWorld)\<lparr>beBroadcastTx := beBroadcastTx exEnv\<rparr>) exSigned exRate minute exTenant exCapSet)"

lemma exCapSet_run: "serverRun exWorld b exBoot second exCapSet"
proof -
  have "serverStep exWorld b second exBoot (snd (toolSetTransferOutCap (swDec exWorld) (beEth (swCosmos exWorld)) (beUusdc (swCosmos exWorld))
      (beIo (swCosmos exWorld)) ''usdc'' ''5'' (swRate exWorld) second exTenant exBoot))"
    by (rule serverStep.setCap)
  then have "serverStep exWorld b second exBoot exCapSet" by (simp add: exCapSet_def exWorld_def exEnv_def)
  then show ?thesis using serverRun.start serverRun.step by blast
qed

lemma exSent_step: "serverStep exWorld b minute exCapSet exSent"
proof -
  have "serverStep exWorld b minute exCapSet (snd (toolBroadcastSignedTx ((swCosmos exWorld)\<lparr>beBroadcastTx := beBroadcastTx exEnv\<rparr>) exSigned
      (swRate exWorld) minute exTenant exCapSet))"
    by (rule serverStep.broadcast)
  then show ?thesis by (simp add: exSent_def exWorld_def)
qed

lemma exSent_log:
  "\<exists>e. svSent exSent = [e] \<and> svSent exCapSet = [] \<and> stAccepted e \<and> stOwner e = ''svp1abc'' \<and> stTenant e = ''auto-16'' \<and> stAt e = minute \<and>
     movedOut exWorld e ''usdc'' = 3000000 \<and> sentWithdraw (swCosmos exWorld) e = 400000000"
proof -
  have "svSent exCapSet = []" using authorize_state [of exRate second exTenant "''set_transfer_out_cap''" exBoot]
    by (auto simp: exCapSet_eq exCapSet2_def exBoot_def exServer_def)
  moreover have l: "map (\<lambda>e. (stAccepted e, stOwner e, stTenant e, stAt e, movedOut exWorld e ''usdc'', sentWithdraw (swCosmos exWorld) e)) (svSent exSent) =
      [(True, ''svp1abc'', ''auto-16'', minute, 3000000, 400000000)]"
    unfolding exSent_def exCapSet_eq by code_simp
  then obtain e where "svSent exSent = [e]" by (cases "svSent exSent") auto
  ultimately show ?thesis using l by simp
qed



text \<open>One transaction sent, its repetition refused, and sent again when the reservation has run out.\<close>

definition exPlain :: broadcastInput where
  "exPlain = \<lparr>biClientID = ''c-3'', biSignedTx = \<lparr>stTxRawBytesB64 = b64Encode [3], stSignatureB64 = [], stPubKeyB64 = []\<rparr>\<rparr>"

definition exPlainAt :: "time \<Rightarrow> nat server \<Rightarrow> nat server" where
  "exPlainAt t s = snd (toolBroadcastSignedTx ((swCosmos exWorld)\<lparr>beBroadcastTx := beBroadcastTx exEnv\<rparr>) exPlain (swRate exWorld) t exTenant s)"

definition exShort :: "nat server" where
  "exShort = exBoot\<lparr>svIdem := NewIdempotency minute\<rparr>"

theorem no_double_broadcast_witness:
  "map stClientID (svSent (exPlainAt (2 * minute) (exPlainAt (minute + second) (exPlainAt minute exShort)))) = [''c-3'', ''c-3''] \<and>
   stAt (svSent (exPlainAt (2 * minute) (exPlainAt (minute + second) (exPlainAt minute exShort))) ! 0) + minute
     \<le> stAt (svSent (exPlainAt (2 * minute) (exPlainAt (minute + second) (exPlainAt minute exShort))) ! 1)"
proof -
  let ?s = "exPlainAt (2 * minute) (exPlainAt (minute + second) (exPlainAt minute exShort))"
  have step: "serverStep exWorld False t s (exPlainAt t s)" for t s unfolding exPlainAt_def by (rule serverStep.broadcast)
  have "serverRun exWorld False exShort minute (exPlainAt minute exShort)"
    by (rule serverRun.step [OF serverRun.start order_refl step])
  then have "serverRun exWorld False exShort (minute + second) (exPlainAt (minute + second) (exPlainAt minute exShort))"
    by (rule serverRun.step [OF _ _ step]) simp
  then have run: "serverRun exWorld False exShort (2 * minute) ?s" by (rule serverRun.step [OF _ _ step]) simp
  have l: "map stClientID (svSent ?s) = [''c-3'', ''c-3'']" "map stTenant (svSent ?s) = [''auto-16'', ''auto-16'']" by code_simp+
  have len: "length (svSent ?s) = 2" using arg_cong [OF l(1), of length] by simp
  have same: "stTenant (svSent ?s ! 0) = stTenant (svSent ?s ! 1)" "stClientID (svSent ?s ! 0) = stClientID (svSent ?s ! 1)"
    using arg_cong [OF l(1), of "\<lambda>xs. xs ! 0 = xs ! 1"] arg_cong [OF l(2), of "\<lambda>xs. xs ! 0 = xs ! 1"] len by simp_all
  have ttl: "idTTL (svIdem exShort) = minute" by (simp add: exShort_def NewIdempotency_def)
  have "stAt (svSent ?s ! 0) + idTTL (svIdem exShort) \<le> stAt (svSent ?s ! 1)"
  proof (rule no_double_broadcast [OF exWorld_ok(1) run])
    show "tenantsOk (svTenants exShort)" "svSent exShort = []" using exServer_ok by (simp_all add: exShort_def exBoot_def exServer_def)
  qed (use ttl len same in simp_all)
  then show ?thesis using l(1) ttl by simp
qed

end
