(* ===== verification/Evm_Abi.thy ===== *)
theory Evm_Abi
  imports Evm_Tx
begin

text \<open>
  The contract bindings of \<open>lib/mcp/builder\<close>: \<open>erc.go\<close> (ERC-20 and ERC-721), \<open>uniswap.go\<close>, \<open>oracle.go\<close>, \<open>bridge.go\<close> and
  \<open>lendora.go\<close>. Each embedded ABI is the list of its methods, in the order of the source; every \<open>Pack\<close> and \<open>Unpack\<close>
  function is a call of the ABI package with that list. The package itself (go-ethereum's \<open>accounts/abi\<close>) is a parameter;
  what is relied on of it is the layout of calls and results with static types.
\<close>

section \<open>The ABI package\<close>

text \<open>The dash of some messages, in UTF-8.\<close>

definition emDash :: string where
  "emDash = [CHR 0xE2, CHR 0x80, CHR 0x94]"

datatype abiType = TAddress | TUint nat | TInt nat | TBool | TString | TAddresses | TUints

text \<open>The dynamic types of the Go values that are packed and unpacked.\<close>

datatype abiVal =
    GBig int
  | GU8 u8
  | GU64 u64
  | GAddr address
  | GBool bool
  | GStr string
  | GAddrs "address list"
  | GBigs "int list"

record abiMethod =
  amName :: string
  amInputs :: "abiType list"
  amOutputs :: "abiType list"

type_synonym abi = "abiMethod list"

record abiLib =
  Pack :: "abi \<Rightarrow> string \<Rightarrow> abiVal list \<Rightarrow> bytes res"
  Unpack :: "abi \<Rightarrow> string \<Rightarrow> bytes \<Rightarrow> abiVal list res"
  Selector :: "string \<Rightarrow> bytes"

text \<open>The canonical signature of a method, of which a selector is the hash.\<close>

fun typeText :: "abiType \<Rightarrow> string" where
  "typeText TAddress = ''address''"
| "typeText (TUint n) = ''uint'' @ nat_dec n"
| "typeText (TInt n) = ''int'' @ nat_dec n"
| "typeText TBool = ''bool''"
| "typeText TString = ''string''"
| "typeText TAddresses = ''address[]''"
| "typeText TUints = ''uint256[]''"

fun commaSep :: "string list \<Rightarrow> string" where
  "commaSep [] = []"
| "commaSep [t] = t"
| "commaSep (t # ts) = t @ '','' @ commaSep ts"

definition sigText :: "abiMethod \<Rightarrow> string" where
  "sigText m = amName m @ ''('' @ commaSep (map typeText (amInputs m)) @ '')''"

definition abiMethodOf :: "abi \<Rightarrow> string \<Rightarrow> abiMethod option" where
  "abiMethodOf a name = find (\<lambda>m. amName m = name) a"

text \<open>One 32-byte word, and the values of a type that fit into one.\<close>

fun abiWord :: "abiVal \<Rightarrow> bytes" where
  "abiWord (GBig n) = beBytes 32 n"
| "abiWord (GU8 n) = beBytes 32 (uint n)"
| "abiWord (GU64 n) = beBytes 32 (uint n)"
| "abiWord (GAddr a) = replicate 12 0 @ a"
| "abiWord (GBool b) = beBytes 32 (if b then 1 else 0)"
| "abiWord _ = []"

fun abiFits :: "abiType \<Rightarrow> abiVal \<Rightarrow> bool" where
  "abiFits TAddress (GAddr a) \<longleftrightarrow> length a = 20"
| "abiFits (TUint k) (GBig n) \<longleftrightarrow> k \<notin> {8, 64} \<and> 0 \<le> n \<and> n < 2 ^ k \<and> k \<le> 256"
| "abiFits (TUint k) (GU8 n) \<longleftrightarrow> k = 8"
| "abiFits (TUint k) (GU64 n) \<longleftrightarrow> k = 64"
| "abiFits TBool (GBool b) \<longleftrightarrow> True"
| "abiFits _ _ \<longleftrightarrow> False"

text \<open>What the package documents of static types: a call is the four bytes of the selector and a word for each argument, a
  result is a word for each value, and a decoded result has a value for each output.\<close>

definition abiLib_ok :: "abiLib \<Rightarrow> bool" where
  "abiLib_ok A \<longleftrightarrow>
     (\<forall>s. length (Selector A s) = 4) \<and>
     (\<forall>a name m vs. abiMethodOf a name = Some m \<and> list_all2 abiFits (amInputs m) vs \<longrightarrow>
        Pack A a name vs = Inr (Selector A (sigText m) @ concat (map abiWord vs))) \<and>
     (\<forall>a name m vs. abiMethodOf a name = Some m \<and> list_all2 abiFits (amOutputs m) vs \<and> vs \<noteq> [] \<longrightarrow>
        Unpack A a name (concat (map abiWord vs)) = Inr vs) \<and>
     (\<forall>a name m data out. abiMethodOf a name = Some m \<and> Unpack A a name data = Inr out \<longrightarrow> length out = length (amOutputs m))"

text \<open>Type assertions on a decoded value.\<close>

fun asBig :: "abiVal \<Rightarrow> int option" where
  "asBig (GBig n) = Some n"
| "asBig _ = None"

fun asU8 :: "abiVal \<Rightarrow> u8 option" where
  "asU8 (GU8 n) = Some n"
| "asU8 _ = None"

fun asAddr :: "abiVal \<Rightarrow> address option" where
  "asAddr (GAddr a) = Some a"
| "asAddr _ = None"

fun asBool :: "abiVal \<Rightarrow> bool option" where
  "asBool (GBool b) = Some b"
| "asBool _ = None"

fun asStr :: "abiVal \<Rightarrow> string option" where
  "asStr (GStr t) = Some t"
| "asStr _ = None"

fun asAddrs :: "abiVal \<Rightarrow> address list option" where
  "asAddrs (GAddrs xs) = Some xs"
| "asAddrs _ = None"

fun asBigs :: "abiVal \<Rightarrow> int list option" where
  "asBigs (GBigs xs) = Some xs"
| "asBigs _ = None"

text \<open>\<open>out[0].(T)\<close> with its two errors; a result without values would be an index out of range.\<close>

definition shapeErr :: "string \<Rightarrow> err" where
  "shapeErr name = Errorf (name @ '' returned an unexpected shape'') []"

definition unpackAll :: "abiLib \<Rightarrow> abi \<Rightarrow> string \<Rightarrow> bytes \<Rightarrow> abiVal list res" where
  "unpackAll A a name data = rwrap (''decode '' @ name @ '': %w'') [] (Unpack A a name data)"

definition unpackFirst :: "abiLib \<Rightarrow> abi \<Rightarrow> (abiVal \<Rightarrow> 'a option) \<Rightarrow> string \<Rightarrow> bytes \<Rightarrow> 'a res" where
  "unpackFirst A a as name data =
     rbind (unpackAll A a name data) (\<lambda>out.
     (case out of
        [] \<Rightarrow> Inl (Ext ''index out of range'')
      | v # _ \<Rightarrow> of_opt (shapeErr name) (as v)))"

section \<open>ERC-20 and ERC-721 (erc.go)\<close>

definition meth :: "string \<Rightarrow> abiType list \<Rightarrow> abiType list \<Rightarrow> abiMethod" where
  "meth name ins outs = \<lparr>amName = name, amInputs = ins, amOutputs = outs\<rparr>"

definition ercERC20ABI :: abi where
  "ercERC20ABI =
     [meth ''transfer'' [TAddress, TUint 256] [TBool],
      meth ''transferFrom'' [TAddress, TAddress, TUint 256] [TBool],
      meth ''approve'' [TAddress, TUint 256] [TBool],
      meth ''allowance'' [TAddress, TAddress] [TUint 256],
      meth ''decimals'' [] [TUint 8]]"

definition ercERC721ABI :: abi where
  "ercERC721ABI =
     [meth ''transferFrom'' [TAddress, TAddress, TUint 256] [],
      meth ''safeTransferFrom'' [TAddress, TAddress, TUint 256] [],
      meth ''approve'' [TAddress, TUint 256] [],
      meth ''setApprovalForAll'' [TAddress, TBool] []]"

definition PackERC20Transfer :: "abiLib \<Rightarrow> address \<Rightarrow> int \<Rightarrow> bytes res" where
  "PackERC20Transfer A to amount = Pack A ercERC20ABI ''transfer'' [GAddr to, GBig amount]"

definition PackERC20Approve :: "abiLib \<Rightarrow> address \<Rightarrow> int \<Rightarrow> bytes res" where
  "PackERC20Approve A spender amount = Pack A ercERC20ABI ''approve'' [GAddr spender, GBig amount]"

definition PackERC20TransferFrom :: "abiLib \<Rightarrow> address \<Rightarrow> address \<Rightarrow> int \<Rightarrow> bytes res" where
  "PackERC20TransferFrom A from to amount = Pack A ercERC20ABI ''transferFrom'' [GAddr from, GAddr to, GBig amount]"

definition PackERC20Allowance :: "abiLib \<Rightarrow> address \<Rightarrow> address \<Rightarrow> bytes res" where
  "PackERC20Allowance A owner spender = Pack A ercERC20ABI ''allowance'' [GAddr owner, GAddr spender]"

definition UnpackERC20Allowance :: "abiLib \<Rightarrow> bytes \<Rightarrow> int res" where
  "UnpackERC20Allowance A data = unpackFirst A ercERC20ABI asBig ''allowance'' data"

definition PackERC20Decimals :: "abiLib \<Rightarrow> bytes res" where
  "PackERC20Decimals A = Pack A ercERC20ABI ''decimals'' []"

definition UnpackERC20Decimals :: "abiLib \<Rightarrow> bytes \<Rightarrow> u8 res" where
  "UnpackERC20Decimals A data = unpackFirst A ercERC20ABI asU8 ''decimals'' data"

definition PackERC721TransferFrom :: "abiLib \<Rightarrow> address \<Rightarrow> address \<Rightarrow> int \<Rightarrow> bytes res" where
  "PackERC721TransferFrom A from to tokenID = Pack A ercERC721ABI ''transferFrom'' [GAddr from, GAddr to, GBig tokenID]"

definition PackERC721SafeTransferFrom :: "abiLib \<Rightarrow> address \<Rightarrow> address \<Rightarrow> int \<Rightarrow> bytes res" where
  "PackERC721SafeTransferFrom A from to tokenID = Pack A ercERC721ABI ''safeTransferFrom'' [GAddr from, GAddr to, GBig tokenID]"

definition PackERC721Approve :: "abiLib \<Rightarrow> address \<Rightarrow> int \<Rightarrow> bytes res" where
  "PackERC721Approve A to tokenID = Pack A ercERC721ABI ''approve'' [GAddr to, GBig tokenID]"

definition PackERC721SetApprovalForAll :: "abiLib \<Rightarrow> address \<Rightarrow> bool \<Rightarrow> bytes res" where
  "PackERC721SetApprovalForAll A operator approved = Pack A ercERC721ABI ''setApprovalForAll'' [GAddr operator, GBool approved]"

section \<open>The swap router (uniswap.go)\<close>

definition uniswapV2RouterABI :: abi where
  "uniswapV2RouterABI =
     [meth ''getAmountsOut'' [TUint 256, TAddresses] [TUints],
      meth ''swapExactTokensForTokens'' [TUint 256, TUint 256, TAddresses, TAddress, TUint 256] [TUints],
      meth ''swapExactSVPForTokens'' [TUint 256, TAddresses, TAddress, TUint 256] [TUints],
      meth ''swapExactTokensForSVP'' [TUint 256, TUint 256, TAddresses, TAddress, TUint 256] [TUints]]"

definition erc20ABI :: abi where
  "erc20ABI =
     [meth ''approve'' [TAddress, TUint 256] [TBool],
      meth ''allowance'' [TAddress, TAddress] [TUint 256],
      meth ''decimals'' [] [TUint 8],
      meth ''balanceOf'' [TAddress] [TUint 256]]"

record uniswapV2 =
  Router :: address
  WSVP :: address

definition PackGetAmountsOut :: "abiLib \<Rightarrow> int \<Rightarrow> address list \<Rightarrow> bytes res" where
  "PackGetAmountsOut A amountIn path = Pack A uniswapV2RouterABI ''getAmountsOut'' [GBig amountIn, GAddrs path]"

definition UnpackAmounts :: "abiLib \<Rightarrow> bytes \<Rightarrow> int list res" where
  "UnpackAmounts A data =
     unpackFirst A uniswapV2RouterABI (\<lambda>v. case asBigs v of Some (n # ns) \<Rightarrow> Some (n # ns) | _ \<Rightarrow> None) ''getAmountsOut'' data"

definition PackSwapExactTokensForTokens :: "abiLib \<Rightarrow> int \<Rightarrow> int \<Rightarrow> address list \<Rightarrow> address \<Rightarrow> int \<Rightarrow> bytes res" where
  "PackSwapExactTokensForTokens A amountIn amountOutMin path to deadline =
     Pack A uniswapV2RouterABI ''swapExactTokensForTokens'' [GBig amountIn, GBig amountOutMin, GAddrs path, GAddr to, GBig deadline]"

definition PackSwapExactSVPForTokens :: "abiLib \<Rightarrow> int \<Rightarrow> address list \<Rightarrow> address \<Rightarrow> int \<Rightarrow> bytes res" where
  "PackSwapExactSVPForTokens A amountOutMin path to deadline =
     Pack A uniswapV2RouterABI ''swapExactSVPForTokens'' [GBig amountOutMin, GAddrs path, GAddr to, GBig deadline]"

definition PackSwapExactTokensForSVP :: "abiLib \<Rightarrow> int \<Rightarrow> int \<Rightarrow> address list \<Rightarrow> address \<Rightarrow> int \<Rightarrow> bytes res" where
  "PackSwapExactTokensForSVP A amountIn amountOutMin path to deadline =
     Pack A uniswapV2RouterABI ''swapExactTokensForSVP'' [GBig amountIn, GBig amountOutMin, GAddrs path, GAddr to, GBig deadline]"

definition PackApprove :: "abiLib \<Rightarrow> address \<Rightarrow> int \<Rightarrow> bytes res" where
  "PackApprove A spender amount = Pack A erc20ABI ''approve'' [GAddr spender, GBig amount]"

definition PackAllowance :: "abiLib \<Rightarrow> address \<Rightarrow> address \<Rightarrow> bytes res" where
  "PackAllowance A owner spender = Pack A erc20ABI ''allowance'' [GAddr owner, GAddr spender]"

definition UnpackAllowance :: "abiLib \<Rightarrow> bytes \<Rightarrow> int res" where
  "UnpackAllowance A data = unpackFirst A erc20ABI asBig ''allowance'' data"

definition PackBalanceOf :: "abiLib \<Rightarrow> address \<Rightarrow> bytes res" where
  "PackBalanceOf A account = Pack A erc20ABI ''balanceOf'' [GAddr account]"

definition UnpackBalanceOf :: "abiLib \<Rightarrow> bytes \<Rightarrow> int res" where
  "UnpackBalanceOf A data = unpackFirst A erc20ABI asBig ''balanceOf'' data"

definition PackDecimals :: "abiLib \<Rightarrow> bytes res" where
  "PackDecimals A = Pack A erc20ABI ''decimals'' []"

definition UnpackDecimals :: "abiLib \<Rightarrow> bytes \<Rightarrow> u8 res" where
  "UnpackDecimals A data = unpackFirst A erc20ABI asU8 ''decimals'' data"

section \<open>The price feed (oracle.go)\<close>

definition oracleFeedABI :: abi where
  "oracleFeedABI =
     [meth ''decimals'' [] [TUint 8],
      meth ''description'' [] [TString],
      meth ''latestRoundData'' [] [TUint 80, TInt 256, TUint 256, TUint 256, TUint 80]]"

record oracleRoundData =
  orRoundID :: int
  orAnswer :: int
  orUpdatedAt :: int

definition oraclePackDecimals :: "abiLib \<Rightarrow> bytes res" where
  "oraclePackDecimals A = Pack A oracleFeedABI ''decimals'' []"

definition oracleUnpackDecimals :: "abiLib \<Rightarrow> bytes \<Rightarrow> u8 res" where
  "oracleUnpackDecimals A data = unpackFirst A oracleFeedABI asU8 ''decimals'' data"

definition PackDescription :: "abiLib \<Rightarrow> bytes res" where
  "PackDescription A = Pack A oracleFeedABI ''description'' []"

definition UnpackDescription :: "abiLib \<Rightarrow> bytes \<Rightarrow> string res" where
  "UnpackDescription A data = rbind (unpackFirst A oracleFeedABI asStr ''description'' data) (\<lambda>v. Inr (trimSpace v))"

definition PackLatestRoundData :: "abiLib \<Rightarrow> bytes res" where
  "PackLatestRoundData A = Pack A oracleFeedABI ''latestRoundData'' []"

definition UnpackLatestRoundData :: "abiLib \<Rightarrow> bytes \<Rightarrow> oracleRoundData res" where
  "UnpackLatestRoundData A data =
     rbind (unpackAll A oracleFeedABI ''latestRoundData'' data) (\<lambda>out.
     (case out of
        [v0, v1, v2, v3, v4] \<Rightarrow>
          (case (asBig v0, asBig v1, asBig v3) of
             (Some roundID, Some answer, Some updatedAt) \<Rightarrow>
               Inr \<lparr>orRoundID = roundID, orAnswer = answer, orUpdatedAt = updatedAt\<rparr>
           | _ \<Rightarrow> Inl (shapeErr ''latestRoundData''))
      | _ \<Rightarrow> Inl (Errorf ''latestRoundData returned %d values, want 5'' [AInt (int (length out))])))"

section \<open>The bridge (bridge.go)\<close>

definition svpBridgeABI :: abi where
  "svpBridgeABI =
     [meth ''deposit'' [TAddress, TUint 256, TUint 64, TAddress, TAddress] [],
      meth ''depositNative'' [TUint 64, TAddress, TAddress] []]"

definition PackDeposit :: "abiLib \<Rightarrow> address \<Rightarrow> int \<Rightarrow> u64 \<Rightarrow> address \<Rightarrow> address \<Rightarrow> bytes res" where
  "PackDeposit A token amount targetChainID targetToken destination =
     Pack A svpBridgeABI ''deposit'' [GAddr token, GBig amount, GU64 targetChainID, GAddr targetToken, GAddr destination]"

definition PackDepositNative :: "abiLib \<Rightarrow> u64 \<Rightarrow> address \<Rightarrow> address \<Rightarrow> bytes res" where
  "PackDepositNative A targetChainID targetToken destination =
     Pack A svpBridgeABI ''depositNative'' [GU64 targetChainID, GAddr targetToken, GAddr destination]"

section \<open>An instance for the examples\<close>

text \<open>A package that lays arrays and texts out in place, with their length first; static types are laid out as documented.\<close>

fun docEncode :: "abiVal \<Rightarrow> bytes" where
  "docEncode (GStr t) = beBytes 32 (int (length t)) @ bytesOf t"
| "docEncode (GAddrs xs) = beBytes 32 (int (length xs)) @ concat (map (\<lambda>a. replicate 12 0 @ a) xs)"
| "docEncode (GBigs xs) = beBytes 32 (int (length xs)) @ concat (map (beBytes 32) xs)"
| "docEncode v = abiWord v"

fun docWords :: "nat \<Rightarrow> bytes \<Rightarrow> bytes list" where
  "docWords 0 bs = []"
| "docWords (Suc n) bs = take 32 bs # docWords n (drop 32 bs)"

fun docValue :: "abiType \<Rightarrow> bytes \<Rightarrow> abiVal \<times> bytes" where
  "docValue TAddress bs = (GAddr (drop 12 (take 32 bs)), drop 32 bs)"
| "docValue (TUint k) bs =
     (let n = bigEndian (take 32 bs) in
      (if k = 8 then GU8 (word_of_int n) else if k = 64 then GU64 (word_of_int n) else GBig n, drop 32 bs))"
| "docValue (TInt k) bs =
     (let n = bigEndian (take 32 bs) in (GBig (if n < 2 ^ 255 then n else n - 2 ^ 256), drop 32 bs))"
| "docValue TBool bs = (GBool (bigEndian (take 32 bs) \<noteq> 0), drop 32 bs)"
| "docValue TString bs =
     (let n = nat (bigEndian (take 32 bs)) in (GStr (stringOf (take n (drop 32 bs))), drop (32 + n) bs))"
| "docValue TAddresses bs =
     (let n = nat (bigEndian (take 32 bs)) in (GAddrs (map (drop 12) (docWords n (drop 32 bs))), drop (32 + 32 * n) bs))"
| "docValue TUints bs =
     (let n = nat (bigEndian (take 32 bs)) in (GBigs (map bigEndian (docWords n (drop 32 bs))), drop (32 + 32 * n) bs))"

fun docDecode :: "abiType list \<Rightarrow> bytes \<Rightarrow> abiVal list" where
  "docDecode [] bs = []"
| "docDecode (t # ts) bs = (let (v, rest) = docValue t bs in v # docDecode ts rest)"

definition docSelector :: "string \<Rightarrow> bytes" where
  "docSelector t =
     (if t = ''transfer(address,uint256)'' then [0xa9, 0x05, 0x9c, 0xbb]
      else if t = ''transferFrom(address,address,uint256)'' then [0x23, 0xb8, 0x72, 0xdd] else [0, 0, 0, 0])"

definition docAbi :: abiLib where
  "docAbi = \<lparr>
     Pack = (\<lambda>a name vs. case abiMethodOf a name of
       None \<Rightarrow> Inl (Ext ''method not found'') | Some m \<Rightarrow> Inr (docSelector (sigText m) @ concat (map docEncode vs))),
     Unpack = (\<lambda>a name bs. case abiMethodOf a name of
       None \<Rightarrow> Inl (Ext ''method not found'')
     | Some m \<Rightarrow> if length bs < 32 then Inl (Ext ''unmarshal an empty string'') else Inr (docDecode (amOutputs m) bs)),
     Selector = docSelector\<rparr>"

section \<open>Lemmas\<close>

lemma docEncode_static: "abiFits t v \<Longrightarrow> docEncode v = abiWord v"
  by (cases "(t, v)" rule: abiFits.cases) simp_all

lemma length_abiWord: "abiFits t v \<Longrightarrow> length (abiWord v) = 32"
  by (cases "(t, v)" rule: abiFits.cases) simp_all

lemma bigEndian_word: "0 \<le> n \<Longrightarrow> n < 2 ^ 256 \<Longrightarrow> bigEndian (beBytes 32 n) = n"
  using bigEndian_beBytes [of n 32] by simp

lemma docValue_abiWord: "abiFits t v \<Longrightarrow> docValue t (abiWord v @ bs) = (v, bs)"
proof (cases "(t, v)" rule: abiFits.cases)
  case (2 k n)
  assume "abiFits t v"
  moreover have "(2 :: int) ^ k \<le> 2 ^ 256" if "k \<le> 256" by (rule power_increasing [OF that]) simp
  ultimately show ?thesis using 2 by (auto simp: bigEndian_word Let_def)
next
  case (3 k n)
  assume "abiFits t v"
  moreover have "uint n < 2 ^ 256" using uint_lt2p [of n] by (simp add: order_less_trans)
  ultimately show ?thesis using 3 by (simp add: bigEndian_word Let_def)
next
  case (4 k n)
  assume "abiFits t v"
  moreover have "uint n < 2 ^ 256" using uint_lt2p [of n] by (simp add: order_less_trans)
  ultimately show ?thesis using 4 by (simp add: bigEndian_word Let_def)
qed (auto simp: bigEndian_word)

lemma docDecode_words: "list_all2 abiFits ts vs \<Longrightarrow> docDecode ts (concat (map abiWord vs)) = vs"
  by (induction rule: list_all2_induct) (simp_all add: docValue_abiWord)

lemma length_docDecode [simp]: "length (docDecode ts bs) = length ts"
  by (induction ts arbitrary: bs) (simp_all add: case_prod_beta)

lemma docAbi_ok: "abiLib_ok docAbi"
proof -
  have enc: "map docEncode vs = map abiWord vs" if "list_all2 abiFits ts vs" for ts vs
    using that by (induction rule: list_all2_induct) (simp_all add: docEncode_static)
  have len: "32 \<le> length (concat (map abiWord vs))" if "list_all2 abiFits ts vs" "vs \<noteq> []" for ts vs
    using that by (cases vs) (auto simp: list_all2_Cons2 length_abiWord)
  show ?thesis
    unfolding abiLib_ok_def
  proof (intro conjI allI impI)
    show "length (Selector docAbi t) = 4" for t by (simp add: docAbi_def docSelector_def)
  next
    fix a name m vs assume "abiMethodOf a name = Some m \<and> list_all2 abiFits (amInputs m) vs"
    then show "Pack docAbi a name vs = Inr (Selector docAbi (sigText m) @ concat (map abiWord vs))"
      using enc [of "amInputs m" vs] by (simp add: docAbi_def cong: map_cong del: map_eq_conv)
  next
    fix a name m vs assume "abiMethodOf a name = Some m \<and> list_all2 abiFits (amOutputs m) vs \<and> vs \<noteq> []"
    then show "Unpack docAbi a name (concat (map abiWord vs)) = Inr vs"
      using len [of "amOutputs m" vs] by (auto simp: docAbi_def docDecode_words not_less)
  next
    fix a name m data out assume "abiMethodOf a name = Some m \<and> Unpack docAbi a name data = Inr out"
    then show "length out = length (amOutputs m)" by (auto simp: docAbi_def split: if_splits)
  qed
qed

text \<open>A transfer call is the selector, the recipient and the amount.\<close>

lemma PackERC20Transfer_layout:
  assumes "abiLib_ok A" "length to = 20" "0 \<le> amount" "amount < 2 ^ 256"
  shows "PackERC20Transfer A to amount =
    Inr (Selector A ''transfer(address,uint256)'' @ (replicate 12 0 @ to) @ beBytes 32 amount)"
proof -
  have "abiMethodOf ercERC20ABI ''transfer'' = Some (meth ''transfer'' [TAddress, TUint 256] [TBool])"
    by (simp add: abiMethodOf_def ercERC20ABI_def meth_def)
  moreover have "sigText (meth ''transfer'' [TAddress, TUint 256] [TBool]) = ''transfer(address,uint256)''" by code_simp
  ultimately show ?thesis
    using assms(1) [unfolded abiLib_ok_def, THEN conjunct2, THEN conjunct1, rule_format,
        of ercERC20ABI "''transfer''" "meth ''transfer'' [TAddress, TUint 256] [TBool]" "[GAddr to, GBig amount]"] assms(2-4)
    by (simp add: PackERC20Transfer_def meth_def)
qed

end
