(* ===== verification/Bridge_Registry.thy ===== *)
theory Bridge_Registry
  imports Evm_Abi
begin

text \<open>
  The route registry of \<open>lib/mcp/bridge/registry.go\<close>: loading and checking the operator's route file, and resolving chains
  and tokens. Reading the file and decoding its JSON give the raw routes, which are an argument. The main results: the
  checks of the loader make every later lookup unambiguous, and each route of a loaded registry is found again by the
  number of its chain, the address of its token and its symbol.
\<close>

section \<open>Routes\<close>

record route =
  rtSrcChainID :: u64
  rtTargetChainID :: u64
  rtTargetChain :: string
  rtSrcToken :: address
  rtTargetToken :: address
  rtSymbol :: string
  rtDecimals :: int

definition nilAddress :: address where
  "nilAddress = replicate 20 0"

definition NativeSource :: "route \<Rightarrow> bool" where
  "NativeSource r \<longleftrightarrow> rtSrcToken r = nilAddress"

record chainRef =
  crName :: string
  crID :: u64

record registry =
  rgRoutes :: "route list"
  rgIdToName :: "u64 \<rightharpoonup> string"
  rgNameToID :: "string \<rightharpoonup> u64"

record rawRoute =
  rwSrcChain :: string
  rwSrcChainID :: u64
  rwTargetChain :: string
  rwTargetChainID :: u64
  rwSrcToken :: string
  rwTargetToken :: string
  rwSymbol :: string
  rwDecimals :: int

section \<open>Loading\<close>

definition learnChain :: "string \<Rightarrow> u64 \<Rightarrow> registry \<Rightarrow> registry" where
  "learnChain name i r =
     (if name = [] then r
      else
        (let r = (if rgIdToName r i = None then r\<lparr>rgIdToName := (rgIdToName r)(i \<mapsto> name)\<rparr> else r) in
         r\<lparr>rgNameToID := (rgNameToID r)(toLower name \<mapsto> i)\<rparr>))"

definition routeKey :: "u64 \<Rightarrow> u64 \<Rightarrow> string \<Rightarrow> string" where
  "routeKey src target lst = formatUint src @ ''|'' @ formatUint target @ ''|'' @ toLower lst"

text \<open>One raw route: the checks of its fields.\<close>

definition parseRoute :: "ethLib \<Rightarrow> nat \<Rightarrow> rawRoute \<Rightarrow> route res" where
  "parseRoute E i r =
     rbind (require (rwSrcChainID r \<noteq> 0 \<and> rwTargetChainID r \<noteq> 0)
       (Errorf ''route[%d] (%s->%s) has a zero chain id'' [AInt (int i), AStr (rwSrcChain r), AStr (rwTargetChain r)])) (\<lambda>_.
     rbind (require (IsHexAddress E (rwSrcToken r))
       (Errorf ''route[%d] srcToken %q is not a 0x address'' [AInt (int i), AStr (rwSrcToken r)])) (\<lambda>_.
     rbind (require (IsHexAddress E (rwTargetToken r))
       (Errorf ''route[%d] targetToken %q is not a 0x address'' [AInt (int i), AStr (rwTargetToken r)])) (\<lambda>_.
     rbind (require (trimSpace (rwSymbol r) \<noteq> [])
       (Errorf ''route[%d] (%s->%s) has an empty symbol'' [AInt (int i), AStr (rwSrcChain r), AStr (rwTargetChain r)])) (\<lambda>_.
     rbind (require (0 \<le> rwDecimals r \<and> rwDecimals r \<le> 77)
       (Errorf ''route[%d] (%s) decimals %d out of range'' [AInt (int i), AStr (rwSymbol r), AInt (rwDecimals r)])) (\<lambda>_.
     Inr \<lparr>rtSrcChainID = rwSrcChainID r, rtTargetChainID = rwTargetChainID r, rtTargetChain = rwTargetChain r,
          rtSrcToken = HexToAddress E (rwSrcToken r), rtTargetToken = HexToAddress E (rwTargetToken r),
          rtSymbol = rwSymbol r, rtDecimals = rwDecimals r\<rparr>)))))"

definition tokenKey :: "ethLib \<Rightarrow> route \<Rightarrow> string" where
  "tokenKey E rt = routeKey (rtSrcChainID rt) (rtTargetChainID rt) (AddressHex E (rtSrcToken rt))"

definition symKey :: "route \<Rightarrow> string" where
  "symKey rt = routeKey (rtSrcChainID rt) (rtTargetChainID rt) (toLower (rtSymbol rt))"

text \<open>The loop, from index \<open>i\<close> on, with the keys seen so far.\<close>

fun addRoutes :: "ethLib \<Rightarrow> nat \<Rightarrow> rawRoute list \<Rightarrow> string list \<Rightarrow> string list \<Rightarrow> registry \<Rightarrow> registry res" where
  "addRoutes E i [] seenToken seenSymbol reg = Inr reg"
| "addRoutes E i (r # rs) seenToken seenSymbol reg =
     rbind (parseRoute E i r) (\<lambda>rt.
     rbind (require (tokenKey E rt \<notin> set seenToken)
       (Errorf ''duplicate route for src %d -> target %d token %s''
          [AInt (uint (rtSrcChainID rt)), AInt (uint (rtTargetChainID rt)), AStr (AddressHex E (rtSrcToken rt))])) (\<lambda>_.
     rbind (require (symKey rt \<notin> set seenSymbol)
       (Errorf ''duplicate route for src %d -> target %d symbol %s''
          [AInt (uint (rtSrcChainID rt)), AInt (uint (rtTargetChainID rt)), AStr (rtSymbol rt)])) (\<lambda>_.
     addRoutes E (Suc i) rs (tokenKey E rt # seenToken) (symKey rt # seenSymbol)
       (learnChain (rwTargetChain r) (rwTargetChainID r)
          (learnChain (rwSrcChain r) (rwSrcChainID r) (reg\<lparr>rgRoutes := rgRoutes reg @ [rt]\<rparr>))))))"

definition newRegistry :: "ethLib \<Rightarrow> rawRoute list \<Rightarrow> registry res" where
  "newRegistry E raws = addRoutes E 0 raws [] [] \<lparr>rgRoutes = [], rgIdToName = Map.empty, rgNameToID = Map.empty\<rparr>"

text \<open>What the file system answers, and what decoding the JSON gives.\<close>

definition LoadRegistry :: "ethLib \<Rightarrow> (string \<Rightarrow> bytes res) \<Rightarrow> (bytes \<Rightarrow> rawRoute list res) \<Rightarrow> string \<Rightarrow> registry res" where
  "LoadRegistry E ReadFile Unmarshal path =
     rbind (rwrap ''read bridge routes %s: %w'' [AStr path] (ReadFile path)) (\<lambda>b.
     rbind (rwrap ''parse bridge routes %s: %w'' [AStr path] (Unmarshal b)) (\<lambda>raws.
     rbind (require (raws \<noteq> []) (Errorf ''bridge routes %s is empty'' [AStr path])) (\<lambda>_.
     newRegistry E raws)))"

section \<open>Chains and hints\<close>

definition routesFor :: "registry \<Rightarrow> u64 \<Rightarrow> u64 \<Rightarrow> route list" where
  "routesFor r src target = filter (\<lambda>rt. rtSrcChainID rt = src \<and> rtTargetChainID rt = target) (rgRoutes r)"

definition nameOf :: "registry \<Rightarrow> u64 \<Rightarrow> string" where
  "nameOf r i = (case rgIdToName r i of None \<Rightarrow> [] | Some n \<Rightarrow> n)"

fun distinctChains :: "registry \<Rightarrow> u64 list \<Rightarrow> u64 list \<Rightarrow> chainRef list" where
  "distinctChains r seen [] = []"
| "distinctChains r seen (i # is) =
     (if i \<in> set seen then distinctChains r seen is
      else \<lparr>crName = nameOf r i, crID = i\<rparr> # distinctChains r (i # seen) is)"

definition AvailableTargets :: "registry \<Rightarrow> u64 \<Rightarrow> chainRef list" where
  "AvailableTargets r srcChainID =
     sort_key crID (distinctChains r [] (map rtTargetChainID (filter (\<lambda>rt. rtSrcChainID rt = srcChainID) (rgRoutes r))))"

definition AvailableSources :: "registry \<Rightarrow> u64 \<Rightarrow> chainRef list" where
  "AvailableSources r targetChainID =
     sort_key crID (distinctChains r [] (map rtSrcChainID (filter (\<lambda>rt. rtTargetChainID rt = targetChainID) (rgRoutes r))))"

definition HasSource :: "registry \<Rightarrow> u64 \<Rightarrow> bool" where
  "HasSource r srcChainID \<longleftrightarrow> list_ex (\<lambda>rt. rtSrcChainID rt = srcChainID) (rgRoutes r)"

definition HasTarget :: "registry \<Rightarrow> u64 \<Rightarrow> bool" where
  "HasTarget r targetChainID \<longleftrightarrow> list_ex (\<lambda>rt. rtTargetChainID rt = targetChainID) (rgRoutes r)"

fun joinComma :: "string list \<Rightarrow> string" where
  "joinComma [] = []"
| "joinComma [t] = t"
| "joinComma (t # ts) = t @ '', '' @ joinComma ts"

definition chainHint :: "chainRef list \<Rightarrow> string" where
  "chainHint cs =
     (if cs = [] then ''(none configured)''
      else joinComma (map (\<lambda>c. crName c @ '' ('' @ formatUint (crID c) @ '')'') cs))"

text \<open>\<open>sort.Strings\<close>: by bytes.\<close>

fun stringLe :: "string \<Rightarrow> string \<Rightarrow> bool" where
  "stringLe [] t = True"
| "stringLe (c # s) [] = False"
| "stringLe (c # s) (d # t) = ((of_char c :: nat) < of_char d \<or> c = d \<and> stringLe s t)"

fun insertString :: "string \<Rightarrow> string list \<Rightarrow> string list" where
  "insertString t [] = [t]"
| "insertString t (u # us) = (if stringLe t u then t # u # us else u # insertString t us)"

definition tokenHint :: "route list \<Rightarrow> string" where
  "tokenHint routes = joinComma (foldr insertString (map rtSymbol routes) [])"

section \<open>Resolving\<close>

definition resolveChain :: "registry \<Rightarrow> string \<Rightarrow> u64 \<Rightarrow> bool \<Rightarrow> u64 res" where
  "resolveChain r query fixedID fixedIsTarget =
     (let noun = (if fixedIsTarget then ''source'' else ''destination'');
          hint = chainHint (if fixedIsTarget then AvailableSources r fixedID else AvailableTargets r fixedID);
          q = trimSpace query in
      rbind (require (q \<noteq> []) (Errorf ''%s chain is required (e.g. %s)'' [AStr noun, AStr hint])) (\<lambda>_.
      rbind (case parseUint q of
               Inr n \<Rightarrow> Inr n
             | Inl _ \<Rightarrow> of_opt (Errorf ''unknown %s chain %q; available: %s'' [AStr noun, AStr query, AStr hint])
                          (rgNameToID r (toLower q))) (\<lambda>i.
      rbind (require (i \<noteq> fixedID) (Errorf (''%s chain %q is the same as the %s chain '' @ emDash @ '' nothing to bridge'')
               [AStr noun, AStr query, AStr (if fixedIsTarget then ''target'' else ''source'')])) (\<lambda>_.
      rbind (require (routesFor r (if fixedIsTarget then i else fixedID) (if fixedIsTarget then fixedID else i) \<noteq> [])
               (Errorf ''no bridge route %s chain %q; available %ss: %s''
                  [AStr (if fixedIsTarget then ''from'' else ''to''), AStr query, AStr noun, AStr hint])) (\<lambda>_.
      Inr i)))))"

definition ResolveDestChain :: "registry \<Rightarrow> string \<Rightarrow> u64 \<Rightarrow> u64 res" where
  "ResolveDestChain r query srcChainID = resolveChain r query srcChainID False"

definition ResolveSourceChain :: "registry \<Rightarrow> string \<Rightarrow> u64 \<Rightarrow> u64 res" where
  "ResolveSourceChain r query targetChainID = resolveChain r query targetChainID True"

definition Lookup :: "ethLib \<Rightarrow> registry \<Rightarrow> u64 \<Rightarrow> u64 \<Rightarrow> string \<Rightarrow> route res" where
  "Lookup E r srcChainID targetChainID tokenQuery =
     (let q = trimSpace tokenQuery; routes = routesFor r srcChainID targetChainID in
      rbind (require (routes \<noteq> []) (Errorf ''no bridge routes from chain %d to chain %d''
               [AInt (uint srcChainID), AInt (uint targetChainID)])) (\<lambda>_.
      if toLower q = [] \<or> toLower q = ''native''
      then of_opt (Errorf ''native coin is not bridgeable to chain %d; bridgeable tokens: %s''
                     [AInt (uint targetChainID), AStr (tokenHint routes)])
             (find NativeSource routes)
      else if IsHexAddress E q
      then (let addr = HexToAddress E q in
            of_opt (Errorf ''token %s is not bridgeable to chain %d; bridgeable tokens: %s''
                      [AStr (AddressHex E addr), AInt (uint targetChainID), AStr (tokenHint routes)])
              (find (\<lambda>rt. rtSrcToken rt = addr) routes))
      else of_opt (Errorf ''token %q is not bridgeable to chain %d; bridgeable tokens: %s''
                     [AStr tokenQuery, AInt (uint targetChainID), AStr (tokenHint routes)])
             (find (\<lambda>rt. equalFold (rtSymbol rt) q) routes)))"

section \<open>Lemmas\<close>

lemma routeKey_inj: "routeKey a b x = routeKey a' b' x' \<longleftrightarrow> a = a' \<and> b = b' \<and> toLower x = toLower x'"
proof
  have d: "CHR ''|'' \<notin> set (formatUint n)" for n using all_digits_formatUint(1) [of n] by (auto simp: all_digits_iff is_digit_def)
  assume "routeKey a b x = routeKey a' b' x'"
  then have "cut CHR ''|'' (formatUint a @ CHR ''|'' # formatUint b @ CHR ''|'' # toLower x) =
      cut CHR ''|'' (formatUint a' @ CHR ''|'' # formatUint b' @ CHR ''|'' # toLower x')"
    by (simp add: routeKey_def)
  then have 1: "a = a'" and 2: "formatUint b @ CHR ''|'' # toLower x = formatUint b' @ CHR ''|'' # toLower x'"
    using d by (simp_all add: inj_formatUint)
  have "Some (formatUint b, toLower x) = Some (formatUint b', toLower x')"
    using arg_cong [OF 2, of "cut CHR ''|''"] d by simp
  with 1 show "a = a' \<and> b = b' \<and> toLower x = toLower x'" by (simp add: inj_formatUint)
qed (simp add: routeKey_def)

lemma learnChain_routes [simp]: "rgRoutes (learnChain name i r) = rgRoutes r"
  by (simp add: learnChain_def Let_def)

text \<open>A well-formed registry: every route has chains, token addresses, a symbol and decimals in range, and the routes of one
  leg differ in their tokens and in their symbols.\<close>

definition routeOk :: "route \<Rightarrow> bool" where
  "routeOk rt \<longleftrightarrow> rtSrcChainID rt \<noteq> 0 \<and> rtTargetChainID rt \<noteq> 0 \<and> length (rtSrcToken rt) = 20 \<and> length (rtTargetToken rt) = 20 \<and>
     trimSpace (rtSymbol rt) \<noteq> [] \<and> 0 \<le> rtDecimals rt \<and> rtDecimals rt \<le> 77"

definition registryOk :: "registry \<Rightarrow> bool" where
  "registryOk r \<longleftrightarrow> list_all routeOk (rgRoutes r) \<and>
     distinct (map (\<lambda>rt. (rtSrcChainID rt, rtTargetChainID rt, rtSrcToken rt)) (rgRoutes r)) \<and>
     distinct (map (\<lambda>rt. (rtSrcChainID rt, rtTargetChainID rt, toLower (rtSymbol rt))) (rgRoutes r))"

lemma parseRoute_ok:
  assumes "ethLib_ok E" "parseRoute E i r = Inr rt"
  shows "routeOk rt"
  using assms by (auto simp: parseRoute_def routeOk_def ethLib_ok_def)

lemma addRoutes_ok:
  assumes "ethLib_ok E" "addRoutes E i rs st ss reg = Inr reg'" "registryOk reg"
    and "tokenKey E ` set (rgRoutes reg) \<subseteq> set st" "symKey ` set (rgRoutes reg) \<subseteq> set ss"
  shows "registryOk reg'"
  using assms(2-5)
proof (induction rs arbitrary: i st ss reg)
  case (Cons r rs)
  then obtain rt where rt: "parseRoute E i r = Inr rt" "tokenKey E rt \<notin> set st" "symKey rt \<notin> set ss"
    and rest: "addRoutes E (Suc i) rs (tokenKey E rt # st) (symKey rt # ss)
       (learnChain (rwTargetChain r) (rwTargetChainID r)
          (learnChain (rwSrcChain r) (rwSrcChainID r) (reg\<lparr>rgRoutes := rgRoutes reg @ [rt]\<rparr>))) = Inr reg'"
    by auto
  have "(rtSrcChainID rt, rtTargetChainID rt, rtSrcToken rt) \<noteq> (rtSrcChainID x, rtTargetChainID x, rtSrcToken x)"
      "(rtSrcChainID rt, rtTargetChainID rt, toLower (rtSymbol rt)) \<noteq> (rtSrcChainID x, rtTargetChainID x, toLower (rtSymbol x))"
    if "x \<in> set (rgRoutes reg)" for x
  proof -
    have "tokenKey E x \<in> set st" "symKey x \<in> set ss" using Cons.prems(3,4) that by auto
    then have "tokenKey E x \<noteq> tokenKey E rt" "symKey x \<noteq> symKey rt" using rt(2,3) by auto
    then show "(rtSrcChainID rt, rtTargetChainID rt, rtSrcToken rt) \<noteq> (rtSrcChainID x, rtTargetChainID x, rtSrcToken x)"
      "(rtSrcChainID rt, rtTargetChainID rt, toLower (rtSymbol rt)) \<noteq> (rtSrcChainID x, rtTargetChainID x, toLower (rtSymbol x))"
      by (auto simp: tokenKey_def symKey_def routeKey_inj)
  qed
  then have "registryOk (reg\<lparr>rgRoutes := rgRoutes reg @ [rt]\<rparr>)"
    using Cons.prems(2) parseRoute_ok [OF assms(1) rt(1)] by (auto simp: registryOk_def)
  then show ?case
    using Cons.IH [OF rest] Cons.prems(3,4) by (auto simp: registryOk_def)
qed simp

lemma newRegistry_ok: "ethLib_ok E \<Longrightarrow> newRegistry E raws = Inr r \<Longrightarrow> registryOk r"
  unfolding newRegistry_def by (erule (1) addRoutes_ok) (simp_all add: registryOk_def)

text \<open>In a well-formed registry the first match is the only one.\<close>

lemma find_unique:
  assumes "x \<in> set xs" "P x" "\<And>y. y \<in> set xs \<Longrightarrow> P y \<Longrightarrow> y = x"
  shows "find P xs = Some x"
proof (cases "find P xs")
  case None
  then show ?thesis using assms(1,2) by (auto simp: find_None_iff)
next
  case (Some y)
  then have "P y" "y \<in> set xs" by (auto simp: find_Some_iff)
  then show ?thesis using Some assms(3) by simp
qed

lemma routesFor_mem: "rt \<in> set (routesFor r src target) \<longleftrightarrow> rt \<in> set (rgRoutes r) \<and> rtSrcChainID rt = src \<and> rtTargetChainID rt = target"
  by (auto simp: routesFor_def)

lemma registryOk_token:
  assumes "registryOk r" "rt \<in> set (rgRoutes r)"
  shows "find (\<lambda>x. rtSrcToken x = rtSrcToken rt) (routesFor r (rtSrcChainID rt) (rtTargetChainID rt)) = Some rt"
  using assms by (intro find_unique) (auto simp: registryOk_def routesFor_mem distinct_map dest: inj_onD)

lemma registryOk_symbol:
  assumes "registryOk r" "rt \<in> set (rgRoutes r)"
  shows "find (\<lambda>x. equalFold (rtSymbol x) (rtSymbol rt)) (routesFor r (rtSrcChainID rt) (rtTargetChainID rt)) = Some rt"
  using assms by (intro find_unique) (auto simp: registryOk_def routesFor_mem equalFold_def distinct_map dest: inj_onD)

lemma resolveChain_formatUint:
  assumes "i \<noteq> fixedID" "routesFor r (if b then i else fixedID) (if b then fixedID else i) \<noteq> []"
  shows "resolveChain r (formatUint i) fixedID b = Inr i"
proof -
  have "printable (hd (formatUint i))" "printable (last (formatUint i))"
    using all_digits_formatUint [of i] by (auto simp: all_digits_iff is_digit_printable)
  then have "trimSpace (formatUint i) = formatUint i" by (intro trimSpace_id) simp_all
  then show ?thesis using assms by (simp add: resolveChain_def Let_def)
qed

lemma resolveChain_Inr:
  "resolveChain r q fixedID b = Inr i \<Longrightarrow> i \<noteq> fixedID \<and> routesFor r (if b then i else fixedID) (if b then fixedID else i) \<noteq> []"
  by (auto simp: resolveChain_def Let_def)

lemma AddressHex_trim:
  assumes "ethLib_ok E" "length a = 20"
  shows "trimSpace (AddressHex E a) = AddressHex E a" "toLower (AddressHex E a) \<noteq> []" "toLower (AddressHex E a) \<noteq> ''native''"
proof -
  obtain t where t: "AddressHex E a = ''0x'' @ t" using assms by (auto simp: ethLib_ok_def hasPrefix_iff)
  then show "toLower (AddressHex E a) \<noteq> []" "toLower (AddressHex E a) \<noteq> ''native''"
    by (simp_all add: lower_char_def)
  have "list_all printable (AddressHex E a)" using assms by (simp add: ethLib_ok_def)
  moreover have "AddressHex E a \<noteq> []" using t by simp
  ultimately show "trimSpace (AddressHex E a) = AddressHex E a" by (intro trimSpace_id) (auto simp: list_all_iff)
qed

lemma Lookup_Inr: "Lookup E r src target q = Inr rt \<Longrightarrow> rt \<in> set (rgRoutes r) \<and> rtSrcChainID rt = src \<and> rtTargetChainID rt = target"
  by (auto simp: Lookup_def Let_def find_Some_iff routesFor_mem dest!: nth_mem split: if_splits)

section \<open>Properties\<close>

text \<open>C30: a loaded route is found again, and by nothing else. The number of its target chain resolves to it from its source
  chain, and the number of its source chain from its target; on that leg the address of its token gives exactly that
  route, an empty token or \<open>native\<close> does when its token is the native coin, and its symbol, in any case, does when it is
  a trimmed text that is neither \<open>native\<close> nor an address.\<close>

theorem routes_are_found_again:
  assumes "ethLib_ok E" "newRegistry E raws = Inr r" "rt \<in> set (rgRoutes r)"
  shows "(rtSrcChainID rt \<noteq> rtTargetChainID rt \<longrightarrow>
      ResolveDestChain r (formatUint (rtTargetChainID rt)) (rtSrcChainID rt) = Inr (rtTargetChainID rt) \<and>
      ResolveSourceChain r (formatUint (rtSrcChainID rt)) (rtTargetChainID rt) = Inr (rtSrcChainID rt)) \<and>
    Lookup E r (rtSrcChainID rt) (rtTargetChainID rt) (AddressHex E (rtSrcToken rt)) = Inr rt \<and>
    (rtSrcToken rt = nilAddress \<longrightarrow> Lookup E r (rtSrcChainID rt) (rtTargetChainID rt) [] = Inr rt) \<and>
    (\<forall>q. toLower q = toLower (rtSymbol rt) \<and> trimSpace q = q \<and> toLower q \<noteq> ''native'' \<and> \<not> IsHexAddress E q \<longrightarrow>
       Lookup E r (rtSrcChainID rt) (rtTargetChainID rt) q = Inr rt)"
proof -
  have ok: "registryOk r" using newRegistry_ok assms by blast
  let ?rs = "routesFor r (rtSrcChainID rt) (rtTargetChainID rt)"
  have mem: "rt \<in> set ?rs" using assms(3) by (simp add: routesFor_mem)
  then have ne: "?rs \<noteq> []" by auto
  have rt: "length (rtSrcToken rt) = 20" "trimSpace (rtSymbol rt) \<noteq> []" using ok assms(3) by (auto simp: registryOk_def list_all_iff routeOk_def)
  have hex: "IsHexAddress E (AddressHex E (rtSrcToken rt))" "HexToAddress E (AddressHex E (rtSrcToken rt)) = rtSrcToken rt"
    using assms(1) rt(1) by (auto simp: ethLib_ok_def)
  have "Lookup E r (rtSrcChainID rt) (rtTargetChainID rt) q = Inr rt"
    if q: "toLower q = toLower (rtSymbol rt)" "trimSpace q = q" "toLower q \<noteq> ''native''" "\<not> IsHexAddress E q" for q
  proof -
    have "toLower q \<noteq> []" using q(1) rt(2) by (cases "rtSymbol rt") auto
    moreover have "equalFold y q = equalFold y (rtSymbol rt)" for y by (simp add: equalFold_def q(1))
    ultimately show ?thesis
      using q(2-4) ne registryOk_symbol [OF ok assms(3)] by (simp add: Lookup_def Let_def)
  qed
  moreover have "Lookup E r (rtSrcChainID rt) (rtTargetChainID rt) (AddressHex E (rtSrcToken rt)) = Inr rt"
    using AddressHex_trim [OF assms(1) rt(1)] hex ne registryOk_token [OF ok assms(3)] by (simp add: Lookup_def Let_def)
  moreover have "Lookup E r (rtSrcChainID rt) (rtTargetChainID rt) [] = Inr rt" if "rtSrcToken rt = nilAddress"
    using registryOk_token [OF ok assms(3)] ne that by (simp add: Lookup_def Let_def NativeSource_def [abs_def])
  moreover have "ResolveDestChain r (formatUint (rtTargetChainID rt)) (rtSrcChainID rt) = Inr (rtTargetChainID rt)"
      "ResolveSourceChain r (formatUint (rtSrcChainID rt)) (rtTargetChainID rt) = Inr (rtSrcChainID rt)"
    if "rtSrcChainID rt \<noteq> rtTargetChainID rt"
    using that ne unfolding ResolveDestChain_def ResolveSourceChain_def by (auto intro!: resolveChain_formatUint)
  ultimately show ?thesis by blast
qed

section \<open>The properties on concrete inputs\<close>

definition exRaws :: "rawRoute list" where
  "exRaws =
     [\<lparr>rwSrcChain = ''svp_chain'', rwSrcChainID = 2517, rwTargetChain = ''sepolia'', rwTargetChainID = 11155111,
       rwSrcToken = ''0x732F6Ea7AfD5EdC02e7ba052075dd0780e285489'', rwTargetToken = ''0x013a61E622e6ABFCaB64F52D274C3Fc0aA37f951'',
       rwSymbol = ''USDC'', rwDecimals = 6\<rparr>,
      \<lparr>rwSrcChain = ''sepolia'', rwSrcChainID = 11155111, rwTargetChain = ''svp_chain'', rwTargetChainID = 2517,
       rwSrcToken = ''0x0000000000000000000000000000000000000000'', rwTargetToken = ''0x732F6Ea7AfD5EdC02e7ba052075dd0780e285489'',
       rwSymbol = ''ETH'', rwDecimals = 18\<rparr>]"

definition exRegistry :: registry where
  "exRegistry = (case newRegistry docEth exRaws of Inr r \<Rightarrow> r | Inl _ \<Rightarrow> \<lparr>rgRoutes = [], rgIdToName = Map.empty, rgNameToID = Map.empty\<rparr>)"

lemma exRegistry_eval:
  "map_sum (\<lambda>_. ()) (\<lambda>r. map (\<lambda>rt. (rtSrcChainID rt, rtTargetChainID rt, rtSymbol rt)) (rgRoutes r)) (newRegistry docEth exRaws) =
     Inr [(2517, 11155111, ''USDC''), (11155111, 2517, ''ETH'')]"
  by code_simp

lemma exRegistry_load: "newRegistry docEth exRaws = Inr exRegistry"
  using exRegistry_eval by (cases "newRegistry docEth exRaws") (simp_all add: exRegistry_def)

theorem routes_are_found_again_witness:
  "ResolveDestChain exRegistry ''11155111'' 2517 = Inr 11155111 \<and>
   (\<exists>rt. rgRoutes exRegistry ! 0 = rt \<and> Lookup docEth exRegistry 2517 11155111 ''usdc'' = Inr rt)"
proof -
  let ?rt = "rgRoutes exRegistry ! 0"
  have m: "map (\<lambda>rt. (rtSrcChainID rt, rtTargetChainID rt, rtSymbol rt)) (rgRoutes exRegistry) =
      [(2517, 11155111, ''USDC''), (11155111, 2517, ''ETH'')]"
    using exRegistry_eval by (simp add: exRegistry_load)
  then have v: "0 < length (rgRoutes exRegistry)" "rtSrcChainID ?rt = 2517 \<and> rtTargetChainID ?rt = 11155111 \<and> rtSymbol ?rt = ''USDC''"
    by (cases "rgRoutes exRegistry"; simp)+
  then have "?rt \<in> set (rgRoutes exRegistry)" by simp
  note found = routes_are_found_again [OF docEth_ok exRegistry_load this]
  have "toLower ''usdc'' = toLower ''USDC''" "trimSpace ''usdc'' = ''usdc''" "toLower ''usdc'' \<noteq> ''native''" "\<not> IsHexAddress docEth ''usdc''"
      "formatUint 11155111 = ''11155111''"
    by code_simp+
  then show ?thesis using found v by auto
qed

end
