(* ===== verification/Evm_Deps.thy ===== *)
theory Evm_Deps
  imports Evm_Abi Bridge_Registry Evm_Broadcast
begin

text \<open>
  What the tools that build Ethereum transactions share: the dependencies of \<open>lib/mcp/tools/deps.go\<close> (\<open>EVMDeps\<close> and
  \<open>ForeignChain\<close>, with the libraries the tools call), the read calls of \<open>swap.go\<close>, and the contract that every build tool
  keeps. An assembler is the endpoint it is bound to. The endpoints answer as one request sees them.
\<close>

section \<open>Dependencies (deps.go)\<close>

record foreignChain =
  fcClient :: evmClient
  fcAssembler :: evmClient
  fcBridge :: address

record evmDeps =
  edEth :: ethLib
  edSdk :: sdkLib
  edDec :: decLib
  edAbi :: abiLib
  edEVM :: "evmClient option"
  edAssembler :: "evmClient option"
  edUniswap :: "uniswapV2 option"
  edOracle :: "address option"
  edLendora :: "address option"
  edBridge :: "address option"
  edBridgeRoutes :: "registry option"
  edBridgeSourceChainID :: u64
  edForeignChains :: "(u64 \<times> foreignChain) list"
  edHomeChainID :: u64

section \<open>Read calls (swap.go)\<close>

definition maxUint256 :: int where
  "maxUint256 = 2 ^ 256 - 1"

definition evmCallOn :: "evmClient \<Rightarrow> address \<Rightarrow> bytes \<Rightarrow> bytes res" where
  "evmCallOn client to data = evCallContract client
     \<lparr>cmFrom = zeroAddress, cmTo = to, cmValue = 0, cmData = data, cmGasFeeCap = None, cmGasTipCap = None\<rparr>"

text \<open>\<open>evmCall\<close> is only reached when the home client is configured.\<close>

definition evmCall :: "evmDeps \<Rightarrow> address \<Rightarrow> bytes \<Rightarrow> bytes res" where
  "evmCall D to data =
     (case edEVM D of None \<Rightarrow> Inl (Ext ''nil pointer dereference'') | Some client \<Rightarrow> evmCallOn client to data)"

section \<open>The contract of a build tool\<close>

text \<open>The endpoints a transaction may be assembled against: the home one and those of the foreign chains.\<close>

definition assemblers :: "evmDeps \<Rightarrow> evmClient set" where
  "assemblers D = set_option (edAssembler D) \<union> (fcAssembler \<circ> snd) ` set (edForeignChains D)"

text \<open>A payload for the owner: assembled against one of the endpoints, from the owner's address.\<close>

definition builtFor :: "evmDeps \<Rightarrow> time \<Rightarrow> string \<Rightarrow> string \<Rightarrow> string \<Rightarrow> evmTxPayload \<Rightarrow> bool" where
  "builtFor D now tool clientID owner p \<longleftrightarrow>
     (\<exists>from ec args. ownerEthAddress (edSdk D) (edEth D) owner = Inr from \<and> ec \<in> assemblers D \<and>
        EVMAssemble (edEth D) ec now args = Inr p \<and> eaFrom args = from \<and> eaClientID args = clientID \<and>
        esToolName (eaSummary args) = tool)"

lemma builtForI:
  assumes "EVMAssemble (edEth D) ec now args = Inr p" "ec \<in> assemblers D" "ownerEthAddress (edSdk D) (edEth D) owner = Inr (eaFrom args)"
    and "eaClientID args = clientID" "esToolName (eaSummary args) = tool"
  shows "builtFor D now tool clientID owner p"
  using assms unfolding builtFor_def by blast

lemma builtFor_payload:
  assumes "builtFor D now tool clientID owner p"
  obtains frm ec chainID where "ownerEthAddress (edSdk D) (edEth D) owner = Inr frm" "ec \<in> assemblers D" "evChainID ec = Inr chainID"
    "epSignerAddress p = AddressHex (edEth D) frm" "epEVMChainID p = bigString chainID" "epClientID p = clientID"
    "esToolName (epSummary p) = tool"
  using assms unfolding builtFor_def EVMAssemble_Inr by (elim exE conjE) (rule that, auto)

text \<open>A tool that builds: what it returns carries a payload, or none when another step is needed first.\<close>

locale evm_build_tool =
  fixes D :: evmDeps
    and run :: "'lim rateLib \<Rightarrow> time \<Rightarrow> requestCtx \<Rightarrow> ('lim server, 'out) handler"
    and payload :: "'out \<Rightarrow> evmTxPayload option"
    and tool :: string
    and clientID :: string
  assumes runs: "run R now ctx s = (Inr out, s') \<Longrightarrow>
      \<exists>tp. authorize R now ctx tool s = (Inr tp, s') \<and>
        (\<forall>p. payload out = Some p \<longrightarrow> builtFor D now tool clientID (tpOwner tp) p)"
    and frame: "\<exists>rl. snd (run R now ctx s) = s\<lparr>svRate := rl\<rparr>"
begin

lemma tool_contract:
  assumes "run R now ctx s = (Inr out, s')"
  shows "\<exists>tc r. ctTenant ctx = Some tc \<and> LookupByTenantID now (tcTenantID tc) (svTenants s) = Inr r \<and> \<not> trKillSwitch r \<and>
    fst (rlAllow R now (tool @ '':'' @ tcTenantID tc) (svRate s)) \<and>
    (\<forall>p. payload out = Some p \<longrightarrow>
      (\<exists>from ec chainID. ownerEthAddress (edSdk D) (edEth D) (trOwner r) = Inr from \<and> ec \<in> assemblers D \<and> evChainID ec = Inr chainID \<and>
         epSignerAddress p = AddressHex (edEth D) from \<and> epEVMChainID p = bigString chainID \<and> epClientID p = clientID \<and>
         esToolName (epSummary p) = tool))"
proof -
  obtain tp where tp: "authorize R now ctx tool s = (Inr tp, s')" and b: "\<And>p. payload out = Some p \<Longrightarrow> builtFor D now tool clientID (tpOwner tp) p"
    using runs [OF assms] by blast
  obtain tc :: tenantContext and r rl where r: "ctTenant ctx = Some tc" "LookupByTenantID now (tcTenantID tc) (svTenants s) = Inr r"
      "\<not> trKillSwitch r" "rlAllow R now (tool @ '':'' @ tcTenantID tc) (svRate s) = (True, rl)" "tp = policyOf r"
    using tp unfolding authorize_Inr by blast
  have "\<exists>from ec chainID. ownerEthAddress (edSdk D) (edEth D) (trOwner r) = Inr from \<and> ec \<in> assemblers D \<and> evChainID ec = Inr chainID \<and>
         epSignerAddress p = AddressHex (edEth D) from \<and> epEVMChainID p = bigString chainID \<and> epClientID p = clientID \<and>
         esToolName (epSummary p) = tool" if "payload out = Some p" for p
    using b [OF that] r(5) by (elim builtFor_payload) (auto simp: policyOf_def)
  then show ?thesis using r by auto
qed

end

text \<open>Every tool of this kind authorizes and then computes its result without touching the server.\<close>

lemma evm_build_toolI:
  assumes "\<And>R now ctx. run R now ctx = hbind (authorize R now ctx tool) (\<lambda>tp. hlift (body now (tpOwner tp)))"
    and "\<And>now owner out p. body now owner = Inr out \<Longrightarrow> payload out = Some p \<Longrightarrow> builtFor D now tool clientID owner p"
  shows "evm_build_tool D run payload tool clientID"
proof (unfold_locales, goal_cases)
  case (1 R now ctx s out s')
  then show ?case using assms(2) by (auto simp: assms(1) hbind_Inr_iff)
next
  case (2 R now ctx s)
  obtain rl where rl: "snd (authorize R now ctx tool s) = s\<lparr>svRate := rl\<rparr>" using authorize_state by blast
  have "snd (hbind (authorize R now ctx tool) (\<lambda>tp. hlift (body now (tpOwner tp))) s) = snd (authorize R now ctx tool s)"
    by (auto simp: hbind_def split: prod.split sum.split)
  then show ?case using rl by (auto simp: assms(1))
qed

section \<open>Instances for the examples\<close>

text \<open>An endpoint that answers every read call with the number 6.\<close>

definition exClient :: evmClient where
  "exClient = docClient\<lparr>evCallContract := (\<lambda>_. Inr (beBytes 32 6))\<rparr>"

definition exDeps :: evmDeps where
  "exDeps = \<lparr>edEth = docEth, edSdk = docSDK, edDec = docDec, edAbi = docAbi, edEVM = Some exClient, edAssembler = Some exClient,
     edUniswap = Some \<lparr>Router = replicate 20 7, WSVP = replicate 20 8\<rparr>, edOracle = Some (replicate 20 9), edLendora = None,
     edBridge = Some (replicate 20 5), edBridgeRoutes = Some exRegistry, edBridgeSourceChainID = 2517,
     edForeignChains = [(11155111, \<lparr>fcClient = exClient, fcAssembler = exClient, fcBridge = replicate 20 6\<rparr>)], edHomeChainID = 2517\<rparr>"

lemma exDeps_simps [simp]:
  "edEth exDeps = docEth" "edSdk exDeps = docSDK" "edDec exDeps = docDec" "edAbi exDeps = docAbi" "edEVM exDeps = Some exClient"
  "edAssembler exDeps = Some exClient"
  by (simp_all add: exDeps_def)

text \<open>The caller of the examples is authorized, has an address, and any transaction is assembled.\<close>

lemma exTenant_authorized: "\<exists>tp s'. authorize exRate second exTenant tool exServer = (Inr tp, s') \<and> tpOwner tp = ''svp1abc''"
proof -
  have "rlAllow exRate second k (svRate exServer) = (True, snd (rlAllow exRate second k (svRate exServer)))" for k
    by (simp add: rlAllow_def exRate_def exServer_def NewRateLimiter_def Let_def)
  then show ?thesis using exTenant_live by (auto simp: authorize_Inr exTenant_ctx policyOf_def)
qed

lemma exOwner_address: "\<exists>a. ownerEthAddress docSDK docEth ''svp1abc'' = Inr a"
proof -
  have "\<not> isl (ownerEthAddress docSDK docEth ''svp1abc'')" by code_simp
  then show ?thesis by (metis sum.collapse(2))
qed

lemma exClient_assembles: "\<exists>p. EVMAssemble E exClient now args = Inr p"
  by (simp add: EVMAssemble_def exClient_def docClient_def Let_def)

end
