(* ===== verification/Erc_Tools.thy ===== *)
theory Erc_Tools
  imports Evm_Deps
begin

text \<open>
  The ERC-20 and ERC-721 tools of \<open>lib/mcp/tools/erc.go\<close>: each authorizes the caller, reads what it needs of the token and
  returns a payload for a call of the token contract. The main result is that a built transfer of a known token is
  counted by the broadcast tool as exactly the amount that was asked for.
\<close>

section \<open>Shared steps\<close>

definition nonNil :: "'a option \<Rightarrow> 'a res" where
  "nonNil m = of_opt (Ext ''nil pointer dereference'') m"

definition requireEVM :: "evmDeps \<Rightarrow> unit res" where
  "requireEVM D = require (edEVM D \<noteq> None \<and> edAssembler D \<noteq> None) evmDisabled"

definition parseEVMAddress :: "ethLib \<Rightarrow> string \<Rightarrow> string \<Rightarrow> address res" where
  "parseEVMAddress E s field =
     (let t = trimSpace s in
      if \<not> IsHexAddress E t then Inl (Errorf ''%s %q is not a valid 0x address'' [AStr field, AStr s])
      else Inr (HexToAddress E t))"

definition parseTokenID :: "string \<Rightarrow> int res" where
  "parseTokenID s =
     (let t = trimSpace s in
      if t = [] then Inl (Errorf ''token_id is required'' [])
      else
        rbind (of_opt (Errorf ''token_id %q is not a base-10 integer'' [AStr s]) (bigSetString t)) (\<lambda>v.
        if v < 0 then Inl (Errorf ''token_id must not be negative, got %q'' [AStr s]) else Inr v))"

definition erc20DecimalsOn :: "evmDeps \<Rightarrow> evmClient \<Rightarrow> address \<Rightarrow> int res" where
  "erc20DecimalsOn D client token =
     rbind (PackERC20Decimals (edAbi D)) (\<lambda>data.
     rbind (rwrap ''read decimals for %s (is it an ERC-20?): %w'' [AStr (AddressHex (edEth D) token)] (evmCallOn client token data)) (\<lambda>out.
     rbind (rwrap ''read decimals for %s: %w'' [AStr (AddressHex (edEth D) token)] (UnpackERC20Decimals (edAbi D) out)) (\<lambda>dec.
     Inr (uint dec))))"

definition erc20Decimals :: "evmDeps \<Rightarrow> address \<Rightarrow> int res" where
  "erc20Decimals D token = rbind (nonNil (edEVM D)) (\<lambda>client. erc20DecimalsOn D client token)"

definition evmAssemblerFor :: "evmDeps \<Rightarrow> u64 \<Rightarrow> (evmClient \<times> evmClient) res" where
  "evmAssemblerFor D chainID =
     (if chainID = 0 \<or> chainID = edHomeChainID D
      then rbind (nonNil (edAssembler D)) (\<lambda>asm. rbind (nonNil (edEVM D)) (\<lambda>client. Inr (asm, client)))
      else
        rbind (of_opt (Errorf ''chain_id %d is not configured on this server (no home or evm_foreign_chain match)'' [AInt (uint chainID)])
                 (map_of (edForeignChains D) chainID)) (\<lambda>fc.
        Inr (fcAssembler fc, fcClient fc)))"

definition assembleERC :: "evmDeps \<Rightarrow> time \<Rightarrow> evmClient \<Rightarrow> string \<Rightarrow> address \<Rightarrow> bytes \<Rightarrow> string \<Rightarrow> string \<Rightarrow> string
    \<Rightarrow> evmTxPayload res" where
  "assembleERC D now asm owner to data clientID toolName desc =
     rbind (ownerEthAddress (edSdk D) (edEth D) owner) (\<lambda>from.
     EVMAssemble (edEth D) asm now \<lparr>eaClientID = clientID, eaFrom = from, eaTo = to, eaData = data, eaValue = None,
       eaSummary = \<lparr>esToolName = toolName, esDescription = desc\<rparr>\<rparr>)"

section \<open>ERC-20\<close>

record erc20TransferInput =
  xtToken :: string
  xtTo :: string
  xtAmount :: string
  xtClientID :: string

definition erc20Transfer :: "evmDeps \<Rightarrow> erc20TransferInput \<Rightarrow> time \<Rightarrow> string \<Rightarrow> evmTxPayload res" where
  "erc20Transfer D inp now owner =
     rbind (requireEVM D) (\<lambda>_.
     rbind (parseEVMAddress (edEth D) (xtToken inp) ''token'') (\<lambda>token.
     rbind (parseEVMAddress (edEth D) (xtTo inp) ''to'') (\<lambda>to.
     rbind (erc20Decimals D token) (\<lambda>dec.
     rbind (rwrap ''amount: %w'' [] (humanToBaseUnits (edDec D) (xtAmount inp) dec)) (\<lambda>amount.
     rbind (PackERC20Transfer (edAbi D) to amount) (\<lambda>data.
     rbind (nonNil (edAssembler D)) (\<lambda>asm.
     assembleERC D now asm owner token data (xtClientID inp) ''build_erc20_transfer''
       (''transfer '' @ xtAmount inp @ '' of '' @ AddressHex (edEth D) token @ '' to '' @ AddressHex (edEth D) to))))))))"

definition toolBuildERC20Transfer :: "evmDeps \<Rightarrow> erc20TransferInput \<Rightarrow> 'lim rateLib \<Rightarrow> time \<Rightarrow> requestCtx
    \<Rightarrow> ('lim server, evmTxPayload) handler" where
  "toolBuildERC20Transfer D inp R now ctx =
     hbind (authorize R now ctx ''build_erc20_transfer'') (\<lambda>tp. hlift (erc20Transfer D inp now (tpOwner tp)))"

record erc20ApproveInput =
  xaToken :: string
  xaSpender :: string
  xaAmount :: string
  xaUnlimited :: bool
  xaChainID :: u64
  xaClientID :: string

definition erc20Approve :: "evmDeps \<Rightarrow> erc20ApproveInput \<Rightarrow> time \<Rightarrow> string \<Rightarrow> evmTxPayload res" where
  "erc20Approve D inp now owner =
     rbind (requireEVM D) (\<lambda>_.
     rbind (evmAssemblerFor D (xaChainID inp)) (\<lambda>(asm, client).
     rbind (parseEVMAddress (edEth D) (xaToken inp) ''token'') (\<lambda>token.
     rbind (parseEVMAddress (edEth D) (xaSpender inp) ''spender'') (\<lambda>spender.
     rbind (if \<not> xaUnlimited inp
            then rbind (erc20DecimalsOn D client token) (\<lambda>dec.
                 rbind (rwrap ''amount: %w'' [] (humanToBaseUnits (edDec D) (xaAmount inp) dec)) (\<lambda>base.
                 Inr (base, xaAmount inp)))
            else Inr (maxUint256, ''unlimited'')) (\<lambda>(amount, amountLabel).
     rbind (PackERC20Approve (edAbi D) spender amount) (\<lambda>data.
     assembleERC D now asm owner token data (xaClientID inp) ''build_erc20_approve''
       (''approve '' @ AddressHex (edEth D) spender @ '' to spend '' @ amountLabel @ '' of '' @ AddressHex (edEth D) token)))))))"

definition toolBuildERC20Approve :: "evmDeps \<Rightarrow> erc20ApproveInput \<Rightarrow> 'lim rateLib \<Rightarrow> time \<Rightarrow> requestCtx
    \<Rightarrow> ('lim server, evmTxPayload) handler" where
  "toolBuildERC20Approve D inp R now ctx =
     hbind (authorize R now ctx ''build_erc20_approve'') (\<lambda>tp. hlift (erc20Approve D inp now (tpOwner tp)))"

record erc20TransferFromInput =
  xfToken :: string
  xfFrom :: string
  xfTo :: string
  xfAmount :: string
  xfClientID :: string

definition erc20TransferFrom :: "evmDeps \<Rightarrow> erc20TransferFromInput \<Rightarrow> time \<Rightarrow> string \<Rightarrow> evmTxPayload res" where
  "erc20TransferFrom D inp now owner =
     rbind (requireEVM D) (\<lambda>_.
     rbind (parseEVMAddress (edEth D) (xfToken inp) ''token'') (\<lambda>token.
     rbind (parseEVMAddress (edEth D) (xfFrom inp) ''from'') (\<lambda>from.
     rbind (parseEVMAddress (edEth D) (xfTo inp) ''to'') (\<lambda>to.
     rbind (erc20Decimals D token) (\<lambda>dec.
     rbind (rwrap ''amount: %w'' [] (humanToBaseUnits (edDec D) (xfAmount inp) dec)) (\<lambda>amount.
     rbind (PackERC20TransferFrom (edAbi D) from to amount) (\<lambda>data.
     rbind (nonNil (edAssembler D)) (\<lambda>asm.
     assembleERC D now asm owner token data (xfClientID inp) ''build_erc20_transfer_from''
       (''transferFrom '' @ AddressHex (edEth D) from @ '' -> '' @ AddressHex (edEth D) to @ '', '' @ xfAmount inp @ '' of '' @
        AddressHex (edEth D) token)))))))))"

definition toolBuildERC20TransferFrom :: "evmDeps \<Rightarrow> erc20TransferFromInput \<Rightarrow> 'lim rateLib \<Rightarrow> time \<Rightarrow> requestCtx
    \<Rightarrow> ('lim server, evmTxPayload) handler" where
  "toolBuildERC20TransferFrom D inp R now ctx =
     hbind (authorize R now ctx ''build_erc20_transfer_from'') (\<lambda>tp. hlift (erc20TransferFrom D inp now (tpOwner tp)))"

section \<open>ERC-721\<close>

record erc721TransferInput =
  ntContract :: string
  ntFrom :: string
  ntTo :: string
  ntTokenID :: string
  ntClientID :: string

definition erc721Transfer :: "evmDeps \<Rightarrow> string \<Rightarrow> erc721TransferInput \<Rightarrow> (address \<Rightarrow> address \<Rightarrow> int \<Rightarrow> bytes res) \<Rightarrow> time \<Rightarrow> string
    \<Rightarrow> evmTxPayload res" where
  "erc721Transfer D tool inp pack now owner =
     rbind (requireEVM D) (\<lambda>_.
     rbind (parseEVMAddress (edEth D) (ntContract inp) ''contract'') (\<lambda>contract.
     rbind (parseEVMAddress (edEth D) (ntFrom inp) ''from'') (\<lambda>from.
     rbind (parseEVMAddress (edEth D) (ntTo inp) ''to'') (\<lambda>to.
     rbind (parseTokenID (ntTokenID inp)) (\<lambda>i.
     rbind (pack from to i) (\<lambda>data.
     rbind (nonNil (edAssembler D)) (\<lambda>asm.
     assembleERC D now asm owner contract data (ntClientID inp) tool
       (tool @ '' token '' @ ntTokenID inp @ '' on '' @ AddressHex (edEth D) contract @ '': '' @ AddressHex (edEth D) from @ '' -> '' @
        AddressHex (edEth D) to))))))))"

definition buildERC721Transfer :: "evmDeps \<Rightarrow> string \<Rightarrow> erc721TransferInput \<Rightarrow> (address \<Rightarrow> address \<Rightarrow> int \<Rightarrow> bytes res) \<Rightarrow> 'lim rateLib
    \<Rightarrow> time \<Rightarrow> requestCtx \<Rightarrow> ('lim server, evmTxPayload) handler" where
  "buildERC721Transfer D tool inp pack R now ctx =
     hbind (authorize R now ctx tool) (\<lambda>tp. hlift (erc721Transfer D tool inp pack now (tpOwner tp)))"

definition toolBuildERC721TransferFrom :: "evmDeps \<Rightarrow> erc721TransferInput \<Rightarrow> 'lim rateLib \<Rightarrow> time \<Rightarrow> requestCtx
    \<Rightarrow> ('lim server, evmTxPayload) handler" where
  "toolBuildERC721TransferFrom D inp = buildERC721Transfer D ''build_erc721_transfer_from'' inp (PackERC721TransferFrom (edAbi D))"

definition toolBuildERC721SafeTransferFrom :: "evmDeps \<Rightarrow> erc721TransferInput \<Rightarrow> 'lim rateLib \<Rightarrow> time \<Rightarrow> requestCtx
    \<Rightarrow> ('lim server, evmTxPayload) handler" where
  "toolBuildERC721SafeTransferFrom D inp =
     buildERC721Transfer D ''build_erc721_safe_transfer_from'' inp (PackERC721SafeTransferFrom (edAbi D))"

record erc721ApproveInput =
  naContract :: string
  naSpender :: string
  naTokenID :: string
  naClientID :: string

definition erc721Approve :: "evmDeps \<Rightarrow> erc721ApproveInput \<Rightarrow> time \<Rightarrow> string \<Rightarrow> evmTxPayload res" where
  "erc721Approve D inp now owner =
     rbind (requireEVM D) (\<lambda>_.
     rbind (parseEVMAddress (edEth D) (naContract inp) ''contract'') (\<lambda>contract.
     rbind (parseEVMAddress (edEth D) (naSpender inp) ''spender'') (\<lambda>spender.
     rbind (parseTokenID (naTokenID inp)) (\<lambda>i.
     rbind (PackERC721Approve (edAbi D) spender i) (\<lambda>data.
     rbind (nonNil (edAssembler D)) (\<lambda>asm.
     assembleERC D now asm owner contract data (naClientID inp) ''build_erc721_approve''
       (''approve '' @ AddressHex (edEth D) spender @ '' for token '' @ naTokenID inp @ '' on '' @ AddressHex (edEth D) contract)))))))"

definition toolBuildERC721Approve :: "evmDeps \<Rightarrow> erc721ApproveInput \<Rightarrow> 'lim rateLib \<Rightarrow> time \<Rightarrow> requestCtx
    \<Rightarrow> ('lim server, evmTxPayload) handler" where
  "toolBuildERC721Approve D inp R now ctx =
     hbind (authorize R now ctx ''build_erc721_approve'') (\<lambda>tp. hlift (erc721Approve D inp now (tpOwner tp)))"

record erc721ApprovalForAllInput =
  noContract :: string
  noOperator :: string
  noApproved :: bool
  noClientID :: string

definition erc721SetApprovalForAll :: "evmDeps \<Rightarrow> erc721ApprovalForAllInput \<Rightarrow> time \<Rightarrow> string \<Rightarrow> evmTxPayload res" where
  "erc721SetApprovalForAll D inp now owner =
     rbind (requireEVM D) (\<lambda>_.
     rbind (parseEVMAddress (edEth D) (noContract inp) ''contract'') (\<lambda>contract.
     rbind (parseEVMAddress (edEth D) (noOperator inp) ''operator'') (\<lambda>operator.
     rbind (PackERC721SetApprovalForAll (edAbi D) operator (noApproved inp)) (\<lambda>data.
     rbind (nonNil (edAssembler D)) (\<lambda>asm.
     assembleERC D now asm owner contract data (noClientID inp) ''build_erc721_set_approval_for_all''
       ((if noApproved inp then ''grant operator'' else ''revoke operator'') @ '' '' @ AddressHex (edEth D) operator @ '' for all of '' @
        AddressHex (edEth D) contract))))))"

definition toolBuildERC721SetApprovalForAll :: "evmDeps \<Rightarrow> erc721ApprovalForAllInput \<Rightarrow> 'lim rateLib \<Rightarrow> time \<Rightarrow> requestCtx
    \<Rightarrow> ('lim server, evmTxPayload) handler" where
  "toolBuildERC721SetApprovalForAll D inp R now ctx =
     hbind (authorize R now ctx ''build_erc721_set_approval_for_all'') (\<lambda>tp. hlift (erc721SetApprovalForAll D inp now (tpOwner tp)))"

section \<open>Every tool builds for the caller\<close>

lemma nonNil_Inr [simp]: "nonNil m = Inr x \<longleftrightarrow> m = Some x"
  by (simp add: nonNil_def)

lemma home_assembler: "edAssembler D = Some asm \<Longrightarrow> asm \<in> assemblers D"
  by (simp add: assemblers_def)

lemma evmAssemblerFor_mem: "evmAssemblerFor D chainID = Inr (asm, client) \<Longrightarrow> asm \<in> assemblers D"
  by (auto simp: evmAssemblerFor_def assemblers_def split: if_splits dest!: map_of_SomeD) force

lemma assembleERC_builtFor:
  "assembleERC D now asm owner to data clientID tool desc = Inr p \<Longrightarrow> asm \<in> assemblers D \<Longrightarrow> builtFor D now tool clientID owner p"
  by (auto simp: assembleERC_def elim!: builtForI)

lemmas erc_built = assembleERC_builtFor home_assembler evmAssemblerFor_mem

interpretation xt: evm_build_tool D "toolBuildERC20Transfer D inp" Some "''build_erc20_transfer''" "xtClientID inp" for D inp
  by (rule evm_build_toolI, rule toolBuildERC20Transfer_def) (auto simp: erc20Transfer_def intro: erc_built)

interpretation xa: evm_build_tool D "toolBuildERC20Approve D inp" Some "''build_erc20_approve''" "xaClientID inp" for D inp
  by (rule evm_build_toolI, rule toolBuildERC20Approve_def) (auto simp: erc20Approve_def split: if_splits intro: erc_built)

interpretation xf: evm_build_tool D "toolBuildERC20TransferFrom D inp" Some "''build_erc20_transfer_from''" "xfClientID inp" for D inp
  by (rule evm_build_toolI, rule toolBuildERC20TransferFrom_def) (auto simp: erc20TransferFrom_def intro: erc_built)

lemma erc721Transfer_builtFor: "erc721Transfer D tool inp pack now owner = Inr p \<Longrightarrow> builtFor D now tool (ntClientID inp) owner p"
  by (auto simp: erc721Transfer_def intro: erc_built)

interpretation nt: evm_build_tool D "toolBuildERC721TransferFrom D inp" Some "''build_erc721_transfer_from''" "ntClientID inp" for D inp
  by (rule evm_build_toolI, unfold toolBuildERC721TransferFrom_def, rule buildERC721Transfer_def) (auto intro: erc721Transfer_builtFor)

interpretation ns: evm_build_tool D "toolBuildERC721SafeTransferFrom D inp" Some "''build_erc721_safe_transfer_from''" "ntClientID inp" for D inp
  by (rule evm_build_toolI, unfold toolBuildERC721SafeTransferFrom_def, rule buildERC721Transfer_def) (auto intro: erc721Transfer_builtFor)

interpretation na: evm_build_tool D "toolBuildERC721Approve D inp" Some "''build_erc721_approve''" "naClientID inp" for D inp
  by (rule evm_build_toolI, rule toolBuildERC721Approve_def) (auto simp: erc721Approve_def intro: erc_built)

interpretation no: evm_build_tool D "toolBuildERC721SetApprovalForAll D inp" Some "''build_erc721_set_approval_for_all''" "noClientID inp" for D inp
  by (rule evm_build_toolI, rule toolBuildERC721SetApprovalForAll_def) (auto simp: erc721SetApprovalForAll_def intro: erc_built)

section \<open>What is built and what is counted\<close>

text \<open>The transaction of a payload: what signing it makes of its destination, value and data.\<close>

definition payloadTx :: "ethLib \<Rightarrow> evmTxPayload \<Rightarrow> evmTx \<Rightarrow> bool" where
  "payloadTx E p tx \<longleftrightarrow> vtTo tx = Some (HexToAddress E (epTo p)) \<and> bigSetString (epValue p) = Some (vtValue tx) \<and>
     HexutilDecode E (epData p) = Inr (vtData tx)"

lemma payloadTx_assembled:
  assumes "ethLib_ok E" "EVMAssemble E ec now args = Inr p" "length (eaTo args) = 20" "payloadTx E p tx"
  shows "vtTo tx = Some (eaTo args) \<and> vtValue tx = (case eaValue args of None \<Rightarrow> 0 | Some v \<Rightarrow> v) \<and> vtData tx = eaData args"
  using assms by (auto simp: EVMAssemble_Inr payloadTx_def ethLib_ok_def)

lemma parseEVMAddress_Inr:
  "parseEVMAddress E s field = Inr a \<longleftrightarrow> IsHexAddress E (trimSpace s) \<and> a = HexToAddress E (trimSpace s)"
  by (auto simp: parseEVMAddress_def Let_def)

lemma decode_packed_transfer:
  assumes "abiLib_ok A" "Selector A ''transfer(address,uint256)'' = selERC20Transfer" "length to = 20" "0 \<le> amount" "amount < 2 ^ 256"
    and "PackERC20Transfer A to amount = Inr data" "symbolForToken E uusdc token = Some symb"
  shows "amountOf (decodeTransferOut E uusdc (Some token) 0 data owner router wsvp) y = (if y = symb then amount else 0)"
proof -
  have data: "data = selERC20Transfer @ (replicate 12 0 @ to) @ beBytes 32 amount"
    using PackERC20Transfer_layout [OF assms(1,3-5)] assms(2,6) by simp
  have "take 4 data = selERC20Transfer" "length data = 68" "drop 36 data = beBytes 32 amount"
    using assms(3) by (simp_all add: data selERC20Transfer_def)
  then show ?thesis using decode_token_transfer [OF assms(7)] assms(4,5) by (simp add: bigEndian_word)
qed

section \<open>Properties\<close>

text \<open>C11: what \<open>build_erc20_transfer\<close> builds is what the broadcast tool counts. When the tool returns a payload for a token
  with a capped symbol, the transaction that signing makes of it is a call of that token without value that the
  transfer-out decoder reads as exactly the requested amount, in the base units of the token's decimals, of that
  symbol and of no other, whoever the recipient is.\<close>

theorem built_transfer_is_counted:
  assumes "ethLib_ok (edEth D)" "decLib_ok (edDec D)" "abiLib_ok (edAbi D)"
    and "Selector (edAbi D) ''transfer(address,uint256)'' = selERC20Transfer"
    and "toolBuildERC20Transfer D inp R now ctx s = (Inr p, s')" "payloadTx (edEth D) p tx"
    and "symbolForToken (edEth D) uusdc (HexToAddress (edEth D) (trimSpace (xtToken inp))) = Some symb"
  shows "\<exists>dec amount. erc20Decimals D (HexToAddress (edEth D) (trimSpace (xtToken inp))) = Inr dec \<and>
    humanToBaseUnits (edDec D) (xtAmount inp) dec = Inr amount \<and> 0 < amount \<and> vtValue tx = 0 \<and>
    (amount < 2 ^ 256 \<longrightarrow>
      (\<forall>y. amountOf (decodeTransferOut (edEth D) uusdc (vtTo tx) (vtValue tx) (vtData tx) owner router wsvp) y =
         (if y = symb then amount else 0)))"
proof -
  let ?token = "HexToAddress (edEth D) (trimSpace (xtToken inp))" and ?to = "HexToAddress (edEth D) (trimSpace (xtTo inp))"
  obtain tp :: tenantPolicy and dec amount data asm desc where b: "erc20Decimals D ?token = Inr dec" "humanToBaseUnits (edDec D) (xtAmount inp) dec = Inr amount"
      "PackERC20Transfer (edAbi D) ?to amount = Inr data"
      "assembleERC D now asm (tpOwner tp) ?token data (xtClientID inp) ''build_erc20_transfer'' desc = Inr p"
    using assms(5) by (auto simp: toolBuildERC20Transfer_def erc20Transfer_def hbind_Inr_iff parseEVMAddress_Inr)
  have len: "length (HexToAddress (edEth D) t) = 20" for t using assms(1) by (simp add: ethLib_ok_def)
  have tx: "vtTo tx = Some ?token" "vtValue tx = 0" "vtData tx = data"
    using b(4) payloadTx_assembled [OF assms(1) _ _ assms(6)] len by (auto simp: assembleERC_def)
  have pos: "0 < amount" using humanToBaseUnits_pos [OF assms(2) b(2)] .
  have "amountOf (decodeTransferOut (edEth D) uusdc (vtTo tx) (vtValue tx) (vtData tx) owner router wsvp) y = (if y = symb then amount else 0)"
    if "amount < 2 ^ 256" for y
    using decode_packed_transfer [OF assms(3,4) len _ that b(3) assms(7)] pos tx by simp
  then show ?thesis using b pos tx by blast
qed

section \<open>The properties on concrete inputs\<close>

definition exTransfer :: erc20TransferInput where
  "exTransfer = \<lparr>xtToken = ''0x732F6Ea7AfD5EdC02e7ba052075dd0780e285489'', xtTo = ''0x0102030405060708090a0b0c0d0e0f1011121314'',
     xtAmount = ''5'', xtClientID = ''c-9''\<rparr>"

definition exTransferTx :: "evmTxPayload \<Rightarrow> evmTx" where
  "exTransferTx p = \<lparr>vtTo = Some (HexToAddress docEth (epTo p)), vtValue = 0,
     vtData = (case HexutilDecode docEth (epData p) of Inr bs \<Rightarrow> bs | Inl _ \<Rightarrow> []), vtChainID = 2517\<rparr>"

theorem built_transfer_is_counted_witness:
  "\<exists>p s'. toolBuildERC20Transfer exDeps exTransfer exRate second exTenant exServer = (Inr p, s') \<and>
     amountOf (decodeTransferOut docEth ''ibc/usdc'' (vtTo (exTransferTx p)) 0 (vtData (exTransferTx p)) [] [] []) ''usdc'' = 5000000"
proof -
  let ?token = "HexToAddress docEth (trimSpace (xtToken exTransfer))" and ?to = "HexToAddress docEth (trimSpace (xtTo exTransfer))"
  have v: "IsHexAddress docEth (trimSpace (xtToken exTransfer))" "IsHexAddress docEth (trimSpace (xtTo exTransfer))"
      "UnpackERC20Decimals docAbi (beBytes 32 6) = Inr 6" "digits_val ''5'' = 5" "all_digits ''5''"
      "symbolForToken docEth ''ibc/usdc'' ?token = Some ''usdc''"
    by code_simp+
  have dec: "erc20Decimals exDeps token = Inr 6" for token
    using v(3) by (simp add: erc20Decimals_def erc20DecimalsOn_def PackERC20Decimals_def docAbi_def abiMethodOf_def ercERC20ABI_def meth_def
        evmCallOn_def exClient_def)
  have amount: "humanToBaseUnits docDec (xtAmount exTransfer) 6 = Inr 5000000"
    using humanToBaseUnits_whole [OF docDec_ok v(5) _ , of 6] v(4) by (simp add: exTransfer_def)
  have len: "length ?to = 20" using docEth_ok by (simp add: ethLib_ok_def)
  obtain tp s' where a: "authorize exRate second exTenant ''build_erc20_transfer'' exServer = (Inr tp, s')" "tpOwner tp = ''svp1abc''"
    using exTenant_authorized by blast
  have "\<exists>p. erc20Transfer exDeps exTransfer second ''svp1abc'' = Inr p"
    using v(1,2) dec amount exOwner_address exClient_assembles PackERC20Transfer_layout [OF docAbi_ok len, of 5000000]
    by (auto simp: erc20Transfer_def requireEVM_def parseEVMAddress_def assembleERC_def Let_def)
  then obtain p where t: "toolBuildERC20Transfer exDeps exTransfer exRate second exTenant exServer = (Inr p, s')"
    using a by (auto simp: toolBuildERC20Transfer_def)
  then have "epValue p = bigString 0" "\<exists>b. epData p = HexutilEncode docEth b"
    by (auto simp: toolBuildERC20Transfer_def erc20Transfer_def hbind_Inr_iff assembleERC_def EVMAssemble_Inr)
  then have tx: "payloadTx (edEth exDeps) p (exTransferTx p)"
    using docEth_ok by (auto simp: payloadTx_def exTransferTx_def ethLib_ok_def)
  have "ethLib_ok (edEth exDeps)" "decLib_ok (edDec exDeps)" "abiLib_ok (edAbi exDeps)"
      "Selector (edAbi exDeps) ''transfer(address,uint256)'' = selERC20Transfer"
      "symbolForToken (edEth exDeps) ''ibc/usdc'' (HexToAddress (edEth exDeps) (trimSpace (xtToken exTransfer))) = Some ''usdc''"
    using v(6) docEth_ok docDec_ok docAbi_ok by (simp_all add: docAbi_def docSelector_def selERC20Transfer_def)
  from built_transfer_is_counted [OF this(1-4) t tx this(5), of "[]" "[]" "[]"]
  show ?thesis using dec amount t by auto
qed

end
