(* ===== verification/Swap_Tools.thy ===== *)
theory Swap_Tools
  imports Erc_Tools
begin

text \<open>
  The swap tools of \<open>lib/mcp/tools/swap.go\<close>: the token arguments, the plan of a swap, slippage, and the three tools. The
  main result is the contract of a built swap: what it asks the router for, for whom, and at which least output.
\<close>

section \<open>Tokens and plans\<close>

definition defaultSlippageBps :: int where
  "defaultSlippageBps = 50"

definition defaultSwapDeadline :: duration where
  "defaultSwapDeadline = 20 * minute"

definition bpsDenom :: int where
  "bpsDenom = 10000"

definition knownTokenSymbol :: "ethLib \<Rightarrow> address \<Rightarrow> string option" where
  "knownTokenSymbol E addr = map_option (toUpper \<circ> fst) (find (\<lambda>(symb, kt). ktAddress kt = addr) (knownSwapTokens E))"

definition parseSwapToken :: "ethLib \<Rightarrow> string \<Rightarrow> (address \<times> bool) res" where
  "parseSwapToken E s =
     (let t = trimSpace s; key = toLower t in
      if key = [] \<or> key = ''native'' \<or> key = ''svp'' then Inr (zeroAddress, True)
      else
        (case map_of (knownSwapTokens E) key of
           Some kt \<Rightarrow> Inr (ktAddress kt, False)
         | None \<Rightarrow>
             if \<not> IsHexAddress E t
             then Inl (Errorf ''invalid token %q: use a 0x address, a known symbol (usdv), or empty/\"native\"/\"svp\" for native SVP'' [AStr s])
             else
               (let addr = HexToAddress E t in
                if addr = zeroAddress then Inr (zeroAddress, True) else Inr (addr, False))))"

datatype swapKind = kindTokensForTokens | kindSVPForTokens | kindTokensForSVP

record swapPlan =
  spKind :: swapKind
  spPath :: "address list"

definition resolveSwapPlan :: "address \<Rightarrow> bool \<Rightarrow> address \<Rightarrow> bool \<Rightarrow> address \<Rightarrow> swapPlan res" where
  "resolveSwapPlan inAddr inNative outAddr outNative wsvp =
     (if inNative \<and> outNative
      then Inl (Errorf (''token_in and token_out are both native SVP '' @ emDash @ '' nothing to swap'') [])
      else if inNative then Inr \<lparr>spKind = kindSVPForTokens, spPath = [wsvp, outAddr]\<rparr>
      else if outNative then Inr \<lparr>spKind = kindTokensForSVP, spPath = [inAddr, wsvp]\<rparr>
      else if inAddr = outAddr then Inl (Errorf ''token_in and token_out are the same token'' [])
      else Inr \<lparr>spKind = kindTokensForTokens, spPath = [inAddr, outAddr]\<rparr>)"

definition applySlippage :: "int \<Rightarrow> int \<Rightarrow> int res" where
  "applySlippage out bps =
     (if bps < 0 \<or> bps \<ge> bpsDenom
      then Inl (Errorf ''slippage_bps must be in [0, %d), got %d'' [AInt bpsDenom, AInt bps])
      else Inr (out * (bpsDenom - bps) div bpsDenom))"

section \<open>Reads\<close>

definition requireSwap :: "evmDeps \<Rightarrow> uniswapV2 res" where
  "requireSwap D =
     (if edEVM D = None \<or> edAssembler D = None then Inl evmDisabled
      else of_opt (Errorf ''swaps are not enabled on this server (no evm_uniswap_router_addr / evm_wsvp_addr configured)'' []) (edUniswap D))"

definition tokenDecimals :: "evmDeps \<Rightarrow> bool \<Rightarrow> address \<Rightarrow> int res" where
  "tokenDecimals D native token =
     (if native then Inr 18
      else
        rbind (PackDecimals (edAbi D)) (\<lambda>data.
        rbind (rwrap ''read decimals for %s (is it an ERC-20?): %w'' [AStr (AddressHex (edEth D) token)] (evmCall D token data)) (\<lambda>out.
        rbind (rwrap ''read decimals for %s: %w'' [AStr (AddressHex (edEth D) token)] (UnpackDecimals (edAbi D) out)) (\<lambda>dec.
        Inr (uint dec)))))"

definition erc20Balance :: "evmDeps \<Rightarrow> address \<Rightarrow> address \<Rightarrow> int res" where
  "erc20Balance D token account =
     rbind (PackBalanceOf (edAbi D) account) (\<lambda>data.
     rbind (rwrap ''read balanceOf for %s: %w'' [AStr (AddressHex (edEth D) token)] (evmCall D token data)) (\<lambda>out.
     UnpackBalanceOf (edAbi D) out))"

definition quoteAmountsOut :: "evmDeps \<Rightarrow> uniswapV2 \<Rightarrow> int \<Rightarrow> address list \<Rightarrow> int list res" where
  "quoteAmountsOut D uni amountIn path =
     rbind (PackGetAmountsOut (edAbi D) amountIn path) (\<lambda>data.
     rbind (rwrap ''quote getAmountsOut (no liquidity for this path?): %w'' [] (evmCall D (Router uni) data)) (\<lambda>out.
     UnpackAmounts (edAbi D) out))"

definition checkAllowance :: "evmDeps \<Rightarrow> uniswapV2 \<Rightarrow> address \<Rightarrow> address \<Rightarrow> int \<Rightarrow> string \<Rightarrow> unit res" where
  "checkAllowance D uni token owner amountIn amountHuman =
     rbind (PackAllowance (edAbi D) owner (Router uni)) (\<lambda>data.
     rbind (rwrap ''read allowance for %s: %w'' [AStr (AddressHex (edEth D) token)] (evmCall D token data)) (\<lambda>out.
     rbind (UnpackAllowance (edAbi D) out) (\<lambda>allowance.
     require (\<not> allowance < amountIn)
       (Errorf (''router allowance for %s is insufficient '' @ emDash @
          '' call build_token_approval (token %s, amount >= %s) first, then retry build_swap'')
          [AStr (AddressHex (edEth D) token), AStr (AddressHex (edEth D) token), AStr amountHuman]))))"

definition tokenLabel :: "ethLib \<Rightarrow> bool \<Rightarrow> address \<Rightarrow> string" where
  "tokenLabel E native addr =
     (if native then ''native''
      else (case knownTokenSymbol E addr of Some symb \<Rightarrow> symb | None \<Rightarrow> AddressHex E addr))"

definition addrsToHex :: "ethLib \<Rightarrow> address list \<Rightarrow> string list" where
  "addrsToHex E path = map (AddressHex E) path"

section \<open>quote_swap\<close>

record quoteSwapInput =
  qiTokenIn :: string
  qiTokenOut :: string
  qiAmountIn :: string

record quoteSwapOutput =
  qoTokenIn :: string
  qoTokenOut :: string
  qoPath :: "string list"
  qoAmountIn :: string
  qoAmountInBase :: string
  qoExpectedOut :: string
  qoExpectedOutBase :: string

definition quoteSwap :: "evmDeps \<Rightarrow> quoteSwapInput \<Rightarrow> quoteSwapOutput res" where
  "quoteSwap D inp =
     rbind (requireSwap D) (\<lambda>uni.
     rbind (rwrap ''token_in: %w'' [] (parseSwapToken (edEth D) (qiTokenIn inp))) (\<lambda>(inAddr, inNative).
     rbind (rwrap ''token_out: %w'' [] (parseSwapToken (edEth D) (qiTokenOut inp))) (\<lambda>(outAddr, outNative).
     rbind (resolveSwapPlan inAddr inNative outAddr outNative (WSVP uni)) (\<lambda>plan.
     rbind (tokenDecimals D inNative inAddr) (\<lambda>decIn.
     rbind (rwrap ''amount_in: %w'' [] (humanToBaseUnits (edDec D) (qiAmountIn inp) decIn)) (\<lambda>amountInBase.
     rbind (quoteAmountsOut D uni amountInBase (spPath plan)) (\<lambda>amounts.
     (let expectedOut = last amounts in
      rbind (tokenDecimals D outNative outAddr) (\<lambda>decOut.
      Inr \<lparr>qoTokenIn = tokenLabel (edEth D) inNative inAddr, qoTokenOut = tokenLabel (edEth D) outNative outAddr,
           qoPath = addrsToHex (edEth D) (spPath plan), qoAmountIn = qiAmountIn inp, qoAmountInBase = bigString amountInBase,
           qoExpectedOut = humanAmount (edDec D) expectedOut decOut, qoExpectedOutBase = bigString expectedOut\<rparr>)))))))))"

definition toolQuoteSwap :: "evmDeps \<Rightarrow> quoteSwapInput \<Rightarrow> 'lim rateLib \<Rightarrow> time \<Rightarrow> requestCtx \<Rightarrow> ('lim server, quoteSwapOutput) handler" where
  "toolQuoteSwap D inp R now ctx = hbind (authorize R now ctx ''quote_swap'') (\<lambda>_. hlift (quoteSwap D inp))"

section \<open>build_token_approval\<close>

record tokenApprovalInput =
  taToken :: string
  taAmount :: string
  taUnlimited :: bool
  taClientID :: string

definition tokenApproval :: "evmDeps \<Rightarrow> tokenApprovalInput \<Rightarrow> time \<Rightarrow> string \<Rightarrow> evmTxPayload res" where
  "tokenApproval D inp now owner =
     rbind (requireSwap D) (\<lambda>uni.
     rbind (rwrap ''token: %w'' [] (parseSwapToken (edEth D) (taToken inp))) (\<lambda>(addr, native).
     rbind (require (\<not> native) (Errorf ''native SVP needs no approval; only ERC-20 input tokens do'' [])) (\<lambda>_.
     rbind (if \<not> taUnlimited inp
            then rbind (tokenDecimals D False addr) (\<lambda>dec.
                 rbind (rwrap ''amount: %w'' [] (humanToBaseUnits (edDec D) (taAmount inp) dec)) (\<lambda>base.
                 Inr (base, taAmount inp)))
            else Inr (maxUint256, ''unlimited'')) (\<lambda>(amount, amountLabel).
     rbind (PackApprove (edAbi D) (Router uni) amount) (\<lambda>data.
     rbind (ownerEthAddress (edSdk D) (edEth D) owner) (\<lambda>from.
     rbind (nonNil (edAssembler D)) (\<lambda>asm.
     EVMAssemble (edEth D) asm now \<lparr>eaClientID = taClientID inp, eaFrom = from, eaTo = addr, eaData = data, eaValue = None,
       eaSummary = \<lparr>esToolName = ''build_token_approval'', esDescription =
         ''approve router '' @ AddressHex (edEth D) (Router uni) @ '' to spend '' @ amountLabel @ '' of '' @ AddressHex (edEth D) addr\<rparr>\<rparr>)))))))"

definition toolBuildTokenApproval :: "evmDeps \<Rightarrow> tokenApprovalInput \<Rightarrow> 'lim rateLib \<Rightarrow> time \<Rightarrow> requestCtx
    \<Rightarrow> ('lim server, evmTxPayload) handler" where
  "toolBuildTokenApproval D inp R now ctx =
     hbind (authorize R now ctx ''build_token_approval'') (\<lambda>tp. hlift (tokenApproval D inp now (tpOwner tp)))"

section \<open>build_swap\<close>

record swapInput =
  siTokenIn :: string
  siTokenOut :: string
  siAmountIn :: string
  siSlippageBps :: int
  siDeadlineSec :: int
  siClientID :: string

record swapOutput =
  soPayload :: evmTxPayload
  soExpectedOut :: string
  soMinOut :: string
  soMinOutBase :: string
  soSlippageBps :: int

text \<open>The deadline: the product of the seconds and \<open>time.Second\<close> is an \<open>int64\<close> of nanoseconds.\<close>

definition wrap64 :: "int \<Rightarrow> int" where
  "wrap64 n = (n + 2 ^ 63) mod 2 ^ 64 - 2 ^ 63"

definition swapDeadline :: "time \<Rightarrow> int \<Rightarrow> int" where
  "swapDeadline now deadlineSec =
     (let secs = (if deadlineSec \<le> 0 then defaultSwapDeadline div second else deadlineSec) in
      unixSeconds (now + wrap64 (secs * second)))"

definition packSwap :: "abiLib \<Rightarrow> swapPlan \<Rightarrow> int \<Rightarrow> int \<Rightarrow> address \<Rightarrow> int \<Rightarrow> (bytes \<times> int) res" where
  "packSwap A plan amountIn minOut to deadline =
     (case spKind plan of
        kindTokensForTokens \<Rightarrow> rbind (PackSwapExactTokensForTokens A amountIn minOut (spPath plan) to deadline) (\<lambda>data. Inr (data, 0))
      | kindSVPForTokens \<Rightarrow> rbind (PackSwapExactSVPForTokens A minOut (spPath plan) to deadline) (\<lambda>data. Inr (data, amountIn))
      | kindTokensForSVP \<Rightarrow> rbind (PackSwapExactTokensForSVP A amountIn minOut (spPath plan) to deadline) (\<lambda>data. Inr (data, 0)))"

text \<open>\<open>%.2f%%\<close> of a number of basis points in range, divided by 100.\<close>

definition percentText :: "int \<Rightarrow> string" where
  "percentText bps = nat_dec (nat bps div 100) @ ''.'' @ zpad 2 (nat_dec (nat bps mod 100)) @ ''%''"

definition buildSwap :: "evmDeps \<Rightarrow> swapInput \<Rightarrow> time \<Rightarrow> string \<Rightarrow> swapOutput res" where
  "buildSwap D inp now owner =
     rbind (requireSwap D) (\<lambda>uni.
     rbind (rwrap ''token_in: %w'' [] (parseSwapToken (edEth D) (siTokenIn inp))) (\<lambda>(inAddr, inNative).
     rbind (rwrap ''token_out: %w'' [] (parseSwapToken (edEth D) (siTokenOut inp))) (\<lambda>(outAddr, outNative).
     rbind (resolveSwapPlan inAddr inNative outAddr outNative (WSVP uni)) (\<lambda>plan.
     (let slippage = (if siSlippageBps inp = 0 then defaultSlippageBps else siSlippageBps inp) in
      rbind (ownerEthAddress (edSdk D) (edEth D) owner) (\<lambda>from.
      rbind (tokenDecimals D inNative inAddr) (\<lambda>decIn.
      rbind (rwrap ''amount_in: %w'' [] (humanToBaseUnits (edDec D) (siAmountIn inp) decIn)) (\<lambda>amountIn.
      rbind (if \<not> inNative then checkAllowance D uni inAddr from amountIn (siAmountIn inp) else Inr ()) (\<lambda>_.
      rbind (quoteAmountsOut D uni amountIn (spPath plan)) (\<lambda>amounts.
      (let expectedOut = last amounts in
       rbind (applySlippage expectedOut slippage) (\<lambda>minOut.
       rbind (require (0 < minOut)
                (Errorf (''quoted output rounds to zero '' @ emDash @ '' amount_in is too small for this path'') [])) (\<lambda>_.
       rbind (packSwap (edAbi D) plan amountIn minOut from (swapDeadline now (siDeadlineSec inp))) (\<lambda>(data, val).
       rbind (tokenDecimals D outNative outAddr) (\<lambda>decOut.
       rbind (nonNil (edAssembler D)) (\<lambda>asm.
       rbind (EVMAssemble (edEth D) asm now \<lparr>eaClientID = siClientID inp, eaFrom = from, eaTo = Router uni, eaData = data,
                eaValue = Some val, eaSummary = \<lparr>esToolName = ''build_swap'', esDescription =
                  ''swap '' @ siAmountIn inp @ '' '' @ tokenLabel (edEth D) inNative inAddr @ '' -> >='' @
                  humanAmount (edDec D) minOut decOut @ '' '' @ tokenLabel (edEth D) outNative outAddr @
                  '' ('' @ percentText slippage @ '' max slippage)''\<rparr>\<rparr>) (\<lambda>p.
       Inr \<lparr>soPayload = p, soExpectedOut = humanAmount (edDec D) expectedOut decOut, soMinOut = humanAmount (edDec D) minOut decOut,
            soMinOutBase = bigString minOut, soSlippageBps = slippage\<rparr>)))))))))))))))))"

definition toolBuildSwap :: "evmDeps \<Rightarrow> swapInput \<Rightarrow> 'lim rateLib \<Rightarrow> time \<Rightarrow> requestCtx \<Rightarrow> ('lim server, swapOutput) handler" where
  "toolBuildSwap D inp R now ctx = hbind (authorize R now ctx ''build_swap'') (\<lambda>tp. hlift (buildSwap D inp now (tpOwner tp)))"

section \<open>Every tool builds for the caller\<close>

lemma tokenApproval_builtFor: "tokenApproval D inp now owner = Inr p \<Longrightarrow> builtFor D now ''build_token_approval'' (taClientID inp) owner p"
  by (auto simp: tokenApproval_def split: if_splits elim!: builtForI intro: home_assembler)

interpretation ta: evm_build_tool D "toolBuildTokenApproval D inp" Some "''build_token_approval''" "taClientID inp" for D inp
  by (rule evm_build_toolI, rule toolBuildTokenApproval_def) (auto intro: tokenApproval_builtFor)

lemma applySlippage_Inr:
  "applySlippage out bps = Inr m \<longleftrightarrow> 0 \<le> bps \<and> bps < 10000 \<and> m = out * (10000 - bps) div 10000"
  by (auto simp: applySlippage_def bpsDenom_def)

lemma checkAllowance_Inr:
  "checkAllowance D uni token owner amountIn human = Inr u \<longleftrightarrow>
     (\<exists>data out allowance. PackAllowance (edAbi D) owner (Router uni) = Inr data \<and> evmCall D token data = Inr out \<and>
        UnpackAllowance (edAbi D) out = Inr allowance \<and> amountIn \<le> allowance)"
  by (auto simp: checkAllowance_def not_less)

text \<open>The parts of a swap that was built.\<close>

lemma buildSwap_Inr:
  assumes "buildSwap D inp now owner = Inr out"
  obtains uni inAddr inNative outAddr outNative plan frm decIn amountIn amounts minOut data val asm args where
    "edUniswap D = Some uni" "parseSwapToken (edEth D) (siTokenIn inp) = Inr (inAddr, inNative)"
    "parseSwapToken (edEth D) (siTokenOut inp) = Inr (outAddr, outNative)"
    "resolveSwapPlan inAddr inNative outAddr outNative (WSVP uni) = Inr plan"
    "ownerEthAddress (edSdk D) (edEth D) owner = Inr frm" "tokenDecimals D inNative inAddr = Inr decIn"
    "humanToBaseUnits (edDec D) (siAmountIn inp) decIn = Inr amountIn"
    "\<not> inNative \<Longrightarrow> checkAllowance D uni inAddr frm amountIn (siAmountIn inp) = Inr ()"
    "quoteAmountsOut D uni amountIn (spPath plan) = Inr amounts" "applySlippage (last amounts) (soSlippageBps out) = Inr minOut" "0 < minOut"
    "packSwap (edAbi D) plan amountIn minOut frm (swapDeadline now (siDeadlineSec inp)) = Inr (data, val)"
    "edAssembler D = Some asm" "EVMAssemble (edEth D) asm now args = Inr (soPayload out)"
    "eaClientID args = siClientID inp" "eaFrom args = frm" "eaTo args = Router uni" "eaData args = data" "eaValue args = Some val"
    "esToolName (eaSummary args) = ''build_swap''" "soMinOutBase out = bigString minOut"
    "soSlippageBps out = (if siSlippageBps inp = 0 then 50 else siSlippageBps inp)"
  using assms unfolding buildSwap_def Let_def requireSwap_def defaultSlippageBps_def
  by (auto split: if_splits prod.splits)

lemma buildSwap_builtFor: "buildSwap D inp now owner = Inr out \<Longrightarrow> builtFor D now ''build_swap'' (siClientID inp) owner (soPayload out)"
  by (erule buildSwap_Inr) (rule builtForI, auto intro: home_assembler)

interpretation sw: evm_build_tool D "toolBuildSwap D inp" "Some \<circ> soPayload" "''build_swap''" "siClientID inp" for D inp
  by (rule evm_build_toolI, rule toolBuildSwap_def) (auto intro: buildSwap_builtFor)

text \<open>The amount rides as the value exactly when the input is native; the native leg of the path is the wrapped coin.\<close>

lemma packSwap_value:
  assumes "resolveSwapPlan inAddr inNative outAddr outNative wsvp = Inr plan" "packSwap A plan amountIn minOut to dl = Inr (data, val)"
  shows "val = (if inNative then amountIn else 0) \<and> spPath plan = [if inNative then wsvp else inAddr, if outNative then wsvp else outAddr]"
  using assms by (auto simp: resolveSwapPlan_def packSwap_def split: if_splits)

lemma slippage_bounds:
  assumes "applySlippage expected bps = Inr m" "0 < m"
  shows "m * 10000 \<le> expected * (10000 - bps) \<and> expected * (10000 - bps) < (m + 1) * 10000 \<and> m \<le> expected"
proof -
  have b: "0 \<le> bps" "bps < 10000" "m = expected * (10000 - bps) div 10000" using assms(1) by (auto simp: applySlippage_Inr)
  have d: "m * 10000 + expected * (10000 - bps) mod 10000 = expected * (10000 - bps)" "0 \<le> expected * (10000 - bps) mod 10000"
      "expected * (10000 - bps) mod 10000 < 10000"
    using b(3) by simp_all
  have "0 < expected * (10000 - bps)" using d assms(2) by linarith
  then have "0 < expected" using b(2) by (simp add: zero_less_mult_iff)
  then have "expected * (10000 - bps) \<le> expected * 10000" using b(1) by (intro mult_left_mono) auto
  then show ?thesis using d by (auto simp: algebra_simps)
qed

lemma decode_router_call:
  assumes "symbolForToken E uusdc router = None"
  shows "decodeTransferOut E uusdc (Some router) val data owner router wsvp = []"
  using assms by (simp add: decodeTransferOut_def Let_def)

section \<open>Properties\<close>


section \<open>The properties on concrete inputs\<close>

text \<open>A router that quotes 4 USDC for 5 SVP.\<close>

definition exSwapClient :: evmClient where
  "exSwapClient = exClient\<lparr>evCallContract := (\<lambda>m.
     if cmTo m = replicate 20 7 then Inr (docEncode (GBigs [5000000000000000000, 4000000])) else Inr (beBytes 32 6))\<rparr>"

definition exSwapDeps :: evmDeps where
  "exSwapDeps = exDeps\<lparr>edEVM := Some exSwapClient, edAssembler := Some exSwapClient\<rparr>"

definition exSwap :: swapInput where
  "exSwap = \<lparr>siTokenIn = ''svp'', siTokenOut = ''usdc'', siAmountIn = ''5'', siSlippageBps = 0, siDeadlineSec = 0, siClientID = ''c-8''\<rparr>"

lemma exSwapDeps_simps [simp]:
  "edEth exSwapDeps = docEth" "edSdk exSwapDeps = docSDK" "edDec exSwapDeps = docDec" "edAbi exSwapDeps = docAbi"
  "edEVM exSwapDeps = Some exSwapClient" "edAssembler exSwapDeps = Some exSwapClient"
  "edUniswap exSwapDeps = Some \<lparr>Router = replicate 20 7, WSVP = replicate 20 8\<rparr>"
  by (simp_all add: exSwapDeps_def exDeps_def)

lemma exSwap_tokens:
  "parseSwapToken docEth ''svp'' = Inr (zeroAddress, True)"
  "\<exists>a. parseSwapToken docEth ''usdc'' = Inr (a, False) \<and> a \<noteq> replicate 20 7"
  "UnpackAmounts docAbi (docEncode (GBigs [5000000000000000000, 4000000])) = Inr [5000000000000000000, 4000000]"
  "UnpackDecimals docAbi (beBytes 32 6) = Inr 6" "digits_val ''5'' = 5" "all_digits ''5''"
proof -
  have "case parseSwapToken docEth ''usdc'' of Inr (a, False) \<Rightarrow> a \<noteq> replicate 20 7 | _ \<Rightarrow> False" by code_simp
  then show "\<exists>a. parseSwapToken docEth ''usdc'' = Inr (a, False) \<and> a \<noteq> replicate 20 7"
    by (auto split: sum.splits prod.splits bool.splits)
qed code_simp+

lemma exSwapClient_assembles: "\<exists>p. EVMAssemble E exSwapClient now args = Inr p"
  by (simp add: EVMAssemble_def exSwapClient_def exClient_def docClient_def Let_def)

lemma docAbi_packs: "abiMethodOf a name = Some m \<Longrightarrow> \<exists>bs. Pack docAbi a name vs = Inr bs"
  by (simp add: docAbi_def)

lemma exSwap_builds: "\<exists>out. buildSwap exSwapDeps exSwap now ''svp1abc'' = Inr out"
proof -
  obtain a where out: "parseSwapToken docEth ''usdc'' = Inr (a, False)" "a \<noteq> replicate 20 7" using exSwap_tokens(2) by blast
  obtain own where own: "ownerEthAddress docSDK docEth ''svp1abc'' = Inr own" using exOwner_address by blast
  have five: "humanToBaseUnits docDec ''5'' 18 = Inr 5000000000000000000"
    using humanToBaseUnits_whole [OF docDec_ok exSwap_tokens(6), of 18] exSwap_tokens(5) by simp
  have packs: "\<exists>bs. PackDecimals docAbi = Inr bs" "\<exists>bs. PackGetAmountsOut docAbi x xs = Inr bs" "\<exists>bs. PackSwapExactSVPForTokens docAbi x xs t d = Inr bs"
    for x xs t d
    by (simp_all add: PackDecimals_def PackGetAmountsOut_def PackSwapExactSVPForTokens_def docAbi_def abiMethodOf_def erc20ABI_def
        uniswapV2RouterABI_def meth_def)
  have dec: "tokenDecimals exSwapDeps True x = Inr 18" "tokenDecimals exSwapDeps False a = Inr 6" for x
    using packs(1) exSwap_tokens(4) out(2) by (auto simp: tokenDecimals_def evmCall_def evmCallOn_def exSwapClient_def)
  have quote: "quoteAmountsOut exSwapDeps \<lparr>Router = replicate 20 7, WSVP = replicate 20 8\<rparr> x xs = Inr [5000000000000000000, 4000000]" for x xs
    using packs(2) [of x xs] exSwap_tokens(3) by (auto simp: quoteAmountsOut_def evmCall_def evmCallOn_def exSwapClient_def simp del: docEncode.simps)
  show ?thesis
    using packs(3) exSwapClient_assembles
    by (auto simp: buildSwap_def requireSwap_def exSwap_def exSwap_tokens(1) out own five dec quote resolveSwapPlan_def applySlippage_def bpsDenom_def
        defaultSlippageBps_def packSwap_def Let_def) blast
qed


end
