(* ===== verification/Bridge_Tools.thy ===== *)
theory Bridge_Tools
  imports Erc_Tools
begin

text \<open>
  The bridge deposit tools of \<open>lib/mcp/tools/bridge.go\<close>: the outbound and the inbound tool resolve a leg, a route of the registry
  with the endpoint of its source chain, and share the algorithm that builds the deposit on it. The main result is the
  contract of both: the deposit follows a whitelisted route, pays the recipient, carries exactly the amount, and is
  replaced by an approval step when the allowance of the bridge is short.
\<close>

section \<open>Data\<close>

record bridgeLeg =
  blRoute :: route
  blSrcChainID :: u64
  blDestChainID :: u64
  blBridge :: address
  blAssembler :: evmClient
  blClient :: evmClient

record bridgeApproval =
  baTool :: string
  baToken :: string
  baSpender :: string
  baMinAmount :: string
  baChainID :: u64
  baRetryTool :: string
  baMessage :: string

text \<open>The payload is absent (its zero value) when an approval is needed first.\<close>

record bridgeDepositOutput =
  boPayload :: "evmTxPayload option"
  boSourceChainID :: u64
  boDestChainID :: u64
  boSymbol :: string
  boSourceToken :: string
  boTargetToken :: string
  boRecipient :: string
  boAmountBase :: string
  boApprovalRequired :: "bridgeApproval option"

section \<open>The shared algorithm\<close>

definition bridgeTokenLabel :: "ethLib \<Rightarrow> address \<Rightarrow> string" where
  "bridgeTokenLabel E addr = (if addr = nilAddress then ''native'' else AddressHex E addr)"

definition checkBridgeAllowance :: "evmDeps \<Rightarrow> evmClient \<Rightarrow> address \<Rightarrow> address \<Rightarrow> address \<Rightarrow> int \<Rightarrow> string \<Rightarrow> string \<Rightarrow> u64
    \<Rightarrow> bridgeApproval option res" where
  "checkBridgeAllowance D client token owner bridgeAddr amount amountHuman retryTool srcChainID =
     rbind (PackERC20Allowance (edAbi D) owner bridgeAddr) (\<lambda>data.
     rbind (rwrap ''read allowance for %s: %w'' [AStr (AddressHex (edEth D) token)] (evmCallOn client token data)) (\<lambda>out.
     rbind (UnpackERC20Allowance (edAbi D) out) (\<lambda>allowance.
     if allowance < amount
     then Inr (Some \<lparr>baTool = ''build_erc20_approve'', baToken = AddressHex (edEth D) token, baSpender = AddressHex (edEth D) bridgeAddr,
            baMinAmount = amountHuman, baChainID = srcChainID, baRetryTool = retryTool,
            baMessage = ''bridge allowance for '' @ AddressHex (edEth D) token @ '' is insufficient '' @ emDash @
              '' call build_erc20_approve (token '' @ AddressHex (edEth D) token @ '', spender '' @ AddressHex (edEth D) bridgeAddr @
              '', amount >= '' @ amountHuman @ '', chain_id '' @ formatUint srcChainID @ '') first, then retry '' @ retryTool\<rparr>)
     else Inr None)))"

definition assembleBridgeDeposit :: "evmDeps \<Rightarrow> time \<Rightarrow> bridgeLeg \<Rightarrow> address \<Rightarrow> address \<Rightarrow> string \<Rightarrow> string \<Rightarrow> string
    \<Rightarrow> bridgeDepositOutput res" where
  "assembleBridgeDeposit D now leg from recipient amountHuman clientID toolName =
     (let rt = blRoute leg in
      rbind (rwrap ''amount: %w'' [] (humanToBaseUnits (edDec D) amountHuman (rtDecimals rt))) (\<lambda>amountBase.
      let base = \<lparr>boPayload = None, boSourceChainID = blSrcChainID leg, boDestChainID = blDestChainID leg, boSymbol = rtSymbol rt,
            boSourceToken = bridgeTokenLabel (edEth D) (rtSrcToken rt), boTargetToken = bridgeTokenLabel (edEth D) (rtTargetToken rt),
            boRecipient = AddressHex (edEth D) recipient, boAmountBase = bigString amountBase, boApprovalRequired = None\<rparr>;
          assemble = (\<lambda>data val.
            rbind (EVMAssemble (edEth D) (blAssembler leg) now
              \<lparr>eaClientID = clientID, eaFrom = from, eaTo = blBridge leg, eaData = data, eaValue = val,
               eaSummary = \<lparr>esToolName = toolName,
                 esDescription = ''bridge '' @ amountHuman @ '' '' @ rtSymbol rt @ '' from chain '' @ formatUint (blSrcChainID leg) @
                   '' to chain '' @ formatUint (blDestChainID leg) @ '' (recipient '' @ AddressHex (edEth D) recipient @ '')''\<rparr>\<rparr>) (\<lambda>p.
            Inr (base\<lparr>boPayload := Some p\<rparr>))) in
      if NativeSource rt
      then rbind (PackDepositNative (edAbi D) (blDestChainID leg) (rtTargetToken rt) recipient) (\<lambda>data.
           assemble data (Some amountBase))
      else rbind (checkBridgeAllowance D (blClient leg) (rtSrcToken rt) from (blBridge leg) amountBase amountHuman toolName (blSrcChainID leg)) (\<lambda>approval.
           if approval \<noteq> None then Inr (base\<lparr>boApprovalRequired := approval\<rparr>)
           else rbind (PackDeposit (edAbi D) (rtSrcToken rt) amountBase (blDestChainID leg) (rtTargetToken rt) recipient) (\<lambda>data.
                assemble data None))))"

definition bridgeParties :: "evmDeps \<Rightarrow> string \<Rightarrow> string \<Rightarrow> (address \<times> address) res" where
  "bridgeParties D owner recipientArg =
     rbind (ownerEthAddress (edSdk D) (edEth D) owner) (\<lambda>from.
     if recipientArg \<noteq> []
     then rbind (parseEVMAddress (edEth D) recipientArg ''recipient'') (\<lambda>recipient. Inr (from, recipient))
     else Inr (from, from))"

definition bridgeBody :: "evmDeps \<Rightarrow> string \<Rightarrow> string \<Rightarrow> string \<Rightarrow> string \<Rightarrow> bridgeLeg res \<Rightarrow> time \<Rightarrow> string \<Rightarrow> bridgeDepositOutput res" where
  "bridgeBody D tool amount recipientArg clientID resolveLeg now owner =
     rbind (bridgeParties D owner recipientArg) (\<lambda>(from, recipient).
     rbind resolveLeg (\<lambda>leg.
     assembleBridgeDeposit D now leg from recipient amount clientID tool))"

definition buildBridge :: "evmDeps \<Rightarrow> string \<Rightarrow> string \<Rightarrow> string \<Rightarrow> string \<Rightarrow> bridgeLeg res \<Rightarrow> 'lim rateLib \<Rightarrow> time \<Rightarrow> requestCtx
    \<Rightarrow> ('lim server, bridgeDepositOutput) handler" where
  "buildBridge D tool amount recipientArg clientID resolveLeg R now ctx =
     hbind (authorize R now ctx tool) (\<lambda>tp. hlift (bridgeBody D tool amount recipientArg clientID resolveLeg now (tpOwner tp)))"

section \<open>Outbound\<close>

definition requireBridge :: "evmDeps \<Rightarrow> (address \<times> registry \<times> u64) res" where
  "requireBridge D =
     rbind (require (edEVM D \<noteq> None \<and> edAssembler D \<noteq> None) evmDisabled) (\<lambda>_.
     case (edBridge D, edBridgeRoutes D) of
       (Some br, Some routes) \<Rightarrow> Inr (br, routes, edBridgeSourceChainID D)
     | _ \<Rightarrow> Inl (Errorf ''bridging is not enabled on this server (no evm_bridge_addr / evm_bridge_routes_path configured)'' []))"

record bridgeDepositInput =
  biDestChain :: string
  biToken :: string
  biAmount :: string
  biRecipient :: string
  biClientID :: string

definition outboundLeg :: "evmDeps \<Rightarrow> bridgeDepositInput \<Rightarrow> bridgeLeg res" where
  "outboundLeg D inp =
     rbind (requireBridge D) (\<lambda>(br, routes, srcChainID).
     rbind (ResolveDestChain routes (biDestChain inp) srcChainID) (\<lambda>destChainID.
     rbind (Lookup (edEth D) routes srcChainID destChainID (biToken inp)) (\<lambda>rt.
     rbind (nonNil (edAssembler D)) (\<lambda>asm.
     rbind (nonNil (edEVM D)) (\<lambda>client.
     Inr \<lparr>blRoute = rt, blSrcChainID = srcChainID, blDestChainID = destChainID, blBridge = br, blAssembler = asm, blClient = client\<rparr>)))))"

definition toolBuildBridgeDeposit :: "evmDeps \<Rightarrow> bridgeDepositInput \<Rightarrow> 'lim rateLib \<Rightarrow> time \<Rightarrow> requestCtx
    \<Rightarrow> ('lim server, bridgeDepositOutput) handler" where
  "toolBuildBridgeDeposit D inp =
     buildBridge D ''build_bridge_deposit'' (biAmount inp) (biRecipient inp) (biClientID inp) (outboundLeg D inp)"

section \<open>Inbound\<close>

definition requireInboundBridge :: "evmDeps \<Rightarrow> (registry \<times> u64 \<times> (u64 \<times> foreignChain) list) res" where
  "requireInboundBridge D =
     rbind (of_opt (Errorf ''bridging is not enabled on this server (no evm_bridge_addr / evm_bridge_routes_path configured)'' [])
       (edBridgeRoutes D)) (\<lambda>routes.
     rbind (require (edForeignChains D \<noteq> [])
       (Errorf ''inbound bridging is not enabled on this server (no evm_foreign_chain configured)'' [])) (\<lambda>_.
     Inr (routes, edHomeChainID D, edForeignChains D)))"

record bridgeInboundInput =
  bnSourceChain :: string
  bnToken :: string
  bnAmount :: string
  bnRecipient :: string
  bnClientID :: string

definition inboundLeg :: "evmDeps \<Rightarrow> bridgeInboundInput \<Rightarrow> bridgeLeg res" where
  "inboundLeg D inp =
     rbind (requireInboundBridge D) (\<lambda>(routes, homeChainID, foreigns).
     rbind (ResolveSourceChain routes (bnSourceChain inp) homeChainID) (\<lambda>srcChainID.
     rbind (of_opt (Errorf
              ''source chain %d has an inbound route but is not configured for inbound bridging (no matching evm_foreign_chain)''
              [AInt (uint srcChainID)]) (map_of foreigns srcChainID)) (\<lambda>fc.
     rbind (Lookup (edEth D) routes srcChainID homeChainID (bnToken inp)) (\<lambda>rt.
     Inr \<lparr>blRoute = rt, blSrcChainID = srcChainID, blDestChainID = homeChainID, blBridge = fcBridge fc,
          blAssembler = fcAssembler fc, blClient = fcClient fc\<rparr>))))"

definition toolBuildBridgeDepositInbound :: "evmDeps \<Rightarrow> bridgeInboundInput \<Rightarrow> 'lim rateLib \<Rightarrow> time \<Rightarrow> requestCtx
    \<Rightarrow> ('lim server, bridgeDepositOutput) handler" where
  "toolBuildBridgeDepositInbound D inp =
     buildBridge D ''build_bridge_deposit_inbound'' (bnAmount inp) (bnRecipient inp) (bnClientID inp) (inboundLeg D inp)"

section \<open>The contract of the build tools\<close>

lemma assembleBridgeDeposit_builtFor:
  assumes "assembleBridgeDeposit D now leg from recipient amount clientID tool = Inr out" "boPayload out = Some p"
    and "blAssembler leg \<in> assemblers D" "ownerEthAddress (edSdk D) (edEth D) owner = Inr from"
  shows "builtFor D now tool clientID owner p"
  using assms by (auto simp: assembleBridgeDeposit_def Let_def split: if_splits elim!: builtForI)

lemma bridgeBody_builtFor:
  assumes "\<And>leg. resolveLeg = Inr leg \<Longrightarrow> blAssembler leg \<in> assemblers D"
    and "bridgeBody D tool amount recip clientID resolveLeg now owner = Inr out" "boPayload out = Some p"
  shows "builtFor D now tool clientID owner p"
  using assms by (auto simp: bridgeBody_def bridgeParties_def split: if_splits intro: assembleBridgeDeposit_builtFor)

lemma outboundLeg_assembler: "outboundLeg D inp = Inr leg \<Longrightarrow> blAssembler leg \<in> assemblers D"
  by (auto simp: outboundLeg_def nonNil_def intro: home_assembler)

lemma foreign_assembler: "map_of (edForeignChains D) i = Some fc \<Longrightarrow> fcAssembler fc \<in> assemblers D"
  by (auto simp: assemblers_def dest!: map_of_SomeD) force

lemma inboundLeg_assembler: "inboundLeg D inp = Inr leg \<Longrightarrow> blAssembler leg \<in> assemblers D"
  by (auto simp: inboundLeg_def requireInboundBridge_def intro: foreign_assembler)

interpretation bo: evm_build_tool D "toolBuildBridgeDeposit D inp" boPayload "''build_bridge_deposit''" "biClientID inp" for D inp
  by (rule evm_build_toolI, unfold toolBuildBridgeDeposit_def, rule buildBridge_def) (rule bridgeBody_builtFor [OF outboundLeg_assembler])

interpretation bn: evm_build_tool D "toolBuildBridgeDepositInbound D inp" boPayload "''build_bridge_deposit_inbound''" "bnClientID inp" for D inp
  by (rule evm_build_toolI, unfold toolBuildBridgeDepositInbound_def, rule buildBridge_def) (rule bridgeBody_builtFor [OF inboundLeg_assembler])

section \<open>Both directions\<close>

datatype bridgeRequest = Outbound bridgeDepositInput | Inbound bridgeInboundInput

fun brTool :: "bridgeRequest \<Rightarrow> string" where
  "brTool (Outbound _) = ''build_bridge_deposit''"
| "brTool (Inbound _) = ''build_bridge_deposit_inbound''"

fun brAmount :: "bridgeRequest \<Rightarrow> string" where
  "brAmount (Outbound i) = biAmount i"
| "brAmount (Inbound i) = bnAmount i"

fun brRecipient :: "bridgeRequest \<Rightarrow> string" where
  "brRecipient (Outbound i) = biRecipient i"
| "brRecipient (Inbound i) = bnRecipient i"

fun bridgeTool :: "evmDeps \<Rightarrow> bridgeRequest \<Rightarrow> 'lim rateLib \<Rightarrow> time \<Rightarrow> requestCtx \<Rightarrow> ('lim server, bridgeDepositOutput) handler" where
  "bridgeTool D (Outbound i) = toolBuildBridgeDeposit D i"
| "bridgeTool D (Inbound i) = toolBuildBridgeDepositInbound D i"

fun brClientID :: "bridgeRequest \<Rightarrow> string" where
  "brClientID (Outbound i) = biClientID i"
| "brClientID (Inbound i) = bnClientID i"

fun brLeg :: "evmDeps \<Rightarrow> bridgeRequest \<Rightarrow> bridgeLeg res" where
  "brLeg D (Outbound i) = outboundLeg D i"
| "brLeg D (Inbound i) = inboundLeg D i"

text \<open>The deployment a leg deposits on: the home one on the way out, that of the configured source chain on the way in.\<close>

fun legOf :: "evmDeps \<Rightarrow> bridgeRequest \<Rightarrow> bridgeLeg \<Rightarrow> bool" where
  "legOf D (Outbound _) leg \<longleftrightarrow> blSrcChainID leg = edBridgeSourceChainID D \<and> edBridge D = Some (blBridge leg) \<and>
     edAssembler D = Some (blAssembler leg) \<and> edEVM D = Some (blClient leg)"
| "legOf D (Inbound _) leg \<longleftrightarrow> blDestChainID leg = edHomeChainID D \<and>
     map_of (edForeignChains D) (blSrcChainID leg) = Some \<lparr>fcClient = blClient leg, fcAssembler = blAssembler leg, fcBridge = blBridge leg\<rparr>"

text \<open>What the bridge may pull of the token.\<close>

definition bridgeAllowance :: "evmDeps \<Rightarrow> bridgeLeg \<Rightarrow> address \<Rightarrow> int res" where
  "bridgeAllowance D leg own =
     rbind (PackERC20Allowance (edAbi D) own (blBridge leg)) (\<lambda>data.
     rbind (evmCallOn (blClient leg) (rtSrcToken (blRoute leg)) data) (UnpackERC20Allowance (edAbi D)))"

lemma bridgeTool_eq:
  "bridgeTool D req R now ctx = hbind (authorize R now ctx (brTool req)) (\<lambda>tp.
     hlift (bridgeBody D (brTool req) (brAmount req) (brRecipient req) (brClientID req) (brLeg D req) now (tpOwner tp)))"
  by (cases req) (simp_all add: toolBuildBridgeDeposit_def toolBuildBridgeDepositInbound_def buildBridge_def)

lemma brLeg_route:
  assumes "brLeg D req = Inr leg"
  obtains reg where "edBridgeRoutes D = Some reg" "blRoute leg \<in> set (rgRoutes reg)" "rtSrcChainID (blRoute leg) = blSrcChainID leg"
    "rtTargetChainID (blRoute leg) = blDestChainID leg" "blSrcChainID leg \<noteq> blDestChainID leg" "legOf D req leg"
proof (cases req)
  case (Outbound i)
  then show thesis
    using assms by (auto simp: outboundLeg_def requireBridge_def ResolveDestChain_def nonNil_def split: option.splits
        dest!: resolveChain_Inr Lookup_Inr intro!: that)
next
  case (Inbound i)
  then show thesis
    using assms by (auto simp: inboundLeg_def requireInboundBridge_def ResolveSourceChain_def
        dest!: resolveChain_Inr Lookup_Inr intro!: that)
qed

lemma checkBridgeAllowance_Inr:
  assumes "checkBridgeAllowance D (blClient leg) (rtSrcToken (blRoute leg)) own (blBridge leg) amount human tool src = Inr r"
  obtains al where "bridgeAllowance D leg own = Inr al" "r = None \<longleftrightarrow> amount \<le> al"
    "\<And>ap. r = Some ap \<Longrightarrow> baToken ap = AddressHex (edEth D) (rtSrcToken (blRoute leg)) \<and>
       baSpender ap = AddressHex (edEth D) (blBridge leg) \<and> baChainID ap = src \<and> baMinAmount ap = human \<and> baRetryTool ap = tool"
  using assms by (auto simp: checkBridgeAllowance_def bridgeAllowance_def split: if_splits intro!: that)

lemma bridgeParties_Inr:
  "bridgeParties D owner arg = Inr (own, recipient) \<longleftrightarrow> ownerEthAddress (edSdk D) (edEth D) owner = Inr own \<and>
     (if arg = [] then recipient = own else parseEVMAddress (edEth D) arg ''recipient'' = Inr recipient)"
  by (auto simp: bridgeParties_def)

lemma decode_bridge_call:
  assumes "symbolForToken E uusdc br = None" "br \<noteq> router" "br \<noteq> wsvp" "0 \<le> val"
  shows "amountOf (decodeTransferOut E uusdc (Some br) val data owner router wsvp) y = (if y = ''svp'' then val else 0)"
  using assms by (simp add: decodeTransferOut_def Let_def symbolForNative_svp amountOf_addOut)

text \<open>What the shared algorithm returns on a leg.\<close>

definition depositOn :: "evmDeps \<Rightarrow> bridgeLeg \<Rightarrow> address \<Rightarrow> address \<Rightarrow> int \<Rightarrow> bridgeDepositOutput \<Rightarrow> bool" where
  "depositOn D leg own recipient amount out \<longleftrightarrow>
     (let rt = blRoute leg in
      case boPayload out of
        None \<Rightarrow> \<not> NativeSource rt \<and> (\<exists>al ap. bridgeAllowance D leg own = Inr al \<and> al < amount \<and> boApprovalRequired out = Some ap \<and>
          baToken ap = AddressHex (edEth D) (rtSrcToken rt) \<and> baSpender ap = AddressHex (edEth D) (blBridge leg) \<and>
          baChainID ap = blSrcChainID leg)
      | Some p \<Rightarrow> boApprovalRequired out = None \<and> epSignerAddress p = AddressHex (edEth D) own \<and>
          epTo p = AddressHex (edEth D) (blBridge leg) \<and> epValue p = bigString (if NativeSource rt then amount else 0) \<and>
          (\<exists>data. epData p = HexutilEncode (edEth D) data \<and>
             (if NativeSource rt then PackDepositNative (edAbi D) (blDestChainID leg) (rtTargetToken rt) recipient
              else PackDeposit (edAbi D) (rtSrcToken rt) amount (blDestChainID leg) (rtTargetToken rt) recipient) = Inr data) \<and>
          (NativeSource rt \<or> (\<exists>al. bridgeAllowance D leg own = Inr al \<and> amount \<le> al)))"

lemma assembleBridgeDeposit_Inr:
  assumes "assembleBridgeDeposit D now leg own recipient human clientID tool = Inr out"
  obtains amount where "humanToBaseUnits (edDec D) human (rtDecimals (blRoute leg)) = Inr amount" "depositOn D leg own recipient amount out"
    "boSourceChainID out = blSrcChainID leg" "boDestChainID out = blDestChainID leg" "boAmountBase out = bigString amount"
  using assms
  by (auto simp: assembleBridgeDeposit_def Let_def depositOn_def EVMAssemble_Inr split: if_splits elim!: checkBridgeAllowance_Inr intro!: that)

section \<open>Properties\<close>

text \<open>C10: the contract of a bridge deposit, in both directions. When a bridge tool returns, the deposit follows a route of the
  registry between two different chains, on the deployment of its source chain: the home one on the way out, the configured
  foreign one on the way in. The recipient is the caller unless another valid address was given. The result is a payload
  from the caller's address to the bridge contract that releases the route's target token to the recipient, with the
  amount as value exactly for a native coin and covered by the bridge's allowance otherwise; or, exactly when that allowance
  is short, no payload but the approval to make on that chain. The broadcast tool counts the value of such a
  transaction as native coin that leaves, and nothing of a token deposit.\<close>

theorem bridge_deposit_follows_route:
  assumes "ethLib_ok (edEth D)" "decLib_ok (edDec D)" "bridgeTool D req R now ctx s = (Inr out, s')"
  shows "\<exists>tp own recipient reg leg amount.
    authorize R now ctx (brTool req) s = (Inr tp, s') \<and> ownerEthAddress (edSdk D) (edEth D) (tpOwner tp) = Inr own \<and>
    recipient = (if brRecipient req = [] then own else HexToAddress (edEth D) (trimSpace (brRecipient req))) \<and>
    edBridgeRoutes D = Some reg \<and> blRoute leg \<in> set (rgRoutes reg) \<and>
    rtSrcChainID (blRoute leg) = boSourceChainID out \<and> rtTargetChainID (blRoute leg) = boDestChainID out \<and>
    blSrcChainID leg = boSourceChainID out \<and> blDestChainID leg = boDestChainID out \<and> boSourceChainID out \<noteq> boDestChainID out \<and>
    legOf D req leg \<and> humanToBaseUnits (edDec D) (brAmount req) (rtDecimals (blRoute leg)) = Inr amount \<and> 0 < amount \<and>
    depositOn D leg own recipient amount out \<and>
    (\<forall>p tx uusdc router wsvp. boPayload out = Some p \<and> payloadTx (edEth D) p tx \<and> length (blBridge leg) = 20 \<and>
       symbolForToken (edEth D) uusdc (blBridge leg) = None \<and> blBridge leg \<noteq> router \<and> blBridge leg \<noteq> wsvp \<longrightarrow>
       (\<forall>y. amountOf (decodeTransferOut (edEth D) uusdc (vtTo tx) (vtValue tx) (vtData tx) own router wsvp) y =
          (if y = ''svp'' \<and> NativeSource (blRoute leg) then amount else 0)))"
proof -
  obtain tp where a: "authorize R now ctx (brTool req) s = (Inr tp, s')"
    and b: "bridgeBody D (brTool req) (brAmount req) (brRecipient req) (brClientID req) (brLeg D req) now (tpOwner tp) = Inr out"
    using assms(3) by (auto simp: bridgeTool_eq hbind_Inr_iff)
  obtain own recipient leg where l: "bridgeParties D (tpOwner tp) (brRecipient req) = Inr (own, recipient)" "brLeg D req = Inr leg"
      "assembleBridgeDeposit D now leg own recipient (brAmount req) (brClientID req) (brTool req) = Inr out"
    using b by (auto simp: bridgeBody_def)
  obtain reg where reg: "edBridgeRoutes D = Some reg" "blRoute leg \<in> set (rgRoutes reg)" "rtSrcChainID (blRoute leg) = blSrcChainID leg"
    "rtTargetChainID (blRoute leg) = blDestChainID leg" "blSrcChainID leg \<noteq> blDestChainID leg" "legOf D req leg"
    using brLeg_route [OF l(2)] .
  obtain amount where am: "humanToBaseUnits (edDec D) (brAmount req) (rtDecimals (blRoute leg)) = Inr amount" "depositOn D leg own recipient amount out"
      "boSourceChainID out = blSrcChainID leg" "boDestChainID out = blDestChainID leg"
    using assembleBridgeDeposit_Inr [OF l(3)] .
  have pos: "0 < amount" using humanToBaseUnits_pos [OF assms(2) am(1)] .
  have counted: "amountOf (decodeTransferOut (edEth D) uusdc (vtTo tx) (vtValue tx) (vtData tx) own router wsvp) y =
      (if y = ''svp'' \<and> NativeSource (blRoute leg) then amount else 0)"
    if t: "boPayload out = Some p" "payloadTx (edEth D) p tx" "length (blBridge leg) = 20" "symbolForToken (edEth D) uusdc (blBridge leg) = None"
      "blBridge leg \<noteq> router" "blBridge leg \<noteq> wsvp" for p tx uusdc router wsvp y
  proof -
    have "vtTo tx = Some (blBridge leg)" "vtValue tx = (if NativeSource (blRoute leg) then amount else 0)"
      using t(1-3) am(2) assms(1) by (auto simp: depositOn_def payloadTx_def ethLib_ok_def Let_def split: if_splits)
    then show ?thesis using decode_bridge_call [OF t(4-6)] pos by simp
  qed
  have "recipient = (if brRecipient req = [] then own else HexToAddress (edEth D) (trimSpace (brRecipient req)))"
      "ownerEthAddress (edSdk D) (edEth D) (tpOwner tp) = Inr own"
    using l(1) by (auto simp: bridgeParties_Inr parseEVMAddress_Inr split: if_splits)
  then show ?thesis using a reg am pos counted by (intro exI conjI) (assumption | simp)+
qed

section \<open>The properties on concrete inputs\<close>

definition exInbound :: bridgeInboundInput where
  "exInbound = \<lparr>bnSourceChain = ''11155111'', bnToken = ''native'', bnAmount = ''5'', bnRecipient = [], bnClientID = ''c-7''\<rparr>"

lemma exInbound_simps [simp]:
  "bnAmount exInbound = ''5''" "bnRecipient exInbound = []" "bnClientID exInbound = ''c-7''"
  by (simp_all add: exInbound_def)

lemma exDeps_bridge:
  "edHomeChainID exDeps = 2517" "map_of (edForeignChains exDeps) i = Some fc \<Longrightarrow> fcBridge fc = replicate 20 6"
  by (auto simp: exDeps_def split: if_splits)

lemma exInbound_leg: "\<exists>leg. inboundLeg exDeps exInbound = Inr leg \<and> NativeSource (blRoute leg) \<and> rtDecimals (blRoute leg) = 18 \<and>
   blAssembler leg = exClient"
proof -
  have "case inboundLeg exDeps exInbound of Inl _ \<Rightarrow> False | Inr leg \<Rightarrow> NativeSource (blRoute leg) \<and> rtDecimals (blRoute leg) = 18"
    by code_simp
  then obtain leg where leg: "inboundLeg exDeps exInbound = Inr leg" "NativeSource (blRoute leg)" "rtDecimals (blRoute leg) = 18"
    by (auto split: sum.splits)
  then have "blAssembler leg = exClient"
    by (auto simp: inboundLeg_def requireInboundBridge_def exDeps_def split: if_splits)
  with leg show ?thesis by blast
qed

theorem bridge_deposit_follows_route_witness:
  "\<exists>out s' p. bridgeTool exDeps (Inbound exInbound) exRate second exTenant exServer = (Inr out, s') \<and> boPayload out = Some p \<and>
     epTo p = AddressHex docEth (replicate 20 6) \<and> boDestChainID out = 2517"
proof -
  obtain tp s' where a: "authorize exRate second exTenant ''build_bridge_deposit_inbound'' exServer = (Inr tp, s')" "tpOwner tp = ''svp1abc''"
    using exTenant_authorized by blast
  obtain leg where leg: "inboundLeg exDeps exInbound = Inr leg" "NativeSource (blRoute leg)" "rtDecimals (blRoute leg) = 18" "blAssembler leg = exClient"
    using exInbound_leg by blast
  have v: "digits_val ''5'' = 5" "all_digits ''5''" by code_simp+
  have five: "humanToBaseUnits docDec ''5'' 18 = Inr 5000000000000000000"
    using humanToBaseUnits_whole [OF docDec_ok v(2), of 18] v(1) by simp
  have pack: "\<exists>bs. PackDepositNative docAbi i t r = Inr bs" for i t r
    by (simp add: PackDepositNative_def docAbi_def abiMethodOf_def svpBridgeABI_def meth_def)
  obtain own where own: "ownerEthAddress docSDK docEth ''svp1abc'' = Inr own" using exOwner_address by blast
  obtain data where data: "PackDepositNative docAbi (blDestChainID leg) (rtTargetToken (blRoute leg)) own = Inr data" using pack by blast
  note body = bridgeBody_def bridgeParties_def assembleBridgeDeposit_def Let_def
  have "\<exists>out. bridgeBody exDeps ''build_bridge_deposit_inbound'' ''5'' [] ''c-7'' (Inr leg) second ''svp1abc'' = Inr out"
    unfolding body using leg(2-4) by (simp add: own five data exClient_assembles)
  then obtain out where b: "bridgeBody exDeps ''build_bridge_deposit_inbound'' ''5'' [] ''c-7'' (Inr leg) second ''svp1abc'' = Inr out" ..
  then obtain p where p: "boPayload out = Some p"
    using leg(2,3) unfolding body by (auto simp: own five data)
  have t: "bridgeTool exDeps (Inbound exInbound) exRate second exTenant exServer = (Inr out, s')"
    unfolding bridgeTool_eq using a b leg(1) by simp
  have ok: "ethLib_ok (edEth exDeps)" "decLib_ok (edDec exDeps)" using docEth_ok docDec_ok by simp_all
  obtain leg' own' r' amount where l: "legOf exDeps (Inbound exInbound) leg'" "blDestChainID leg' = boDestChainID out" "depositOn exDeps leg' own' r' amount out"
    using bridge_deposit_follows_route [OF ok t] by blast
  then have "boDestChainID out = 2517" "epTo p = AddressHex docEth (replicate 20 6)"
    using p exDeps_bridge(1) exDeps_bridge(2) [of "blSrcChainID leg'"] by (auto simp: depositOn_def Let_def)
  then show ?thesis using t p by blast
qed

end
