(* ===== verification/Config.thy ===== *)
theory Config
  imports Withdraw_Limits Evm_Tx
begin

text \<open>
  The configuration of the server (\<open>cmd/mcp-server/config.go\<close>): its data, the defaults, the checks, and loading it from a
  file, with the paths of Go's \<open>path/filepath\<close> on Unix that loading uses. The TOML decoder and the integer parser of the
  SDK are parameters.
\<close>

section \<open>Paths (path/filepath)\<close>

abbreviation slash :: char where "slash \<equiv> CHR ''/''"

fun splitSlash :: "string \<Rightarrow> string list" where
  "splitSlash [] = [[]]"
| "splitSlash (c # cs) = (if c = slash then [] # splitSlash cs else (case splitSlash cs of [] \<Rightarrow> [[c]] | w # ws \<Rightarrow> (c # w) # ws))"

fun joinSlash :: "string list \<Rightarrow> string" where
  "joinSlash [] = []"
| "joinSlash [w] = w"
| "joinSlash (w # ws) = w @ slash # joinSlash ws"

text \<open>One element of a path on the stack of those before it.\<close>

definition cleanStep :: "bool \<Rightarrow> string list \<Rightarrow> string \<Rightarrow> string list" where
  "cleanStep rooted stack w =
     (if w = [] \<or> w = ''.'' then stack
      else if w = ''..''
      then (case stack of
              [] \<Rightarrow> if rooted then [] else [''..'']
            | t # ts \<Rightarrow> if t = ''..'' then ''..'' # stack else ts)
      else w # stack)"

definition IsAbs :: "string \<Rightarrow> bool" where
  "IsAbs path = hasPrefix path ''/''"

definition pathClean :: "string \<Rightarrow> string" where
  "pathClean path =
     (let body = joinSlash (rev (foldl (cleanStep (IsAbs path)) [] (splitSlash path))) in
      if IsAbs path then slash # body else if body = [] then ''.'' else body)"

definition pathDir :: "string \<Rightarrow> string" where
  "pathDir path = pathClean (rev (dropWhile (\<lambda>c. c \<noteq> slash) (rev path)))"

definition pathJoin :: "string \<Rightarrow> string \<Rightarrow> string" where
  "pathJoin a b = (if a \<noteq> [] then pathClean (a @ slash # b) else if b \<noteq> [] then pathClean b else [])"

section \<open>Data\<close>

record foreignChainConfig =
  fgChainID :: u64
  fgRPCURL :: string
  fgBridgeAddr :: string

record feeConfig =
  fgDenom :: string
  fgAmount :: string
  fgGasLimit :: u64

record config =
  cfChainID :: string
  cfGrpcAddr :: string
  cfCometRPCURL :: string
  cfIndexerBaseURL :: string
  cfListenAddr :: string
  cfEVMRPCURL :: string
  cfEVMUniswapRouterAddr :: string
  cfEVMWSVPAddr :: string
  cfEVMOracleAddr :: string
  cfEVMLendoraComptrollerAddr :: string
  cfEVMBridgeAddr :: string
  cfEVMBridgeRoutesPath :: string
  cfEVMBridgeSourceChainID :: u64
  cfEVMForeignChains :: "foreignChainConfig list"
  cfFaucetBaseURL :: string
  cfTransferOutCapPath :: string
  cfBroadcastMode :: string
  cfMarketsRefresh :: duration
  cfLimits :: limitsConfig
  cfFee :: feeConfig

section \<open>Fees\<close>

definition DefaultFeeDenom :: string where "DefaultFeeDenom = ''asvp''"
definition DefaultFeeAmount :: string where "DefaultFeeAmount = ''25000000000000000''"
definition DefaultFeeGasLimit :: u64 where "DefaultFeeGasLimit = 1000000"

definition applyDefaults :: "feeConfig \<Rightarrow> feeConfig" where
  "applyDefaults f =
     (let f = (if fgDenom f = [] then f\<lparr>fgDenom := DefaultFeeDenom\<rparr> else f);
          f = (if fgAmount f = [] then f\<lparr>fgAmount := DefaultFeeAmount\<rparr> else f) in
      if fgGasLimit f = 0 then f\<lparr>fgGasLimit := DefaultFeeGasLimit\<rparr> else f)"

definition feeValidate :: "(string \<Rightarrow> int option) \<Rightarrow> feeConfig \<Rightarrow> unit res" where
  "feeValidate NewIntFromString f =
     rbind (require (fgDenom f \<noteq> []) (Errorf ''fee.denom is required'' [])) (\<lambda>_.
     rbind (of_opt (Errorf ''fee.amount %q is not a valid integer'' [AStr (fgAmount f)]) (NewIntFromString (fgAmount f))) (\<lambda>amt.
     require (0 \<le> amt) (Errorf ''fee.amount %q must be non-negative'' [AStr (fgAmount f)])))"

section \<open>Checks\<close>

definition validateSwap :: "ethLib \<Rightarrow> config \<Rightarrow> unit res" where
  "validateSwap E c =
     (if cfEVMUniswapRouterAddr c = [] \<and> cfEVMWSVPAddr c = [] then Inr ()
      else
        rbind (require (cfEVMUniswapRouterAddr c \<noteq> [] \<and> cfEVMWSVPAddr c \<noteq> [])
          (Errorf ''evm_uniswap_router_addr and evm_wsvp_addr must be set together'' [])) (\<lambda>_.
        rbind (require (IsHexAddress E (cfEVMUniswapRouterAddr c))
          (Errorf ''evm_uniswap_router_addr %q is not a valid 0x address'' [AStr (cfEVMUniswapRouterAddr c)])) (\<lambda>_.
        rbind (require (IsHexAddress E (cfEVMWSVPAddr c))
          (Errorf ''evm_wsvp_addr %q is not a valid 0x address'' [AStr (cfEVMWSVPAddr c)])) (\<lambda>_.
        require (cfEVMRPCURL c \<noteq> [])
          (Errorf ''evm_rpc_url is required when evm_uniswap_router_addr / evm_wsvp_addr are set'' [])))))"

definition validateOracle :: "ethLib \<Rightarrow> config \<Rightarrow> unit res" where
  "validateOracle E c =
     (if cfEVMOracleAddr c = [] then Inr ()
      else
        rbind (require (IsHexAddress E (cfEVMOracleAddr c)) (Errorf ''evm_oracle_addr %q is not a valid 0x address'' [AStr (cfEVMOracleAddr c)])) (\<lambda>_.
        require (cfEVMRPCURL c \<noteq> []) (Errorf ''evm_rpc_url is required when evm_oracle_addr is set'' [])))"

definition validateLendora :: "ethLib \<Rightarrow> config \<Rightarrow> unit res" where
  "validateLendora E c =
     (if cfEVMLendoraComptrollerAddr c = [] then Inr ()
      else
        rbind (require (IsHexAddress E (cfEVMLendoraComptrollerAddr c))
          (Errorf ''evm_lendora_comptroller_addr %q is not a valid 0x address'' [AStr (cfEVMLendoraComptrollerAddr c)])) (\<lambda>_.
        require (cfEVMRPCURL c \<noteq> []) (Errorf ''evm_rpc_url is required when evm_lendora_comptroller_addr is set'' [])))"

definition validateBridge :: "ethLib \<Rightarrow> config \<Rightarrow> unit res" where
  "validateBridge E c =
     (let set = (if cfEVMBridgeAddr c \<noteq> [] then 1 else 0) + (if cfEVMBridgeRoutesPath c \<noteq> [] then 1 else 0) +
            (if cfEVMBridgeSourceChainID c \<noteq> 0 then 1 else 0 :: nat) in
      if set = 0 then Inr ()
      else
        rbind (require (set = 3)
          (Errorf ''evm_bridge_addr, evm_bridge_routes_path and evm_bridge_source_chain_id must be set together'' [])) (\<lambda>_.
        rbind (require (IsHexAddress E (cfEVMBridgeAddr c)) (Errorf ''evm_bridge_addr %q is not a valid 0x address'' [AStr (cfEVMBridgeAddr c)])) (\<lambda>_.
        require (cfEVMRPCURL c \<noteq> []) (Errorf ''evm_rpc_url is required when the bridge is configured'' []))))"

fun checkForeign :: "ethLib \<Rightarrow> u64 \<Rightarrow> nat \<Rightarrow> u64 list \<Rightarrow> foreignChainConfig list \<Rightarrow> unit res" where
  "checkForeign E home i seen [] = Inr ()"
| "checkForeign E home i seen (fc # fcs) =
     rbind (require (fgChainID fc \<noteq> 0) (Errorf ''evm_foreign_chain[%d] chain_id is required'' [AInt (int i)])) (\<lambda>_.
     rbind (require (fgChainID fc \<noteq> home)
       (Errorf ''evm_foreign_chain[%d] chain_id %d is the home chain (evm_bridge_source_chain_id)'' [AInt (int i), AInt (uint (fgChainID fc))])) (\<lambda>_.
     rbind (require (fgChainID fc \<notin> set seen)
       (Errorf ''evm_foreign_chain[%d] chain_id %d is declared more than once'' [AInt (int i), AInt (uint (fgChainID fc))])) (\<lambda>_.
     rbind (require (fgRPCURL fc \<noteq> [])
       (Errorf ''evm_foreign_chain[%d] (chain_id %d) rpc_url is required'' [AInt (int i), AInt (uint (fgChainID fc))])) (\<lambda>_.
     rbind (require (IsHexAddress E (fgBridgeAddr fc))
       (Errorf ''evm_foreign_chain[%d] (chain_id %d) bridge_addr %q is not a valid 0x address''
          [AInt (int i), AInt (uint (fgChainID fc)), AStr (fgBridgeAddr fc)])) (\<lambda>_.
     checkForeign E home (Suc i) (fgChainID fc # seen) fcs)))))"

definition validateForeignChains :: "ethLib \<Rightarrow> config \<Rightarrow> unit res" where
  "validateForeignChains E c =
     (if cfEVMForeignChains c = [] then Inr ()
      else
        rbind (require (cfEVMBridgeAddr c \<noteq> []) (Errorf
          ''evm_foreign_chain requires the bridge to be configured (evm_bridge_addr, evm_bridge_routes_path, evm_bridge_source_chain_id)'' [])) (\<lambda>_.
        checkForeign E (cfEVMBridgeSourceChainID c) 0 [] (cfEVMForeignChains c)))"

definition Validate :: "ethLib \<Rightarrow> (string \<Rightarrow> int option) \<Rightarrow> config \<Rightarrow> unit res" where
  "Validate E NewIntFromString c =
     rbind (require (cfChainID c \<noteq> []) (Errorf ''chain_id is required'' [])) (\<lambda>_.
     rbind (require (cfGrpcAddr c \<noteq> []) (Errorf ''grpc_addr is required'' [])) (\<lambda>_.
     rbind (require (cfCometRPCURL c \<noteq> []) (Errorf ''comet_rpc_url is required'' [])) (\<lambda>_.
     rbind (require (cfIndexerBaseURL c \<noteq> []) (Errorf ''indexer_base_url is required'' [])) (\<lambda>_.
     rbind (require (cfListenAddr c \<noteq> []) (Errorf ''listen_addr is required'' [])) (\<lambda>_.
     rbind (feeValidate NewIntFromString (cfFee c)) (\<lambda>_.
     rbind (validateSwap E c) (\<lambda>_.
     rbind (validateOracle E c) (\<lambda>_.
     rbind (validateLendora E c) (\<lambda>_.
     rbind (validateBridge E c) (\<lambda>_.
     validateForeignChains E c))))))))))"

section \<open>Loading\<close>

definition resolvePath :: "string \<Rightarrow> string \<Rightarrow> string" where
  "resolvePath path p = (if p \<noteq> [] \<and> \<not> IsAbs p then pathJoin (pathDir path) p else p)"

definition withDefaults :: "string \<Rightarrow> config \<Rightarrow> config" where
  "withDefaults path c =
     (let c = (if cfBroadcastMode c = [] then c\<lparr>cfBroadcastMode := ''server''\<rparr> else c);
          c = c\<lparr>cfFee := applyDefaults (cfFee c)\<rparr>;
          c = c\<lparr>cfEVMBridgeRoutesPath := resolvePath path (cfEVMBridgeRoutesPath c)\<rparr> in
      c\<lparr>cfTransferOutCapPath := resolvePath path (cfTransferOutCapPath c)\<rparr>)"

definition LoadConfig :: "ethLib \<Rightarrow> (string \<Rightarrow> int option) \<Rightarrow> (string \<Rightarrow> config res) \<Rightarrow> string \<Rightarrow> config res" where
  "LoadConfig E NewIntFromString DecodeFile path =
     rbind (rwrap ''decode TOML %s: %w'' [AStr path] (DecodeFile path)) (\<lambda>c.
     let c = withDefaults path c in
     rbind (Validate E NewIntFromString c) (\<lambda>_. Inr c))"

section \<open>Lemmas\<close>

lemma IsAbs_pathClean: "IsAbs p \<Longrightarrow> IsAbs (pathClean p)"
  by (simp add: pathClean_def IsAbs_def hasPrefix_def Let_def)

lemma pathClean_nonempty: "pathClean p \<noteq> []"
  by (simp add: pathClean_def Let_def)

lemma IsAbs_pathJoin: "IsAbs a \<Longrightarrow> IsAbs (pathJoin a b)"
  by (cases a) (auto simp: pathJoin_def IsAbs_def hasPrefix_def intro!: IsAbs_pathClean [unfolded IsAbs_def hasPrefix_def, simplified])

lemma dropWhile_keeps_last: "xs \<noteq> [] \<Longrightarrow> \<not> P (last xs) \<Longrightarrow> dropWhile P xs \<noteq> [] \<and> last (dropWhile P xs) = last xs"
  by (induction xs) auto

lemma IsAbs_iff: "IsAbs p \<longleftrightarrow> p \<noteq> [] \<and> hd p = slash"
  by (cases p) (auto simp: IsAbs_def hasPrefix_def)

lemma IsAbs_pathDir: "IsAbs p \<Longrightarrow> IsAbs (pathDir p)"
  unfolding pathDir_def
  by (rule IsAbs_pathClean) (use dropWhile_keeps_last [of "rev p" "\<lambda>c. c \<noteq> slash"] in \<open>auto simp: IsAbs_iff last_rev hd_rev\<close>)

text \<open>What an accepted configuration is.\<close>

definition foreignOk :: "ethLib \<Rightarrow> u64 \<Rightarrow> foreignChainConfig \<Rightarrow> bool" where
  "foreignOk E home fc \<longleftrightarrow> fgChainID fc \<noteq> 0 \<and> fgChainID fc \<noteq> home \<and> fgRPCURL fc \<noteq> [] \<and> IsHexAddress E (fgBridgeAddr fc)"

definition configOk :: "ethLib \<Rightarrow> (string \<Rightarrow> int option) \<Rightarrow> config \<Rightarrow> bool" where
  "configOk E NewIntFromString c \<longleftrightarrow>
     cfChainID c \<noteq> [] \<and> cfGrpcAddr c \<noteq> [] \<and> cfCometRPCURL c \<noteq> [] \<and> cfIndexerBaseURL c \<noteq> [] \<and> cfListenAddr c \<noteq> [] \<and>
     fgDenom (cfFee c) \<noteq> [] \<and> (\<exists>v \<ge> 0. NewIntFromString (fgAmount (cfFee c)) = Some v) \<and>
     (cfEVMUniswapRouterAddr c = [] \<longleftrightarrow> cfEVMWSVPAddr c = []) \<and>
     (cfEVMUniswapRouterAddr c \<noteq> [] \<longrightarrow> IsHexAddress E (cfEVMUniswapRouterAddr c) \<and> IsHexAddress E (cfEVMWSVPAddr c) \<and> cfEVMRPCURL c \<noteq> []) \<and>
     (cfEVMOracleAddr c \<noteq> [] \<longrightarrow> IsHexAddress E (cfEVMOracleAddr c) \<and> cfEVMRPCURL c \<noteq> []) \<and>
     (cfEVMLendoraComptrollerAddr c \<noteq> [] \<longrightarrow> IsHexAddress E (cfEVMLendoraComptrollerAddr c) \<and> cfEVMRPCURL c \<noteq> []) \<and>
     (cfEVMBridgeAddr c = [] \<longleftrightarrow> cfEVMBridgeRoutesPath c = []) \<and> (cfEVMBridgeAddr c = [] \<longleftrightarrow> cfEVMBridgeSourceChainID c = 0) \<and>
     (cfEVMBridgeAddr c \<noteq> [] \<longrightarrow> IsHexAddress E (cfEVMBridgeAddr c) \<and> cfEVMRPCURL c \<noteq> []) \<and>
     (cfEVMForeignChains c \<noteq> [] \<longrightarrow> cfEVMBridgeAddr c \<noteq> []) \<and>
     distinct (map fgChainID (cfEVMForeignChains c)) \<and> list_all (foreignOk E (cfEVMBridgeSourceChainID c)) (cfEVMForeignChains c)"

lemma checkForeign_Inr:
  "checkForeign E home i seen fcs = Inr () \<longleftrightarrow>
     list_all (foreignOk E home) fcs \<and> distinct (map fgChainID fcs) \<and> set (map fgChainID fcs) \<inter> set seen = {}"
  by (induction fcs arbitrary: i seen) (auto simp: foreignOk_def)

text \<open>The checks accept exactly the well-formed configurations.\<close>

lemma Validate_exact: "Validate E NewIntFromString c = Inr () \<longleftrightarrow> configOk E NewIntFromString c"
proof -
  have swap: "validateSwap E c = Inr () \<longleftrightarrow> (cfEVMUniswapRouterAddr c = [] \<longleftrightarrow> cfEVMWSVPAddr c = []) \<and>
     (cfEVMUniswapRouterAddr c \<noteq> [] \<longrightarrow> IsHexAddress E (cfEVMUniswapRouterAddr c) \<and> IsHexAddress E (cfEVMWSVPAddr c) \<and> cfEVMRPCURL c \<noteq> [])"
    by (auto simp: validateSwap_def)
  have br: "validateBridge E c = Inr () \<longleftrightarrow>
     (cfEVMBridgeAddr c = [] \<longleftrightarrow> cfEVMBridgeRoutesPath c = []) \<and> (cfEVMBridgeAddr c = [] \<longleftrightarrow> cfEVMBridgeSourceChainID c = 0) \<and>
     (cfEVMBridgeAddr c \<noteq> [] \<longrightarrow> IsHexAddress E (cfEVMBridgeAddr c) \<and> cfEVMRPCURL c \<noteq> [])"
    by (auto simp: validateBridge_def Let_def)
  have fee: "feeValidate NewIntFromString (cfFee c) = Inr () \<longleftrightarrow>
     fgDenom (cfFee c) \<noteq> [] \<and> (\<exists>v \<ge> 0. NewIntFromString (fgAmount (cfFee c)) = Some v)"
    by (auto simp: feeValidate_def)
  have foreign: "validateForeignChains E c = Inr () \<longleftrightarrow> (cfEVMForeignChains c \<noteq> [] \<longrightarrow> cfEVMBridgeAddr c \<noteq> []) \<and>
     distinct (map fgChainID (cfEVMForeignChains c)) \<and> list_all (foreignOk E (cfEVMBridgeSourceChainID c)) (cfEVMForeignChains c)"
    by (auto simp: validateForeignChains_def checkForeign_Inr)
  show ?thesis
    unfolding Validate_def configOk_def using fee swap br foreign
    by (simp add: validateOracle_def validateLendora_def conj_assoc)
qed

text \<open>A loaded configuration is well formed and complete, and its paths are those of the file or relative to its directory.\<close>

lemma LoadConfig_ok:
  assumes "LoadConfig E NewIntFromString DecodeFile path = Inr c"
  shows "configOk E NewIntFromString c \<and> fgGasLimit (cfFee c) \<noteq> 0 \<and> cfBroadcastMode c \<noteq> [] \<and>
    (IsAbs path \<longrightarrow> (cfEVMBridgeRoutesPath c = [] \<or> IsAbs (cfEVMBridgeRoutesPath c)) \<and>
       (cfTransferOutCapPath c = [] \<or> IsAbs (cfTransferOutCapPath c)))"
proof -
  have "configOk E NewIntFromString c" using assms by (auto simp: LoadConfig_def Let_def Validate_exact)
  moreover obtain c0 where "c = withDefaults path c0" using assms by (auto simp: LoadConfig_def Let_def)
  then have "fgGasLimit (cfFee c) \<noteq> 0" "cfBroadcastMode c \<noteq> []"
      "cfEVMBridgeRoutesPath c = resolvePath path (cfEVMBridgeRoutesPath c0)" "cfTransferOutCapPath c = resolvePath path (cfTransferOutCapPath c0)"
    by (simp_all add: withDefaults_def Let_def applyDefaults_def DefaultFeeGasLimit_def)
  moreover have "resolvePath path p = [] \<or> IsAbs (resolvePath path p)" if "IsAbs path" for p
    using IsAbs_pathJoin [OF IsAbs_pathDir [OF that]] by (simp add: resolvePath_def)
  ultimately show ?thesis by metis
qed

end
