(* ===== verification/Lendora_Abi.thy ===== *)
theory Lendora_Abi
  imports Evm_Abi
begin

text \<open>
  The call tables of the money markets (\<open>lib/mcp/builder/lendora.go\<close>): the slices of the market, Comptroller, price oracle and
  interest rate model interfaces, the packers of the calls and the checked decoders of their results. A deployment is the address of
  its Comptroller; the parsed tables are constants.
\<close>

section \<open>Call tables\<close>

definition lendoraCTokenABI :: abi where
  "lendoraCTokenABI =
     [meth ''mint'' [TUint 256] [TUint 256],
      meth ''redeem'' [TUint 256] [TUint 256],
      meth ''redeemUnderlying'' [TUint 256] [TUint 256],
      meth ''borrow'' [TUint 256] [TUint 256],
      meth ''repayBorrow'' [TUint 256] [TUint 256],
      meth ''underlying'' [] [TAddress],
      meth ''symbol'' [] [TString],
      meth ''exchangeRateStored'' [] [TUint 256],
      meth ''supplyRatePerBlock'' [] [TUint 256],
      meth ''borrowRatePerBlock'' [] [TUint 256],
      meth ''getCash'' [] [TUint 256],
      meth ''totalBorrows'' [] [TUint 256],
      meth ''totalReserves'' [] [TUint 256],
      meth ''reserveFactorMantissa'' [] [TUint 256],
      meth ''interestRateModel'' [] [TAddress],
      meth ''balanceOf'' [TAddress] [TUint 256],
      meth ''getAccountSnapshot'' [TAddress] [TUint 256, TUint 256, TUint 256, TUint 256]]"

definition lendoraComptrollerABI :: abi where
  "lendoraComptrollerABI =
     [meth ''enterMarkets'' [TAddresses] [TUints],
      meth ''exitMarket'' [TAddress] [TUint 256],
      meth ''getAllMarkets'' [] [TAddresses],
      meth ''markets'' [TAddress] [TBool, TUint 256, TBool],
      meth ''getAccountLiquidity'' [TAddress] [TUint 256, TUint 256, TUint 256],
      meth ''getHypotheticalAccountLiquidity'' [TAddress, TAddress, TUint 256, TUint 256] [TUint 256, TUint 256, TUint 256],
      meth ''getAssetsIn'' [TAddress] [TAddresses],
      meth ''closeFactorMantissa'' [] [TUint 256],
      meth ''liquidationIncentiveMantissa'' [] [TUint 256],
      meth ''oracle'' [] [TAddress],
      meth ''borrowCaps'' [TAddress] [TUint 256],
      meth ''mintGuardianPaused'' [TAddress] [TBool],
      meth ''borrowGuardianPaused'' [TAddress] [TBool]]"

definition lendoraOracleABI :: abi where
  "lendoraOracleABI =
     [meth ''getUnderlyingPrice'' [TAddress] [TUint 256],
      meth ''cTokenToFeed'' [TAddress] [TAddress],
      meth ''cEtherAddress'' [] [TAddress],
      meth ''underlyingDecimals'' [TAddress] [TUint 8]]"

definition lendoraIRMABI :: abi where
  "lendoraIRMABI =
     [meth ''blocksPerYear'' [] [TUint 256]]"

section \<open>Decoding helpers\<close>

definition abiUnpackUint :: "abiLib \<Rightarrow> abi \<Rightarrow> string \<Rightarrow> bytes \<Rightarrow> int res" where
  "abiUnpackUint A a method data = unpackFirst A a asBig method data"

definition abiUnpackAddress :: "abiLib \<Rightarrow> abi \<Rightarrow> string \<Rightarrow> bytes \<Rightarrow> address res" where
  "abiUnpackAddress A a method data = unpackFirst A a asAddr method data"

definition abiUnpackAddresses :: "abiLib \<Rightarrow> abi \<Rightarrow> string \<Rightarrow> bytes \<Rightarrow> address list res" where
  "abiUnpackAddresses A a method data = unpackFirst A a asAddrs method data"

definition abiUnpackBool :: "abiLib \<Rightarrow> abi \<Rightarrow> string \<Rightarrow> bytes \<Rightarrow> bool res" where
  "abiUnpackBool A a method data = unpackFirst A a asBool method data"

definition abiUnpackString :: "abiLib \<Rightarrow> abi \<Rightarrow> string \<Rightarrow> bytes \<Rightarrow> string res" where
  "abiUnpackString A a method data = unpackFirst A a asStr method data"

section \<open>Market calls and reads\<close>

definition PackMint :: "abiLib \<Rightarrow> int \<Rightarrow> bytes res" where
  "PackMint A amount = Pack A lendoraCTokenABI ''mint'' [GBig amount]"

definition PackRedeem :: "abiLib \<Rightarrow> int \<Rightarrow> bytes res" where
  "PackRedeem A tokens = Pack A lendoraCTokenABI ''redeem'' [GBig tokens]"

definition PackRedeemUnderlying :: "abiLib \<Rightarrow> int \<Rightarrow> bytes res" where
  "PackRedeemUnderlying A amount = Pack A lendoraCTokenABI ''redeemUnderlying'' [GBig amount]"

definition PackBorrow :: "abiLib \<Rightarrow> int \<Rightarrow> bytes res" where
  "PackBorrow A amount = Pack A lendoraCTokenABI ''borrow'' [GBig amount]"

definition PackRepayBorrow :: "abiLib \<Rightarrow> int \<Rightarrow> bytes res" where
  "PackRepayBorrow A amount = Pack A lendoraCTokenABI ''repayBorrow'' [GBig amount]"

definition PackUnderlying :: "abiLib \<Rightarrow> bytes res" where
  "PackUnderlying A = Pack A lendoraCTokenABI ''underlying'' []"

definition UnpackUnderlying :: "abiLib \<Rightarrow> bytes \<Rightarrow> address res" where
  "UnpackUnderlying A data = abiUnpackAddress A lendoraCTokenABI ''underlying'' data"

definition PackSymbol :: "abiLib \<Rightarrow> bytes res" where
  "PackSymbol A = Pack A lendoraCTokenABI ''symbol'' []"

definition UnpackSymbol :: "abiLib \<Rightarrow> bytes \<Rightarrow> string res" where
  "UnpackSymbol A data = abiUnpackString A lendoraCTokenABI ''symbol'' data"

definition PackExchangeRateStored :: "abiLib \<Rightarrow> bytes res" where
  "PackExchangeRateStored A = Pack A lendoraCTokenABI ''exchangeRateStored'' []"

definition PackSupplyRatePerBlock :: "abiLib \<Rightarrow> bytes res" where
  "PackSupplyRatePerBlock A = Pack A lendoraCTokenABI ''supplyRatePerBlock'' []"

definition PackBorrowRatePerBlock :: "abiLib \<Rightarrow> bytes res" where
  "PackBorrowRatePerBlock A = Pack A lendoraCTokenABI ''borrowRatePerBlock'' []"

definition PackGetCash :: "abiLib \<Rightarrow> bytes res" where
  "PackGetCash A = Pack A lendoraCTokenABI ''getCash'' []"

definition PackTotalBorrows :: "abiLib \<Rightarrow> bytes res" where
  "PackTotalBorrows A = Pack A lendoraCTokenABI ''totalBorrows'' []"

definition PackTotalReserves :: "abiLib \<Rightarrow> bytes res" where
  "PackTotalReserves A = Pack A lendoraCTokenABI ''totalReserves'' []"

definition PackReserveFactorMantissa :: "abiLib \<Rightarrow> bytes res" where
  "PackReserveFactorMantissa A = Pack A lendoraCTokenABI ''reserveFactorMantissa'' []"

definition UnpackCTokenUint :: "abiLib \<Rightarrow> string \<Rightarrow> bytes \<Rightarrow> int res" where
  "UnpackCTokenUint A method data = abiUnpackUint A lendoraCTokenABI method data"

definition PackInterestRateModel :: "abiLib \<Rightarrow> bytes res" where
  "PackInterestRateModel A = Pack A lendoraCTokenABI ''interestRateModel'' []"

definition UnpackInterestRateModel :: "abiLib \<Rightarrow> bytes \<Rightarrow> address res" where
  "UnpackInterestRateModel A data = abiUnpackAddress A lendoraCTokenABI ''interestRateModel'' data"

definition lendPackBalanceOf :: "abiLib \<Rightarrow> address \<Rightarrow> bytes res" where
  "lendPackBalanceOf A account = Pack A lendoraCTokenABI ''balanceOf'' [GAddr account]"

definition lendUnpackBalanceOf :: "abiLib \<Rightarrow> bytes \<Rightarrow> int res" where
  "lendUnpackBalanceOf A data = abiUnpackUint A lendoraCTokenABI ''balanceOf'' data"

record accountSnapshot =
  snCTokenBalance :: int
  snBorrowBalance :: int
  snExchangeRate :: int

definition PackGetAccountSnapshot :: "abiLib \<Rightarrow> address \<Rightarrow> bytes res" where
  "PackGetAccountSnapshot A account = Pack A lendoraCTokenABI ''getAccountSnapshot'' [GAddr account]"

definition UnpackGetAccountSnapshot :: "abiLib \<Rightarrow> bytes \<Rightarrow> accountSnapshot res" where
  "UnpackGetAccountSnapshot A data =
     rbind (unpackAll A lendoraCTokenABI ''getAccountSnapshot'' data) (\<lambda>out.
     (case map asBig out of
        [Some code, Some bal, Some borrow, Some rate] \<Rightarrow>
          if code \<noteq> 0 then Inl (Errorf ''getAccountSnapshot returned error code %s'' [AStr (bigString code)])
          else Inr \<lparr>snCTokenBalance = bal, snBorrowBalance = borrow, snExchangeRate = rate\<rparr>
      | _ \<Rightarrow> Inl (shapeErr ''getAccountSnapshot'')))"

section \<open>Comptroller calls and reads\<close>

definition PackGetAllMarkets :: "abiLib \<Rightarrow> bytes res" where
  "PackGetAllMarkets A = Pack A lendoraComptrollerABI ''getAllMarkets'' []"

definition UnpackGetAllMarkets :: "abiLib \<Rightarrow> bytes \<Rightarrow> address list res" where
  "UnpackGetAllMarkets A data = abiUnpackAddresses A lendoraComptrollerABI ''getAllMarkets'' data"

record marketInfo =
  miIsListed :: bool
  miCollateralFactorMantissa :: int
  miIsComped :: bool

definition PackMarkets :: "abiLib \<Rightarrow> address \<Rightarrow> bytes res" where
  "PackMarkets A cToken = Pack A lendoraComptrollerABI ''markets'' [GAddr cToken]"

definition UnpackMarkets :: "abiLib \<Rightarrow> bytes \<Rightarrow> marketInfo res" where
  "UnpackMarkets A data =
     rbind (unpackAll A lendoraComptrollerABI ''markets'' data) (\<lambda>out.
     (case out of
        [GBool listed, GBig cf, GBool comped] \<Rightarrow>
          Inr \<lparr>miIsListed = listed, miCollateralFactorMantissa = cf, miIsComped = comped\<rparr>
      | _ \<Rightarrow> Inl (shapeErr ''markets'')))"

record accountLiquidity =
  alLiquidity :: int
  alShortfall :: int

definition PackGetAccountLiquidity :: "abiLib \<Rightarrow> address \<Rightarrow> bytes res" where
  "PackGetAccountLiquidity A account = Pack A lendoraComptrollerABI ''getAccountLiquidity'' [GAddr account]"

definition PackGetHypotheticalAccountLiquidity :: "abiLib \<Rightarrow> address \<Rightarrow> address \<Rightarrow> int \<Rightarrow> int \<Rightarrow> bytes res" where
  "PackGetHypotheticalAccountLiquidity A account cTokenModify redeemTokens borrowAmount = Pack A lendoraComptrollerABI ''getHypotheticalAccountLiquidity'' [GAddr account, GAddr cTokenModify, GBig redeemTokens, GBig borrowAmount]"

definition UnpackAccountLiquidity :: "abiLib \<Rightarrow> string \<Rightarrow> bytes \<Rightarrow> accountLiquidity res" where
  "UnpackAccountLiquidity A method data =
     rbind (unpackAll A lendoraComptrollerABI method data) (\<lambda>out.
     (case map asBig out of
        [Some code, Some liq, Some short] \<Rightarrow>
          if code \<noteq> 0 then Inl (Errorf (method @ '' returned error code %s'') [AStr (bigString code)])
          else Inr \<lparr>alLiquidity = liq, alShortfall = short\<rparr>
      | _ \<Rightarrow> Inl (shapeErr method)))"

definition PackGetAssetsIn :: "abiLib \<Rightarrow> address \<Rightarrow> bytes res" where
  "PackGetAssetsIn A account = Pack A lendoraComptrollerABI ''getAssetsIn'' [GAddr account]"

definition UnpackGetAssetsIn :: "abiLib \<Rightarrow> bytes \<Rightarrow> address list res" where
  "UnpackGetAssetsIn A data = abiUnpackAddresses A lendoraComptrollerABI ''getAssetsIn'' data"

definition PackCloseFactorMantissa :: "abiLib \<Rightarrow> bytes res" where
  "PackCloseFactorMantissa A = Pack A lendoraComptrollerABI ''closeFactorMantissa'' []"

definition PackLiquidationIncentiveMantissa :: "abiLib \<Rightarrow> bytes res" where
  "PackLiquidationIncentiveMantissa A = Pack A lendoraComptrollerABI ''liquidationIncentiveMantissa'' []"

definition PackBorrowCaps :: "abiLib \<Rightarrow> address \<Rightarrow> bytes res" where
  "PackBorrowCaps A cToken = Pack A lendoraComptrollerABI ''borrowCaps'' [GAddr cToken]"

definition UnpackComptrollerUint :: "abiLib \<Rightarrow> string \<Rightarrow> bytes \<Rightarrow> int res" where
  "UnpackComptrollerUint A method data = abiUnpackUint A lendoraComptrollerABI method data"

definition PackOracle :: "abiLib \<Rightarrow> bytes res" where
  "PackOracle A = Pack A lendoraComptrollerABI ''oracle'' []"

definition UnpackOracle :: "abiLib \<Rightarrow> bytes \<Rightarrow> address res" where
  "UnpackOracle A data = abiUnpackAddress A lendoraComptrollerABI ''oracle'' data"

definition PackMintGuardianPaused :: "abiLib \<Rightarrow> address \<Rightarrow> bytes res" where
  "PackMintGuardianPaused A cToken = Pack A lendoraComptrollerABI ''mintGuardianPaused'' [GAddr cToken]"

definition PackBorrowGuardianPaused :: "abiLib \<Rightarrow> address \<Rightarrow> bytes res" where
  "PackBorrowGuardianPaused A cToken = Pack A lendoraComptrollerABI ''borrowGuardianPaused'' [GAddr cToken]"

definition UnpackComptrollerBool :: "abiLib \<Rightarrow> string \<Rightarrow> bytes \<Rightarrow> bool res" where
  "UnpackComptrollerBool A method data = abiUnpackBool A lendoraComptrollerABI method data"

definition PackEnterMarkets :: "abiLib \<Rightarrow> address list \<Rightarrow> bytes res" where
  "PackEnterMarkets A cTokens = Pack A lendoraComptrollerABI ''enterMarkets'' [GAddrs cTokens]"

definition PackExitMarket :: "abiLib \<Rightarrow> address \<Rightarrow> bytes res" where
  "PackExitMarket A cToken = Pack A lendoraComptrollerABI ''exitMarket'' [GAddr cToken]"

section \<open>Price oracle and interest rate model\<close>

definition PackGetUnderlyingPrice :: "abiLib \<Rightarrow> address \<Rightarrow> bytes res" where
  "PackGetUnderlyingPrice A cToken = Pack A lendoraOracleABI ''getUnderlyingPrice'' [GAddr cToken]"

definition PackCTokenToFeed :: "abiLib \<Rightarrow> address \<Rightarrow> bytes res" where
  "PackCTokenToFeed A cToken = Pack A lendoraOracleABI ''cTokenToFeed'' [GAddr cToken]"

definition PackCEtherAddress :: "abiLib \<Rightarrow> bytes res" where
  "PackCEtherAddress A = Pack A lendoraOracleABI ''cEtherAddress'' []"

definition UnpackOracleUint :: "abiLib \<Rightarrow> string \<Rightarrow> bytes \<Rightarrow> int res" where
  "UnpackOracleUint A method data = abiUnpackUint A lendoraOracleABI method data"

definition UnpackOracleAddress :: "abiLib \<Rightarrow> string \<Rightarrow> bytes \<Rightarrow> address res" where
  "UnpackOracleAddress A method data = abiUnpackAddress A lendoraOracleABI method data"

definition PackBlocksPerYear :: "abiLib \<Rightarrow> bytes res" where
  "PackBlocksPerYear A = Pack A lendoraIRMABI ''blocksPerYear'' []"

definition UnpackBlocksPerYear :: "abiLib \<Rightarrow> bytes \<Rightarrow> int res" where
  "UnpackBlocksPerYear A data = abiUnpackUint A lendoraIRMABI ''blocksPerYear'' data"

end
