(* ===== verification/Lendora_Cache.thy ===== *)
theory Lendora_Cache
  imports Lendora_Abi Evm_Deps
begin

text \<open>
  The market cache of the money markets (\<open>lib/mcp/lendora/cache.go\<close>): a refresh reads the Comptroller's markets and the metadata of
  each, drops those it cannot read, and swaps in a table from the lower-cased symbol and addresses to the market. The
  endpoint of the cache answers as one refresh sees it, so it is an argument of the operations that read it.
\<close>

section \<open>Data\<close>

record market =
  mkSymbol :: string
  mkCToken :: address
  mkUnderlying :: address
  mkCTokenDecimals :: int
  mkUnderlyingDecimals :: int
  mkIsCEther :: bool

record lendoraCache =
  lcLend :: address
  lcRefreshEvery :: duration
  lcByKey :: "(string \<times> market) list"
  lcOrdered :: "market list"
  lcOracle :: address
  lcOracleSet :: bool
  lcLog :: "(string \<times> string list) list"

definition lendNewCache :: "address \<Rightarrow> duration \<Rightarrow> lendoraCache" where
  "lendNewCache lend refresh =
     \<lparr>lcLend = lend, lcRefreshEvery = (if refresh = 0 then 60 * second else refresh), lcByKey = [], lcOrdered = [],
      lcOracle = zeroAddress, lcOracleSet = False, lcLog = []\<rparr>"

section \<open>Reading a market\<close>

record lendEnv =
  leEth :: ethLib
  leAbi :: abiLib
  leClient :: evmClient

definition lendCall :: "lendEnv \<Rightarrow> address \<Rightarrow> bytes \<Rightarrow> bytes res" where
  "lendCall L to data = evCallContract (leClient L)
     \<lparr>cmFrom = zeroAddress, cmTo = to, cmValue = 0, cmData = data, cmGasFeeCap = None, cmGasTipCap = None\<rparr>"

definition readDecimals :: "lendEnv \<Rightarrow> address \<Rightarrow> int res" where
  "readDecimals L token =
     rbind (PackERC20Decimals (leAbi L)) (\<lambda>data.
     rbind (rwrap ''read decimals() for %s: %w'' [AStr (AddressHex (leEth L) token)] (lendCall L token data)) (\<lambda>out.
     rbind (UnpackERC20Decimals (leAbi L) out) (\<lambda>dec.
     Inr (uint dec))))"

definition readSymbol :: "lendEnv \<Rightarrow> address \<Rightarrow> string res" where
  "readSymbol L token =
     rbind (PackSymbol (leAbi L)) (\<lambda>data.
     rbind (rwrap ''read symbol() for %s: %w'' [AStr (AddressHex (leEth L) token)] (lendCall L token data)) (\<lambda>out.
     UnpackSymbol (leAbi L) out))"

definition resolveCEther :: "lendEnv \<Rightarrow> address \<Rightarrow> address" where
  "resolveCEther L oracleAddr =
     (if oracleAddr = zeroAddress then zeroAddress
      else
        (case PackCEtherAddress (leAbi L) of
           Inl _ \<Rightarrow> zeroAddress
         | Inr data \<Rightarrow>
             (case lendCall L oracleAddr data of
                Inl _ \<Rightarrow> zeroAddress
              | Inr out \<Rightarrow>
                  (case UnpackOracleAddress (leAbi L) ''cEtherAddress'' out of Inl _ \<Rightarrow> zeroAddress | Inr cEther \<Rightarrow> cEther))))"

definition loadMarket :: "lendEnv \<Rightarrow> address \<Rightarrow> address \<Rightarrow> market res" where
  "loadMarket L cToken cEther =
     rbind (readDecimals L cToken) (\<lambda>cTokenDec.
     rbind (readSymbol L cToken) (\<lambda>cTokenSym.
     if cEther \<noteq> zeroAddress \<and> cToken = cEther
     then Inr \<lparr>mkSymbol = toUpper (trimPrefix cTokenSym ''c''), mkCToken = cToken, mkUnderlying = zeroAddress, mkCTokenDecimals = cTokenDec,
               mkUnderlyingDecimals = 18, mkIsCEther = True\<rparr>
     else
       rbind (PackUnderlying (leAbi L)) (\<lambda>underData.
       rbind (rwrap ''read underlying() for %s: %w'' [AStr (AddressHex (leEth L) cToken)] (lendCall L cToken underData)) (\<lambda>underOut.
       rbind (UnpackUnderlying (leAbi L) underOut) (\<lambda>underlying.
       rbind (readDecimals L underlying) (\<lambda>underDec.
       rbind (readSymbol L underlying) (\<lambda>underSym.
       Inr \<lparr>mkSymbol = toUpper underSym, mkCToken = cToken, mkUnderlying = underlying, mkCTokenDecimals = cTokenDec,
            mkUnderlyingDecimals = underDec, mkIsCEther = False\<rparr>)))))))"

section \<open>Refresh\<close>

text \<open>The keys a market is entered under, in the order of the updates.\<close>

definition marketKeys :: "ethLib \<Rightarrow> market \<Rightarrow> string list" where
  "marketKeys E m =
     toLower (mkSymbol m) # toLower (AddressHex E (mkCToken m)) #
     (if mkIsCEther m then [] else [toLower (AddressHex E (mkUnderlying m))])"

definition enterMarket :: "ethLib \<Rightarrow> market \<Rightarrow> (string \<times> market) list \<Rightarrow> (string \<times> market) list" where
  "enterMarket E m t = foldl (\<lambda>t k. AList.update k m t) t (marketKeys E m)"

fun loadMarkets :: "lendEnv \<Rightarrow> address \<Rightarrow> address list \<Rightarrow> (string \<times> market) list \<Rightarrow> market list \<Rightarrow> string list
    \<Rightarrow> (string \<times> market) list \<times> market list \<times> string list" where
  "loadMarkets L cEther [] next ordered dropped = (next, ordered, dropped)"
| "loadMarkets L cEther (cToken # cTokens) next ordered dropped =
     (case loadMarket L cToken cEther of
        Inl _ \<Rightarrow> loadMarkets L cEther cTokens next ordered (dropped @ [AddressHex (leEth L) cToken])
      | Inr m \<Rightarrow> loadMarkets L cEther cTokens (enterMarket (leEth L) m next) (ordered @ [m]) dropped)"

text \<open>What a refresh reads of the Comptroller: its oracle and its markets.\<close>

definition readComptroller :: "lendEnv \<Rightarrow> address \<Rightarrow> (address \<times> address list) res" where
  "readComptroller L comptroller =
     rbind (PackOracle (leAbi L)) (\<lambda>oracleData.
     rbind (rwrap ''read comptroller.oracle(): %w'' [] (lendCall L comptroller oracleData)) (\<lambda>oracleOut.
     rbind (UnpackOracle (leAbi L) oracleOut) (\<lambda>oracleAddr.
     rbind (PackGetAllMarkets (leAbi L)) (\<lambda>marketsData.
     rbind (rwrap ''read comptroller.getAllMarkets(): %w'' [] (lendCall L comptroller marketsData)) (\<lambda>marketsOut.
     rbind (UnpackGetAllMarkets (leAbi L) marketsOut) (\<lambda>cTokens.
     Inr (oracleAddr, cTokens)))))))"

definition lendRefresh :: "lendEnv \<Rightarrow> lendoraCache \<Rightarrow> unit res \<times> lendoraCache" where
  "lendRefresh L c =
     (case readComptroller L (lcLend c) of
        Inl e \<Rightarrow> (Inl e, c)
      | Inr (oracleAddr, cTokens) \<Rightarrow>
          (let (next, ordered, dropped) = loadMarkets L (resolveCEther L oracleAddr) cTokens [] [] [];
               logged = (if dropped = [] then lcLog c
                         else lcLog c @ [(''lendora market cache: dropped markets with unreadable metadata'', dropped)]) in
           (Inr (), c\<lparr>lcByKey := next, lcOrdered := ordered, lcOracle := oracleAddr, lcOracleSet := True, lcLog := logged\<rparr>)))"

text \<open>The loop: one refresh on entry, then one per tick until the context is done, each with the endpoint as it answers then.\<close>

fun lendTicks :: "lendEnv list \<Rightarrow> lendoraCache \<Rightarrow> lendoraCache" where
  "lendTicks [] c = c"
| "lendTicks (L # Ls) c =
     (case lendRefresh L c of
        (Inl e, c') \<Rightarrow> lendTicks Ls (c'\<lparr>lcLog := lcLog c' @ [(''lendora market cache refresh failed'', [])]\<rparr>)
      | (Inr _, c') \<Rightarrow> lendTicks Ls c')"

definition lendRun :: "lendEnv \<Rightarrow> lendEnv list \<Rightarrow> lendoraCache \<Rightarrow> unit res \<times> lendoraCache" where
  "lendRun L ticks c =
     (case lendRefresh L c of
        (Inl e, c') \<Rightarrow> (Inl (Wrapf ''initial lendora market cache refresh: %w'' [] e), c')
      | (Inr _, c') \<Rightarrow> (Inr (), lendTicks ticks c'))"

section \<open>Reads\<close>

definition lendResolve :: "lendoraCache \<Rightarrow> string \<Rightarrow> market option" where
  "lendResolve c asset = map_of (lcByKey c) (toLower (trimSpace asset))"

definition lendOracle :: "lendoraCache \<Rightarrow> address \<times> bool" where
  "lendOracle c = (lcOracle c, lcOracleSet c)"

definition LoadMarket :: "lendEnv \<Rightarrow> lendoraCache \<Rightarrow> address \<Rightarrow> market option" where
  "LoadMarket L c cToken =
     (case loadMarket L cToken (resolveCEther L (fst (lendOracle c))) of Inl _ \<Rightarrow> None | Inr m \<Rightarrow> Some m)"

definition lendAll :: "lendoraCache \<Rightarrow> market list" where
  "lendAll c = lcOrdered c"

definition lendSize :: "lendoraCache \<Rightarrow> nat" where
  "lendSize c = length (lcOrdered c)"

section \<open>Lemmas\<close>

text \<open>The specification: the markets that can be read, in the Comptroller's order, and the last of them that has the key.\<close>

definition readable :: "lendEnv \<Rightarrow> address \<Rightarrow> address list \<Rightarrow> market list" where
  "readable L cEther cTokens = concat (map (\<lambda>a. case loadMarket L a cEther of Inl _ \<Rightarrow> [] | Inr m \<Rightarrow> [m]) cTokens)"

definition lastWith :: "ethLib \<Rightarrow> string \<Rightarrow> market list \<Rightarrow> market option" where
  "lastWith E k ms = find (\<lambda>m. k \<in> set (marketKeys E m)) (rev ms)"

lemma lastWith_snoc: "lastWith E k (ms @ [m]) = (if k \<in> set (marketKeys E m) then Some m else lastWith E k ms)"
  by (simp add: lastWith_def)

lemma map_of_updates: "map_of (foldl (\<lambda>t k. AList.update k m t) t ks) k = (if k \<in> set ks then Some m else map_of t k)"
  by (induction ks arbitrary: t) (auto simp: update_conv)

lemma enterMarket_lookup: "map_of (enterMarket E m t) k = (if k \<in> set (marketKeys E m) then Some m else map_of t k)"
  by (simp add: enterMarket_def map_of_updates)

text \<open>The loop computes the specification.\<close>

lemma loadMarkets_spec:
  assumes "\<And>k. map_of next k = lastWith (leEth L) k ordered" "loadMarkets L cEther cTokens next ordered dropped = (next', ordered', dropped')"
  shows "ordered' = ordered @ readable L cEther cTokens \<and> (\<forall>k. map_of next' k = lastWith (leEth L) k ordered')"
  using assms
proof (induction cTokens arbitrary: "next" ordered dropped)
  case (Cons a as)
  show ?case
  proof (cases "loadMarket L a cEther")
    case (Inl e)
    then show ?thesis using Cons.IH [OF Cons.prems(1)] Cons.prems(2) by (simp add: readable_def)
  next
    case (Inr m)
    have "map_of (enterMarket (leEth L) m next) k = lastWith (leEth L) k (ordered @ [m])" for k
      using Cons.prems(1) by (simp add: enterMarket_lookup lastWith_snoc)
    from Cons.IH [OF this] Cons.prems(2) Inr show ?thesis by (simp add: readable_def)
  qed
qed (simp add: readable_def)

lemma loadMarket_Inr:
  assumes "loadMarket L a cEther = Inr m"
  shows "mkCToken m = a" "mkIsCEther m \<longleftrightarrow> cEther \<noteq> zeroAddress \<and> a = cEther"
    "mkIsCEther m \<Longrightarrow> mkUnderlying m = zeroAddress \<and> mkUnderlyingDecimals m = 18"
  using assms by (auto simp: loadMarket_def split: if_splits)

lemma lendRefresh_Inr:
  assumes "lendRefresh L c = (Inr u, c')"
  obtains oracleAddr cTokens where "readComptroller L (lcLend c) = Inr (oracleAddr, cTokens)" "lcOracle c' = oracleAddr" "lcOracleSet c'"
    "lcOrdered c' = readable L (resolveCEther L oracleAddr) cTokens" "\<forall>k. map_of (lcByKey c') k = lastWith (leEth L) k (lcOrdered c')"
proof -
  obtain oracleAddr cTokens where r: "readComptroller L (lcLend c) = Inr (oracleAddr, cTokens)"
    using assms by (auto simp: lendRefresh_def split: sum.splits)
  obtain n od dr where l: "loadMarkets L (resolveCEther L oracleAddr) cTokens [] [] [] = (n, od, dr)" by (metis prod_cases3)
  have "od = readable L (resolveCEther L oracleAddr) cTokens \<and> (\<forall>k. map_of n k = lastWith (leEth L) k od)"
    using loadMarkets_spec [OF _ l] by (simp add: lastWith_def)
  moreover have "c' = c\<lparr>lcByKey := n, lcOrdered := od, lcOracle := oracleAddr, lcOracleSet := True, lcLog := lcLog c'\<rparr>"
    using assms by (auto simp: lendRefresh_def r l Let_def)
  ultimately have "lcOracle c' = oracleAddr" "lcOracleSet c'" "lcOrdered c' = readable L (resolveCEther L oracleAddr) cTokens"
      "\<forall>k. map_of (lcByKey c') k = lastWith (leEth L) k (lcOrdered c')"
    by (metis lendoraCache.select_convs lendoraCache.surjective lendoraCache.update_convs)+
  with r show thesis by (rule that)
qed

lemma readable_mem: "m \<in> set (readable L cEther as) \<longleftrightarrow> (\<exists>a \<in> set as. loadMarket L a cEther = Inr m)"
  by (induction as) (auto simp: readable_def split: sum.split)

lemma LoadMarket_Some: "LoadMarket L c a = Some m \<longleftrightarrow> loadMarket L a (resolveCEther L (lcOracle c)) = Inr m"
  by (auto simp: LoadMarket_def lendOracle_def split: sum.split)

lemma lendRefresh_Inl: "lendRefresh L c = (Inl e, c') \<Longrightarrow> c' = c"
  by (auto simp: lendRefresh_def split: sum.splits prod.splits)

section \<open>Properties\<close>

text \<open>C31: the table of a refresh is exact. After a successful refresh the markets are those of the Comptroller whose metadata can
  be read, in its order; a symbol or address, trimmed and in any case, resolves to the last of them that has it as its
  symbol, market or underlying address, and to nothing when none has; and a market loaded on demand by its address,
  with the endpoint unchanged, is one of them when it is listed. A failed refresh changes nothing.\<close>

theorem lendora_table_is_exact:
  "(case lendRefresh L c of
      (Inl e, c') \<Rightarrow> c' = c
    | (Inr _, c') \<Rightarrow> \<exists>oracleAddr cTokens. readComptroller L (lcLend c) = Inr (oracleAddr, cTokens) \<and> lendOracle c' = (oracleAddr, True) \<and>
        lendAll c' = readable L (resolveCEther L oracleAddr) cTokens \<and>
        (\<forall>asset. lendResolve c' asset = lastWith (leEth L) (toLower (trimSpace asset)) (lendAll c')) \<and>
        (\<forall>a m. LoadMarket L c' a = Some m \<and> a \<in> set cTokens \<longrightarrow> m \<in> set (lendAll c')))"
proof (cases "lendRefresh L c")
  case (Pair r c')
  show ?thesis
  proof (cases r)
    case (Inl e)
    then show ?thesis using Pair lendRefresh_Inl by simp
  next
    case (Inr u)
    with Pair have "lendRefresh L c = (Inr u, c')" by simp
    then obtain oracleAddr cTokens where r: "readComptroller L (lcLend c) = Inr (oracleAddr, cTokens)" "lcOracle c' = oracleAddr" "lcOracleSet c'"
        "lcOrdered c' = readable L (resolveCEther L oracleAddr) cTokens" "\<forall>k. map_of (lcByKey c') k = lastWith (leEth L) k (lcOrdered c')"
      by (rule lendRefresh_Inr)
    have "m \<in> set (lendAll c')" if "LoadMarket L c' a = Some m" "a \<in> set cTokens" for a m
      using that r(2,4) by (auto simp: LoadMarket_Some lendAll_def readable_mem)
    with r Pair Inr show ?thesis by (auto simp: lendOracle_def lendAll_def lendResolve_def)
  qed
qed

section \<open>Instances for the examples\<close>

text \<open>A package whose calls carry the name of the method, and an endpoint with one market.\<close>

definition exLendAbi :: abiLib where
  "exLendAbi = docAbi\<lparr>Pack := (\<lambda>a name vs. Inr (bytesOf name))\<rparr>"

abbreviation exComptroller :: address where "exComptroller \<equiv> replicate 20 1"
abbreviation exOracle :: address where "exOracle \<equiv> replicate 20 2"
abbreviation exCUsdc :: address where "exCUsdc \<equiv> replicate 20 3"
abbreviation exUsdc :: address where "exUsdc \<equiv> replicate 20 4"

definition exAnswer :: "address \<Rightarrow> string \<Rightarrow> abiVal list option" where
  "exAnswer to name =
     (if name = ''oracle'' then Some [GAddr exOracle]
      else if name = ''cEtherAddress'' \<or> name = ''cTokenToFeed'' then Some [GAddr zeroAddress]
      else if name = ''getAllMarkets'' \<or> name = ''getAssetsIn'' then Some [GAddrs [exCUsdc]]
      else if name = ''decimals'' then Some [GU8 (if to = exCUsdc then 8 else 6)]
      else if name = ''symbol'' then Some [GStr (if to = exCUsdc then ''cUSDC'' else ''USDC'')]
      else if name = ''underlying'' then Some [GAddr exUsdc]
      else if name = ''getAccountLiquidity'' \<or> name = ''getHypotheticalAccountLiquidity'' then Some [GBig 0, GBig (75 * 10 ^ 18), GBig 0]
      else if name = ''getAccountSnapshot'' then Some [GBig 0, GBig (10 ^ 10), GBig (5 * 10 ^ 6), GBig (10 ^ 16)]
      else if name = ''getUnderlyingPrice'' then Some [GBig (10 ^ 30)]
      else if name = ''markets'' then Some [GBool True, GBig (8 * 10 ^ 17), GBool False]
      else if name = ''allowance'' then Some [GBig (10 ^ 12)]
      else if name = ''getCash'' then Some [GBig (10 ^ 15)]
      else if name = ''totalBorrows'' \<or> name = ''totalReserves'' then Some [GBig (10 ^ 14)]
      else if name = ''supplyRatePerBlock'' \<or> name = ''borrowRatePerBlock'' \<or> name = ''blocksPerYear'' then Some [GBig (10 ^ 7)]
      else if name = ''interestRateModel'' then Some [GAddr exOracle]
      else if name = ''balanceOf'' then Some [GBig (10 ^ 10)]
      else if name = ''exchangeRateStored'' then Some [GBig (10 ^ 16)]
      else None)"

definition exLendClient :: evmClient where
  "exLendClient = docClient\<lparr>evCallContract := (\<lambda>m.
     case exAnswer (cmTo m) (stringOf (cmData m)) of
       None \<Rightarrow> Inl (Ext ''execution reverted'') | Some vs \<Rightarrow> Inr (concat (map docEncode vs)))\<rparr>"

definition exLendEnv :: lendEnv where
  "exLendEnv = \<lparr>leEth = docEth, leAbi = exLendAbi, leClient = exLendClient\<rparr>"

definition exLendCache :: lendoraCache where
  "exLendCache = snd (lendRefresh exLendEnv (lendNewCache exComptroller 0))"

text \<open>What the endpoint encodes is what the package decodes.\<close>

fun docFits :: "abiType \<Rightarrow> abiVal \<Rightarrow> bool" where
  "docFits TString (GStr t) \<longleftrightarrow> length t < 256"
| "docFits TAddresses (GAddrs xs) \<longleftrightarrow> length xs < 256 \<and> (\<forall>a \<in> set xs. length a = 20)"
| "docFits t v \<longleftrightarrow> abiFits t v"

lemma docWords_addresses: "(\<forall>a \<in> set xs. length a = 20) \<Longrightarrow>
    map (drop 12) (docWords (length xs) (concat (map (\<lambda>a. replicate 12 0 @ a) xs) @ bs)) = xs"
  by (induction xs) auto

lemma bigEndian_length: "length xs < 256 \<Longrightarrow> bigEndian (beBytes 32 (int (length xs))) = int (length xs)"
  by (rule bigEndian_word) (simp_all add: order_less_trans [of "int (length xs)" 256])

lemma length_concat_20: "(\<forall>a \<in> set xs. length a = 20) \<Longrightarrow> length (concat (map (\<lambda>a. replicate 12 (0 :: u8) @ a) xs)) = 32 * length xs"
  by (induction xs) auto

lemma docFits_cases:
  assumes "docFits t v"
  obtains "abiFits t v" | u where "t = TString" "v = GStr u" "length u < 256"
    | xs where "t = TAddresses" "v = GAddrs xs" "length xs < 256" "\<forall>a \<in> set xs. length a = 20"
  using assms by (cases "(t, v)" rule: docFits.cases) auto

lemma length_bytesOf [simp]: "length (bytesOf u) = length u"
  by (simp add: bytesOf_def)

lemma docValue_fits: "docFits t v \<Longrightarrow> docValue t (docEncode v @ bs) = (v, bs)"
proof (erule docFits_cases)
  assume "abiFits t v"
  then show ?thesis by (simp only: docEncode_static docValue_abiWord)
next
  fix u assume "t = TString" "v = GStr u" "length u < 256"
  then show ?thesis by (simp add: bigEndian_length Let_def)
next
  fix xs assume "t = TAddresses" "v = GAddrs xs" "length xs < 256" "\<forall>a \<in> set xs. length a = 20"
  then show ?thesis using length_concat_20 [of xs] by (simp add: bigEndian_length docWords_addresses Let_def)
qed

lemma docDecode_fits: "list_all2 docFits ts vs \<Longrightarrow> docDecode ts (concat (map docEncode vs)) = vs"
  by (induction rule: list_all2_induct) (simp_all add: docValue_fits del: docEncode.simps)

lemma length_docEncode_fits: "docFits t v \<Longrightarrow> 32 \<le> length (docEncode v)"
  by (erule docFits_cases) (simp_all add: docEncode_static length_abiWord)

lemma exLend_Pack [simp]: "Pack exLendAbi a name vs = Inr (bytesOf name)"
  by (simp add: exLendAbi_def)

definition exReply :: "abiVal list \<Rightarrow> bytes" where
  "exReply vs = concat (map docEncode vs)"

lemma exLend_call [simp]:
  "evCallContract exLendClient \<lparr>cmFrom = x, cmTo = to, cmValue = n, cmData = bytesOf name, cmGasFeeCap = f, cmGasTipCap = t\<rparr> =
     (case exAnswer to name of None \<Rightarrow> Inl (Ext ''execution reverted'') | Some vs \<Rightarrow> Inr (exReply vs))"
  by (simp add: exLendClient_def exReply_def split: option.split)

lemma exLend_Unpack:
  assumes "abiMethodOf a name = Some m" "list_all2 docFits (amOutputs m) vs" "vs \<noteq> []"
  shows "Unpack exLendAbi a name (exReply vs) = Inr vs"
proof -
  have "32 \<le> length (concat (map docEncode vs))" using assms(2,3) length_docEncode_fits by (cases vs) (auto simp: list_all2_Cons2 intro: trans_le_add1)
  then show ?thesis using assms(1) docDecode_fits [OF assms(2)] by (simp add: exLendAbi_def docAbi_def exReply_def)
qed

text \<open>The answers of the endpoint.\<close>

lemma exAnswer_simps [simp]:
  "exAnswer to ''oracle'' = Some [GAddr exOracle]" "exAnswer to ''cEtherAddress'' = Some [GAddr zeroAddress]"
  "exAnswer to ''cTokenToFeed'' = Some [GAddr zeroAddress]" "exAnswer to ''getAllMarkets'' = Some [GAddrs [exCUsdc]]"
  "exAnswer to ''getAssetsIn'' = Some [GAddrs [exCUsdc]]" "exAnswer to ''decimals'' = Some [GU8 (if to = exCUsdc then 8 else 6)]"
  "exAnswer to ''symbol'' = Some [GStr (if to = exCUsdc then ''cUSDC'' else ''USDC'')]" "exAnswer to ''underlying'' = Some [GAddr exUsdc]"
  "exAnswer to ''getAccountLiquidity'' = Some [GBig 0, GBig (75 * 10 ^ 18), GBig 0]"
  "exAnswer to ''getHypotheticalAccountLiquidity'' = Some [GBig 0, GBig (75 * 10 ^ 18), GBig 0]"
  "exAnswer to ''getAccountSnapshot'' = Some [GBig 0, GBig (10 ^ 10), GBig (5 * 10 ^ 6), GBig (10 ^ 16)]"
  "exAnswer to ''getUnderlyingPrice'' = Some [GBig (10 ^ 30)]" "exAnswer to ''markets'' = Some [GBool True, GBig (8 * 10 ^ 17), GBool False]"
  "exAnswer to ''allowance'' = Some [GBig (10 ^ 12)]" "exAnswer to ''getCash'' = Some [GBig (10 ^ 15)]"
  "exAnswer to ''totalBorrows'' = Some [GBig (10 ^ 14)]" "exAnswer to ''totalReserves'' = Some [GBig (10 ^ 14)]"
  "exAnswer to ''supplyRatePerBlock'' = Some [GBig (10 ^ 7)]" "exAnswer to ''borrowRatePerBlock'' = Some [GBig (10 ^ 7)]"
  "exAnswer to ''blocksPerYear'' = Some [GBig (10 ^ 7)]" "exAnswer to ''interestRateModel'' = Some [GAddr exOracle]"
  "exAnswer to ''balanceOf'' = Some [GBig (10 ^ 10)]" "exAnswer to ''exchangeRateStored'' = Some [GBig (10 ^ 16)]"
  by (simp_all add: exAnswer_def)

abbreviation exMarket :: market where
  "exMarket \<equiv> \<lparr>mkSymbol = ''USDC'', mkCToken = exCUsdc, mkUnderlying = exUsdc, mkCTokenDecimals = 8, mkUnderlyingDecimals = 6, mkIsCEther = False\<rparr>"

lemma exLendEnv_simps [simp]: "leEth exLendEnv = docEth" "leAbi exLendEnv = exLendAbi" "leClient exLendEnv = exLendClient"
  by (simp_all add: exLendEnv_def)

lemma exLend_first:
  assumes "abiMethodOf a name = Some m" "amOutputs m = [t]" "docFits t v"
  shows "unpackFirst exLendAbi a as name (exReply [v]) = of_opt (shapeErr name) (as v)"
  using exLend_Unpack [of a name m "[v]"] assms by (simp add: unpackFirst_def unpackAll_def)

lemma exLend_all:
  assumes "abiMethodOf a name = Some m" "list_all2 docFits (amOutputs m) vs" "vs \<noteq> []"
  shows "unpackAll exLendAbi a name (exReply vs) = Inr vs"
  using exLend_Unpack [OF assms] by (simp add: unpackAll_def)

lemma exLend_tables [simp]:
  "abiMethodOf ercERC20ABI ''decimals'' = Some (meth ''decimals'' [] [TUint 8])"
  "abiMethodOf ercERC20ABI ''allowance'' = Some (meth ''allowance'' [TAddress, TAddress] [TUint 256])"
  "abiMethodOf lendoraCTokenABI ''symbol'' = Some (meth ''symbol'' [] [TString])"
  "abiMethodOf lendoraCTokenABI ''underlying'' = Some (meth ''underlying'' [] [TAddress])"
  "abiMethodOf lendoraCTokenABI ''getAccountSnapshot'' = Some (meth ''getAccountSnapshot'' [TAddress] [TUint 256, TUint 256, TUint 256, TUint 256])"
  "abiMethodOf lendoraCTokenABI ''getCash'' = Some (meth ''getCash'' [] [TUint 256])"
  "abiMethodOf lendoraCTokenABI ''totalBorrows'' = Some (meth ''totalBorrows'' [] [TUint 256])"
  "abiMethodOf lendoraCTokenABI ''totalReserves'' = Some (meth ''totalReserves'' [] [TUint 256])"
  "abiMethodOf lendoraCTokenABI ''supplyRatePerBlock'' = Some (meth ''supplyRatePerBlock'' [] [TUint 256])"
  "abiMethodOf lendoraCTokenABI ''borrowRatePerBlock'' = Some (meth ''borrowRatePerBlock'' [] [TUint 256])"
  "abiMethodOf lendoraCTokenABI ''interestRateModel'' = Some (meth ''interestRateModel'' [] [TAddress])"
  "abiMethodOf lendoraIRMABI ''blocksPerYear'' = Some (meth ''blocksPerYear'' [] [TUint 256])"
  "abiMethodOf lendoraComptrollerABI ''oracle'' = Some (meth ''oracle'' [] [TAddress])"
  "abiMethodOf lendoraComptrollerABI ''getAllMarkets'' = Some (meth ''getAllMarkets'' [] [TAddresses])"
  "abiMethodOf lendoraComptrollerABI ''getAssetsIn'' = Some (meth ''getAssetsIn'' [TAddress] [TAddresses])"
  "abiMethodOf lendoraComptrollerABI ''markets'' = Some (meth ''markets'' [TAddress] [TBool, TUint 256, TBool])"
  "abiMethodOf lendoraComptrollerABI ''getAccountLiquidity'' = Some (meth ''getAccountLiquidity'' [TAddress] [TUint 256, TUint 256, TUint 256])"
  "abiMethodOf lendoraComptrollerABI ''getHypotheticalAccountLiquidity'' =
     Some (meth ''getHypotheticalAccountLiquidity'' [TAddress, TAddress, TUint 256, TUint 256] [TUint 256, TUint 256, TUint 256])"
  "abiMethodOf lendoraOracleABI ''cEtherAddress'' = Some (meth ''cEtherAddress'' [] [TAddress])"
  "abiMethodOf lendoraOracleABI ''cTokenToFeed'' = Some (meth ''cTokenToFeed'' [TAddress] [TAddress])"
  "abiMethodOf lendoraOracleABI ''getUnderlyingPrice'' = Some (meth ''getUnderlyingPrice'' [TAddress] [TUint 256])"
  by (simp_all add: abiMethodOf_def ercERC20ABI_def lendoraCTokenABI_def lendoraComptrollerABI_def lendoraOracleABI_def
      lendoraIRMABI_def meth_def)

lemma meth_outputs [simp]: "amOutputs (meth n i out) = out"
  by (simp add: meth_def)

lemma length_zeroAddress [simp]: "length zeroAddress = 20"
  by (simp add: zeroAddress_def)

lemma exAddresses [simp]: "exUsdc \<noteq> exCUsdc" "exOracle \<noteq> zeroAddress"
  by (simp_all add: zeroAddress_def)

lemma exLendEnv_metadata:
  "readDecimals exLendEnv exCUsdc = Inr 8" "readDecimals exLendEnv exUsdc = Inr 6"
  "readSymbol exLendEnv exCUsdc = Inr ''cUSDC''" "readSymbol exLendEnv exUsdc = Inr ''USDC''"
  by (simp_all add: readDecimals_def readSymbol_def PackERC20Decimals_def UnpackERC20Decimals_def PackSymbol_def UnpackSymbol_def
      abiUnpackString_def lendCall_def exLend_first)

lemma exLendEnv_reads:
  "readComptroller exLendEnv exComptroller = Inr (exOracle, [exCUsdc])" "resolveCEther exLendEnv exOracle = zeroAddress"
  "loadMarket exLendEnv exCUsdc zeroAddress = Inr exMarket"
  by (simp_all add: readComptroller_def resolveCEther_def loadMarket_def exLendEnv_metadata lendCall_def exLend_first PackOracle_def UnpackOracle_def
      PackGetAllMarkets_def UnpackGetAllMarkets_def PackCEtherAddress_def UnpackOracleAddress_def PackUnderlying_def UnpackUnderlying_def
      abiUnpackAddress_def abiUnpackAddresses_def toUpper_def upper_char_def)

lemma exLendCache_refreshed: "lendRefresh exLendEnv (lendNewCache exComptroller 0) = (Inr (), exLendCache)"
  by (simp add: exLendCache_def lendRefresh_def lendNewCache_def exLendEnv_reads)

lemma exLendCache_all: "lcOrdered exLendCache = [exMarket]" "lcOracle exLendCache = exOracle" "lcOracleSet exLendCache"
  by (simp_all add: exLendCache_def lendRefresh_def lendNewCache_def exLendEnv_reads)

lemma exLendCache_usdc: "lendResolve exLendCache ''USDC'' = Some exMarket"
proof -
  have "lcByKey exLendCache = enterMarket docEth exMarket []"
    by (simp add: exLendCache_def lendRefresh_def lendNewCache_def exLendEnv_reads)
  moreover have "toLower (trimSpace ''USDC'') = toLower (mkSymbol exMarket)" by code_simp
  ultimately show ?thesis by (simp add: lendResolve_def enterMarket_def marketKeys_def AList.update_conv')
qed

theorem lendora_table_is_exact_witness:
  "lendResolve exLendCache '' Usdc '' = Some exMarket \<and> LoadMarket exLendEnv exLendCache exCUsdc = Some exMarket"
proof -
  have k: "toLower (trimSpace '' Usdc '') = toLower (mkSymbol exMarket)" by code_simp
  have "lastWith (leEth exLendEnv) (toLower (trimSpace '' Usdc '')) [exMarket] = Some exMarket"
    by (simp add: lastWith_def marketKeys_def k)
  then show ?thesis
    using lendora_table_is_exact [where L = exLendEnv and c = "lendNewCache exComptroller 0"] exLendCache_refreshed exLendCache_all exLendEnv_reads(1)
    by (auto simp: lendAll_def lendNewCache_def LoadMarket_Some exLendEnv_reads)
qed

end
