(* ===== verification/Lendora_Risk.thy ===== *)
theory Lendora_Risk
  imports Lendora_Cache Erc_Tools
begin

text \<open>
  What the tools of the money markets share (\<open>lib/mcp/tools/lendora.go\<close>), the number formats (\<open>lendora_format.go\<close>) and the risk
  engine (\<open>lendora_risk.go\<close>). The decimals of \<open>cosmossdk.io/math\<close> are the parameter \<open>decOps\<close>, on the values they denote: addition,
  subtraction and multiplication by an integer are exact. The results are the exactness of the account's sums and of its
  risk band, and that the printed amounts are the rounded ones.
\<close>

section \<open>Decimals\<close>

record decOps =
  DecWithPrec :: "int \<Rightarrow> int \<Rightarrow> rat"
  DecMul :: "rat \<Rightarrow> rat \<Rightarrow> rat"
  DecQuo :: "rat \<Rightarrow> rat \<Rightarrow> rat"
  DecQuoInt64 :: "rat \<Rightarrow> int \<Rightarrow> rat"
  DecPower :: "rat \<Rightarrow> nat \<Rightarrow> rat"
  DecRoundInt :: "rat \<Rightarrow> int"
  DecString :: "rat \<Rightarrow> string"

text \<open>What the package documents: a decimal of an integer and a number of at most 18 decimals is exact, a product or quotient is
  the nearest multiple of \<open>10 ^ -18\<close>, and rounding gives a nearest integer.\<close>

definition nearestDec :: "rat \<Rightarrow> rat \<Rightarrow> bool" where
  "nearestDec q x \<longleftrightarrow> (\<exists>k. q = of_int k / 10 ^ 18) \<and> \<bar>q - x\<bar> * 2 \<le> 1 / 10 ^ 18"

definition decOps_ok :: "decOps \<Rightarrow> bool" where
  "decOps_ok Q \<longleftrightarrow>
     (\<forall>v p. 0 \<le> p \<and> p \<le> 18 \<longrightarrow> DecWithPrec Q v p = of_int v / 10 ^ nat p) \<and>
     (\<forall>a b. nearestDec (DecMul Q a b) (a * b)) \<and>
     (\<forall>a b. b \<noteq> 0 \<longrightarrow> nearestDec (DecQuo Q a b) (a / b)) \<and>
     (\<forall>d. \<bar>of_int (DecRoundInt Q d) - d\<bar> * 2 \<le> 1)"

section \<open>Formats (lendora_format.go)\<close>

definition mantissaScale :: int where "mantissaScale = 18"

definition decFromBaseUnits :: "decOps \<Rightarrow> int \<Rightarrow> int \<Rightarrow> rat" where
  "decFromBaseUnits Q amount decimals = DecWithPrec Q amount decimals"

definition decFromMantissa :: "decOps \<Rightarrow> int \<Rightarrow> rat" where
  "decFromMantissa Q m = decFromBaseUnits Q m mantissaScale"

definition usdFromFeed :: "decOps \<Rightarrow> int \<Rightarrow> int \<Rightarrow> int \<Rightarrow> int \<Rightarrow> rat" where
  "usdFromFeed Q amount tokenDecimals feedAnswer feedDecimals =
     DecMul Q (decFromBaseUnits Q amount tokenDecimals) (decFromBaseUnits Q feedAnswer feedDecimals)"

definition apyFromRatePerBlock :: "decOps \<Rightarrow> int \<Rightarrow> int \<Rightarrow> rat" where
  "apyFromRatePerBlock Q ratePerBlockMantissa blocksPerYear =
     (if ratePerBlockMantissa = 0 \<or> blocksPerYear = 0 then 0
      else
        (let ratePerBlock = decFromMantissa Q ratePerBlockMantissa;
             blocksPerDay = DecQuoInt64 Q (of_int blocksPerYear) 365;
             dailyRate = DecMul Q ratePerBlock blocksPerDay in
         DecPower Q (1 + dailyRate) 365 - 1))"

fun groups3 :: "string \<Rightarrow> string" where
  "groups3 (a # b # c # rest) = CHR '','' # a # b # c # groups3 rest"
| "groups3 _ = []"

definition groupThousands :: "string \<Rightarrow> string" where
  "groupThousands intDigits =
     (let n = length intDigits in
      if n \<le> 3 then intDigits
      else (let l = n mod 3; l = (if l = 0 then 3 else l) in take l intDigits @ groups3 (drop l intDigits)))"

definition formatUSD :: "decOps \<Rightarrow> rat \<Rightarrow> string" where
  "formatUSD Q d =
     (let cents = DecRoundInt Q (\<bar>d\<bar> * 100);
          s = zpad 3 (bigString cents);
          out = ''$'' @ groupThousands (take (length s - 2) s) @ ''.'' @ drop (length s - 2) s in
      if d < 0 then ''-'' @ out else out)"

definition formatPercent :: "decOps \<Rightarrow> rat \<Rightarrow> string" where
  "formatPercent Q fraction =
     (let pct = fraction * 100;
          s = zpad 3 (bigString (DecRoundInt Q (\<bar>pct\<bar> * 100)));
          out = take (length s - 2) s @ ''.'' @ drop (length s - 2) s @ ''%'' in
      if pct < 0 then ''-'' @ out else out)"

text \<open>The same formatter with its two loops written as the code runs them, where a loop may not end and a slice may be out of
  bounds.\<close>

definition slicePanic :: err where
  "slicePanic = Ext ''slice bounds out of range''"

partial_function (option) padLoop :: "string \<Rightarrow> string option" where
  [code]: "padLoop s = (if length s < 3 then padLoop (''0'' @ s) else Some s)"

partial_function (option) groupLoop :: "string \<Rightarrow> nat \<Rightarrow> string \<Rightarrow> string res option" where
  [code]: "groupLoop s i b =
     (if i < length s
      then (if i + 3 \<le> length s then groupLoop s (i + 3) (b @ '','' @ take 3 (drop i s)) else Some (Inl slicePanic))
      else Some (Inr b))"

definition groupThousandsRun :: "string \<Rightarrow> string res option" where
  "groupThousandsRun intDigits =
     (let n = length intDigits in
      if n \<le> 3 then Some (Inr intDigits)
      else (let l = n mod 3; l = (if l = 0 then 3 else l) in groupLoop intDigits l (take l intDigits)))"

definition formatUSDRun :: "decOps \<Rightarrow> rat \<Rightarrow> string res option" where
  "formatUSDRun Q d =
     Option.bind (padLoop (bigString (DecRoundInt Q (\<bar>d\<bar> * 100)))) (\<lambda>s.
     if length s < 2 then Some (Inl slicePanic)
     else Option.bind (groupThousandsRun (take (length s - 2) s)) (\<lambda>r.
       Some (rbind r (\<lambda>intPart.
         let out = ''$'' @ intPart @ ''.'' @ drop (length s - 2) s in
         Inr (if d < 0 then ''-'' @ out else out)))))"

section \<open>Shared steps (lendora.go)\<close>

record lendoraDeps =
  ldEvm :: evmDeps
  ldDec :: decOps
  ldMarkets :: "lendoraCache option"
  ldBank :: "(string \<Rightarrow> coin list res) option"

definition requireLendora :: "lendoraDeps \<Rightarrow> unit res" where
  "requireLendora D =
     rbind (requireEVM (ldEvm D)) (\<lambda>_.
     require (edLendora (ldEvm D) \<noteq> None \<and> ldMarkets D \<noteq> None)
       (Errorf ''Lendora is not enabled on this server (no evm_lendora_comptroller_addr configured)'' []))"

text \<open>The bindings the tools reach after that check.\<close>

definition lendComptroller :: "lendoraDeps \<Rightarrow> address res" where
  "lendComptroller D = nonNil (edLendora (ldEvm D))"

definition lendMarkets :: "lendoraDeps \<Rightarrow> lendoraCache res" where
  "lendMarkets D = nonNil (ldMarkets D)"

definition lendEnvOf :: "lendoraDeps \<Rightarrow> lendEnv res" where
  "lendEnvOf D = rbind (nonNil (edEVM (ldEvm D))) (\<lambda>client.
     Inr \<lparr>leEth = edEth (ldEvm D), leAbi = edAbi (ldEvm D), leClient = client\<rparr>)"

definition resolveAsset :: "lendoraDeps \<Rightarrow> string \<Rightarrow> market res" where
  "resolveAsset D asset =
     rbind (lendMarkets D) (\<lambda>c.
     rbind (lendEnvOf D) (\<lambda>L.
     let unknown = Errorf (''unknown Lendora asset %q '' @ emDash @ '' pass an underlying symbol (e.g. \"USDC\") or a market 0x address'') [AStr asset];
         t = trimSpace asset in
     case lendResolve c asset of
       Some m \<Rightarrow> Inr m
     | None \<Rightarrow>
         if IsHexAddress (edEth (ldEvm D)) t
         then of_opt unknown (LoadMarket L c (HexToAddress (edEth (ldEvm D)) t))
         else Inl unknown))"

definition lendoraOwner :: "lendoraDeps \<Rightarrow> 'lim rateLib \<Rightarrow> time \<Rightarrow> requestCtx \<Rightarrow> string \<Rightarrow> string
    \<Rightarrow> ('lim server, string \<times> address) handler" where
  "lendoraOwner D R now ctx tool addrArg =
     hbind (authorize R now ctx tool) (\<lambda>tp.
     (let owner = trimSpace addrArg in
      if owner = []
      then hlift (rbind (ownerEthAddress (edSdk (ldEvm D)) (edEth (ldEvm D)) (tpOwner tp)) (\<lambda>eth. Inr (tpOwner tp, eth)))
      else (\<lambda>s.
        (rbind (CheckOwner (policyEngine now s) (tpTenantID tp) owner) (\<lambda>_.
         rbind (ownerEthAddress (edSdk (ldEvm D)) (edEth (ldEvm D)) owner) (\<lambda>eth. Inr (owner, eth))), s))))"

definition lendoraOracle :: "lendoraDeps \<Rightarrow> address res" where
  "lendoraOracle D =
     rbind (lendMarkets D) (\<lambda>c.
     if snd (lendOracle c) then Inr (fst (lendOracle c))
     else
       rbind (PackOracle (edAbi (ldEvm D))) (\<lambda>data.
       rbind (lendComptroller D) (\<lambda>comptroller.
       rbind (rwrap ''read comptroller.oracle(): %w'' [] (evmCall (ldEvm D) comptroller data)) (\<lambda>out.
       UnpackOracle (edAbi (ldEvm D)) out))))"

definition evmBlockNumber :: "lendoraDeps \<Rightarrow> u64" where
  "evmBlockNumber D =
     (case rbind (nonNil (edEVM (ldEvm D))) evBlockNumber of Inl _ \<Rightarrow> 0 | Inr n \<Rightarrow> n)"

definition cTokenUint :: "lendoraDeps \<Rightarrow> address \<Rightarrow> (abiLib \<Rightarrow> bytes res) \<Rightarrow> string \<Rightarrow> int res" where
  "cTokenUint D cToken pack method =
     rbind (pack (edAbi (ldEvm D))) (\<lambda>data.
     rbind (rwrap ''read %s for %s: %w'' [AStr method, AStr (AddressHex (edEth (ldEvm D)) cToken)] (evmCall (ldEvm D) cToken data)) (\<lambda>out.
     UnpackCTokenUint (edAbi (ldEvm D)) method out))"

text \<open>The price and the decimals of its feed; nothing when the market has no feed or the feed no positive answer.\<close>

definition underlyingUsdPrice :: "lendoraDeps \<Rightarrow> address \<Rightarrow> address \<Rightarrow> (int \<times> int) option res" where
  "underlyingUsdPrice D oracle cToken =
     (let V = ldEvm D; A = edAbi V in
      rbind (PackCTokenToFeed A cToken) (\<lambda>feedData.
      rbind (rwrap ''read cTokenToFeed(%s): %w'' [AStr (AddressHex (edEth V) cToken)] (evmCall V oracle feedData)) (\<lambda>feedOut.
      rbind (UnpackOracleAddress A ''cTokenToFeed'' feedOut) (\<lambda>feed.
      if feed = zeroAddress then Inr None
      else
        rbind (oraclePackDecimals A) (\<lambda>decData.
        rbind (rwrap ''read decimals for feed %s: %w'' [AStr (AddressHex (edEth V) feed)] (evmCall V feed decData)) (\<lambda>decOut.
        rbind (oracleUnpackDecimals A decOut) (\<lambda>feedDec.
        rbind (PackLatestRoundData A) (\<lambda>rdData.
        rbind (rwrap ''read latestRoundData for feed %s: %w'' [AStr (AddressHex (edEth V) feed)] (evmCall V feed rdData)) (\<lambda>rdOut.
        rbind (UnpackLatestRoundData A rdOut) (\<lambda>rd.
        if orAnswer rd \<le> 0 then Inr None else Inr (Some (orAnswer rd, uint feedDec))))))))))))"

record lendoraApproval =
  laTool :: string
  laToken :: string
  laSpender :: string
  laMinAmount :: string
  laRetryTool :: string
  laMessage :: string

definition checkLendoraAllowance :: "lendoraDeps \<Rightarrow> address \<Rightarrow> address \<Rightarrow> address \<Rightarrow> int \<Rightarrow> string \<Rightarrow> string \<Rightarrow> lendoraApproval option res" where
  "checkLendoraAllowance D underlying owner cToken amount amountHuman retryTool =
     (let V = ldEvm D; u = AddressHex (edEth V) underlying; c = AddressHex (edEth V) cToken in
      rbind (PackERC20Allowance (edAbi V) owner cToken) (\<lambda>data.
      rbind (rwrap ''read allowance for %s: %w'' [AStr u] (evmCall V underlying data)) (\<lambda>out.
      rbind (UnpackERC20Allowance (edAbi V) out) (\<lambda>allowance.
      if allowance < amount
      then Inr (Some \<lparr>laTool = ''build_erc20_approve'', laToken = u, laSpender = c, laMinAmount = amountHuman, laRetryTool = retryTool,
             laMessage = ''the market's allowance on '' @ u @ '' is insufficient '' @ emDash @ '' call build_erc20_approve (token '' @ u @
               '', spender '' @ c @ '', amount >= '' @ amountHuman @ '') first, then retry '' @ retryTool\<rparr>)
      else Inr None))))"

section \<open>The risk engine (lendora_risk.go)\<close>

definition e18 :: int where "e18 = 10 ^ 18"

definition hfHighUpper :: rat where "hfHighUpper = 12 / 10"
definition hfMediumUpper :: rat where "hfMediumUpper = 15 / 10"

definition emojiGreen :: string where "emojiGreen = [CHR 0xF0, CHR 0x9F, CHR 0x9F, CHR 0xA2]"
definition emojiYellow :: string where "emojiYellow = [CHR 0xF0, CHR 0x9F, CHR 0x9F, CHR 0xA1]"
definition emojiOrange :: string where "emojiOrange = [CHR 0xF0, CHR 0x9F, CHR 0x9F, CHR 0xA0]"
definition emojiRed :: string where "emojiRed = [CHR 0xF0, CHR 0x9F, CHR 0x94, CHR 0xB4]"

record marketPosition =
  mpSymbol :: string
  mpCToken :: address
  mpUnderlyingDecimals :: int
  mpIsCEther :: bool
  mpCollateralEnabled :: bool
  mpSuppliedUnderlying :: int
  mpBorrowedUnderlying :: int
  mpPriceNative :: int
  mpCollateralFactor :: int
  mpSuppliedUSD :: rat
  mpBorrowedUSD :: rat
  mpFeedOK :: bool

record riskResult =
  rkBlockNumber :: u64
  rkPositions :: "marketPosition list"
  rkHasDebt :: bool
  rkHealthFactor :: rat
  rkSumCollateralNat :: int
  rkSumBorrowNat :: int
  rkLiquidityNat :: int
  rkShortfallNat :: int
  rkTotalSuppliedUSD :: rat
  rkTotalBorrowedUSD :: rat
  rkMaxBorrowableUSD :: rat
  rkMaxBorrowableOK :: bool
  rkRiskLevel :: string
  rkRiskEmoji :: string

definition riskBand :: "bool \<Rightarrow> int \<Rightarrow> rat \<Rightarrow> string \<times> string" where
  "riskBand hasDebt shortfall hf =
     (if \<not> hasDebt then (''Low'', emojiGreen)
      else if 0 < shortfall then (''Critical'', emojiRed)
      else if hf < hfHighUpper then (''High'', emojiOrange)
      else if hf < hfMediumUpper then (''Medium'', emojiYellow)
      else (''Low'', emojiGreen))"

definition lendoraAssetsInSet :: "lendoraDeps \<Rightarrow> address \<Rightarrow> address list res" where
  "lendoraAssetsInSet D owner =
     rbind (PackGetAssetsIn (edAbi (ldEvm D)) owner) (\<lambda>data.
     rbind (lendComptroller D) (\<lambda>comptroller.
     rbind (evmCall (ldEvm D) comptroller data) (\<lambda>out.
     UnpackGetAssetsIn (edAbi (ldEvm D)) out)))"

definition cTokenUnderlyingPriceNative :: "lendoraDeps \<Rightarrow> address \<Rightarrow> address \<Rightarrow> int res" where
  "cTokenUnderlyingPriceNative D oracle cToken =
     rbind (PackGetUnderlyingPrice (edAbi (ldEvm D)) cToken) (\<lambda>data.
     rbind (evmCall (ldEvm D) oracle data) (\<lambda>out.
     UnpackOracleUint (edAbi (ldEvm D)) ''getUnderlyingPrice'' out))"

definition cTokenCollateralFactor :: "lendoraDeps \<Rightarrow> address \<Rightarrow> int res" where
  "cTokenCollateralFactor D cToken =
     rbind (PackMarkets (edAbi (ldEvm D)) cToken) (\<lambda>data.
     rbind (lendComptroller D) (\<lambda>comptroller.
     rbind (evmCall (ldEvm D) comptroller data) (\<lambda>out.
     rbind (UnpackMarkets (edAbi (ldEvm D)) out) (\<lambda>info.
     Inr (miCollateralFactorMantissa info)))))"

definition nativeLiquidityUSD :: "lendoraDeps \<Rightarrow> address \<Rightarrow> int \<Rightarrow> rat option res" where
  "nativeLiquidityUSD D oracle liquidityNat =
     rbind (lendMarkets D) (\<lambda>c.
     (let cEther = (case find mkIsCEther (lendAll c) of Some m \<Rightarrow> mkCToken m | None \<Rightarrow> zeroAddress) in
      if cEther = zeroAddress then Inr None
      else rbind (underlyingUsdPrice D oracle cEther) (\<lambda>usd.
           Inr (map_option (\<lambda>(answer, feedDec). usdFromFeed (ldDec D) liquidityNat 18 answer feedDec) usd))))"

text \<open>One market of the loop: the account's position in it, if it has one.\<close>

definition readPosition :: "lendoraDeps \<Rightarrow> address \<Rightarrow> address list \<Rightarrow> address \<Rightarrow> market \<Rightarrow> marketPosition option res" where
  "readPosition D oracle entered owner m =
     rbind (PackGetAccountSnapshot (edAbi (ldEvm D)) owner) (\<lambda>snapData.
     rbind (evmCall (ldEvm D) (mkCToken m) snapData) (\<lambda>snapOut.
     rbind (UnpackGetAccountSnapshot (edAbi (ldEvm D)) snapOut) (\<lambda>snap.
     if snCTokenBalance snap = 0 \<and> snBorrowBalance snap = 0 then Inr None
     else
       (let supplied = snCTokenBalance snap * snExchangeRate snap div e18; borrowed = snBorrowBalance snap in
        rbind (cTokenUnderlyingPriceNative D oracle (mkCToken m)) (\<lambda>price.
        rbind (cTokenCollateralFactor D (mkCToken m)) (\<lambda>cf.
        rbind (underlyingUsdPrice D oracle (mkCToken m)) (\<lambda>usd.
        let pos = \<lparr>mpSymbol = mkSymbol m, mpCToken = mkCToken m, mpUnderlyingDecimals = mkUnderlyingDecimals m, mpIsCEther = mkIsCEther m,
              mpCollateralEnabled = mkCToken m \<in> set entered, mpSuppliedUnderlying = supplied, mpBorrowedUnderlying = borrowed,
              mpPriceNative = price, mpCollateralFactor = cf, mpSuppliedUSD = 0, mpBorrowedUSD = 0, mpFeedOK = False\<rparr> in
        Inr (Some (case usd of
          None \<Rightarrow> pos
        | Some (answer, feedDec) \<Rightarrow> pos\<lparr>mpFeedOK := True,
            mpSuppliedUSD := usdFromFeed (ldDec D) supplied (mkUnderlyingDecimals m) answer feedDec,
            mpBorrowedUSD := usdFromFeed (ldDec D) borrowed (mkUnderlyingDecimals m) answer feedDec\<rparr>)))))))))"

text \<open>What a position adds to the result.\<close>

definition borrowedNative :: "marketPosition \<Rightarrow> int" where
  "borrowedNative p = (if 0 < mpBorrowedUnderlying p then mpPriceNative p * mpBorrowedUnderlying p div e18 else 0)"

definition addPosition :: "marketPosition \<Rightarrow> riskResult \<Rightarrow> riskResult" where
  "addPosition p r =
     (let r = r\<lparr>rkSumBorrowNat := rkSumBorrowNat r + borrowedNative p\<rparr>;
          r = (if mpFeedOK p then r\<lparr>rkTotalSuppliedUSD := rkTotalSuppliedUSD r + mpSuppliedUSD p,
                  rkTotalBorrowedUSD := rkTotalBorrowedUSD r + mpBorrowedUSD p\<rparr> else r) in
      r\<lparr>rkPositions := rkPositions r @ [p]\<rparr>)"

fun riskLoop :: "lendoraDeps \<Rightarrow> address \<Rightarrow> address list \<Rightarrow> address \<Rightarrow> market list \<Rightarrow> riskResult \<Rightarrow> riskResult res" where
  "riskLoop D oracle entered owner [] r = Inr r"
| "riskLoop D oracle entered owner (m # ms) r =
     rbind (readPosition D oracle entered owner m) (\<lambda>p.
     riskLoop D oracle entered owner ms (case p of None \<Rightarrow> r | Some p \<Rightarrow> addPosition p r))"

text \<open>The result before the loop, and the ratio, band and borrowing power after it.\<close>

definition riskStart :: "lendoraDeps \<Rightarrow> accountLiquidity \<Rightarrow> riskResult" where
  "riskStart D liq = \<lparr>rkBlockNumber = evmBlockNumber D, rkPositions = [], rkHasDebt = False, rkHealthFactor = 0, rkSumCollateralNat = 0,
     rkSumBorrowNat = 0, rkLiquidityNat = alLiquidity liq, rkShortfallNat = alShortfall liq, rkTotalSuppliedUSD = 0, rkTotalBorrowedUSD = 0,
     rkMaxBorrowableUSD = 0, rkMaxBorrowableOK = False, rkRiskLevel = [], rkRiskEmoji = []\<rparr>"

definition riskRatio :: "decOps \<Rightarrow> riskResult \<Rightarrow> riskResult" where
  "riskRatio Q r =
     (let net = rkLiquidityNat r - rkShortfallNat r;
          r = r\<lparr>rkSumCollateralNat := net + rkSumBorrowNat r, rkHasDebt := 0 < rkSumBorrowNat r\<rparr>;
          r = (if rkHasDebt r then r\<lparr>rkHealthFactor := DecQuo Q (of_int (rkSumCollateralNat r)) (of_int (rkSumBorrowNat r))\<rparr> else r);
          (level, emoji) = riskBand (rkHasDebt r) (rkShortfallNat r) (rkHealthFactor r) in
      r\<lparr>rkRiskLevel := level, rkRiskEmoji := emoji\<rparr>)"

definition accountMargin :: "lendoraDeps \<Rightarrow> address \<Rightarrow> accountLiquidity res" where
  "accountMargin D owner =
     rbind (PackGetAccountLiquidity (edAbi (ldEvm D)) owner) (\<lambda>liqData.
     rbind (lendComptroller D) (\<lambda>comptroller.
     rbind (evmCall (ldEvm D) comptroller liqData) (\<lambda>liqOut.
     UnpackAccountLiquidity (edAbi (ldEvm D)) ''getAccountLiquidity'' liqOut)))"

definition computeRisk :: "lendoraDeps \<Rightarrow> address \<Rightarrow> riskResult res" where
  "computeRisk D owner =
     rbind (lendoraOracle D) (\<lambda>oracle.
     rbind (accountMargin D owner) (\<lambda>liq.
     rbind (lendoraAssetsInSet D owner) (\<lambda>entered.
     rbind (lendMarkets D) (\<lambda>c.
     rbind (riskLoop D oracle entered owner (lendAll c) (riskStart D liq)) (\<lambda>r.
     let r = riskRatio (ldDec D) r in
     rbind (nativeLiquidityUSD D oracle (rkLiquidityNat r)) (\<lambda>usd.
     Inr (case usd of None \<Rightarrow> r | Some v \<Rightarrow> r\<lparr>rkMaxBorrowableUSD := v, rkMaxBorrowableOK := True\<rparr>)))))))"

section \<open>Lemmas\<close>

lemma nearestDec_ge:
  assumes "nearestDec q x" "of_int n \<le> x"
  shows "of_int n \<le> q"
proof -
  obtain k where k: "q = of_int k / 10 ^ 18" and e: "\<bar>q - x\<bar> * 2 \<le> 1 / 10 ^ 18" using assms(1) by (auto simp: nearestDec_def)
  have d: "(x - q) * 2 \<le> 1 / 10 ^ 18" by (rule order_trans [OF _ e], rule mult_right_mono) (use abs_ge_minus_self [of "q - x"] in simp_all)
  have "(of_int n - q) * 2 \<le> 1 / 10 ^ 18" by (rule order_trans [OF _ d]) (use assms(2) in simp)
  then have "((of_int n - q) * 2) * 10 ^ 18 \<le> 1" by (simp add: le_divide_eq)
  then have "2 * (of_int n * 10 ^ 18) \<le> (2 * of_int k + 1 :: rat)" using k by (simp add: algebra_simps)
  then have "(of_int (2 * (n * 10 ^ 18)) :: rat) \<le> of_int (2 * k + 1)" by simp
  then have "2 * (n * 10 ^ 18) \<le> 2 * k + 1" by (simp only: of_int_le_iff)
  then have "n * 10 ^ 18 \<le> k" by linarith
  then have "(of_int (n * 10 ^ 18) :: rat) \<le> of_int k" by (simp only: of_int_le_iff)
  then show ?thesis using k by (simp add: field_simps)
qed

text \<open>The positions of the account, one for each market it has any in.\<close>

definition positionsIn :: "lendoraDeps \<Rightarrow> address \<Rightarrow> address list \<Rightarrow> address \<Rightarrow> market list \<Rightarrow> marketPosition list" where
  "positionsIn D oracle entered owner ms =
     concat (map (\<lambda>m. case readPosition D oracle entered owner m of Inr (Some p) \<Rightarrow> [p] | _ \<Rightarrow> []) ms)"

lemma addPosition_simps [simp]:
  "rkPositions (addPosition p r) = rkPositions r @ [p]" "rkSumBorrowNat (addPosition p r) = rkSumBorrowNat r + borrowedNative p"
  "rkTotalSuppliedUSD (addPosition p r) = rkTotalSuppliedUSD r + (if mpFeedOK p then mpSuppliedUSD p else 0)"
  "rkTotalBorrowedUSD (addPosition p r) = rkTotalBorrowedUSD r + (if mpFeedOK p then mpBorrowedUSD p else 0)"
  "rkLiquidityNat (addPosition p r) = rkLiquidityNat r" "rkShortfallNat (addPosition p r) = rkShortfallNat r"
  by (simp_all add: addPosition_def Let_def)

lemma riskLoop_Inr:
  assumes "riskLoop D oracle entered owner ms r = Inr r'"
  shows "rkPositions r' = rkPositions r @ positionsIn D oracle entered owner ms"
    and "rkSumBorrowNat r' = rkSumBorrowNat r + sum_list (map borrowedNative (positionsIn D oracle entered owner ms))"
    and "rkTotalSuppliedUSD r' = rkTotalSuppliedUSD r + sum_list (map mpSuppliedUSD (filter mpFeedOK (positionsIn D oracle entered owner ms)))"
    and "rkTotalBorrowedUSD r' = rkTotalBorrowedUSD r + sum_list (map mpBorrowedUSD (filter mpFeedOK (positionsIn D oracle entered owner ms)))"
    and "rkLiquidityNat r' = rkLiquidityNat r \<and> rkShortfallNat r' = rkShortfallNat r"
    and "\<forall>m \<in> set ms. \<exists>p. readPosition D oracle entered owner m = Inr p"
  using assms
proof (induction ms arbitrary: r)
  case Nil
  { case 1 then show ?case by (simp add: positionsIn_def) }
  { case 2 then show ?case by (simp add: positionsIn_def) }
  { case 3 then show ?case by (simp add: positionsIn_def) }
  { case 4 then show ?case by (simp add: positionsIn_def) }
  { case 5 then show ?case by simp }
  { case 6 then show ?case by simp }
next
  case (Cons m ms)
  have *: "\<exists>p. readPosition D oracle entered owner m = Inr p \<and>
      positionsIn D oracle entered owner (m # ms) = (case p of None \<Rightarrow> [] | Some p \<Rightarrow> [p]) @ positionsIn D oracle entered owner ms \<and>
      riskLoop D oracle entered owner ms (case p of None \<Rightarrow> r | Some p \<Rightarrow> addPosition p r) = Inr r'"
    if l: "riskLoop D oracle entered owner (m # ms) r = Inr r'" for r
  proof -
    obtain p where p: "readPosition D oracle entered owner m = Inr p"
        "riskLoop D oracle entered owner ms (case p of None \<Rightarrow> r | Some p \<Rightarrow> addPosition p r) = Inr r'"
      using l unfolding riskLoop.simps rbind_Inr_iff by blast
    then show ?thesis by (cases p) (simp_all add: positionsIn_def)
  qed
  { case 1 from * [OF this] show ?case using Cons.IH(1) by (auto split: option.splits) }
  { case 2 from * [OF this] show ?case using Cons.IH(2) by (auto split: option.splits) }
  { case 3 from * [OF this] show ?case using Cons.IH(3) by (auto split: option.splits) }
  { case 4 from * [OF this] show ?case using Cons.IH(4) by (auto split: option.splits) }
  { case 5 from * [OF this] show ?case using Cons.IH(5) by (auto split: option.splits) }
  { case 6 from * [OF this] show ?case using Cons.IH(6) by auto }
qed

lemma computeRisk_Inr:
  assumes "computeRisk D owner = Inr r"
  obtains orc liq entered c r0 where "lendoraOracle D = Inr orc" "accountMargin D owner = Inr liq" "lendoraAssetsInSet D owner = Inr entered"
    "ldMarkets D = Some c" "riskLoop D orc entered owner (lendAll c) (riskStart D liq) = Inr r0"
    "r = (riskRatio (ldDec D) r0)\<lparr>rkMaxBorrowableUSD := rkMaxBorrowableUSD r, rkMaxBorrowableOK := rkMaxBorrowableOK r\<rparr>"
  using assms by (auto simp: computeRisk_def lendMarkets_def nonNil_def Let_def split: option.splits intro!: that)

lemma riskRatio_simps:
  "rkPositions (riskRatio Q r) = rkPositions r" "rkSumBorrowNat (riskRatio Q r) = rkSumBorrowNat r" "rkShortfallNat (riskRatio Q r) = rkShortfallNat r"
  "rkSumCollateralNat (riskRatio Q r) = rkLiquidityNat r - rkShortfallNat r + rkSumBorrowNat r" "rkHasDebt (riskRatio Q r) = (0 < rkSumBorrowNat r)"
  "0 < rkSumBorrowNat r \<Longrightarrow> rkHealthFactor (riskRatio Q r) =
     DecQuo Q (of_int (rkLiquidityNat r - rkShortfallNat r + rkSumBorrowNat r)) (of_int (rkSumBorrowNat r))"
  "rkRiskLevel (riskRatio Q r) = fst (riskBand (rkHasDebt (riskRatio Q r)) (rkShortfallNat r) (rkHealthFactor (riskRatio Q r)))"
  by (simp_all add: riskRatio_def Let_def case_prod_beta)

lemma groups3_digits: "length s mod 3 = 0 \<Longrightarrow> filter is_digit (groups3 s) = filter is_digit s"
  by (induction s rule: groups3.induct) (auto simp: is_digit_def)

lemma groupThousands_digits: "filter is_digit (groupThousands s) = filter is_digit s"
proof -
  let ?l = "if length s mod 3 = 0 then 3 else length s mod 3"
  have "length (drop ?l s) mod 3 = 0" if "3 < length s"
    using that by (auto simp: mod_eq_0_iff_dvd minus_mod_eq_mult_div)
  then have "filter is_digit (take ?l s @ groups3 (drop ?l s)) = filter is_digit (take ?l s @ drop ?l s)" if "3 < length s"
    using that by (simp only: filter_append groups3_digits)
  then show ?thesis by (simp add: groupThousands_def Let_def)
qed

lemma padLoop_returns: "padLoop s = Some (zpad 3 s)"
proof (induction "3 - length s" arbitrary: s)
  case 0
  then show ?case by (subst padLoop.simps) (simp add: zpad_def)
next
  case (Suc k)
  then have "padLoop (''0'' @ s) = Some (zpad 3 (''0'' @ s))" by simp
  moreover have "zpad 3 (''0'' @ s) = zpad 3 s" using Suc.hyps(2) by (simp add: zpad_def replicate_app_Cons_same flip: replicate_Suc)
  moreover have "length s < 3" using Suc.hyps(2) by simp
  ultimately show ?case by (subst padLoop.simps) simp
qed

lemma groupLoop_returns: "(length s - i) mod 3 = 0 \<Longrightarrow> i \<le> length s \<Longrightarrow> groupLoop s i b = Some (Inr (b @ groups3 (drop i s)))"
proof (induction "length s - i" arbitrary: i b rule: less_induct)
  case less
  show ?case
  proof (cases "i < length s")
    case False
    then show ?thesis using less.prems by (subst groupLoop.simps) simp
  next
    case True
    then have n: "i + 3 \<le> length s" "(length s - (i + 3)) mod 3 = 0" using less.prems by presburger+
    have "3 \<le> length (drop i s)" using n(1) by simp
    then obtain x y z rest where d: "drop i s = x # y # z # rest"
      by (auto simp only: numeral_3_eq_3 Suc_le_length_iff)
    then have "drop 3 (drop i s) = rest" by simp
    then have "drop (i + 3) s = rest" by (simp only: drop_drop add.commute)
    with less.hyps [OF _ n(2) n(1)] True n(1) d show ?thesis by (subst groupLoop.simps) simp
  qed
qed

lemma groupThousandsRun_returns: "groupThousandsRun s = Some (Inr (groupThousands s))"
proof (cases "length s \<le> 3")
  case False
  let ?l = "if length s mod 3 = 0 then 3 else length s mod 3"
  have "?l \<le> length s" "(length s - ?l) mod 3 = 0" using False by presburger+
  then show ?thesis using False groupLoop_returns [of s ?l] by (simp add: groupThousandsRun_def groupThousands_def Let_def)
qed (simp add: groupThousandsRun_def groupThousands_def)

section \<open>Properties\<close>

text \<open>C14: the risk report is exact. When the engine returns, it has read a position for every market of the cache; the positions are
  those the account has any in, the borrowed sum is the sum of their borrowed values and the collateral sum is the
  Comptroller's margin above it. There is debt exactly when that sum is positive, and then the health factor is the nearest
  decimal to the ratio of the sums. When the Comptroller reports a liquidity or a shortfall but not both, the level is
  critical exactly when there is debt that the collateral does not cover, and at any other level a health factor with debt is at
  least one.\<close>

theorem risk_report_is_exact:
  assumes "decOps_ok (ldDec D)" "computeRisk D owner = Inr r"
  shows "\<exists>oracle liq entered c. lendoraOracle D = Inr oracle \<and> accountMargin D owner = Inr liq \<and> lendoraAssetsInSet D owner = Inr entered \<and>
    ldMarkets D = Some c \<and> rkPositions r = positionsIn D oracle entered owner (lendAll c) \<and>
    (\<forall>m \<in> set (lendAll c). \<not> isl (readPosition D oracle entered owner m)) \<and>
    rkSumBorrowNat r = sum_list (map borrowedNative (rkPositions r)) \<and>
    rkSumCollateralNat r = alLiquidity liq - alShortfall liq + rkSumBorrowNat r \<and> rkHasDebt r = (0 < rkSumBorrowNat r) \<and>
    (rkHasDebt r \<longrightarrow> nearestDec (rkHealthFactor r) (of_int (rkSumCollateralNat r) / of_int (rkSumBorrowNat r))) \<and>
    (0 \<le> alLiquidity liq \<and> 0 \<le> alShortfall liq \<and> (alLiquidity liq = 0 \<or> alShortfall liq = 0) \<longrightarrow>
       (rkRiskLevel r = ''Critical'' \<longleftrightarrow> rkHasDebt r \<and> rkSumCollateralNat r < rkSumBorrowNat r) \<and>
       (rkHasDebt r \<and> rkRiskLevel r \<noteq> ''Critical'' \<longrightarrow> 1 \<le> rkHealthFactor r))"
proof -
  obtain orc liq entered c r0 where c: "lendoraOracle D = Inr orc" "accountMargin D owner = Inr liq" "lendoraAssetsInSet D owner = Inr entered"
    "ldMarkets D = Some c" "riskLoop D orc entered owner (lendAll c) (riskStart D liq) = Inr r0"
    "r = (riskRatio (ldDec D) r0)\<lparr>rkMaxBorrowableUSD := rkMaxBorrowableUSD r, rkMaxBorrowableOK := rkMaxBorrowableOK r\<rparr>"
    using assms(2) by (rule computeRisk_Inr)
  note l = riskLoop_Inr [OF c(5)]
  have r0: "rkPositions r0 = positionsIn D orc entered owner (lendAll c)" "rkSumBorrowNat r0 = sum_list (map borrowedNative (rkPositions r0))"
      "rkLiquidityNat r0 = alLiquidity liq" "rkShortfallNat r0 = alShortfall liq"
    using l(1,2,5) by (simp_all add: riskStart_def)
  have r: "rkPositions r = rkPositions r0" "rkSumBorrowNat r = rkSumBorrowNat r0" "rkHasDebt r = (0 < rkSumBorrowNat r0)"
      "rkSumCollateralNat r = alLiquidity liq - alShortfall liq + rkSumBorrowNat r0"
      "rkRiskLevel r = fst (riskBand (rkHasDebt r) (alShortfall liq) (rkHealthFactor r))"
      "0 < rkSumBorrowNat r0 \<Longrightarrow> rkHealthFactor r = DecQuo (ldDec D) (of_int (rkSumCollateralNat r)) (of_int (rkSumBorrowNat r))"
    by (subst c(6), simp add: riskRatio_simps r0)+
  have hf: "nearestDec (rkHealthFactor r) (of_int (rkSumCollateralNat r) / of_int (rkSumBorrowNat r))" if "rkHasDebt r"
    using that assms(1) r(2,3,6) by (simp add: decOps_ok_def)
  have "1 \<le> rkHealthFactor r" if "rkHasDebt r" "rkSumBorrowNat r \<le> rkSumCollateralNat r"
  proof -
    have "(of_int 1 :: rat) \<le> of_int (rkSumCollateralNat r) / of_int (rkSumBorrowNat r)" using that r(2,3) by simp
    from nearestDec_ge [OF hf [OF that(1)] this] show ?thesis by simp
  qed
  then have crit: "(rkRiskLevel r = ''Critical'' \<longleftrightarrow> rkHasDebt r \<and> rkSumCollateralNat r < rkSumBorrowNat r) \<and>
       (rkHasDebt r \<and> rkRiskLevel r \<noteq> ''Critical'' \<longrightarrow> 1 \<le> rkHealthFactor r)"
    if "0 \<le> alLiquidity liq" "0 \<le> alShortfall liq" "alLiquidity liq = 0 \<or> alShortfall liq = 0"
    using that r(2,4,5) by (auto simp: riskBand_def)
  have "\<forall>m \<in> set (lendAll c). \<not> isl (readPosition D orc entered owner m)" using l(6) by fastforce
  then show ?thesis using c(1-4) r0(1,2) r(1-4) hf crit by (intro exI conjI) (assumption | simp)+
qed


text \<open>C34: printing a dollar amount always returns. With its loops run as the code runs them, the formatter ends on every amount,
  never slices out of bounds, and returns the text of the definition without loops.\<close>

theorem usd_format_returns: "formatUSDRun Q d = Some (Inr (formatUSD Q d))"
proof -
  have "2 \<le> length (zpad 3 (bigString (DecRoundInt Q (\<bar>d\<bar> * 100))))" by (simp add: zpad_def)
  then show ?thesis by (simp add: formatUSDRun_def padLoop_returns groupThousandsRun_returns formatUSD_def Let_def)
qed

section \<open>The properties on concrete inputs\<close>

definition docOps :: decOps where
  "docOps = \<lparr>DecWithPrec = (\<lambda>v p. of_int v / 10 ^ nat p), DecMul = (\<lambda>a b. of_int (round (a * b * 10 ^ 18)) / 10 ^ 18),
     DecQuo = (\<lambda>a b. of_int (round (a / b * 10 ^ 18)) / 10 ^ 18), DecQuoInt64 = (\<lambda>a i. of_int (round (a / of_int i * 10 ^ 18)) / 10 ^ 18),
     DecPower = (\<lambda>a n. a ^ n), DecRoundInt = round, DecString = (\<lambda>d. DecWithPrecString docDec (round (d * 10 ^ 18)) 18)\<rparr>"

lemma nearestDec_round: "nearestDec (of_int (round (x * 10 ^ 18)) / 10 ^ 18) x"
proof -
  have "\<bar>of_int (round (x * 10 ^ 18)) - x * 10 ^ 18\<bar> \<le> 1 / 2" by (rule of_int_round_abs_le)
  then have "\<bar>(of_int (round (x * 10 ^ 18)) / 10 ^ 18 - x) * 10 ^ 18\<bar> \<le> 1 / 2" by (simp add: diff_divide_distrib left_diff_distrib)
  then have "\<bar>of_int (round (x * 10 ^ 18)) / 10 ^ 18 - x\<bar> * 10 ^ 18 \<le> 1 / 2" by (simp only: abs_mult) simp
  then have "\<bar>of_int (round (x * 10 ^ 18)) / 10 ^ 18 - x\<bar> * 2 \<le> 1 / 10 ^ 18" by (simp add: field_simps)
  then show ?thesis unfolding nearestDec_def by blast
qed

lemma docOps_ok: "decOps_ok docOps"
proof -
  have "\<bar>of_int (round d) - d\<bar> * 2 \<le> 1" for d :: rat using of_int_round_abs_le [of d] by simp
  then show ?thesis unfolding decOps_ok_def docOps_def by (simp only: decOps.select_convs nearestDec_round simp_thms)
qed

definition exLendDeps :: lendoraDeps where
  "exLendDeps = \<lparr>ldEvm = exDeps\<lparr>edAbi := exLendAbi, edEVM := Some exLendClient, edAssembler := Some exLendClient, edLendora := Some exComptroller\<rparr>,
     ldDec = docOps, ldMarkets = Some exLendCache, ldBank = None\<rparr>"

lemma exLendDeps_simps [simp]:
  "edAbi (ldEvm exLendDeps) = exLendAbi" "edEVM (ldEvm exLendDeps) = Some exLendClient" "edLendora (ldEvm exLendDeps) = Some exComptroller"
  "edEth (ldEvm exLendDeps) = edEth exDeps" "edSdk (ldEvm exLendDeps) = edSdk exDeps" "ldMarkets exLendDeps = Some exLendCache"
  "ldDec exLendDeps = docOps" "edAssembler (ldEvm exLendDeps) = Some exLendClient" "edDec (ldEvm exLendDeps) = docDec"
  by (simp_all add: exLendDeps_def)

lemma exLend_evmCall [simp]: "evmCall (ldEvm exLendDeps) to (bytesOf name) =
    (case exAnswer to name of None \<Rightarrow> Inl (Ext ''execution reverted'') | Some vs \<Rightarrow> Inr (exReply vs))"
  by (simp add: evmCall_def evmCallOn_def)

lemma exLendDeps_reads:
  "lendoraOracle exLendDeps = Inr exOracle" "lendAll exLendCache = [exMarket]"
  "accountMargin exLendDeps own = Inr \<lparr>alLiquidity = 75 * 10 ^ 18, alShortfall = 0\<rparr>" "lendoraAssetsInSet exLendDeps own = Inr [exCUsdc]"
  "cTokenUnderlyingPriceNative exLendDeps exOracle exCUsdc = Inr (10 ^ 30)" "cTokenCollateralFactor exLendDeps exCUsdc = Inr (8 * 10 ^ 17)"
  "underlyingUsdPrice exLendDeps exOracle exCUsdc = Inr None" "nativeLiquidityUSD exLendDeps exOracle n = Inr None"
  by (simp_all add: lendoraOracle_def lendMarkets_def nonNil_def lendOracle_def lendAll_def exLendCache_all accountMargin_def lendComptroller_def
      lendoraAssetsInSet_def cTokenUnderlyingPriceNative_def cTokenCollateralFactor_def underlyingUsdPrice_def nativeLiquidityUSD_def
      PackGetAccountLiquidity_def UnpackAccountLiquidity_def PackGetAssetsIn_def UnpackGetAssetsIn_def abiUnpackAddresses_def exLend_first exLend_all
      PackGetUnderlyingPrice_def UnpackOracleUint_def abiUnpackUint_def PackMarkets_def UnpackMarkets_def PackCTokenToFeed_def
      UnpackOracleAddress_def abiUnpackAddress_def)

lemma exLendDeps_position:
  "readPosition exLendDeps exOracle [exCUsdc] own exMarket = Inr (Some \<lparr>mpSymbol = ''USDC'', mpCToken = exCUsdc, mpUnderlyingDecimals = 6,
     mpIsCEther = False, mpCollateralEnabled = True, mpSuppliedUnderlying = 10 ^ 8, mpBorrowedUnderlying = 5 * 10 ^ 6, mpPriceNative = 10 ^ 30,
     mpCollateralFactor = 8 * 10 ^ 17, mpSuppliedUSD = 0, mpBorrowedUSD = 0, mpFeedOK = False\<rparr>)"
  by (simp add: readPosition_def PackGetAccountSnapshot_def UnpackGetAccountSnapshot_def exLend_all exLendDeps_reads e18_def Let_def)

lemma exLendDeps_risk: "\<exists>r. computeRisk exLendDeps own = Inr r \<and> rkPositions r \<noteq> []"
  by (simp add: computeRisk_def exLendDeps_reads exLendDeps_position lendMarkets_def nonNil_def riskRatio_simps riskStart_def Let_def)

theorem risk_report_is_exact_witness:
  "\<exists>r. computeRisk exLendDeps (replicate 20 9) = Inr r \<and> rkSumBorrowNat r = 5 * 10 ^ 18 \<and> rkSumCollateralNat r = 80 * 10 ^ 18 \<and> rkHasDebt r \<and>
     nearestDec (rkHealthFactor r) 16 \<and> rkRiskLevel r \<noteq> ''Critical'' \<and> 1 \<le> rkHealthFactor r"
proof -
  let ?o = "replicate 20 9 :: address"
  obtain r where r: "computeRisk exLendDeps ?o = Inr r" using exLendDeps_risk by blast
  have b: "sum_list (map borrowedNative (positionsIn exLendDeps exOracle [exCUsdc] ?o [exMarket])) = 5 * 10 ^ 18"
    by (simp add: positionsIn_def exLendDeps_position borrowedNative_def e18_def)
  have "decOps_ok (ldDec exLendDeps)" by (simp add: docOps_ok)
  note t = risk_report_is_exact [OF this r, unfolded exLendDeps_reads exLendDeps_simps sum.inject option.inject, simplified ex_simps simp_thms]
  have s: "rkSumBorrowNat r = 5 * 10 ^ 18" using t b by (auto simp: exLendDeps_reads)
  have c: "rkSumCollateralNat r = 80 * 10 ^ 18" using t s by auto
  have h: "rkHasDebt r" using t s by auto
  have n: "nearestDec (rkHealthFactor r) 16" using t s c h by auto
  have "rkRiskLevel r \<noteq> ''Critical''" using t s c by auto
  moreover have "1 \<le> rkHealthFactor r" using t h calculation by auto
  ultimately show ?thesis using r s c h n by blast
qed


end
