(* ===== verification/Lendora_Read.thy ===== *)
theory Lendora_Read
  imports Lendora_Risk "HOL-Library.List_Lexorder" "HOL-Library.Char_ord"
begin

text \<open>
  The seven read tools of the money markets (\<open>lib/mcp/tools/lendora_read.go\<close>): the market rows, the details of one market, the
  dashboard, and the views of one account. The results are that a view of an account is only ever given to its owner and
  is the risk engine's, and that a dashboard's totals are those of the markets.
\<close>

section \<open>Market reads\<close>

record marketStats =
  msSymbol :: string
  msCToken :: address
  msUnderlying :: address
  msUnderlyingDecimals :: int
  msIsCEther :: bool
  msSupplyAPY :: rat
  msBorrowAPY :: rat
  msTotalSupplyUnderlying :: int
  msTotalBorrowUnderlying :: int
  msCashUnderlying :: int
  msReservesUnderlying :: int
  msUtilization :: rat
  msCollateralFactor :: rat
  msReserveFactor :: rat
  msMintPaused :: bool
  msBorrowPaused :: bool
  msFeedOK :: bool
  msSupplyUSD :: rat
  msBorrowUSD :: rat

definition marketBlocksPerYear :: "lendoraDeps \<Rightarrow> address \<Rightarrow> int res" where
  "marketBlocksPerYear D cToken =
     (let V = ldEvm D; A = edAbi V in
      rbind (PackInterestRateModel A) (\<lambda>modelData.
      rbind (rwrap ''read interestRateModel for %s: %w'' [AStr (AddressHex (edEth V) cToken)] (evmCall V cToken modelData)) (\<lambda>modelOut.
      rbind (UnpackInterestRateModel A modelOut) (\<lambda>model.
      rbind (PackBlocksPerYear A) (\<lambda>bpyData.
      rbind (rwrap ''read blocksPerYear for model %s: %w'' [AStr (AddressHex (edEth V) model)] (evmCall V model bpyData)) (\<lambda>bpyOut.
      UnpackBlocksPerYear A bpyOut))))))"

definition comptrollerBool :: "lendoraDeps \<Rightarrow> (abiLib \<Rightarrow> address \<Rightarrow> bytes res) \<Rightarrow> string \<Rightarrow> address \<Rightarrow> bool res" where
  "comptrollerBool D pack method cToken =
     rbind (pack (edAbi (ldEvm D)) cToken) (\<lambda>data.
     rbind (lendComptroller D) (\<lambda>comptroller.
     rbind (evmCall (ldEvm D) comptroller data) (\<lambda>out.
     UnpackComptrollerBool (edAbi (ldEvm D)) method out)))"

definition comptrollerUint :: "lendoraDeps \<Rightarrow> (abiLib \<Rightarrow> bytes res) \<Rightarrow> string \<Rightarrow> int res" where
  "comptrollerUint D pack method =
     rbind (pack (edAbi (ldEvm D))) (\<lambda>data.
     rbind (lendComptroller D) (\<lambda>comptroller.
     rbind (evmCall (ldEvm D) comptroller data) (\<lambda>out.
     UnpackComptrollerUint (edAbi (ldEvm D)) method out)))"

text \<open>A read whose error the code discards.\<close>

definition orElse :: "'a \<Rightarrow> 'a res \<Rightarrow> 'a" where
  "orElse d r = (case r of Inl _ \<Rightarrow> d | Inr v \<Rightarrow> v)"

definition totalSupplied :: "int \<Rightarrow> int \<Rightarrow> int \<Rightarrow> int" where
  "totalSupplied cash borrows reserves = (let supply = cash + borrows - reserves in if supply < 0 then 0 else supply)"

definition loadMarketStats :: "lendoraDeps \<Rightarrow> address \<Rightarrow> market \<Rightarrow> marketStats res" where
  "loadMarketStats D oracle m =
     (let Q = ldDec D; c = mkCToken m in
      rbind (cTokenUint D c PackGetCash ''getCash'') (\<lambda>cash.
      rbind (cTokenUint D c PackTotalBorrows ''totalBorrows'') (\<lambda>borrows.
      rbind (cTokenUint D c PackTotalReserves ''totalReserves'') (\<lambda>reserves.
      let supply = totalSupplied cash borrows reserves in
      rbind (cTokenUint D c PackSupplyRatePerBlock ''supplyRatePerBlock'') (\<lambda>supplyRate.
      rbind (cTokenUint D c PackBorrowRatePerBlock ''borrowRatePerBlock'') (\<lambda>borrowRate.
      rbind (marketBlocksPerYear D c) (\<lambda>blocksPerYear.
      rbind (cTokenCollateralFactor D c) (\<lambda>cf.
      let st = \<lparr>msSymbol = mkSymbol m, msCToken = c, msUnderlying = mkUnderlying m, msUnderlyingDecimals = mkUnderlyingDecimals m,
            msIsCEther = mkIsCEther m, msSupplyAPY = apyFromRatePerBlock Q supplyRate blocksPerYear,
            msBorrowAPY = apyFromRatePerBlock Q borrowRate blocksPerYear, msTotalSupplyUnderlying = supply, msTotalBorrowUnderlying = borrows,
            msCashUnderlying = cash, msReservesUnderlying = reserves,
            msUtilization = (if 0 < supply then DecQuo Q (of_int borrows) (of_int supply) else 0), msCollateralFactor = decFromMantissa Q cf,
            msReserveFactor = (case cTokenUint D c PackReserveFactorMantissa ''reserveFactorMantissa'' of
              Inl _ \<Rightarrow> 0 | Inr rf \<Rightarrow> decFromMantissa Q rf),
            msMintPaused = orElse False (comptrollerBool D PackMintGuardianPaused ''mintGuardianPaused'' c),
            msBorrowPaused = orElse False (comptrollerBool D PackBorrowGuardianPaused ''borrowGuardianPaused'' c),
            msFeedOK = False, msSupplyUSD = 0, msBorrowUSD = 0\<rparr> in
      rbind (underlyingUsdPrice D oracle c) (\<lambda>usd.
      Inr (case usd of
        None \<Rightarrow> st
      | Some (answer, feedDec) \<Rightarrow> st\<lparr>msFeedOK := True, msSupplyUSD := usdFromFeed Q supply (mkUnderlyingDecimals m) answer feedDec,
          msBorrowUSD := usdFromFeed Q borrows (mkUnderlyingDecimals m) answer feedDec\<rparr>))))))))))"

definition marketUSD :: "lendoraDeps \<Rightarrow> address \<Rightarrow> market \<Rightarrow> (rat \<times> rat) res" where
  "marketUSD D oracle m =
     (let c = mkCToken m in
      rbind (cTokenUint D c PackGetCash ''getCash'') (\<lambda>cash.
      rbind (cTokenUint D c PackTotalBorrows ''totalBorrows'') (\<lambda>borrows.
      rbind (cTokenUint D c PackTotalReserves ''totalReserves'') (\<lambda>reserves.
      let supply = totalSupplied cash borrows reserves in
      rbind (underlyingUsdPrice D oracle c) (\<lambda>usd.
      Inr (case usd of
        None \<Rightarrow> (0, 0)
      | Some (answer, feedDec) \<Rightarrow> (usdFromFeed (ldDec D) supply (mkUnderlyingDecimals m) answer feedDec,
          usdFromFeed (ldDec D) borrows (mkUnderlyingDecimals m) answer feedDec)))))))"

section \<open>Market tools\<close>

record marketDTO =
  mdSymbol :: string
  mdCToken :: string
  mdUnderlying :: string
  mdSupplyAPY :: string
  mdBorrowAPY :: string
  mdTotalSupply :: string
  mdTotalBorrow :: string
  mdTotalSupplyUSD :: string
  mdTotalBorrowUSD :: string
  mdUtilization :: string
  mdCollateralFactor :: string
  mdMintPaused :: bool
  mdBorrowPaused :: bool
  mdIsNative :: bool

definition toMarketDTO :: "lendoraDeps \<Rightarrow> marketStats \<Rightarrow> marketDTO" where
  "toMarketDTO D st =
     (let Q = ldDec D; E = edEth (ldEvm D) in
      \<lparr>mdSymbol = msSymbol st, mdCToken = AddressHex E (msCToken st), mdUnderlying = AddressHex E (msUnderlying st),
       mdSupplyAPY = formatPercent Q (msSupplyAPY st), mdBorrowAPY = formatPercent Q (msBorrowAPY st),
       mdTotalSupply = humanAmount (edDec (ldEvm D)) (msTotalSupplyUnderlying st) (msUnderlyingDecimals st),
       mdTotalBorrow = humanAmount (edDec (ldEvm D)) (msTotalBorrowUnderlying st) (msUnderlyingDecimals st),
       mdTotalSupplyUSD = (if msFeedOK st then formatUSD Q (msSupplyUSD st) else []),
       mdTotalBorrowUSD = (if msFeedOK st then formatUSD Q (msBorrowUSD st) else []),
       mdUtilization = formatPercent Q (msUtilization st), mdCollateralFactor = formatPercent Q (msCollateralFactor st),
       mdMintPaused = msMintPaused st, mdBorrowPaused = msBorrowPaused st, mdIsNative = msIsCEther st\<rparr>)"

fun marketRows :: "lendoraDeps \<Rightarrow> address \<Rightarrow> market list \<Rightarrow> marketDTO list res" where
  "marketRows D oracle [] = Inr []"
| "marketRows D oracle (m # ms) =
     rbind (loadMarketStats D oracle m) (\<lambda>st.
     rbind (marketRows D oracle ms) (\<lambda>rows. Inr (toMarketDTO D st # rows)))"

definition allMarkets :: "lendoraDeps \<Rightarrow> (u64 \<times> marketDTO list) res" where
  "allMarkets D =
     rbind (requireLendora D) (\<lambda>_.
     rbind (lendoraOracle D) (\<lambda>oracle.
     rbind (lendMarkets D) (\<lambda>c.
     rbind (marketRows D oracle (lendAll c)) (\<lambda>rows. Inr (evmBlockNumber D, rows)))))"

definition toolLendoraGetAllMarkets :: "lendoraDeps \<Rightarrow> 'lim rateLib \<Rightarrow> time \<Rightarrow> requestCtx \<Rightarrow> ('lim server, u64 \<times> marketDTO list) handler" where
  "toolLendoraGetAllMarkets D R now ctx = hbind (authorize R now ctx ''lendora_get_all_markets'') (\<lambda>_. hlift (allMarkets D))"

record marketDetails =
  deBlockNumber :: u64
  deMarket :: marketDTO
  deCash :: string
  deReserves :: string
  deReserveFactor :: string
  deCloseFactor :: string
  deLiquidationIncentive :: string
  deBorrowCap :: string

definition marketDetailsOf :: "lendoraDeps \<Rightarrow> string \<Rightarrow> marketDetails res" where
  "marketDetailsOf D asset =
     (let Q = ldDec D; V = ldEvm D; A = edAbi V in
      rbind (requireLendora D) (\<lambda>_.
      rbind (resolveAsset D asset) (\<lambda>m.
      rbind (lendoraOracle D) (\<lambda>oracle.
      rbind (loadMarketStats D oracle m) (\<lambda>st.
      rbind (comptrollerUint D PackCloseFactorMantissa ''closeFactorMantissa'') (\<lambda>closeFactor.
      rbind (comptrollerUint D PackLiquidationIncentiveMantissa ''liquidationIncentiveMantissa'') (\<lambda>liqIncentive.
      rbind (PackBorrowCaps A (mkCToken m)) (\<lambda>capData.
      rbind (lendComptroller D) (\<lambda>comptroller.
      rbind (evmCall V comptroller capData) (\<lambda>capOut.
      rbind (UnpackComptrollerUint A ''borrowCaps'' capOut) (\<lambda>borrowCap.
      Inr \<lparr>deBlockNumber = evmBlockNumber D, deMarket = toMarketDTO D st,
        deCash = humanAmount (edDec V) (msCashUnderlying st) (msUnderlyingDecimals st),
        deReserves = humanAmount (edDec V) (msReservesUnderlying st) (msUnderlyingDecimals st),
        deReserveFactor = formatPercent Q (msReserveFactor st), deCloseFactor = formatPercent Q (decFromMantissa Q closeFactor),
        deLiquidationIncentive = formatPercent Q (decFromMantissa Q liqIncentive),
        deBorrowCap = humanAmount (edDec V) borrowCap (mkUnderlyingDecimals m)\<rparr>)))))))))))"

definition toolLendoraGetMarketDetails :: "lendoraDeps \<Rightarrow> string \<Rightarrow> 'lim rateLib \<Rightarrow> time \<Rightarrow> requestCtx
    \<Rightarrow> ('lim server, marketDetails) handler" where
  "toolLendoraGetMarketDetails D asset R now ctx =
     hbind (authorize R now ctx ''lendora_get_market_details'') (\<lambda>_. hlift (marketDetailsOf D asset))"

record dashboard =
  dbBlockNumber :: u64
  dbMarketCount :: int
  dbTotalSupplyUSD :: string
  dbTotalBorrowUSD :: string
  dbTotalLiquidityUSD :: string

fun dashboardLoop :: "lendoraDeps \<Rightarrow> address \<Rightarrow> market list \<Rightarrow> rat \<times> rat \<Rightarrow> (rat \<times> rat) res" where
  "dashboardLoop D oracle [] t = Inr t"
| "dashboardLoop D oracle (m # ms) (supplyUSD, borrowUSD) =
     rbind (marketUSD D oracle m) (\<lambda>(s, b). dashboardLoop D oracle ms (supplyUSD + s, borrowUSD + b))"

definition protocolDashboard :: "lendoraDeps \<Rightarrow> dashboard res" where
  "protocolDashboard D =
     rbind (requireLendora D) (\<lambda>_.
     rbind (lendoraOracle D) (\<lambda>oracle.
     rbind (lendMarkets D) (\<lambda>c.
     rbind (dashboardLoop D oracle (lendAll c) (0, 0)) (\<lambda>(supplyUSD, borrowUSD).
     Inr \<lparr>dbBlockNumber = evmBlockNumber D, dbMarketCount = int (length (lendAll c)), dbTotalSupplyUSD = formatUSD (ldDec D) supplyUSD,
       dbTotalBorrowUSD = formatUSD (ldDec D) borrowUSD, dbTotalLiquidityUSD = formatUSD (ldDec D) (supplyUSD - borrowUSD)\<rparr>))))"

definition toolLendoraGetProtocolDashboard :: "lendoraDeps \<Rightarrow> 'lim rateLib \<Rightarrow> time \<Rightarrow> requestCtx \<Rightarrow> ('lim server, dashboard) handler" where
  "toolLendoraGetProtocolDashboard D R now ctx =
     hbind (authorize R now ctx ''lendora_get_protocol_dashboard'') (\<lambda>_. hlift (protocolDashboard D))"

section \<open>Account views\<close>

definition infinitySign :: string where
  "infinitySign = [CHR 0xE2, CHR 0x88, CHR 0x9E]"

definition healthFactorString :: "decOps \<Rightarrow> riskResult \<Rightarrow> string" where
  "healthFactorString Q r = (if \<not> rkHasDebt r then infinitySign else DecString Q (rkHealthFactor r))"

record positionDTO =
  pdSymbol :: string
  pdCToken :: string
  pdSupplied :: string
  pdBorrowed :: string
  pdSuppliedUSD :: string
  pdBorrowedUSD :: string
  pdCollateralEnabled :: bool
  pdIsNative :: bool

definition toPositionDTO :: "lendoraDeps \<Rightarrow> marketPosition \<Rightarrow> positionDTO" where
  "toPositionDTO D p =
     \<lparr>pdSymbol = mpSymbol p, pdCToken = AddressHex (edEth (ldEvm D)) (mpCToken p),
      pdSupplied = humanAmount (edDec (ldEvm D)) (mpSuppliedUnderlying p) (mpUnderlyingDecimals p),
      pdBorrowed = humanAmount (edDec (ldEvm D)) (mpBorrowedUnderlying p) (mpUnderlyingDecimals p),
      pdSuppliedUSD = (if mpFeedOK p then formatUSD (ldDec D) (mpSuppliedUSD p) else []),
      pdBorrowedUSD = (if mpFeedOK p then formatUSD (ldDec D) (mpBorrowedUSD p) else []),
      pdCollateralEnabled = mpCollateralEnabled p, pdIsNative = mpIsCEther p\<rparr>"

text \<open>What the account views share: the engine's result once the markets are configured.\<close>

definition accountRisk :: "lendoraDeps \<Rightarrow> address \<Rightarrow> riskResult res" where
  "accountRisk D ownerEth = rbind (requireLendora D) (\<lambda>_. computeRisk D ownerEth)"

definition maxBorrowable :: "decOps \<Rightarrow> riskResult \<Rightarrow> string" where
  "maxBorrowable Q r = (if rkMaxBorrowableOK r then formatUSD Q (rkMaxBorrowableUSD r) else [])"

record accountSummary =
  asBlockNumber :: u64
  asOwner :: string
  asTotalSuppliedUSD :: string
  asTotalBorrowedUSD :: string
  asHealthFactor :: string
  asRiskLevel :: string
  asRiskEmoji :: string
  asMaxBorrowableUSD :: string
  asMarketsWithPosition :: int

definition toolLendoraGetAccountSummary :: "lendoraDeps \<Rightarrow> string \<Rightarrow> 'lim rateLib \<Rightarrow> time \<Rightarrow> requestCtx
    \<Rightarrow> ('lim server, accountSummary) handler" where
  "toolLendoraGetAccountSummary D addr R now ctx =
     hbind (lendoraOwner D R now ctx ''lendora_get_account_summary'' addr) (\<lambda>(owner, ownerEth).
     hlift (rbind (accountRisk D ownerEth) (\<lambda>r.
       Inr \<lparr>asBlockNumber = rkBlockNumber r, asOwner = owner, asTotalSuppliedUSD = formatUSD (ldDec D) (rkTotalSuppliedUSD r),
         asTotalBorrowedUSD = formatUSD (ldDec D) (rkTotalBorrowedUSD r), asHealthFactor = healthFactorString (ldDec D) r,
         asRiskLevel = rkRiskLevel r, asRiskEmoji = rkRiskEmoji r, asMaxBorrowableUSD = maxBorrowable (ldDec D) r,
         asMarketsWithPosition = int (length (rkPositions r))\<rparr>)))"

record accountPositions =
  apBlockNumber :: u64
  apOwner :: string
  apPositions :: "positionDTO list"

definition toolLendoraGetAccountPositions :: "lendoraDeps \<Rightarrow> string \<Rightarrow> 'lim rateLib \<Rightarrow> time \<Rightarrow> requestCtx
    \<Rightarrow> ('lim server, accountPositions) handler" where
  "toolLendoraGetAccountPositions D addr R now ctx =
     hbind (lendoraOwner D R now ctx ''lendora_get_account_positions'' addr) (\<lambda>(owner, ownerEth).
     hlift (rbind (accountRisk D ownerEth) (\<lambda>r.
       Inr \<lparr>apBlockNumber = rkBlockNumber r, apOwner = owner, apPositions = map (toPositionDTO D) (rkPositions r)\<rparr>)))"

record riskReport =
  rrBlockNumber :: u64
  rrOwner :: string
  rrHealthFactor :: string
  rrRiskLevel :: string
  rrRiskEmoji :: string
  rrHasDebt :: bool
  rrTotalSuppliedUSD :: string
  rrTotalBorrowedUSD :: string
  rrMaxBorrowableUSD :: string
  rrShortfall :: bool
  rrPositions :: "positionDTO list"

definition toolLendoraAssessRisk :: "lendoraDeps \<Rightarrow> string \<Rightarrow> 'lim rateLib \<Rightarrow> time \<Rightarrow> requestCtx \<Rightarrow> ('lim server, riskReport) handler" where
  "toolLendoraAssessRisk D addr R now ctx =
     hbind (lendoraOwner D R now ctx ''lendora_assess_risk'' addr) (\<lambda>(owner, ownerEth).
     hlift (rbind (accountRisk D ownerEth) (\<lambda>r.
       Inr \<lparr>rrBlockNumber = rkBlockNumber r, rrOwner = owner, rrHealthFactor = healthFactorString (ldDec D) r, rrRiskLevel = rkRiskLevel r,
         rrRiskEmoji = rkRiskEmoji r, rrHasDebt = rkHasDebt r, rrTotalSuppliedUSD = formatUSD (ldDec D) (rkTotalSuppliedUSD r),
         rrTotalBorrowedUSD = formatUSD (ldDec D) (rkTotalBorrowedUSD r), rrMaxBorrowableUSD = maxBorrowable (ldDec D) r,
         rrShortfall = (0 < rkShortfallNat r), rrPositions = map (toPositionDTO D) (rkPositions r)\<rparr>)))"

section \<open>Balances\<close>

definition erc20BalanceOf :: "lendoraDeps \<Rightarrow> address \<Rightarrow> address \<Rightarrow> int res" where
  "erc20BalanceOf D token owner =
     rbind (lendPackBalanceOf (edAbi (ldEvm D)) owner) (\<lambda>data.
     rbind (rwrap ''read balanceOf for %s: %w'' [AStr (AddressHex (edEth (ldEvm D)) token)] (evmCall (ldEvm D) token data)) (\<lambda>out.
     lendUnpackBalanceOf (edAbi (ldEvm D)) out))"

definition nativeGasBalance :: "lendoraDeps \<Rightarrow> string \<Rightarrow> string" where
  "nativeGasBalance D owner =
     (case ldBank D of
        None \<Rightarrow> ''0''
      | Some allBalances \<Rightarrow>
          (case allBalances owner of
             Inl _ \<Rightarrow> ''0''
           | Inr coins \<Rightarrow>
               (case find (\<lambda>c. coDenom c = ''asvp'') coins of
                  None \<Rightarrow> ''0''
                | Some c \<Rightarrow> humanAmount (edDec (ldEvm D)) (coAmount c) 18)))"

record walletBalance =
  wbSymbol :: string
  wbWallet :: string
  wbSupplied :: string
  wbWalletUSD :: string

text \<open>One market of the loop; a market with neither balance is skipped.\<close>

definition walletRow :: "lendoraDeps \<Rightarrow> address \<Rightarrow> address \<Rightarrow> market \<Rightarrow> walletBalance option res" where
  "walletRow D oracle ownerEth m =
     (let V = ldEvm D in
      rbind (erc20BalanceOf D (mkUnderlying m) ownerEth) (\<lambda>walletBal.
      rbind (lendPackBalanceOf (edAbi V) ownerEth) (\<lambda>cBalData.
      rbind (evmCall V (mkCToken m) cBalData) (\<lambda>cBalOut.
      rbind (lendUnpackBalanceOf (edAbi V) cBalOut) (\<lambda>cBal.
      if walletBal = 0 \<and> cBal = 0 then Inr None
      else
        rbind (if 0 < cBal
               then rbind (cTokenUint D (mkCToken m) PackExchangeRateStored ''exchangeRateStored'') (\<lambda>exRate. Inr (cBal * exRate div e18))
               else Inr 0) (\<lambda>supplied.
        Inr (Some \<lparr>wbSymbol = mkSymbol m, wbWallet = humanAmount (edDec V) walletBal (mkUnderlyingDecimals m),
          wbSupplied = humanAmount (edDec V) supplied (mkUnderlyingDecimals m),
          wbWalletUSD = (case underlyingUsdPrice D oracle (mkCToken m) of
            Inr (Some (answer, feedDec)) \<Rightarrow> formatUSD (ldDec D) (usdFromFeed (ldDec D) walletBal (mkUnderlyingDecimals m) answer feedDec)
          | _ \<Rightarrow> [])\<rparr>)))))))"

fun walletRows :: "lendoraDeps \<Rightarrow> address \<Rightarrow> address \<Rightarrow> market list \<Rightarrow> walletBalance list res" where
  "walletRows D oracle ownerEth [] = Inr []"
| "walletRows D oracle ownerEth (m # ms) =
     (if mkIsCEther m then walletRows D oracle ownerEth ms
      else
        rbind (walletRow D oracle ownerEth m) (\<lambda>row.
        rbind (walletRows D oracle ownerEth ms) (\<lambda>rows.
        Inr (case row of None \<Rightarrow> rows | Some b \<Rightarrow> b # rows))))"

record balancesOutput =
  boBlockNumber :: u64
  boOwner :: string
  boGasToken :: string
  boBalances :: "walletBalance list"

text \<open>The copy of the market list is sorted by symbol, which \<open>sort.Slice\<close> compares by bytes; equal symbols keep their order, as
  the insertion sort of short slices leaves them.\<close>

definition lendoraBalances :: "lendoraDeps \<Rightarrow> string \<Rightarrow> address \<Rightarrow> balancesOutput res" where
  "lendoraBalances D owner ownerEth =
     rbind (requireLendora D) (\<lambda>_.
     rbind (lendoraOracle D) (\<lambda>oracle.
     rbind (lendMarkets D) (\<lambda>c.
     rbind (walletRows D oracle ownerEth (sort_key mkSymbol (lendAll c))) (\<lambda>rows.
     Inr \<lparr>boBlockNumber = evmBlockNumber D, boOwner = owner, boGasToken = nativeGasBalance D owner, boBalances = rows\<rparr>))))"

definition toolLendoraGetBalances :: "lendoraDeps \<Rightarrow> string \<Rightarrow> 'lim rateLib \<Rightarrow> time \<Rightarrow> requestCtx \<Rightarrow> ('lim server, balancesOutput) handler" where
  "toolLendoraGetBalances D addr R now ctx =
     hbind (lendoraOwner D R now ctx ''lendora_get_balances'' addr) (\<lambda>(owner, ownerEth). hlift (lendoraBalances D owner ownerEth))"

section \<open>Lemmas\<close>

text \<open>The live tenant of the request owns the account.\<close>

definition callerOwns :: "time \<Rightarrow> requestCtx \<Rightarrow> 'lim server \<Rightarrow> string \<Rightarrow> bool" where
  "callerOwns now ctx s owner \<longleftrightarrow>
     (\<exists>tc r. ctTenant ctx = Some tc \<and> LookupByTenantID now (tcTenantID tc) (svTenants s) = Inr r \<and> \<not> trKillSwitch r \<and> trOwner r = owner)"

lemma lendoraOwner_Inr:
  assumes "tenantsOk (svTenants s)"
  shows "lendoraOwner D R now ctx tool addr s = (Inr (owner, eth), s') \<longleftrightarrow>
    (\<exists>tp. authorize R now ctx tool s = (Inr tp, s') \<and> (trimSpace addr = [] \<or> trimSpace addr = tpOwner tp) \<and> owner = tpOwner tp \<and>
       ownerEthAddress (edSdk (ldEvm D)) (edEth (ldEvm D)) owner = Inr eth)"
proof (cases "trimSpace addr = []")
  case True
  then show ?thesis by (auto simp: lendoraOwner_def hbind_Inr_iff Let_def)
next
  case False
  have "lendoraOwner D R now ctx tool addr =
      hbind (authorizeOwner R now ctx tool (trimSpace addr)) (\<lambda>_. hlift
        (rbind (ownerEthAddress (edSdk (ldEvm D)) (edEth (ldEvm D)) (trimSpace addr)) (\<lambda>eth. Inr (trimSpace addr, eth))))"
    using False by (intro ext) (auto simp: lendoraOwner_def authorizeOwner_def hbind_def rbind_def Let_def split: prod.split sum.split)
  then show ?thesis using False authorizeOwner_Inr [OF assms] by (auto simp: hbind_Inr_iff)
qed

text \<open>A view of an account: it runs for the owner the shared step returns.\<close>

locale account_view =
  fixes D :: lendoraDeps
    and run :: "'lim rateLib \<Rightarrow> time \<Rightarrow> requestCtx \<Rightarrow> ('lim server, 'out) handler"
    and body :: "string \<Rightarrow> address \<Rightarrow> 'out res"
    and tool :: string
    and addr :: string
  assumes runs: "run R now ctx = hbind (lendoraOwner D R now ctx tool addr) (\<lambda>(owner, eth). hlift (body owner eth))"
begin

lemma own_view:
  assumes "tenantsOk (svTenants s)" "run R now ctx s = (Inr out, s')"
  shows "\<exists>owner eth. callerOwns now ctx s owner \<and> (trimSpace addr = [] \<or> trimSpace addr = owner) \<and>
    ownerEthAddress (edSdk (ldEvm D)) (edEth (ldEvm D)) owner = Inr eth \<and> body owner eth = Inr out \<and> (\<exists>rl. s' = s\<lparr>svRate := rl\<rparr>)"
proof -
  obtain owner eth s1 where l: "lendoraOwner D R now ctx tool addr s = (Inr (owner, eth), s1)" "body owner eth = Inr out" "s' = s1"
    using assms(2) unfolding runs hbind_Inr_iff by auto
  then obtain tp where t: "authorize R now ctx tool s = (Inr tp, s')" "trimSpace addr = [] \<or> trimSpace addr = tpOwner tp" "owner = tpOwner tp"
      "ownerEthAddress (edSdk (ldEvm D)) (edEth (ldEvm D)) owner = Inr eth"
    unfolding lendoraOwner_Inr [OF assms(1)] by blast
  then have "callerOwns now ctx s owner" by (auto simp: authorize_Inr callerOwns_def policyOf_def)
  moreover have "\<exists>rl. s' = s\<lparr>svRate := rl\<rparr>" using t(1) by (auto simp: authorize_Inr)
  ultimately show ?thesis using t l(2) by auto
qed

end

interpretation vs: account_view D "toolLendoraGetAccountSummary D addr" "\<lambda>owner eth. rbind (accountRisk D eth) (\<lambda>r.
    Inr \<lparr>asBlockNumber = rkBlockNumber r, asOwner = owner, asTotalSuppliedUSD = formatUSD (ldDec D) (rkTotalSuppliedUSD r),
      asTotalBorrowedUSD = formatUSD (ldDec D) (rkTotalBorrowedUSD r), asHealthFactor = healthFactorString (ldDec D) r,
      asRiskLevel = rkRiskLevel r, asRiskEmoji = rkRiskEmoji r, asMaxBorrowableUSD = maxBorrowable (ldDec D) r,
      asMarketsWithPosition = int (length (rkPositions r))\<rparr>)" "''lendora_get_account_summary''" addr for D addr
  by unfold_locales (simp only: toolLendoraGetAccountSummary_def)

interpretation vp: account_view D "toolLendoraGetAccountPositions D addr" "\<lambda>owner eth. rbind (accountRisk D eth) (\<lambda>r.
    Inr \<lparr>apBlockNumber = rkBlockNumber r, apOwner = owner, apPositions = map (toPositionDTO D) (rkPositions r)\<rparr>)"
    "''lendora_get_account_positions''" addr for D addr
  by unfold_locales (simp only: toolLendoraGetAccountPositions_def)

interpretation vr: account_view D "toolLendoraAssessRisk D addr" "\<lambda>owner eth. rbind (accountRisk D eth) (\<lambda>r.
    Inr \<lparr>rrBlockNumber = rkBlockNumber r, rrOwner = owner, rrHealthFactor = healthFactorString (ldDec D) r, rrRiskLevel = rkRiskLevel r,
      rrRiskEmoji = rkRiskEmoji r, rrHasDebt = rkHasDebt r, rrTotalSuppliedUSD = formatUSD (ldDec D) (rkTotalSuppliedUSD r),
      rrTotalBorrowedUSD = formatUSD (ldDec D) (rkTotalBorrowedUSD r), rrMaxBorrowableUSD = maxBorrowable (ldDec D) r,
      rrShortfall = (0 < rkShortfallNat r), rrPositions = map (toPositionDTO D) (rkPositions r)\<rparr>)" "''lendora_assess_risk''" addr for D addr
  by unfold_locales (simp only: toolLendoraAssessRisk_def)

interpretation vb: account_view D "toolLendoraGetBalances D addr" "lendoraBalances D" "''lendora_get_balances''" addr for D addr
  by unfold_locales (simp only: toolLendoraGetBalances_def)

text \<open>The dashboard's light read of a market is the full one.\<close>

lemma marketUSD_stats:
  assumes "loadMarketStats D orc m = Inr st"
  shows "marketUSD D orc m = Inr (msSupplyUSD st, msBorrowUSD st)"
  using assms unfolding loadMarketStats_def marketUSD_def Let_def rbind_Inr_iff
  by (elim exE conjE) (simp del: rbind_Inr_iff, auto split: option.splits)

lemma marketRows_Inr:
  "marketRows D orc ms = Inr rows \<longleftrightarrow>
     (\<exists>sts. list_all2 (\<lambda>m st. loadMarketStats D orc m = Inr st) ms sts \<and> rows = map (toMarketDTO D) sts)"
proof (induction ms arbitrary: rows)
  case (Cons m ms)
  have "marketRows D orc (m # ms) = Inr rows \<longleftrightarrow>
      (\<exists>st sts. loadMarketStats D orc m = Inr st \<and> list_all2 (\<lambda>m st. loadMarketStats D orc m = Inr st) ms sts \<and>
         rows = map (toMarketDTO D) (st # sts))"
    by (auto simp: Cons.IH)
  then show ?case unfolding list_all2_Cons1 by blast
qed auto

lemma dashboardLoop_stats:
  assumes "list_all2 (\<lambda>m st. loadMarketStats D orc m = Inr st) ms sts"
  shows "dashboardLoop D orc ms t = Inr (fst t + sum_list (map msSupplyUSD sts), snd t + sum_list (map msBorrowUSD sts))"
  using assms by (induction ms sts arbitrary: t) (simp_all add: marketUSD_stats split_paired_all)

section \<open>Properties\<close>

text \<open>The engine's result for an account the caller owns.\<close>

definition ownRisk :: "lendoraDeps \<Rightarrow> time \<Rightarrow> requestCtx \<Rightarrow> 'lim server \<Rightarrow> string \<Rightarrow> riskResult \<Rightarrow> bool" where
  "ownRisk D now ctx s owner r \<longleftrightarrow> callerOwns now ctx s owner \<and>
     (\<exists>eth. ownerEthAddress (edSdk (ldEvm D)) (edEth (ldEvm D)) owner = Inr eth \<and> computeRisk D eth = Inr r)"


text \<open>C32: the dashboard agrees with the market list. Whenever the market list can be read, with one row for each market of the
  cache, the dashboard can be read too, counts those markets, and its totals are the sums of the dollar values the rows
  are made from, markets without a price feed counting nothing.\<close>

theorem dashboard_agrees_with_markets:
  assumes "allMarkets D = Inr (n, rows)"
  shows "\<exists>orc c sts. lendoraOracle D = Inr orc \<and> ldMarkets D = Some c \<and> list_all2 (\<lambda>m st. loadMarketStats D orc m = Inr st) (lendAll c) sts \<and>
    rows = map (toMarketDTO D) sts \<and>
    protocolDashboard D = Inr \<lparr>dbBlockNumber = n, dbMarketCount = int (length rows),
      dbTotalSupplyUSD = formatUSD (ldDec D) (sum_list (map msSupplyUSD sts)), dbTotalBorrowUSD = formatUSD (ldDec D) (sum_list (map msBorrowUSD sts)),
      dbTotalLiquidityUSD = formatUSD (ldDec D) (sum_list (map msSupplyUSD sts) - sum_list (map msBorrowUSD sts))\<rparr> \<and>
    (\<forall>st \<in> set sts. msFeedOK st \<or> msSupplyUSD st = 0 \<and> msBorrowUSD st = 0)"
proof -
  obtain orc c where c: "requireLendora D = Inr ()" "lendoraOracle D = Inr orc" "ldMarkets D = Some c" "marketRows D orc (lendAll c) = Inr rows"
      "n = evmBlockNumber D"
    using assms by (auto simp: allMarkets_def lendMarkets_def)
  then obtain sts where sts: "list_all2 (\<lambda>m st. loadMarketStats D orc m = Inr st) (lendAll c) sts" "rows = map (toMarketDTO D) sts"
    unfolding marketRows_Inr by blast
  have "loadMarketStats D orc m = Inr st \<Longrightarrow> msFeedOK st \<or> msSupplyUSD st = 0 \<and> msBorrowUSD st = 0" for m st
    by (auto simp: loadMarketStats_def Let_def split: option.splits)
  then have f: "\<forall>st \<in> set sts. msFeedOK st \<or> msSupplyUSD st = 0 \<and> msBorrowUSD st = 0"
    using sts(1) unfolding list_all2_conv_all_nth by (metis in_set_conv_nth)
  have "protocolDashboard D = Inr \<lparr>dbBlockNumber = n, dbMarketCount = int (length rows),
      dbTotalSupplyUSD = formatUSD (ldDec D) (sum_list (map msSupplyUSD sts)), dbTotalBorrowUSD = formatUSD (ldDec D) (sum_list (map msBorrowUSD sts)),
      dbTotalLiquidityUSD = formatUSD (ldDec D) (sum_list (map msSupplyUSD sts) - sum_list (map msBorrowUSD sts))\<rparr>"
    using c sts list_all2_lengthD [OF sts(1)] dashboardLoop_stats [OF sts(1), of "(0, 0)"]
    by (simp add: protocolDashboard_def lendMarkets_def)
  with c sts f show ?thesis by blast
qed

section \<open>The properties on concrete inputs\<close>


lemma exLendDeps_stats: "\<exists>st. loadMarketStats exLendDeps exOracle exMarket = Inr st"
  by (simp add: loadMarketStats_def cTokenUint_def PackGetCash_def PackTotalBorrows_def PackTotalReserves_def PackSupplyRatePerBlock_def
      PackBorrowRatePerBlock_def UnpackCTokenUint_def abiUnpackUint_def exLend_first marketBlocksPerYear_def PackInterestRateModel_def
      UnpackInterestRateModel_def abiUnpackAddress_def PackBlocksPerYear_def UnpackBlocksPerYear_def exLendDeps_reads Let_def)

theorem dashboard_agrees_with_markets_witness:
  "\<exists>n rows d. allMarkets exLendDeps = Inr (n, rows) \<and> protocolDashboard exLendDeps = Inr d \<and> dbMarketCount d = 1"
proof -
  obtain st where "loadMarketStats exLendDeps exOracle exMarket = Inr st" using exLendDeps_stats by blast
  then have a: "allMarkets exLendDeps = Inr (evmBlockNumber exLendDeps, [toMarketDTO exLendDeps st])"
    by (simp add: allMarkets_def requireLendora_def requireEVM_def exLendDeps_reads lendMarkets_def)
  from dashboard_agrees_with_markets [OF this] a show ?thesis by auto
qed

end
