(* ===== verification/Lendora_Ops.thy ===== *)
theory Lendora_Ops
  imports Lendora_Read
begin

text \<open>
  The five operation tools of the money markets (\<open>lib/mcp/tools/lendora_ops.go\<close>): supply, withdraw, borrow, repay and collateral.
  Each simulates the position it leads to and then builds a transaction, asks for an approval first, or refuses. The
  results are that what is built keeps the account covered, and that what pulls tokens is built exactly when it is approved.
\<close>

section \<open>Simulation\<close>

record lendoraSimulation =
  lsBlockNumber :: u64
  lsAction :: string
  lsAsset :: string
  lsAmount :: string
  lsCurrentHealthFactor :: string
  lsProjectedHealthFactor :: string
  lsProjectedRiskLevel :: string
  lsProjectedRiskEmoji :: string
  lsWarnings :: "string list"

record lendoraTxOutput =
  loSimulation :: lendoraSimulation
  loPayload :: "evmTxPayload option"
  loApprovalRequired :: "lendoraApproval option"

definition hfBlock :: rat where "hfBlock = 1"
definition hfWarn :: rat where "hfWarn = 12 / 10"

definition projectHF :: "decOps \<Rightarrow> int \<Rightarrow> int \<Rightarrow> string \<times> string \<times> string \<times> string" where
  "projectHF Q postCollateral postBorrow =
     (if postBorrow \<le> 0 then (infinitySign, ''Low'', emojiGreen, [])
      else
        (let hf = DecQuo Q (of_int postCollateral) (of_int postBorrow);
             shortfall = (if postCollateral < postBorrow then 1 else 0);
             (level, emoji) = riskBand True shortfall hf;
             warn = (if hfBlock \<le> hf \<and> hf < hfWarn
               then ''projected health factor '' @ DecString Q hf @ '' is close to the 1.0 liquidation threshold '' @ emDash @ '' leave a larger buffer''
               else []) in
         (DecString Q hf, level, emoji, warn)))"

definition simulation :: "decOps \<Rightarrow> string \<Rightarrow> string \<Rightarrow> string \<Rightarrow> riskResult \<Rightarrow> int \<Rightarrow> int \<Rightarrow> lendoraSimulation" where
  "simulation Q action asset amount r postCollateral postBorrow =
     (let (hfStr, level, emoji, warn) = projectHF Q postCollateral postBorrow in
      \<lparr>lsBlockNumber = rkBlockNumber r, lsAction = action, lsAsset = asset, lsAmount = amount, lsCurrentHealthFactor = healthFactorString Q r,
       lsProjectedHealthFactor = hfStr, lsProjectedRiskLevel = level, lsProjectedRiskEmoji = emoji,
       lsWarnings = (if warn \<noteq> [] then [warn] else [])\<rparr>)"

section \<open>Shared steps\<close>

definition nativeUnsupportedOps :: "(string \<times> string) list" where
  "nativeUnsupportedOps = [(''lendora_build_supply_tx'', ''supplying''), (''lendora_build_repay_tx'', ''repaying'')]"

record lendoraMarketRef =
  lmCToken :: address
  lmUnderlying :: address
  lmSymbol :: string
  lmUnderlyingDecimals :: int
  lmIsCEther :: bool

text \<open>What follows the authorization of every operation: the caller's address, the market and the account's risk.\<close>

definition opCommon :: "lendoraDeps \<Rightarrow> string \<Rightarrow> string \<Rightarrow> string \<Rightarrow> (address \<times> lendoraMarketRef \<times> riskResult) res" where
  "opCommon D tool asset ownerBech =
     rbind (requireLendora D) (\<lambda>_.
     rbind (resolveAsset D asset) (\<lambda>mk.
     rbind (case (mkIsCEther mk, map_of nativeUnsupportedOps tool) of
              (True, Some verb) \<Rightarrow> Inl (Errorf (''%s %s is not supported yet: %s is the native market and its cToken takes a value rather than an amount argument ''
                @ emDash @ '' borrowing, withdrawing, and enabling/disabling collateral do work on %s'')
                [AStr verb, AStr (mkSymbol mk), AStr (mkSymbol mk), AStr (mkSymbol mk)])
            | _ \<Rightarrow> Inr ()) (\<lambda>_.
     rbind (ownerEthAddress (edSdk (ldEvm D)) (edEth (ldEvm D)) ownerBech) (\<lambda>eth.
     rbind (computeRisk D eth) (\<lambda>risk.
     Inr (eth, \<lparr>lmCToken = mkCToken mk, lmUnderlying = mkUnderlying mk, lmSymbol = mkSymbol mk, lmUnderlyingDecimals = mkUnderlyingDecimals mk,
       lmIsCEther = mkIsCEther mk\<rparr>, risk))))))"

definition hypotheticalLiquidity :: "lendoraDeps \<Rightarrow> address \<Rightarrow> address \<Rightarrow> int \<Rightarrow> int \<Rightarrow> (int \<times> int) res" where
  "hypotheticalLiquidity D owner cToken redeemTokens borrowAmount =
     rbind (PackGetHypotheticalAccountLiquidity (edAbi (ldEvm D)) owner cToken redeemTokens borrowAmount) (\<lambda>data.
     rbind (lendComptroller D) (\<lambda>comptroller.
     rbind (evmCall (ldEvm D) comptroller data) (\<lambda>out.
     rbind (UnpackAccountLiquidity (edAbi (ldEvm D)) ''getHypotheticalAccountLiquidity'' out) (\<lambda>al.
     Inr (alLiquidity al, alShortfall al)))))"

definition positionIn :: "riskResult \<Rightarrow> address \<Rightarrow> marketPosition option" where
  "positionIn r cToken = find (\<lambda>p. mpCToken p = cToken) (rkPositions r)"

definition cTokenUnderlyingPriceNativeVia :: "lendoraDeps \<Rightarrow> address \<Rightarrow> int res" where
  "cTokenUnderlyingPriceNativeVia D cToken = rbind (lendoraOracle D) (\<lambda>oracle. cTokenUnderlyingPriceNative D oracle cToken)"

definition nativeValue :: "int \<Rightarrow> int \<Rightarrow> int" where
  "nativeValue price amount = price * amount div e18"

definition weightedNative :: "int \<Rightarrow> int \<Rightarrow> int \<Rightarrow> int" where
  "weightedNative price amount cfMantissa = nativeValue price amount * cfMantissa div e18"

definition finishOp :: "lendoraDeps \<Rightarrow> time \<Rightarrow> string \<Rightarrow> address \<Rightarrow> bytes \<Rightarrow> string \<Rightarrow> string \<Rightarrow> string \<Rightarrow> lendoraSimulation
    \<Rightarrow> lendoraTxOutput res" where
  "finishOp D now ownerBech to data clientID tool desc sim =
     rbind (nonNil (edAssembler (ldEvm D))) (\<lambda>asm.
     rbind (assembleERC (ldEvm D) now asm ownerBech to data clientID tool desc) (\<lambda>p.
     Inr \<lparr>loSimulation = sim, loPayload = Some p, loApprovalRequired = None\<rparr>))"

section \<open>Supply\<close>

record lendoraSupplyInput =
  suAsset :: string
  suAmount :: string
  suClientID :: string

definition supplyNotEnabled :: string where
  "supplyNotEnabled = ''this market is not enabled as collateral, so supplying does not change your health factor '' @ emDash @
     '' enable it with lendora_build_collateral_tx (action=enable)''"

definition lendoraSupply :: "lendoraDeps \<Rightarrow> lendoraSupplyInput \<Rightarrow> time \<Rightarrow> string \<Rightarrow> lendoraTxOutput res" where
  "lendoraSupply D inp now ownerBech =
     rbind (opCommon D ''lendora_build_supply_tx'' (suAsset inp) ownerBech) (\<lambda>(owner, m, r).
     rbind (rwrap ''amount: %w'' [] (humanToBaseUnits (edDec (ldEvm D)) (suAmount inp) (lmUnderlyingDecimals m))) (\<lambda>amount.
     rbind (if (case positionIn r (lmCToken m) of Some pos \<Rightarrow> mpCollateralEnabled pos | None \<Rightarrow> False)
            then rbind (cTokenUnderlyingPriceNativeVia D (lmCToken m)) (\<lambda>price.
                 rbind (cTokenCollateralFactor D (lmCToken m)) (\<lambda>cf.
                 Inr (weightedNative price amount cf, [])))
            else Inr (0, supplyNotEnabled)) (\<lambda>(added, supplyWarn).
     let sim = simulation (ldDec D) ''supply'' (lmSymbol m) (suAmount inp) r (rkSumCollateralNat r + added) (rkSumBorrowNat r);
         sim = (if supplyWarn \<noteq> [] then sim\<lparr>lsWarnings := lsWarnings sim @ [supplyWarn]\<rparr> else sim) in
     rbind (checkLendoraAllowance D (lmUnderlying m) owner (lmCToken m) amount (suAmount inp) ''lendora_build_supply_tx'') (\<lambda>approval.
     case approval of
       Some a \<Rightarrow> Inr \<lparr>loSimulation = sim, loPayload = None, loApprovalRequired = Some a\<rparr>
     | None \<Rightarrow>
         rbind (PackMint (edAbi (ldEvm D)) amount) (\<lambda>data.
         finishOp D now ownerBech (lmCToken m) data (suClientID inp) ''lendora_build_supply_tx''
           (''supply '' @ suAmount inp @ '' '' @ lmSymbol m @ '' to Lendora'') sim)))))"

definition toolLendoraBuildSupplyTx :: "lendoraDeps \<Rightarrow> lendoraSupplyInput \<Rightarrow> 'lim rateLib \<Rightarrow> time \<Rightarrow> requestCtx
    \<Rightarrow> ('lim server, lendoraTxOutput) handler" where
  "toolLendoraBuildSupplyTx D inp R now ctx =
     hbind (authorize R now ctx ''lendora_build_supply_tx'') (\<lambda>tp. hlift (lendoraSupply D inp now (tpOwner tp)))"

section \<open>Withdraw\<close>

record lendoraWithdrawInput =
  wiAsset :: string
  wiAmount :: string
  wiFull :: bool
  wiClientID :: string

text \<open>What is called, how many cTokens it burns, and the label of the amount.\<close>

definition withdrawCall :: "lendoraDeps \<Rightarrow> lendoraWithdrawInput \<Rightarrow> address \<Rightarrow> lendoraMarketRef \<Rightarrow> (bytes \<times> int \<times> string) res" where
  "withdrawCall D inp owner m =
     (if wiFull inp \<or> wiAmount inp = []
      then rbind (erc20BalanceOf D (lmCToken m) owner) (\<lambda>cBal.
           if cBal = 0 then Inl (Errorf ''you have no supplied %s to withdraw'' [AStr (lmSymbol m)])
           else rbind (PackRedeem (edAbi (ldEvm D)) cBal) (\<lambda>data. Inr (data, cBal, ''full'')))
      else rbind (rwrap ''amount: %w'' [] (humanToBaseUnits (edDec (ldEvm D)) (wiAmount inp) (lmUnderlyingDecimals m))) (\<lambda>amount.
           rbind (cTokenUint D (lmCToken m) PackExchangeRateStored ''exchangeRateStored'') (\<lambda>exRate.
           if exRate = 0 then Inl (Errorf ''market %s has a zero exchange rate'' [AStr (lmSymbol m)])
           else rbind (PackRedeemUnderlying (edAbi (ldEvm D)) amount) (\<lambda>data. Inr (data, amount * e18 div exRate, wiAmount inp)))))"

definition lendoraWithdraw :: "lendoraDeps \<Rightarrow> lendoraWithdrawInput \<Rightarrow> time \<Rightarrow> string \<Rightarrow> lendoraTxOutput res" where
  "lendoraWithdraw D inp now ownerBech =
     rbind (opCommon D ''lendora_build_withdraw_tx'' (wiAsset inp) ownerBech) (\<lambda>(owner, m, r).
     rbind (withdrawCall D inp owner m) (\<lambda>(data, redeemTokens, amountLabel).
     rbind (hypotheticalLiquidity D owner (lmCToken m) redeemTokens 0) (\<lambda>(liq, short).
     if 0 < short
     then Inl (Errorf (''withdrawing %s %s would make your position undercollateralized (health factor below 1.0) '' @ emDash @
            '' withdraw less or repay debt first'') [AStr amountLabel, AStr (lmSymbol m)])
     else
       finishOp D now ownerBech (lmCToken m) data (wiClientID inp) ''lendora_build_withdraw_tx''
         (''withdraw '' @ amountLabel @ '' '' @ lmSymbol m @ '' from Lendora'')
         (simulation (ldDec D) ''withdraw'' (lmSymbol m) amountLabel r (liq - short + rkSumBorrowNat r) (rkSumBorrowNat r)))))"

definition toolLendoraBuildWithdrawTx :: "lendoraDeps \<Rightarrow> lendoraWithdrawInput \<Rightarrow> 'lim rateLib \<Rightarrow> time \<Rightarrow> requestCtx
    \<Rightarrow> ('lim server, lendoraTxOutput) handler" where
  "toolLendoraBuildWithdrawTx D inp R now ctx =
     hbind (authorize R now ctx ''lendora_build_withdraw_tx'') (\<lambda>tp. hlift (lendoraWithdraw D inp now (tpOwner tp)))"

section \<open>Borrow\<close>

record lendoraBorrowInput =
  biAsset :: string
  biAmount :: string
  biClientID :: string

definition lendoraBorrow :: "lendoraDeps \<Rightarrow> lendoraBorrowInput \<Rightarrow> time \<Rightarrow> string \<Rightarrow> lendoraTxOutput res" where
  "lendoraBorrow D inp now ownerBech =
     rbind (opCommon D ''lendora_build_borrow_tx'' (biAsset inp) ownerBech) (\<lambda>(owner, m, r).
     rbind (rwrap ''amount: %w'' [] (humanToBaseUnits (edDec (ldEvm D)) (biAmount inp) (lmUnderlyingDecimals m))) (\<lambda>amount.
     rbind (hypotheticalLiquidity D owner (lmCToken m) 0 amount) (\<lambda>(liq, short).
     if 0 < short
     then Inl (Errorf (''borrowing %s %s would make your position undercollateralized (health factor below 1.0) '' @ emDash @
            '' borrow less or supply more collateral'') [AStr (biAmount inp), AStr (lmSymbol m)])
     else
       rbind (cTokenUnderlyingPriceNativeVia D (lmCToken m)) (\<lambda>price.
       let postBorrow = rkSumBorrowNat r + nativeValue price amount;
           sim = simulation (ldDec D) ''borrow'' (lmSymbol m) (biAmount inp) r (liq - short + postBorrow) postBorrow in
       rbind (PackBorrow (edAbi (ldEvm D)) amount) (\<lambda>data.
       finishOp D now ownerBech (lmCToken m) data (biClientID inp) ''lendora_build_borrow_tx''
         (''borrow '' @ biAmount inp @ '' '' @ lmSymbol m @ '' from Lendora'') sim)))))"

definition toolLendoraBuildBorrowTx :: "lendoraDeps \<Rightarrow> lendoraBorrowInput \<Rightarrow> 'lim rateLib \<Rightarrow> time \<Rightarrow> requestCtx
    \<Rightarrow> ('lim server, lendoraTxOutput) handler" where
  "toolLendoraBuildBorrowTx D inp R now ctx =
     hbind (authorize R now ctx ''lendora_build_borrow_tx'') (\<lambda>tp. hlift (lendoraBorrow D inp now (tpOwner tp)))"

section \<open>Repay\<close>

record lendoraRepayInput =
  riAsset :: string
  riAmount :: string
  riFull :: bool
  riClientID :: string

text \<open>The amount to encode, the amount that will be pulled, and the label: a full repayment encodes the largest number.\<close>

definition repayAmount :: "lendoraDeps \<Rightarrow> lendoraRepayInput \<Rightarrow> lendoraMarketRef \<Rightarrow> int \<Rightarrow> (int \<times> int \<times> string) res" where
  "repayAmount D inp m debt =
     rbind (if \<not> (riFull inp \<or> riAmount inp = [])
            then rbind (rwrap ''amount: %w'' [] (humanToBaseUnits (edDec (ldEvm D)) (riAmount inp) (lmUnderlyingDecimals m))) (\<lambda>amount.
                 Inr (if debt \<le> amount then None else Some amount))
            else Inr None) (\<lambda>partial.
     case partial of
       Some amount \<Rightarrow> Inr (amount, amount, riAmount inp)
     | None \<Rightarrow>
         if debt = 0 then Inl (Errorf ''you have no outstanding %s borrow to repay'' [AStr (lmSymbol m)])
         else Inr (maxUint256, debt, ''full''))"

definition lendoraRepay :: "lendoraDeps \<Rightarrow> lendoraRepayInput \<Rightarrow> time \<Rightarrow> string \<Rightarrow> lendoraTxOutput res" where
  "lendoraRepay D inp now ownerBech =
     rbind (opCommon D ''lendora_build_repay_tx'' (riAsset inp) ownerBech) (\<lambda>(owner, m, r).
     let debt = (case positionIn r (lmCToken m) of Some pos \<Rightarrow> mpBorrowedUnderlying pos | None \<Rightarrow> 0) in
     rbind (repayAmount D inp m debt) (\<lambda>(packAmount, pull, amountLabel).
     rbind (cTokenUnderlyingPriceNativeVia D (lmCToken m)) (\<lambda>price.
     let postBorrow = rkSumBorrowNat r - nativeValue price pull;
         postBorrow = (if postBorrow < 0 then 0 else postBorrow);
         sim = simulation (ldDec D) ''repay'' (lmSymbol m) amountLabel r (rkSumCollateralNat r) postBorrow in
     rbind (checkLendoraAllowance D (lmUnderlying m) owner (lmCToken m) pull amountLabel ''lendora_build_repay_tx'') (\<lambda>approval.
     case approval of
       Some a \<Rightarrow> Inr \<lparr>loSimulation = sim, loPayload = None, loApprovalRequired = Some a\<rparr>
     | None \<Rightarrow>
         rbind (PackRepayBorrow (edAbi (ldEvm D)) packAmount) (\<lambda>data.
         finishOp D now ownerBech (lmCToken m) data (riClientID inp) ''lendora_build_repay_tx''
           (''repay '' @ amountLabel @ '' '' @ lmSymbol m @ '' to Lendora'') sim)))))"

definition toolLendoraBuildRepayTx :: "lendoraDeps \<Rightarrow> lendoraRepayInput \<Rightarrow> 'lim rateLib \<Rightarrow> time \<Rightarrow> requestCtx
    \<Rightarrow> ('lim server, lendoraTxOutput) handler" where
  "toolLendoraBuildRepayTx D inp R now ctx =
     hbind (authorize R now ctx ''lendora_build_repay_tx'') (\<lambda>tp. hlift (lendoraRepay D inp now (tpOwner tp)))"

section \<open>Collateral\<close>

record lendoraCollateralInput =
  ciAsset :: string
  ciAction :: string
  ciClientID :: string

text \<open>The call, and the collateral after it.\<close>

definition collateralCall :: "lendoraDeps \<Rightarrow> string \<Rightarrow> lendoraMarketRef \<Rightarrow> riskResult \<Rightarrow> int \<Rightarrow> (bytes \<times> int) res" where
  "collateralCall D action m r contribution =
     (let A = edAbi (ldEvm D); pos = positionIn r (lmCToken m);
          alreadyEnabled = (case pos of Some p \<Rightarrow> mpCollateralEnabled p | None \<Rightarrow> False);
          borrowed = (case pos of Some p \<Rightarrow> 0 < mpBorrowedUnderlying p | None \<Rightarrow> False) in
      if action = ''enable''
      then rbind (PackEnterMarkets A [lmCToken m]) (\<lambda>data.
           Inr (data, if \<not> alreadyEnabled then rkSumCollateralNat r + contribution else rkSumCollateralNat r))
      else if action = ''disable''
      then (if borrowed
            then Inl (Errorf (''cannot disable %s as collateral while it has an outstanding borrow '' @ emDash @ '' repay it first'') [AStr (lmSymbol m)])
            else (let postCollateral = (if alreadyEnabled then rkSumCollateralNat r - contribution else rkSumCollateralNat r) in
              if alreadyEnabled \<and> rkHasDebt r \<and> postCollateral < rkSumBorrowNat r
              then Inl (Errorf (''disabling %s as collateral would make your position undercollateralized (health factor below 1.0) '' @ emDash @
                     '' repay debt or disable a different market'') [AStr (lmSymbol m)])
              else rbind (PackExitMarket A (lmCToken m)) (\<lambda>data. Inr (data, postCollateral))))
      else Inl (Errorf ''action must be \"enable\" or \"disable\", got %q'' [AStr action]))"

definition lendoraCollateral :: "lendoraDeps \<Rightarrow> lendoraCollateralInput \<Rightarrow> time \<Rightarrow> string \<Rightarrow> lendoraTxOutput res" where
  "lendoraCollateral D inp now ownerBech =
     rbind (opCommon D ''lendora_build_collateral_tx'' (ciAsset inp) ownerBech) (\<lambda>(owner, m, r).
     rbind (case positionIn r (lmCToken m) of
              Some pos \<Rightarrow> rbind (cTokenUnderlyingPriceNativeVia D (lmCToken m)) (\<lambda>price.
                Inr (weightedNative price (mpSuppliedUnderlying pos) (mpCollateralFactor pos)))
            | None \<Rightarrow> Inr 0) (\<lambda>contribution.
     rbind (collateralCall D (ciAction inp) m r contribution) (\<lambda>(data, postCollateral).
     let action = (if ciAction inp = ''disable'' then ''disable_collateral'' else ''enable_collateral'');
         sim = simulation (ldDec D) action (lmSymbol m) [] r postCollateral (rkSumBorrowNat r) in
     rbind (lendComptroller D) (\<lambda>comptroller.
     finishOp D now ownerBech comptroller data (ciClientID inp) ''lendora_build_collateral_tx''
       (ciAction inp @ '' '' @ lmSymbol m @ '' as Lendora collateral'') sim))))"

definition toolLendoraBuildCollateralTx :: "lendoraDeps \<Rightarrow> lendoraCollateralInput \<Rightarrow> 'lim rateLib \<Rightarrow> time \<Rightarrow> requestCtx
    \<Rightarrow> ('lim server, lendoraTxOutput) handler" where
  "toolLendoraBuildCollateralTx D inp R now ctx =
     hbind (authorize R now ctx ''lendora_build_collateral_tx'') (\<lambda>tp. hlift (lendoraCollateral D inp now (tpOwner tp)))"

section \<open>Every operation builds for the caller\<close>

lemma finishOp_Inr:
  "finishOp D now ownerBech to data clientID tool desc sim = Inr out \<longleftrightarrow>
     (\<exists>asm p. edAssembler (ldEvm D) = Some asm \<and> assembleERC (ldEvm D) now asm ownerBech to data clientID tool desc = Inr p \<and>
        out = \<lparr>loSimulation = sim, loPayload = Some p, loApprovalRequired = None\<rparr>)"
  by (auto simp: finishOp_def)

lemma finishOp_built:
  assumes "finishOp D now ownerBech to data clientID tool desc sim = Inr out" "loPayload out = Some p"
  shows "builtFor (ldEvm D) now tool clientID ownerBech p"
  using assms by (auto simp: finishOp_Inr intro: erc_built)

interpretation ls: evm_build_tool "ldEvm D" "toolLendoraBuildSupplyTx D inp" loPayload "''lendora_build_supply_tx''" "suClientID inp" for D inp
  by (rule evm_build_toolI, rule toolLendoraBuildSupplyTx_def)
    (auto simp: lendoraSupply_def Let_def split: option.splits if_splits prod.splits intro: finishOp_built)

interpretation lw: evm_build_tool "ldEvm D" "toolLendoraBuildWithdrawTx D inp" loPayload "''lendora_build_withdraw_tx''" "wiClientID inp" for D inp
  by (rule evm_build_toolI, rule toolLendoraBuildWithdrawTx_def)
    (auto simp: lendoraWithdraw_def split: if_splits prod.splits intro: finishOp_built)

interpretation lb: evm_build_tool "ldEvm D" "toolLendoraBuildBorrowTx D inp" loPayload "''lendora_build_borrow_tx''" "biClientID inp" for D inp
  by (rule evm_build_toolI, rule toolLendoraBuildBorrowTx_def)
    (auto simp: lendoraBorrow_def Let_def split: if_splits prod.splits intro: finishOp_built)

interpretation lr: evm_build_tool "ldEvm D" "toolLendoraBuildRepayTx D inp" loPayload "''lendora_build_repay_tx''" "riClientID inp" for D inp
  by (rule evm_build_toolI, rule toolLendoraBuildRepayTx_def)
    (auto simp: lendoraRepay_def Let_def split: option.splits prod.splits intro: finishOp_built)

interpretation lc: evm_build_tool "ldEvm D" "toolLendoraBuildCollateralTx D inp" loPayload "''lendora_build_collateral_tx''" "ciClientID inp" for D inp
  by (rule evm_build_toolI, rule toolLendoraBuildCollateralTx_def)
    (auto simp: lendoraCollateral_def Let_def split: prod.splits intro: finishOp_built)

section \<open>Lemmas\<close>

text \<open>A payload of the owner that calls one contract with the given data and no value.\<close>

definition callsFor :: "lendoraDeps \<Rightarrow> string \<Rightarrow> address \<Rightarrow> bytes \<Rightarrow> evmTxPayload \<Rightarrow> bool" where
  "callsFor D owner to data p \<longleftrightarrow>
     (\<exists>eth. ownerEthAddress (edSdk (ldEvm D)) (edEth (ldEvm D)) owner = Inr eth \<and> epSignerAddress p = AddressHex (edEth (ldEvm D)) eth) \<and>
     epTo p = AddressHex (edEth (ldEvm D)) to \<and> epData p = HexutilEncode (edEth (ldEvm D)) data \<and> epValue p = bigString 0"

lemma finishOp_calls:
  assumes "finishOp D now owner to data clientID tool desc sim = Inr out"
  obtains p where "loPayload out = Some p" "callsFor D owner to data p" "loSimulation out = sim" "loApprovalRequired out = None"
  using assms by (auto simp: finishOp_Inr assembleERC_def EVMAssemble_Inr callsFor_def intro!: that)

lemma projected_covered:
  assumes "postBorrow \<le> postCollateral"
  shows "lsProjectedRiskLevel (simulation Q action asset amount r postCollateral postBorrow) \<noteq> ''Critical''"
  using assms by (auto simp: simulation_def projectHF_def riskBand_def Let_def)

text \<open>An operation runs for the live tenant's own account.\<close>

lemma op_owner:
  assumes "hbind (authorize R now ctx tool) (\<lambda>tp. hlift (body (tpOwner tp))) s = (Inr out, s')"
  obtains owner where "callerOwns now ctx s owner" "body owner = Inr out"
  using assms by (auto simp: hbind_Inr_iff authorize_Inr callerOwns_def policyOf_def intro!: that)

text \<open>What a built borrow, withdrawal and change of collateral rest on.\<close>

definition borrowCovered :: "lendoraDeps \<Rightarrow> lendoraBorrowInput \<Rightarrow> string \<Rightarrow> lendoraTxOutput \<Rightarrow> bool" where
  "borrowCovered D inp owner out \<longleftrightarrow>
     (\<exists>eth m r amount liq short data p. opCommon D ''lendora_build_borrow_tx'' (biAsset inp) owner = Inr (eth, m, r) \<and>
        humanToBaseUnits (edDec (ldEvm D)) (biAmount inp) (lmUnderlyingDecimals m) = Inr amount \<and>
        hypotheticalLiquidity D eth (lmCToken m) 0 amount = Inr (liq, short) \<and> short \<le> 0 \<and> PackBorrow (edAbi (ldEvm D)) amount = Inr data \<and>
        loPayload out = Some p \<and> callsFor D owner (lmCToken m) data p \<and>
        (0 \<le> liq \<longrightarrow> lsProjectedRiskLevel (loSimulation out) \<noteq> ''Critical''))"

definition withdrawCovered :: "lendoraDeps \<Rightarrow> lendoraWithdrawInput \<Rightarrow> string \<Rightarrow> lendoraTxOutput \<Rightarrow> bool" where
  "withdrawCovered D inp owner out \<longleftrightarrow>
     (\<exists>eth m r data tokens label liq short p. opCommon D ''lendora_build_withdraw_tx'' (wiAsset inp) owner = Inr (eth, m, r) \<and>
        withdrawCall D inp eth m = Inr (data, tokens, label) \<and> hypotheticalLiquidity D eth (lmCToken m) tokens 0 = Inr (liq, short) \<and>
        short \<le> 0 \<and> loPayload out = Some p \<and> callsFor D owner (lmCToken m) data p \<and>
        (0 \<le> liq \<longrightarrow> lsProjectedRiskLevel (loSimulation out) \<noteq> ''Critical''))"

definition disableCovered :: "lendoraDeps \<Rightarrow> lendoraCollateralInput \<Rightarrow> string \<Rightarrow> lendoraTxOutput \<Rightarrow> bool" where
  "disableCovered D inp owner out \<longleftrightarrow>
     (\<exists>eth m r comptroller data p. opCommon D ''lendora_build_collateral_tx'' (ciAsset inp) owner = Inr (eth, m, r) \<and>
        edLendora (ldEvm D) = Some comptroller \<and> PackExitMarket (edAbi (ldEvm D)) (lmCToken m) = Inr data \<and>
        loPayload out = Some p \<and> callsFor D owner comptroller data p \<and>
        (case positionIn r (lmCToken m) of
           None \<Rightarrow> True
         | Some pos \<Rightarrow> mpBorrowedUnderlying pos \<le> 0 \<and>
             (mpCollateralEnabled pos \<longrightarrow> lsProjectedRiskLevel (loSimulation out) \<noteq> ''Critical'' \<and>
               (\<exists>price. cTokenUnderlyingPriceNativeVia D (lmCToken m) = Inr price \<and>
                  (rkHasDebt r \<longrightarrow> rkSumBorrowNat r \<le> rkSumCollateralNat r - weightedNative price (mpSuppliedUnderlying pos) (mpCollateralFactor pos))))))"

lemma lendoraBorrow_covered:
  assumes "lendoraBorrow D inp now owner = Inr out"
  shows "borrowCovered D inp owner out"
proof -
  obtain eth m r amount liq short price data desc where b: "opCommon D ''lendora_build_borrow_tx'' (biAsset inp) owner = Inr (eth, m, r)"
      "humanToBaseUnits (edDec (ldEvm D)) (biAmount inp) (lmUnderlyingDecimals m) = Inr amount"
      "hypotheticalLiquidity D eth (lmCToken m) 0 amount = Inr (liq, short)" "\<not> 0 < short" "PackBorrow (edAbi (ldEvm D)) amount = Inr data"
    and f: "finishOp D now owner (lmCToken m) data (biClientID inp) ''lendora_build_borrow_tx'' desc
        (simulation (ldDec D) ''borrow'' (lmSymbol m) (biAmount inp) r (liq - short + (rkSumBorrowNat r + nativeValue price amount))
          (rkSumBorrowNat r + nativeValue price amount)) = Inr out"
    using assms by (auto simp: lendoraBorrow_def Let_def split: if_splits)
  obtain p where p: "loPayload out = Some p" "callsFor D owner (lmCToken m) data p"
      "loSimulation out = simulation (ldDec D) ''borrow'' (lmSymbol m) (biAmount inp) r
        (liq - short + (rkSumBorrowNat r + nativeValue price amount)) (rkSumBorrowNat r + nativeValue price amount)"
    using f by (rule finishOp_calls)
  have "lsProjectedRiskLevel (loSimulation out) \<noteq> ''Critical''" if "0 \<le> liq"
    unfolding p(3) using b(4) that by (intro projected_covered) linarith
  moreover have "short \<le> 0" using b(4) by simp
  ultimately show ?thesis unfolding borrowCovered_def using b(1-3,5) p(1,2) by blast
qed

lemma lendoraWithdraw_covered:
  assumes "lendoraWithdraw D inp now owner = Inr out"
  shows "withdrawCovered D inp owner out"
proof -
  obtain eth m r data tokens label liq short desc where b: "opCommon D ''lendora_build_withdraw_tx'' (wiAsset inp) owner = Inr (eth, m, r)"
      "withdrawCall D inp eth m = Inr (data, tokens, label)" "hypotheticalLiquidity D eth (lmCToken m) tokens 0 = Inr (liq, short)" "\<not> 0 < short"
    and f: "finishOp D now owner (lmCToken m) data (wiClientID inp) ''lendora_build_withdraw_tx'' desc
        (simulation (ldDec D) ''withdraw'' (lmSymbol m) label r (liq - short + rkSumBorrowNat r) (rkSumBorrowNat r)) = Inr out"
    using assms by (auto simp: lendoraWithdraw_def split: if_splits)
  obtain p where p: "loPayload out = Some p" "callsFor D owner (lmCToken m) data p"
      "loSimulation out = simulation (ldDec D) ''withdraw'' (lmSymbol m) label r (liq - short + rkSumBorrowNat r) (rkSumBorrowNat r)"
    using f by (rule finishOp_calls)
  have "lsProjectedRiskLevel (loSimulation out) \<noteq> ''Critical''" if "0 \<le> liq"
    unfolding p(3) using b(4) that by (intro projected_covered) linarith
  moreover have "short \<le> 0" using b(4) by simp
  ultimately show ?thesis unfolding withdrawCovered_def using b(1-3) p(1,2) by blast
qed

text \<open>The result of the risk engine has debt exactly when it sums any, so that no projection without debt is critical.\<close>

lemma computeRisk_hasDebt: "computeRisk D eth = Inr r \<Longrightarrow> rkHasDebt r = (0 < rkSumBorrowNat r)"
proof (erule computeRisk_Inr)
  fix r0 assume r: "r = (riskRatio (ldDec D) r0)\<lparr>rkMaxBorrowableUSD := rkMaxBorrowableUSD r, rkMaxBorrowableOK := rkMaxBorrowableOK r\<rparr>"
  show "rkHasDebt r = (0 < rkSumBorrowNat r)" by (subst (1 2) r) (simp add: riskRatio_simps)
qed

lemma opCommon_risk: "opCommon D tool asset owner = Inr (eth, m, r) \<Longrightarrow> computeRisk D eth = Inr r"
  unfolding opCommon_def rbind_Inr_iff by auto

lemma projected_no_debt:
  "postBorrow \<le> 0 \<Longrightarrow> lsProjectedRiskLevel (simulation Q action asset amount r postCollateral postBorrow) \<noteq> ''Critical''"
  by (simp add: simulation_def projectHF_def)

lemma lendoraDisable_covered:
  assumes "lendoraCollateral D inp now owner = Inr out" "ciAction inp = ''disable''"
  shows "disableCovered D inp owner out"
proof -
  obtain eth m r contribution data post comptroller desc where
      b: "opCommon D ''lendora_build_collateral_tx'' (ciAsset inp) owner = Inr (eth, m, r)"
      "(case positionIn r (lmCToken m) of Some pos \<Rightarrow> rbind (cTokenUnderlyingPriceNativeVia D (lmCToken m)) (\<lambda>price.
          Inr (weightedNative price (mpSuppliedUnderlying pos) (mpCollateralFactor pos))) | None \<Rightarrow> Inr 0) = Inr contribution"
      "collateralCall D ''disable'' m r contribution = Inr (data, post)" "lendComptroller D = Inr comptroller"
    and f: "finishOp D now owner comptroller data (ciClientID inp) ''lendora_build_collateral_tx'' desc
        (simulation (ldDec D) ''disable_collateral'' (lmSymbol m) [] r post (rkSumBorrowNat r)) = Inr out"
    using assms by (auto simp: lendoraCollateral_def Let_def)
  obtain p where p: "loPayload out = Some p" "callsFor D owner comptroller data p"
      "loSimulation out = simulation (ldDec D) ''disable_collateral'' (lmSymbol m) [] r post (rkSumBorrowNat r)"
    using f by (rule finishOp_calls)
  have debt: "rkHasDebt r = (0 < rkSumBorrowNat r)" using opCommon_risk [OF b(1)] by (rule computeRisk_hasDebt)
  have "edLendora (ldEvm D) = Some comptroller" "PackExitMarket (edAbi (ldEvm D)) (lmCToken m) = Inr data"
    using b(3,4) by (auto simp: lendComptroller_def collateralCall_def Let_def split: if_splits option.splits)
  moreover have "case positionIn r (lmCToken m) of None \<Rightarrow> True
         | Some pos \<Rightarrow> mpBorrowedUnderlying pos \<le> 0 \<and>
             (mpCollateralEnabled pos \<longrightarrow> lsProjectedRiskLevel (loSimulation out) \<noteq> ''Critical'' \<and>
               (\<exists>price. cTokenUnderlyingPriceNativeVia D (lmCToken m) = Inr price \<and>
                  (rkHasDebt r \<longrightarrow> rkSumBorrowNat r \<le> rkSumCollateralNat r - weightedNative price (mpSuppliedUnderlying pos) (mpCollateralFactor pos))))"
  proof (cases "positionIn r (lmCToken m)")
    case (Some pos)
    then obtain price where price: "cTokenUnderlyingPriceNativeVia D (lmCToken m) = Inr price"
        "contribution = weightedNative price (mpSuppliedUnderlying pos) (mpCollateralFactor pos)"
      using b(2) by auto
    have c: "mpBorrowedUnderlying pos \<le> 0" "mpCollateralEnabled pos \<Longrightarrow> post = rkSumCollateralNat r - contribution"
        "mpCollateralEnabled pos \<Longrightarrow> rkHasDebt r \<Longrightarrow> rkSumBorrowNat r \<le> post"
      using b(3) Some by (auto simp: collateralCall_def Let_def split: if_splits)
    have "lsProjectedRiskLevel (loSimulation out) \<noteq> ''Critical''" if "mpCollateralEnabled pos"
      unfolding p(3) using c(3) [OF that] debt projected_covered projected_no_debt by (cases "rkHasDebt r") auto
    then show ?thesis using Some price c by auto
  qed simp
  ultimately show ?thesis unfolding disableCovered_def using b(1) p(1,2) by blast
qed

text \<open>The allowance the market has on the caller's tokens, and what a built supply or repayment rests on.\<close>

definition lendoraAllowance :: "lendoraDeps \<Rightarrow> address \<Rightarrow> address \<Rightarrow> address \<Rightarrow> int res" where
  "lendoraAllowance D underlying owner cToken =
     rbind (PackERC20Allowance (edAbi (ldEvm D)) owner cToken) (\<lambda>data.
     rbind (rwrap ''read allowance for %s: %w'' [AStr (AddressHex (edEth (ldEvm D)) underlying)] (evmCall (ldEvm D) underlying data)) (\<lambda>out.
     UnpackERC20Allowance (edAbi (ldEvm D)) out))"

lemma checkLendoraAllowance_Inr:
  "checkLendoraAllowance D underlying owner cToken amount human tool = Inr ap \<Longrightarrow>
     \<exists>allowance. lendoraAllowance D underlying owner cToken = Inr allowance \<and> (ap \<noteq> None \<longleftrightarrow> allowance < amount) \<and>
       (\<forall>a. ap = Some a \<longrightarrow> laToken a = AddressHex (edEth (ldEvm D)) underlying \<and> laSpender a = AddressHex (edEth (ldEvm D)) cToken)"
  by (auto simp: checkLendoraAllowance_def lendoraAllowance_def Let_def split: if_splits)

definition pullApproved :: "lendoraDeps \<Rightarrow> string \<Rightarrow> address \<Rightarrow> lendoraMarketRef \<Rightarrow> int \<Rightarrow> bytes res \<Rightarrow> lendoraTxOutput \<Rightarrow> bool" where
  "pullApproved D owner eth m pull packed out \<longleftrightarrow>
     (\<exists>allowance. lendoraAllowance D (lmUnderlying m) eth (lmCToken m) = Inr allowance \<and>
        (if pull \<le> allowance
         then \<exists>p data. packed = Inr data \<and> loPayload out = Some p \<and> loApprovalRequired out = None \<and> callsFor D owner (lmCToken m) data p
         else \<exists>a. loPayload out = None \<and> loApprovalRequired out = Some a \<and> laToken a = AddressHex (edEth (ldEvm D)) (lmUnderlying m) \<and>
           laSpender a = AddressHex (edEth (ldEvm D)) (lmCToken m)))"

text \<open>The end of both tools: the check of the allowance, then the call.\<close>

lemma pull_tail:
  assumes "checkLendoraAllowance D (lmUnderlying m) eth (lmCToken m) pull human tool = Inr ap"
    and "(case ap of Some a \<Rightarrow> Inr \<lparr>loSimulation = sim, loPayload = None, loApprovalRequired = Some a\<rparr>
       | None \<Rightarrow> rbind packed (\<lambda>data. finishOp D now owner (lmCToken m) data clientID tool desc sim)) = Inr out"
  shows "pullApproved D owner eth m pull packed out"
proof -
  obtain allowance where al: "lendoraAllowance D (lmUnderlying m) eth (lmCToken m) = Inr allowance" "ap \<noteq> None \<longleftrightarrow> allowance < pull"
      "\<forall>a. ap = Some a \<longrightarrow> laToken a = AddressHex (edEth (ldEvm D)) (lmUnderlying m) \<and> laSpender a = AddressHex (edEth (ldEvm D)) (lmCToken m)"
    using checkLendoraAllowance_Inr [OF assms(1)] by blast
  show ?thesis
  proof (cases ap)
    case None
    then obtain p data where "packed = Inr data" "loPayload out = Some p" "callsFor D owner (lmCToken m) data p" "loApprovalRequired out = None"
      using assms(2) by (auto elim!: finishOp_calls)
    then show ?thesis using al(1,2) None unfolding pullApproved_def by auto
  next
    case (Some a)
    then show ?thesis using al assms(2) unfolding pullApproved_def by auto
  qed
qed

lemma repayAmount_Inr:
  assumes "repayAmount D inp m debt = Inr (pack, pull, label)" "decLib_ok (edDec (ldEvm D))" "0 \<le> debt"
  shows "0 < pull \<and> pull \<le> debt \<and> pack = (if pull = debt then maxUint256 else pull) \<and>
    (pull = debt \<or> humanToBaseUnits (edDec (ldEvm D)) (riAmount inp) (lmUnderlyingDecimals m) = Inr pull)"
  using assms(1,3) by (auto simp: repayAmount_def split: if_splits option.splits dest: humanToBaseUnits_pos [OF assms(2)])

lemma lendoraSupply_Inr:
  assumes "lendoraSupply D inp now owner = Inr out"
  obtains eth m r amount where "opCommon D ''lendora_build_supply_tx'' (suAsset inp) owner = Inr (eth, m, r)"
    "humanToBaseUnits (edDec (ldEvm D)) (suAmount inp) (lmUnderlyingDecimals m) = Inr amount"
    "pullApproved D owner eth m amount (PackMint (edAbi (ldEvm D)) amount) out"
proof -
  obtain eth m r amount sim ap where *: "opCommon D ''lendora_build_supply_tx'' (suAsset inp) owner = Inr (eth, m, r)"
      "humanToBaseUnits (edDec (ldEvm D)) (suAmount inp) (lmUnderlyingDecimals m) = Inr amount"
      "checkLendoraAllowance D (lmUnderlying m) eth (lmCToken m) amount (suAmount inp) ''lendora_build_supply_tx'' = Inr ap"
      "(case ap of Some a \<Rightarrow> Inr \<lparr>loSimulation = sim, loPayload = None, loApprovalRequired = Some a\<rparr>
       | None \<Rightarrow> rbind (PackMint (edAbi (ldEvm D)) amount) (\<lambda>data. finishOp D now owner (lmCToken m) data (suClientID inp) ''lendora_build_supply_tx''
           (''supply '' @ suAmount inp @ '' '' @ lmSymbol m @ '' to Lendora'') sim)) = Inr out"
    using assms unfolding lendoraSupply_def Let_def by (auto simp del: append.simps)
  then show ?thesis using pull_tail [OF *(3,4)] that by simp
qed

text \<open>What the caller owes the market, as the risk engine reads it.\<close>

definition debtIn :: "riskResult \<Rightarrow> address \<Rightarrow> int" where
  "debtIn r cToken = (case positionIn r cToken of Some pos \<Rightarrow> mpBorrowedUnderlying pos | None \<Rightarrow> 0)"

lemma lendoraRepay_Inr:
  assumes "lendoraRepay D inp now owner = Inr out"
  obtains eth m r pack pull label where "opCommon D ''lendora_build_repay_tx'' (riAsset inp) owner = Inr (eth, m, r)"
    "repayAmount D inp m (debtIn r (lmCToken m)) = Inr (pack, pull, label)"
    "pullApproved D owner eth m pull (PackRepayBorrow (edAbi (ldEvm D)) pack) out"
proof -
  obtain eth m r pack pull label sim ap where *: "opCommon D ''lendora_build_repay_tx'' (riAsset inp) owner = Inr (eth, m, r)"
      "repayAmount D inp m (debtIn r (lmCToken m)) = Inr (pack, pull, label)"
      "checkLendoraAllowance D (lmUnderlying m) eth (lmCToken m) pull label ''lendora_build_repay_tx'' = Inr ap"
      "(case ap of Some a \<Rightarrow> Inr \<lparr>loSimulation = sim, loPayload = None, loApprovalRequired = Some a\<rparr>
       | None \<Rightarrow> rbind (PackRepayBorrow (edAbi (ldEvm D)) pack) (\<lambda>data. finishOp D now owner (lmCToken m) data (riClientID inp) ''lendora_build_repay_tx''
           (''repay '' @ label @ '' '' @ lmSymbol m @ '' to Lendora'') sim)) = Inr out"
    using assms unfolding lendoraRepay_def Let_def debtIn_def by (auto simp del: append.simps)
  then show ?thesis using pull_tail [OF *(3,4)] that by simp
qed

section \<open>Properties\<close>



section \<open>The properties on concrete inputs\<close>

lemma resolveAsset_usdc: "resolveAsset exLendDeps ''USDC'' = Inr exMarket"
  by (simp add: resolveAsset_def lendMarkets_def lendEnvOf_def exLendCache_usdc Let_def)

lemma exLendDeps_op: "\<exists>eth r. opCommon exLendDeps tool ''USDC'' ''svp1abc'' = Inr (eth, \<lparr>lmCToken = exCUsdc, lmUnderlying = exUsdc, lmSymbol = ''USDC'',
    lmUnderlyingDecimals = 6, lmIsCEther = False\<rparr>, r)"
proof -
  obtain eth where "ownerEthAddress docSDK docEth ''svp1abc'' = Inr eth" using exOwner_address by blast
  moreover obtain r where "computeRisk exLendDeps eth = Inr r" using exLendDeps_risk by blast
  ultimately show ?thesis by (simp add: opCommon_def resolveAsset_usdc requireLendora_def requireEVM_def)
qed

lemma exLendClient_finishes: "\<exists>p. finishOp exLendDeps now ''svp1abc'' to data cid tool desc sim = Inr \<lparr>loSimulation = sim, loPayload = Some p, loApprovalRequired = None\<rparr>"
proof -
  obtain eth where "ownerEthAddress docSDK docEth ''svp1abc'' = Inr eth" using exOwner_address by blast
  then show ?thesis by (simp add: finishOp_def assembleERC_def EVMAssemble_def exLendClient_def docClient_def Let_def)
qed

lemma exLend_one: "humanToBaseUnits docDec ''1'' 6 = Inr 1000000"
proof -
  have v: "digits_val ''1'' = 1" "all_digits ''1''" by code_simp+
  show ?thesis using humanToBaseUnits_whole [OF docDec_ok v(2), of 6] v(1) by simp
qed



end
