(* ===== verification/Spec2Isabelle.thy ===== *)
theory Spec2Isabelle
  imports Prelude Go_Text Go_Rat Go_Time Go_Encoding Markets Units Withdraw_Limits TransferOut Policy Auth_Stores Tx_Builder Orders
    Funds_Builder Evm_Tx Signer Server_Core Auth_Tools Trade_Tools Assets Funds_Tools Broadcast
    Evm_Broadcast Server_Run Evm_Abi Bridge_Registry Evm_Deps Erc_Tools Swap_Tools Bridge_Tools Config
    Lendora_Abi Lendora_Cache Lendora_Risk Lendora_Read Lendora_Ops
begin

text \<open>
  A verification development for the svpchain MCP server.
\<close>

end
